(* ===== verification/Prelude.thy ===== *)
theory Prelude
  imports Main "HOL-Library.Word" "HOL-Library.State_Monad" "HOL-Library.Sublist"
begin

text \<open>
  Shared vocabulary of the development.

  \<^item> C strings: a \<open>char *\<close> is a \<open>string\<close> holding the bytes before the terminating NUL;
    the functions of \<open>string.h\<close> the program calls are written out over it.
  \<^item> Stateful code: a computation over a state record is a value of the library's state monad
    (\<open>('s, 'a) state\<close>), written with \<open>do\<close>; \<open>gets\<close>, \<open>modify\<close> and \<open>ret\<close> are its actions.
  \<^item> \<open>valid P m Q\<close> is the Hoare triple of such a computation, with one rule per construct in
    the collection \<open>wp\<close>; a property of a handler is proved by applying the rules of the calls
    it makes.
\<close>

named_theorems wp \<open>Hoare rules of the state monad and of the modelled operations\<close>
named_theorems enum_simps \<open>equations of the enum-to-string conversions\<close>

section \<open>Exit codes\<close>

text \<open>The exit codes of \<open>errcode.h\<close> the modelled functions use.\<close>

abbreviation (input) ERR_BAD_CONFIG :: int where "ERR_BAD_CONFIG \<equiv> 1"
abbreviation (input) ERR_DB_CONN :: int where "ERR_DB_CONN \<equiv> 6"
abbreviation (input) ERR_MONITORING_TIMEOUT :: int where "ERR_MONITORING_TIMEOUT \<equiv> 9"
abbreviation (input) ERR_STR_OVERFLOW :: int where "ERR_STR_OVERFLOW \<equiv> 10"
abbreviation (input) ERR_BRAIN_SPLIT :: int where "ERR_BRAIN_SPLIT \<equiv> 28"

section \<open>Buffer sizes and C strings\<close>

text \<open>\<open>MAXLEN\<close> (strutil.h), \<open>MAXPGPATH\<close> and \<open>NAMEDATALEN\<close> (PostgreSQL).\<close>

abbreviation (input) MAXLEN :: nat where "MAXLEN \<equiv> 1024"
abbreviation (input) MAXPGPATH :: nat where "MAXPGPATH \<equiv> 1024"

text \<open>\<open>strncmp(a, b, n) == 0\<close>: equal up to \<open>n\<close> bytes or the end of both.\<close>

definition strncmp_eq :: "nat \<Rightarrow> string \<Rightarrow> string \<Rightarrow> bool" where
  "strncmp_eq n a b \<longleftrightarrow> take n a = take n b"

lemma strncmp_eq_refl [simp]: "strncmp_eq n a a"
  by (simp add: strncmp_eq_def)

lemma strncmp_eq_sym: "strncmp_eq n a b = strncmp_eq n b a"
  by (auto simp: strncmp_eq_def)

lemma strncmp_eq_short: "length a \<le> n \<Longrightarrow> length b \<le> n \<Longrightarrow> strncmp_eq n a b \<longleftrightarrow> a = b"
  by (simp add: strncmp_eq_def)

text \<open>\<open>isspace\<close> in the C locale.\<close>

definition isspace :: "char \<Rightarrow> bool" where
  "isspace c \<longleftrightarrow> c \<in> {CHR '' '', CHR 0x09, CHR 0x0A, CHR 0x0B, CHR 0x0C, CHR 0x0D}"

text \<open>\<open>tolower\<close> in the C locale, and \<open>strcasecmp(a, b) == 0\<close>.\<close>

definition tolower :: "char \<Rightarrow> char" where
  "tolower c = (let n = (of_char c :: nat) in if 65 \<le> n \<and> n \<le> 90 then char_of (n + 32) else c)"

definition strcaseeq :: "string \<Rightarrow> string \<Rightarrow> bool" where
  "strcaseeq a b \<longleftrightarrow> map tolower a = map tolower b"

text \<open>Decimal digits, and \<open>printf("%i")\<close> of an integer.\<close>

definition digit_char :: "nat \<Rightarrow> char" where
  "digit_char d = char_of (48 + d)"

fun nat_digits :: "nat \<Rightarrow> string" where
  "nat_digits n = (if n < 10 then [digit_char n] else nat_digits (n div 10) @ [digit_char (n mod 10)])"

declare nat_digits.simps [simp del]

definition int_string :: "int \<Rightarrow> string" where
  "int_string i = (if i < 0 then CHR ''-'' # nat_digits (nat (- i)) else nat_digits (nat i))"

lemma nat_digits_nonempty [simp]: "nat_digits n \<noteq> []"
  by (subst nat_digits.simps) simp

lemma int_string_nonempty [simp]: "int_string i \<noteq> []"
  by (simp add: int_string_def)

lemma digit_char_code [simp]: "d < 10 \<Longrightarrow> of_char (digit_char d) = 48 + d"
  by (simp add: digit_char_def)

lemma digit_char_code_int [simp]: "d < 10 \<Longrightarrow> (of_char (digit_char d) :: int) = 48 + int d"
proof -
  assume "d < 10"
  then have "int (of_char (digit_char d)) = 48 + int d" by (subst digit_char_code) auto
  then show ?thesis by (simp only: of_nat_of_char)
qed

lemma nat_digits_chars: "c \<in> set (nat_digits n) \<Longrightarrow> 48 \<le> (of_char c :: nat) \<and> (of_char c :: nat) < 58"
proof (induction n rule: nat_digits.induct)
  case (1 n)
  show ?case
  proof (cases "n < 10")
    case True
    with "1.prems" show ?thesis by (subst (asm) nat_digits.simps) simp
  next
    case False
    with "1.prems" have "c \<in> set (nat_digits (n div 10)) \<or> c = digit_char (n mod 10)"
      by (subst (asm) nat_digits.simps) auto
    with "1.IH" False show ?thesis by auto
  qed
qed

definition is_digit :: "char \<Rightarrow> bool" where
  "is_digit c \<longleftrightarrow> 48 \<le> (of_char c :: nat) \<and> (of_char c :: nat) \<le> 57"

lemma is_digit_digit_char: "d < 10 \<Longrightarrow> is_digit (digit_char d)"
  by (simp add: is_digit_def)

lemma nat_digits_is_digit: "list_all is_digit (nat_digits n)"
  using nat_digits_chars by (auto simp: list_all_iff is_digit_def less_Suc_eq_le) fastforce

lemma isspace_not_digit: "isspace c \<Longrightarrow> \<not> is_digit c"
  by (auto simp: isspace_def is_digit_def)

text \<open>
  Digits of any base up to 16, as \<open>sscanf\<close> reads them: the number and the rest of the text, or
  nothing when there is no digit.
\<close>

definition digit_value :: "char \<Rightarrow> int" where
  "digit_value c =
     (let n = (of_char c :: int) in
        if 48 \<le> n \<and> n \<le> 57 then n - 48
        else if 97 \<le> n \<and> n \<le> 102 then n - 87
        else if 65 \<le> n \<and> n \<le> 70 then n - 55
        else 99)"

definition scan_digits :: "int \<Rightarrow> string \<Rightarrow> (int \<times> string) option" where
  "scan_digits base s =
     (let ds = takeWhile (\<lambda>c. digit_value c < base) s in
      if ds = [] then None
      else Some (foldl (\<lambda>a c. base * a + digit_value c) 0 ds, dropWhile (\<lambda>c. digit_value c < base) s))"

text \<open>The cast of a \<open>long\<close> to \<open>int32\<close> keeps the low 32 bits.\<close>

definition to_int32 :: "int \<Rightarrow> int" where
  "to_int32 v = signed_take_bit 31 v"

lemma to_int32_id: "- (2 ^ 31) \<le> v \<Longrightarrow> v < 2 ^ 31 \<Longrightarrow> to_int32 v = v"
  by (simp add: to_int32_def signed_take_bit_int_eq_self)

lemma to_int32_range: "- (2 ^ 31) \<le> to_int32 v" "to_int32 v < 2 ^ 31"
  using signed_take_bit_int_greater_eq_minus_exp [of 31 v] signed_take_bit_int_less_exp [of 31 v]
  by (auto simp: to_int32_def)

section \<open>The state monad\<close>

abbreviation ret :: "'a \<Rightarrow> ('s, 'a) state" where
  "ret \<equiv> State_Monad.return"

definition gets :: "('s \<Rightarrow> 'a) \<Rightarrow> ('s, 'a) state" where
  "gets f = State (\<lambda>s. (f s, s))"

definition modify :: "('s \<Rightarrow> 's) \<Rightarrow> ('s, unit) state" where
  "modify f = State (\<lambda>s. ((), f s))"

lemma run_gets [simp]: "run_state (gets f) s = (f s, s)"
  by (simp add: gets_def)

lemma run_modify [simp]: "run_state (modify f) s = ((), f s)"
  by (simp add: modify_def)

text \<open>Result and final state of a computation.\<close>

abbreviation result :: "('s, 'a) state \<Rightarrow> 's \<Rightarrow> 'a" where
  "result m s \<equiv> fst (run_state m s)"

abbreviation final :: "('s, 'a) state \<Rightarrow> 's \<Rightarrow> 's" where
  "final m s \<equiv> snd (run_state m s)"

definition valid :: "('s \<Rightarrow> bool) \<Rightarrow> ('s, 'a) state \<Rightarrow> ('a \<Rightarrow> 's \<Rightarrow> bool) \<Rightarrow> bool" where
  "valid P m Q \<longleftrightarrow> (\<forall>s. P s \<longrightarrow> Q (result m s) (final m s))"

lemma validI: "(\<And>s. P s \<Longrightarrow> Q (result m s) (final m s)) \<Longrightarrow> valid P m Q"
  by (simp add: valid_def)

lemma validD: "valid P m Q \<Longrightarrow> P s \<Longrightarrow> Q (result m s) (final m s)"
  by (simp add: valid_def)

lemma valid_run: "valid P m Q \<Longrightarrow> P s \<Longrightarrow> run_state m s = (r, t) \<Longrightarrow> Q r t"
  by (force simp: valid_def)

lemma valid_weaken: "valid P' m Q \<Longrightarrow> (\<And>s. P s \<Longrightarrow> P' s) \<Longrightarrow> valid P m Q"
  by (simp add: valid_def)

lemma valid_conseq:
  "valid P' m Q' \<Longrightarrow> (\<And>s. P s \<Longrightarrow> P' s) \<Longrightarrow> (\<And>r s. Q' r s \<Longrightarrow> Q r s) \<Longrightarrow> valid P m Q"
  by (simp add: valid_def)

lemma valid_return [wp]: "valid (Q x) (ret x) Q"
  by (simp add: valid_def)

lemma valid_gets [wp]: "valid (\<lambda>s. Q (f s) s) (gets f) Q"
  by (simp add: valid_def)

lemma valid_modify [wp]: "valid (\<lambda>s. Q () (f s)) (modify f) Q"
  by (simp add: valid_def)

lemma valid_bind:
  "(\<And>x. valid (R x) (f x) Q) \<Longrightarrow> valid P m R \<Longrightarrow> valid P (State_Monad.bind m f) Q"
  by (auto simp: valid_def split: prod.splits)

lemma valid_bind_inv:
  "valid P m (\<lambda>_. P) \<Longrightarrow> (\<And>x. valid P (f x) Q) \<Longrightarrow> valid P (State_Monad.bind m f) Q"
  by (rule valid_bind)

lemma valid_if [wp]:
  "valid P1 m1 Q \<Longrightarrow> valid P2 m2 Q \<Longrightarrow>
   valid (\<lambda>s. (b \<longrightarrow> P1 s) \<and> (\<not> b \<longrightarrow> P2 s)) (if b then m1 else m2) Q"
  by (simp add: valid_def)

lemma valid_if_inv:
  "(b \<Longrightarrow> valid P m1 Q) \<Longrightarrow> (\<not> b \<Longrightarrow> valid P m2 Q) \<Longrightarrow> valid P (if b then m1 else m2) Q"
  by simp

lemma valid_case_option_inv:
  "(x = None \<Longrightarrow> valid P m Q) \<Longrightarrow> (\<And>y. x = Some y \<Longrightarrow> valid P (f y) Q) \<Longrightarrow>
   valid P (case x of None \<Rightarrow> m | Some y \<Rightarrow> f y) Q"
  by (cases x) auto

lemma valid_case_sum_inv:
  "(\<And>y. x = Inl y \<Longrightarrow> valid P (f y) Q) \<Longrightarrow> (\<And>y. x = Inr y \<Longrightarrow> valid P (g y) Q) \<Longrightarrow>
   valid P (case x of Inl y \<Rightarrow> f y | Inr y \<Rightarrow> g y) Q"
  by (cases x) auto

lemma valid_case_prod_inv:
  "(\<And>y z. x = (y, z) \<Longrightarrow> valid P (f y z) Q) \<Longrightarrow> valid P (case x of (y, z) \<Rightarrow> f y z) Q"
  by (cases x) auto

text \<open>
  \<open>wp_inv\<close> walks through a computation whose every call keeps one assertion.
\<close>

lemmas wp_inv = valid_bind_inv valid_if_inv valid_case_option_inv valid_case_sum_inv
  valid_case_prod_inv

lemma valid_return_inv: "(\<And>s. P s \<Longrightarrow> Q x s) \<Longrightarrow> valid P (ret x) Q"
  by (simp add: valid_def)

lemma valid_gets_inv: "(\<And>s. P s \<Longrightarrow> Q (f s) s) \<Longrightarrow> valid P (gets f) Q"
  by (simp add: valid_def)

lemma valid_modify_inv: "(\<And>s. P s \<Longrightarrow> Q () (f s)) \<Longrightarrow> valid P (modify f) Q"
  by (simp add: valid_def)

section \<open>What a computation can answer\<close>

text \<open>\<open>returns m Q\<close>: every answer of \<open>m\<close> satisfies \<open>Q\<close>; \<open>rets\<close> walks to the answers.\<close>

named_theorems rets \<open>rules for the answers of a computation\<close>

definition returns :: "('s, 'a) state \<Rightarrow> ('a \<Rightarrow> bool) \<Rightarrow> bool" where
  "returns m Q \<longleftrightarrow> (\<forall>s. Q (result m s))"

lemma returnsD: "returns m Q \<Longrightarrow> Q (result m s)"
  by (simp add: returns_def)

lemma returns_ret [rets]: "Q x \<Longrightarrow> returns (ret x) Q"
  by (simp add: returns_def)

lemma returns_bind: "returns m R \<Longrightarrow> (\<And>x. R x \<Longrightarrow> returns (f x) Q) \<Longrightarrow> returns (State_Monad.bind m f) Q"
  by (simp add: returns_def case_prod_unfold)

lemma returns_bind_any [rets]: "(\<And>x. returns (f x) Q) \<Longrightarrow> returns (State_Monad.bind m f) Q"
  by (simp add: returns_def case_prod_unfold)

lemma returns_if [rets]:
  "(b \<Longrightarrow> returns m Q) \<Longrightarrow> (\<not> b \<Longrightarrow> returns n Q) \<Longrightarrow> returns (if b then m else n) Q"
  by simp

lemma returns_option [rets]:
  "(x = None \<Longrightarrow> returns m Q) \<Longrightarrow> (\<And>y. x = Some y \<Longrightarrow> returns (f y) Q) \<Longrightarrow>
   returns (case x of None \<Rightarrow> m | Some y \<Rightarrow> f y) Q"
  by (cases x) auto

lemma returns_prod [rets]:
  "(\<And>y z. x = (y, z) \<Longrightarrow> returns (f y z) Q) \<Longrightarrow> returns (case x of (y, z) \<Rightarrow> f y z) Q"
  by (cases x) auto

lemma returns_let [rets]: "(\<And>y. y = x \<Longrightarrow> returns (f y) Q) \<Longrightarrow> returns (let y = x in f y) Q"
  by simp

end
