(* ===== verification/Str_Util.thy ===== *)
theory Str_Util
  imports Prelude
begin

text \<open>
  The string helpers of \<open>strutil.c\<close>: bounded formatting, the \<open>WHERE\<close> clause builder, quoting of
  double quotes, prefix and newline removal, \<open>trim\<close>, and the expansion of \<open>%n\<close> in the
  \<open>follow_command\<close> into a buffer of \<open>MAXPGPATH\<close> bytes. The lists of \<open>strutil.c\<close> are in
  \<open>Linked_Lists\<close>.
\<close>

section \<open>Bounded formatting\<close>

text \<open>
  \<open>xvsnprintf\<close>: \<open>text\<close> is what the format expands to; a text that does not fit the buffer
  with its terminating NUL makes the program exit.
\<close>

definition xvsnprintf :: "nat \<Rightarrow> string \<Rightarrow> int + string" where
  "xvsnprintf bufsize text =
     (if int (length text) \<ge> int bufsize then Inl ERR_STR_OVERFLOW else Inr text)"

definition maxlen_snprintf :: "string \<Rightarrow> int + string" where
  "maxlen_snprintf text = xvsnprintf MAXLEN text"

definition maxpath_snprintf :: "string \<Rightarrow> int + string" where
  "maxpath_snprintf text = xvsnprintf MAXPGPATH text"

definition append_where_clause :: "string \<Rightarrow> string \<Rightarrow> int + string" where
  "append_where_clause where_clause text =
     (case xvsnprintf MAXLEN text of
        Inl code \<Rightarrow> Inl code
      | Inr stringbuf \<Rightarrow>
          Inr (where_clause @ (if where_clause = [] then '' WHERE '' else '' AND '') @ stringbuf))"

fun append_where_clauses :: "string \<Rightarrow> string list \<Rightarrow> int + string" where
  "append_where_clauses w [] = Inr w"
| "append_where_clauses w (t # ts) =
     (case append_where_clause w t of Inl code \<Rightarrow> Inl code | Inr w' \<Rightarrow> append_where_clauses w' ts)"

text \<open>The reference: conditions joined by \<open>AND\<close> behind one \<open>WHERE\<close>.\<close>

fun and_join :: "string list \<Rightarrow> string" where
  "and_join [] = []"
| "and_join [t] = t"
| "and_join (t # ts) = t @ '' AND '' @ and_join ts"

lemma xvsnprintf_fits: "xvsnprintf n t = Inr u \<longleftrightarrow> length t < n \<and> u = t"
  by (auto simp: xvsnprintf_def)

lemma append_where_clauses_more:
  "w \<noteq> [] \<Longrightarrow> \<forall>t \<in> set ts. length t < MAXLEN \<Longrightarrow>
   append_where_clauses w ts = Inr (w @ concat (map (\<lambda>t. '' AND '' @ t) ts))"
  by (induction ts arbitrary: w) (auto simp: append_where_clause_def xvsnprintf_def)

lemma and_join_Cons: "and_join (t # ts) = t @ concat (map (\<lambda>t. '' AND '' @ t) ts)"
  by (induction ts arbitrary: t) auto

lemma append_where_clauses_join:
  assumes "ts \<noteq> []" and "\<forall>t \<in> set ts. length t < MAXLEN"
  shows "append_where_clauses [] ts = Inr ('' WHERE '' @ and_join ts)"
proof -
  from assms(1) obtain t us where ts: "ts = t # us" by (cases ts) auto
  from assms(2) ts have "append_where_clause [] t = Inr ('' WHERE '' @ t)"
    by (simp add: append_where_clause_def xvsnprintf_def)
  moreover from assms(2) ts have
    "append_where_clauses ('' WHERE '' @ t) us =
     Inr (('' WHERE '' @ t) @ concat (map (\<lambda>t. '' AND '' @ t) us))"
    by (intro append_where_clauses_more) auto
  ultimately show ?thesis by (simp add: ts and_join_Cons)
qed

section \<open>Double quotes\<close>

text \<open>
  \<open>escape_double_quotes\<close> walks the source; \<open>prev\<close> is the source character before the current
  one (none at the start).
\<close>

fun escape_dq_from :: "char option \<Rightarrow> string \<Rightarrow> string" where
  "escape_dq_from prev [] = []"
| "escape_dq_from prev (c # cs) =
     (if c = CHR 0x22 \<and> prev \<noteq> Some CHR 0x5C then [CHR 0x5C, c] else [c]) @ escape_dq_from (Some c) cs"

definition escape_double_quotes :: "string \<Rightarrow> string" where
  "escape_double_quotes s = escape_dq_from None s"

text \<open>Every double quote has a backslash before it.\<close>

fun dq_guarded :: "char option \<Rightarrow> string \<Rightarrow> bool" where
  "dq_guarded prev [] = True"
| "dq_guarded prev (c # cs) =
     ((c = CHR 0x22 \<longrightarrow> prev = Some CHR 0x5C) \<and> dq_guarded (Some c) cs)"

lemma escape_dq_guarded: "dq_guarded prev (escape_dq_from prev s)"
  by (induction s arbitrary: prev) auto

lemma escape_dq_guarded_id: "dq_guarded prev s \<Longrightarrow> escape_dq_from prev s = s"
  by (induction s arbitrary: prev) auto

section \<open>Prefixes, trailing newlines, trim\<close>

definition string_skip_prefix :: "string \<Rightarrow> string \<Rightarrow> string option" where
  "string_skip_prefix pre s =
     (let n = length pre in if \<not> strncmp_eq n pre s then None else Some (drop n s))"

lemma string_skip_prefix_iff: "string_skip_prefix p s = Some r \<longleftrightarrow> s = p @ r"
  by (auto simp: string_skip_prefix_def Let_def strncmp_eq_def) (metis append_take_drop_id)

text \<open>
  The loop of \<open>string_remove_trailing_newlines\<close> on the buffer: \<open>n\<close> is the index of the last
  character and is never moved, and the body stores a NUL at it.
\<close>

function remove_newline_loop :: "string \<Rightarrow> int \<Rightarrow> string" where
  "remove_newline_loop buf n =
     (if 0 \<le> n \<and> n < int (length buf) \<and> buf ! nat n = CHR 0x0A
      then remove_newline_loop (buf[nat n := CHR 0x00]) n else buf)"
  by pat_completeness auto
termination
  by (relation "measure (\<lambda>(buf, n). if 0 \<le> n \<and> n < int (length buf) \<and> buf ! nat n = CHR 0x0A then 1 else 0)")
    auto

declare remove_newline_loop.simps [simp del]

definition string_remove_trailing_newlines :: "string \<Rightarrow> string" where
  "string_remove_trailing_newlines s =
     takeWhile (\<lambda>c. c \<noteq> CHR 0x00) (remove_newline_loop s (int (length s) - 1))"

lemma remove_newline_loop_eq:
  "remove_newline_loop buf n =
     (if 0 \<le> n \<and> n < int (length buf) \<and> buf ! nat n = CHR 0x0A then buf[nat n := CHR 0x00] else buf)"
proof -
  have "remove_newline_loop (buf[nat n := CHR 0x00]) n = buf[nat n := CHR 0x00]"
    by (subst remove_newline_loop.simps) (auto simp: nth_list_update)
  then show ?thesis by (subst remove_newline_loop.simps) simp
qed

lemma remove_one_newline:
  assumes "CHR 0x00 \<notin> set s"
  shows "string_remove_trailing_newlines s =
    (if s \<noteq> [] \<and> last s = CHR 0x0A then butlast s else s)"
proof (cases s rule: rev_cases)
  case Nil
  then show ?thesis by (simp add: string_remove_trailing_newlines_def remove_newline_loop_eq)
next
  case (snoc ys y)
  with assms have "takeWhile (\<lambda>c. c \<noteq> CHR 0x00) ys = ys"
    by (auto intro: takeWhile_eq_all_conv [THEN iffD2])
  with snoc assms show ?thesis
    by (auto simp: string_remove_trailing_newlines_def remove_newline_loop_eq takeWhile_append
        nth_append list_update_append takeWhile_eq_all_conv)
qed

text \<open>
  \<open>trim\<close>: \<open>trim_end\<close> is the index after \<open>s2\<close> when the right-hand loop stops, \<open>trim_start\<close> is
  \<open>s1\<close> when the left-hand loop stops. On a string of white space only, the C loop reads the byte
  before the string once before it tests \<open>s2 >= s1\<close>; the value read does not change the result.
\<close>

fun trim_end :: "string \<Rightarrow> nat \<Rightarrow> nat" where
  "trim_end s 0 = 0"
| "trim_end s (Suc n) = (if isspace (s ! n) then trim_end s n else Suc n)"

function trim_start :: "string \<Rightarrow> nat \<Rightarrow> nat \<Rightarrow> nat" where
  "trim_start s i n = (if i < n - 1 \<and> isspace (s ! i) then trim_start s (Suc i) n else i)"
  by pat_completeness auto
termination
  by (relation "measure (\<lambda>(s, i, n). n - i)") auto

declare trim_start.simps [simp del]

definition trim :: "string \<Rightarrow> string" where
  "trim s =
     (if s = [] then s
      else let n = trim_end s (length s) in
        if n = 0 then [] else drop (trim_start s 0 n) (take n s))"

lemma trim_end_take: "n \<le> length s \<Longrightarrow>
  take (trim_end s n) s = rev (dropWhile isspace (rev (take n s))) \<and> trim_end s n \<le> n"
  by (induction n) (auto simp: take_Suc_conv_app_nth)

lemma trim_end_last: "trim_end s n \<noteq> 0 \<Longrightarrow> \<not> isspace (s ! (trim_end s n - 1))"
  by (induction n) (auto split: if_splits)

lemma trim_start_drop:
  assumes "0 < n" and "n \<le> length s" and "\<not> isspace (s ! (n - 1))" and "i < n"
  shows "drop (trim_start s i n) (take n s) = dropWhile isspace (drop i (take n s))"
  using assms
proof (induction s i n rule: trim_start.induct)
  case (1 s i n)
  have d: "drop i (take n s) = s ! i # drop (Suc i) (take n s)"
    using "1.prems" by (simp add: Cons_nth_drop_Suc [symmetric])
  show ?case
  proof (cases "i < n - 1 \<and> isspace (s ! i)")
    case True
    then have "Suc i < n" by linarith
    with True "1.IH" "1.prems" have
      "drop (trim_start s (Suc i) n) (take n s) = dropWhile isspace (drop (Suc i) (take n s))"
      by blast
    with True d show ?thesis by (simp add: trim_start.simps [of s i])
  next
    case False
    with "1.prems" have "\<not> isspace (s ! i)" by (cases "i = n - 1") auto
    with False d show ?thesis by (auto simp: trim_start.simps [of s i])
  qed
qed

text \<open>The reference: drop white space at both ends.\<close>

definition strip :: "string \<Rightarrow> string" where
  "strip s = dropWhile isspace (rev (dropWhile isspace (rev s)))"

lemma trim_eq_strip: "trim s = strip s"
proof (cases "s = [] \<or> trim_end s (length s) = 0")
  case True
  with trim_end_take [of "length s" s] have "dropWhile isspace (rev s) = []" by auto
  then have "strip s = []" by (simp only: strip_def) simp
  with True show ?thesis by (auto simp: trim_def)
next
  case False
  let ?n = "trim_end s (length s)"
  have e: "take ?n s = rev (dropWhile isspace (rev s))" and le: "?n \<le> length s"
    using trim_end_take [of "length s" s] by auto
  have "drop (trim_start s 0 ?n) (take ?n s) = dropWhile isspace (drop 0 (take ?n s))"
    using False le trim_end_last [of s "length s"] by (intro trim_start_drop) auto
  with False e show ?thesis by (simp add: trim_def strip_def Let_def)
qed

section \<open>Command templates\<close>

text \<open>
  The interface of every command template of the program: a \<open>%\<close> followed by a known letter is
  replaced, \<open>%%\<close> becomes \<open>%\<close>, any other \<open>%\<close> stands for itself. \<open>sub c\<close> is the replacement of
  \<open>%c\<close>.
\<close>

locale command_template =
  fixes sub :: "char \<Rightarrow> string option" and expand :: "string \<Rightarrow> string"
  assumes sub_percent: "sub (CHR ''%'') = Some ''%''"
    and expand_Nil: "expand [] = []"
    and expand_known: "sub c = Some r \<Longrightarrow> expand (CHR ''%'' # c # t) = r @ expand t"
    and expand_unknown: "sub c = None \<Longrightarrow> expand (CHR ''%'' # c # t) = CHR ''%'' # expand (c # t)"
    and expand_last: "expand [CHR ''%''] = ''%''"
    and expand_plain: "c \<noteq> CHR ''%'' \<Longrightarrow> expand (c # t) = c # expand t"
begin

lemma expand_no_percent: "CHR ''%'' \<notin> set t \<Longrightarrow> expand t = t"
  by (induction t) (auto simp: expand_Nil expand_plain)

lemma expand_append_plain: "CHR ''%'' \<notin> set t \<Longrightarrow> expand (t @ u) = t @ expand u"
  by (induction t) (auto simp: expand_plain)

lemma expand_percent: "expand (CHR ''%'' # CHR ''%'' # t) = CHR ''%'' # expand t"
  using expand_known [OF sub_percent] by simp

text \<open>A text protected by doubling its percent signs is reproduced literally.\<close>

lemma expand_protected:
  "expand (concat (map (\<lambda>c. if c = CHR ''%'' then ''%%'' else [c]) t)) = t"
  by (induction t) (auto simp: expand_Nil expand_plain expand_percent)

end

section \<open>parse_follow_command\<close>

text \<open>
  \<open>out\<close> is what has been written before \<open>dst_ptr\<close>, and \<open>cap\<close> is \<open>end_ptr - parsed_command\<close>. When
  the buffer is full, the \<open>%%\<close> case does not advance \<open>src_ptr\<close> past the first \<open>%\<close>. The
  \<open>snprintf\<close> of \<open>%n\<close> gets \<open>end_ptr - dst_ptr\<close> bytes, of which one is for its NUL.
\<close>

function parse_follow_loop :: "nat \<Rightarrow> int \<Rightarrow> string \<Rightarrow> string \<Rightarrow> string" where
  "parse_follow_loop cap node_id [] out = out"
| "parse_follow_loop cap node_id (c # cs) out =
     (if c = CHR ''%'' then
        (case cs of
           [] \<Rightarrow> parse_follow_loop cap node_id cs (if length out < cap then out @ [c] else out)
         | d # ds \<Rightarrow>
             if d = CHR ''%'' then
               (if length out < cap then parse_follow_loop cap node_id ds (out @ [d])
                else parse_follow_loop cap node_id cs out)
             else if d = CHR ''n'' then
               parse_follow_loop cap node_id ds
                 (out @ take (cap - length out - 1) (int_string node_id))
             else parse_follow_loop cap node_id cs (if length out < cap then out @ [c] else out))
      else parse_follow_loop cap node_id cs (if length out < cap then out @ [c] else out))"
  by pat_completeness auto
termination
  by (relation "measure (\<lambda>(cap, node_id, src, out). length src)") auto

definition parse_follow_command :: "string \<Rightarrow> int \<Rightarrow> string" where
  "parse_follow_command template node_id = parse_follow_loop (MAXPGPATH - 1) node_id template []"

text \<open>The unbounded expansion the bounded one implements.\<close>

function expand_follow :: "int \<Rightarrow> string \<Rightarrow> string" where
  "expand_follow node_id [] = []"
| "expand_follow node_id (c # cs) =
     (if c = CHR ''%'' then
        (case cs of
           [] \<Rightarrow> [c]
         | d # ds \<Rightarrow>
             if d = CHR ''%'' then d # expand_follow node_id ds
             else if d = CHR ''n'' then int_string node_id @ expand_follow node_id ds
             else c # expand_follow node_id cs)
      else c # expand_follow node_id cs)"
  by pat_completeness auto
termination
  by (relation "measure (\<lambda>(node_id, src). length src)") auto

interpretation follow_template: command_template
  "\<lambda>c. if c = CHR ''%'' then Some ''%'' else if c = CHR ''n'' then Some (int_string node_id) else None"
  "expand_follow node_id"
  for node_id
  by unfold_locales (auto split: if_splits list.splits)

lemma parse_follow_loop_bound:
  "length out \<le> cap \<Longrightarrow> length (parse_follow_loop cap n t out) \<le> cap"
proof (induction cap n t out rule: parse_follow_loop.induct)
  case (2 cap n c cs out)
  then show ?case by (cases cs) (simp_all del: append_assoc)
qed simp

lemma parse_follow_loop_fits:
  "length out + length (expand_follow n t) < cap \<Longrightarrow>
   parse_follow_loop cap n t out = out @ expand_follow n t"
proof (induction cap n t out rule: parse_follow_loop.induct)
  case (2 cap n c cs out)
  show ?case
  proof (cases "c = CHR ''%'' \<and> cs \<noteq> []")
    case False
    with 2 show ?thesis by (cases cs) auto
  next
    case True
    then obtain d ds where c: "c = CHR ''%''" and cs: "cs = d # ds" by (cases cs) auto
    consider "d = CHR ''%''" | "d = CHR ''n''" | "d \<noteq> CHR ''%''" "d \<noteq> CHR ''n''" by blast
    then show ?thesis
    proof cases
      case 1
      with 2 c cs show ?thesis by simp
    next
      case d: 2
      with "2.IH"(4) [OF c cs] "2.prems" c cs show ?thesis by simp
    next
      case 3
      with "2.IH"(5) [OF c cs] "2.prems" c cs show ?thesis by simp
    qed
  qed
qed simp

section \<open>Properties\<close>

text \<open>
  The follow command the program runs never exceeds its buffer, and when the expansion leaves
  room for it the result is the template with every \<open>%n\<close> replaced by the node id and every \<open>%%\<close>
  by a percent sign; in particular a template protected by doubling its percent signs comes out
  unchanged.
\<close>

theorem parse_follow_command_correct:
  assumes "length (expand_follow node_id template) < MAXPGPATH - 1"
  shows "parse_follow_command template node_id = expand_follow node_id template \<and>
    length (parse_follow_command other node_id) \<le> MAXPGPATH - 1 \<and>
    expand_follow node_id (concat (map (\<lambda>c. if c = CHR ''%'' then ''%%'' else [c]) t)) = t"
  using assms parse_follow_loop_fits [of "[]" node_id template "MAXPGPATH - 1"]
    parse_follow_loop_bound [of "[]" "MAXPGPATH - 1" node_id other] follow_template.expand_protected
  by (simp add: parse_follow_command_def)

lemma parse_follow_command_correct_witness:
  "parse_follow_command ''follow %n at 100%%'' 7 = ''follow 7 at 100%''"
proof -
  have seven: "int_string 7 = ''7''" by code_simp
  show ?thesis
    using parse_follow_command_correct [of 7 "''follow %n at 100%%''"] by (simp add: seven)
qed

text \<open>
  \<open>trim\<close> removes exactly the white space at both ends of its argument, whatever the argument.
\<close>

theorem trim_strips: "trim s = dropWhile isspace (rev (dropWhile isspace (rev s)))"
  by (simp add: trim_eq_strip strip_def)

text \<open>
  A sequence of conditions given to \<open>append_where_clause\<close> on an empty clause gives one
  \<open>WHERE\<close> with the conditions in order and an \<open>AND\<close> between each two.
\<close>

theorem where_clause_correct:
  assumes "conditions \<noteq> []" and "\<forall>t \<in> set conditions. length t < MAXLEN"
  shows "append_where_clauses [] conditions = Inr ('' WHERE '' @ and_join conditions)"
  using assms by (rule append_where_clauses_join)

lemma where_clause_correct_witness:
  "append_where_clauses [] [''a=1'', ''b=2''] = Inr '' WHERE a=1 AND b=2''"
  using where_clause_correct [of "[''a=1'', ''b=2'']"] by simp

end
