(* ===== verification/Shell_Quote.thy ===== *)
theory Shell_Quote
  imports Prelude
begin

text \<open>
  The quoting functions of \<open>compat.c\<close>: \<open>appendConnStrVal\<close> quotes a value for a libpq connection
  string, \<open>appendShellString\<close> and \<open>appendRemoteShellString\<close> quote an argument for the shell. The
  readers of the quoted text (libpq and the shell) are not part of the program: they are
  parameters, with the documented rules they follow as the hypotheses \<open>libpq_reads\<close> and
  \<open>posix_reads\<close>.
\<close>

section \<open>Connection string values\<close>

definition plain_conn_char :: "char \<Rightarrow> bool" where
  "plain_conn_char c \<longleftrightarrow>
     (let n = (of_char c :: nat) in
        (97 \<le> n \<and> n \<le> 122) \<or> (65 \<le> n \<and> n \<le> 90) \<or> (48 \<le> n \<and> n \<le> 57) \<or> c = CHR ''_'' \<or> c = CHR ''.'')"

text \<open>The scan for \<open>needquotes\<close>: it starts true, and each plain character sets it to false.\<close>

fun conn_needquotes :: "bool \<Rightarrow> string \<Rightarrow> bool" where
  "conn_needquotes needquotes [] = needquotes"
| "conn_needquotes needquotes (c # cs) =
     (if \<not> plain_conn_char c then True else conn_needquotes False cs)"

fun conn_escape :: "string \<Rightarrow> string" where
  "conn_escape [] = []"
| "conn_escape (c # cs) =
     (if c = CHR 0x27 \<or> c = CHR 0x5C then [CHR 0x5C, c] else [c]) @ conn_escape cs"

definition appendConnStrVal :: "string \<Rightarrow> string \<Rightarrow> string" where
  "appendConnStrVal buf str =
     buf @ (if conn_needquotes True str then [CHR 0x27] @ conn_escape str @ [CHR 0x27] else str)"

text \<open>
  What libpq documents of a value in a keyword/value connection string: a value of plain
  characters stands for itself; inside single quotes a backslash takes the next character
  literally, the closing quote ends the value, and every other character stands for itself.
  \<open>inq\<close> reads the text after the opening quote.
\<close>

definition libpq_reads :: "(string \<Rightarrow> string option) \<Rightarrow> (string \<Rightarrow> string option) \<Rightarrow> bool" where
  "libpq_reads val inq \<longleftrightarrow>
     (\<forall>v. v \<noteq> [] \<and> list_all plain_conn_char v \<longrightarrow> val v = Some v) \<and>
     (\<forall>r. val (CHR 0x27 # r) = inq r) \<and>
     inq [CHR 0x27] = Some [] \<and>
     (\<forall>c r. inq (CHR 0x5C # c # r) = map_option (\<lambda>v. c # v) (inq r)) \<and>
     (\<forall>c r. c \<noteq> CHR 0x27 \<and> c \<noteq> CHR 0x5C \<longrightarrow> inq (c # r) = map_option (\<lambda>v. c # v) (inq r))"

lemma conn_needquotes_False: "\<not> conn_needquotes q s \<Longrightarrow> list_all plain_conn_char s \<and> (s = [] \<longrightarrow> \<not> q)"
  by (induction s arbitrary: q) (auto split: if_splits)

lemma libpq_reads_quoted:
  "libpq_reads val inq \<Longrightarrow> inq (conn_escape s @ [CHR 0x27]) = Some s"
  by (induction s) (auto simp: libpq_reads_def)

lemma appendConnStrVal_read:
  assumes "libpq_reads val inq"
  shows "val (appendConnStrVal [] s) = Some s"
proof (cases "conn_needquotes True s")
  case True
  with assms libpq_reads_quoted [OF assms, of s] show ?thesis
    by (simp add: appendConnStrVal_def libpq_reads_def)
next
  case False
  with conn_needquotes_False [of True s] have "s \<noteq> []" and "list_all plain_conn_char s"
    by auto
  with False assms show ?thesis
    by (simp add: appendConnStrVal_def libpq_reads_def)
qed

text \<open>A reader that follows those rules.\<close>

fun libpq_inq :: "string \<Rightarrow> string option" where
  "libpq_inq [] = None"
| "libpq_inq (c # r) =
     (if c = CHR 0x27 then (if r = [] then Some [] else None)
      else if c = CHR 0x5C then (case r of [] \<Rightarrow> None | d # r' \<Rightarrow> map_option (\<lambda>v. d # v) (libpq_inq r'))
      else map_option (\<lambda>v. c # v) (libpq_inq r))"

definition libpq_val :: "string \<Rightarrow> string option" where
  "libpq_val s = (case s of [] \<Rightarrow> None | c # r \<Rightarrow> if c = CHR 0x27 then libpq_inq r else Some s)"

lemma plain_conn_char_quote [simp]: "\<not> plain_conn_char CHR 0x27"
  by (simp add: plain_conn_char_def)

lemma libpq_reads_example: "libpq_reads libpq_val libpq_inq"
  by (auto simp: libpq_reads_def libpq_val_def split: list.splits)

section \<open>Shell arguments\<close>

text \<open>The text a character of the argument is written as; a line break makes the program exit.\<close>

fun shell_body :: "string \<Rightarrow> int + string" where
  "shell_body [] = Inr []"
| "shell_body (c # cs) =
     (if c = CHR 0x0A \<or> c = CHR 0x0D then Inl ERR_BAD_CONFIG
      else case shell_body cs of
        Inl code \<Rightarrow> Inl code
      | Inr t \<Rightarrow>
          Inr ((if c = CHR 0x27 then [CHR 0x27, CHR 0x22, CHR 0x27, CHR 0x22, CHR 0x27]
                else if c = CHR ''&'' then [CHR 0x5C, CHR ''&''] else [c]) @ t))"

definition appendShellString :: "string \<Rightarrow> string \<Rightarrow> int + string" where
  "appendShellString buf str =
     (case shell_body str of
        Inl code \<Rightarrow> Inl code
      | Inr t \<Rightarrow> Inr (buf @ [CHR 0x27] @ t @ [CHR 0x27]))"

definition appendRemoteShellString :: "string \<Rightarrow> string \<Rightarrow> int + string" where
  "appendRemoteShellString buf str =
     (case shell_body str of
        Inl code \<Rightarrow> Inl code
      | Inr t \<Rightarrow> Inr (buf @ [CHR 0x5C, CHR 0x27] @ t @ [CHR 0x5C, CHR 0x27]))"

text \<open>
  What POSIX says of quoting in a shell word: between single quotes every character stands for
  itself; between double quotes a character other than \<open>$ ` " \<close> and backslash stands for itself;
  outside quotes a backslash takes the next character literally; adjacent parts form one word.
\<close>

definition posix_reads :: "(string \<Rightarrow> string option) \<Rightarrow> bool" where
  "posix_reads word \<longleftrightarrow>
     word [] = Some [] \<and>
     (\<forall>t r. CHR 0x27 \<notin> set t \<longrightarrow>
        word ([CHR 0x27] @ t @ [CHR 0x27] @ r) = map_option (\<lambda>v. t @ v) (word r)) \<and>
     (\<forall>t r. set t \<inter> {CHR ''$'', CHR 0x60, CHR 0x22, CHR 0x5C} = {} \<longrightarrow>
        word ([CHR 0x22] @ t @ [CHR 0x22] @ r) = map_option (\<lambda>v. t @ v) (word r)) \<and>
     (\<forall>c r. c \<noteq> CHR 0x0A \<longrightarrow> word (CHR 0x5C # c # r) = map_option (\<lambda>v. c # v) (word r))"

text \<open>The argument with a backslash before every ampersand.\<close>

definition amp_escape :: "string \<Rightarrow> string" where
  "amp_escape s = concat (map (\<lambda>c. if c = CHR ''&'' then [CHR 0x5C, c] else [c]) s)"

lemma amp_escape_id: "CHR ''&'' \<notin> set s \<Longrightarrow> amp_escape s = s"
  by (induction s) (auto simp: amp_escape_def)

lemma shell_body_ok: "CHR 0x0A \<notin> set s \<Longrightarrow> CHR 0x0D \<notin> set s \<Longrightarrow> \<exists>t. shell_body s = Inr t"
  by (induction s) auto

text \<open>
  The written body, split at the argument's single quotes: \<open>t\<close> is read inside single quotes up
  to the next one.
\<close>

lemma posix_reads_body:
  assumes "posix_reads word"
  shows "shell_body s = Inr t \<Longrightarrow> CHR 0x27 \<notin> set pre \<Longrightarrow>
    word ([CHR 0x27] @ pre @ t @ [CHR 0x27]) = Some (pre @ amp_escape s)"
proof (induction s arbitrary: t pre)
  case Nil
  with assms show ?case
    by (auto simp: posix_reads_def amp_escape_def dest!: spec [of _ pre] spec [of _ "[]"])
next
  case (Cons c s)
  then obtain u where u: "shell_body s = Inr u" by (auto split: if_splits sum.splits)
  show ?case
  proof (cases "c = CHR 0x27")
    case True
    with Cons.prems(1) u
    have t: "t = [CHR 0x27, CHR 0x22, CHR 0x27, CHR 0x22, CHR 0x27] @ u"
      by (simp split: if_splits)
    have "word ([CHR 0x27] @ pre @ t @ [CHR 0x27]) =
        map_option (\<lambda>v. pre @ v) (word ([CHR 0x22] @ [CHR 0x27] @ [CHR 0x22] @ [CHR 0x27] @ u @ [CHR 0x27]))"
      using assms Cons.prems(2) by (simp add: posix_reads_def t)
    also have "word ([CHR 0x22] @ [CHR 0x27] @ [CHR 0x22] @ [CHR 0x27] @ u @ [CHR 0x27]) =
        map_option (\<lambda>v. [CHR 0x27] @ v) (word ([CHR 0x27] @ u @ [CHR 0x27]))"
    proof -
      have "set [CHR 0x27] \<inter> {CHR ''$'', CHR 0x60, CHR 0x22, CHR 0x5C} = {}" by simp
      with assms show ?thesis unfolding posix_reads_def by blast
    qed
    also have "word ([CHR 0x27] @ u @ [CHR 0x27]) = Some (amp_escape s)"
      using Cons.IH [OF u, of "[]"] by simp
    finally show ?thesis using True by (simp add: amp_escape_def)
  next
    case False
    let ?c = "if c = CHR ''&'' then [CHR 0x5C, CHR ''&''] else [c]"
    from False Cons.prems(1) u have t: "t = ?c @ u" by (auto split: if_splits)
    from False Cons.prems(2) have "CHR 0x27 \<notin> set (pre @ ?c)" by auto
    from Cons.IH [OF u this] t show ?thesis by (simp add: amp_escape_def)
  qed
qed

lemma appendShellString_read:
  assumes "posix_reads word" and "appendShellString [] s = Inr t"
  shows "word t = Some (amp_escape s)"
  using assms posix_reads_body [OF assms(1), of s _ "[]"]
  by (auto simp: appendShellString_def split: sum.splits)

text \<open>A reader that follows those rules: one state per kind of quoting.\<close>

fun sh_single :: "string \<Rightarrow> (string \<times> string) option" where
  "sh_single [] = None"
| "sh_single (c # r) =
     (if c = CHR 0x27 then Some ([], r) else map_option (\<lambda>(v, r'). (c # v, r')) (sh_single r))"

fun sh_double :: "string \<Rightarrow> (string \<times> string) option" where
  "sh_double [] = None"
| "sh_double (c # r) =
     (if c = CHR 0x22 then Some ([], r)
      else if c \<in> {CHR ''$'', CHR 0x60, CHR 0x5C} then None
      else map_option (\<lambda>(v, r'). (c # v, r')) (sh_double r))"

lemma sh_single_length: "sh_single s = Some (v, r) \<Longrightarrow> length r < length s"
  by (induction s arbitrary: v r) (auto split: if_splits intro: less_SucI)

lemma sh_double_length: "sh_double s = Some (v, r) \<Longrightarrow> length r < length s"
  by (induction s arbitrary: v r) (auto split: if_splits intro: less_SucI)

function sh_word :: "string \<Rightarrow> string option" where
  "sh_word [] = Some []"
| "sh_word (c # r) =
     (if c = CHR 0x27 then
        (case sh_single r of None \<Rightarrow> None | Some (v, r') \<Rightarrow> map_option (\<lambda>w. v @ w) (sh_word r'))
      else if c = CHR 0x22 then
        (case sh_double r of None \<Rightarrow> None | Some (v, r') \<Rightarrow> map_option (\<lambda>w. v @ w) (sh_word r'))
      else if c = CHR 0x5C then
        (case r of [] \<Rightarrow> None | d # r' \<Rightarrow> if d = CHR 0x0A then sh_word r' else map_option (\<lambda>w. d # w) (sh_word r'))
      else None)"
  by pat_completeness auto
termination
  by (relation "measure length")
    (auto dest!: sh_single_length sh_double_length intro: less_SucI)

lemma sh_single_app: "CHR 0x27 \<notin> set t \<Longrightarrow> sh_single (t @ CHR 0x27 # r) = Some (t, r)"
  by (induction t) auto

lemma sh_double_app:
  "set t \<inter> {CHR ''$'', CHR 0x60, CHR 0x22, CHR 0x5C} = {} \<Longrightarrow>
   sh_double (t @ CHR 0x22 # r) = Some (t, r)"
  by (induction t) auto

lemma posix_reads_example: "posix_reads sh_word"
  by (auto simp: posix_reads_def sh_single_app sh_double_app)

section \<open>Properties\<close>

text \<open>
  A value quoted by \<open>appendConnStrVal\<close> is read back by libpq as exactly that value, the
  empty value included.
\<close>

theorem conn_str_val_round_trip:
  assumes "libpq_reads val inq"
  shows "val (appendConnStrVal [] s) = Some s"
  using assms by (rule appendConnStrVal_read)

lemma conn_str_val_round_trip_witness:
  "libpq_val (appendConnStrVal [] [CHR ''a'', CHR 0x27, CHR '' '', CHR 0x5C]) =
     Some [CHR ''a'', CHR 0x27, CHR '' '', CHR 0x5C]"
  by (rule conn_str_val_round_trip [OF libpq_reads_example])

text \<open>
  An argument without line breaks is accepted by \<open>appendShellString\<close>, and the shell reads
  the quoted text as one word: the argument itself if it has no ampersand, and otherwise the
  argument with a backslash before each ampersand.
\<close>

theorem shell_string_round_trip:
  assumes "posix_reads word" and "CHR 0x0A \<notin> set s" and "CHR 0x0D \<notin> set s"
  shows "\<exists>t. appendShellString [] s = Inr t \<and> word t = Some (amp_escape s) \<and>
    (CHR ''&'' \<notin> set s \<longrightarrow> word t = Some s)"
proof -
  obtain b where "shell_body s = Inr b" using shell_body_ok [OF assms(2,3)] by blast
  then have t: "appendShellString [] s = Inr ([CHR 0x27] @ b @ [CHR 0x27])"
    by (simp add: appendShellString_def)
  with appendShellString_read [OF assms(1) t] show ?thesis by (auto simp: amp_escape_id)
qed

lemma shell_string_round_trip_witness:
  "\<exists>t. appendShellString [] [CHR ''a'', CHR 0x27, CHR ''&''] = Inr t \<and>
     sh_word t = Some [CHR ''a'', CHR 0x27, CHR 0x5C, CHR ''&'']"
  using shell_string_round_trip [OF posix_reads_example, of "[CHR ''a'', CHR 0x27, CHR ''&'']"]
  by (simp add: amp_escape_def)

end
