(* ===== verification/Linked_Lists.thy ===== *)
theory Linked_Lists
  imports Str_Util
begin

text \<open>
  The singly linked lists of \<open>strutil.c\<close>. \<open>KeyValueList\<close> is modelled on an explicit store,
  because \<open>_key_value_list_set\<close> unlinks cells in place and keeps a tail pointer: a cell is a
  record at an address, and the list is its head and tail pointers. \<open>kv_repr\<close> relates a store to
  the list of addresses, and the operations are shown to implement the obvious operations on the
  list of entries. \<open>ItemList\<close> and \<open>CheckStatusList\<close> are only ever appended to; they are lists.
\<close>

section \<open>Key/value lists on a store\<close>

datatype output_mode = OM_NOT_SET | OM_TEXT | OM_CSV | OM_NAGIOS | OM_OPTFORMAT

record kv_cell =
  next_cell :: "nat option"
  kv_key :: string
  kv_value :: string
  kv_output_mode :: output_mode

type_synonym kv_heap = "nat \<Rightarrow> kv_cell option"

record kv_list =
  kv_heap :: kv_heap
  kv_head :: "nat option"
  kv_tail :: "nat option"

text \<open>
  The loop that removes the cells of a key. A pointer to no cell has no meaning in C and is
  \<open>None\<close> here, as is a list that runs round in a circle. \<open>prev\<close> and \<open>cell\<close> are the C variables.
\<close>

definition kv_set_next :: "kv_heap \<Rightarrow> nat \<Rightarrow> nat option \<Rightarrow> kv_heap" where
  "kv_set_next h p nxt = h(p := map_option (\<lambda>c. c\<lparr>next_cell := nxt\<rparr>) (h p))"

partial_function (option) kv_remove_loop ::
  "string \<Rightarrow> kv_heap \<Rightarrow> nat option \<Rightarrow> nat option \<Rightarrow> nat option \<Rightarrow> nat option \<Rightarrow> kv_list option" where
  "kv_remove_loop key h headp tailp prev cell =
     (case cell of
        None \<Rightarrow> Some \<lparr>kv_heap = h, kv_head = headp, kv_tail = tailp\<rparr>
      | Some a \<Rightarrow>
          (case h a of
             None \<Rightarrow> None
           | Some c \<Rightarrow>
               if kv_key c = key then
                 (let headp' = (if headp = Some a then next_cell c else headp) in
                  case prev of
                    Some p \<Rightarrow>
                      kv_remove_loop key ((kv_set_next h p (next_cell c))(a := None)) headp'
                        (if tailp = Some a then prev else tailp) prev (next_cell c)
                  | None \<Rightarrow>
                      kv_remove_loop key (h(a := None)) headp'
                        (if tailp = Some a then None else tailp) prev (next_cell c))
               else kv_remove_loop key h headp tailp (Some a) (next_cell c)))"

text \<open>
  \<open>_key_value_list_set\<close>: with \<open>replace\<close> the cells of the key are removed first; then a cell is
  allocated (\<open>a\<close> is the address \<open>pg_malloc0\<close> returns) and linked at the end.
\<close>

definition kv_append :: "kv_list \<Rightarrow> nat \<Rightarrow> string \<Rightarrow> string \<Rightarrow> kv_list" where
  "kv_append l a key val =
     (let h = (kv_heap l)(a \<mapsto> \<lparr>next_cell = None, kv_key = key, kv_value = val, kv_output_mode = OM_NOT_SET\<rparr>)
      in case kv_tail l of
           Some t \<Rightarrow> \<lparr>kv_heap = kv_set_next h t (Some a), kv_head = kv_head l, kv_tail = Some a\<rparr>
         | None \<Rightarrow> \<lparr>kv_heap = h, kv_head = Some a, kv_tail = Some a\<rparr>)"

definition key_value_list_set_internal ::
  "kv_list \<Rightarrow> bool \<Rightarrow> nat \<Rightarrow> string \<Rightarrow> string \<Rightarrow> kv_list option" where
  "key_value_list_set_internal l replace a key val =
     (case (if replace then kv_remove_loop key (kv_heap l) (kv_head l) (kv_tail l) None (kv_head l)
            else Some l) of
        None \<Rightarrow> None
      | Some l' \<Rightarrow> Some (kv_append l' a key val))"

definition key_value_list_set :: "kv_list \<Rightarrow> nat \<Rightarrow> string \<Rightarrow> string \<Rightarrow> kv_list option" where
  "key_value_list_set l a key val = key_value_list_set_internal l False a key val"

definition key_value_list_replace_or_set :: "kv_list \<Rightarrow> nat \<Rightarrow> string \<Rightarrow> string \<Rightarrow> kv_list option" where
  "key_value_list_replace_or_set l a key val = key_value_list_set_internal l True a key val"

definition key_value_list_set_format ::
  "kv_list \<Rightarrow> nat \<Rightarrow> string \<Rightarrow> string \<Rightarrow> int + kv_list option" where
  "key_value_list_set_format l a key text =
     (case xvsnprintf MAXLEN text of
        Inl code \<Rightarrow> Inl code
      | Inr val \<Rightarrow> Inr (key_value_list_set_internal l False a key val))"

text \<open>\<open>key_value_list_get\<close> is a stub in the source: it returns \<open>NULL\<close> for every key.\<close>

definition key_value_list_get :: "kv_list \<Rightarrow> string \<Rightarrow> string option" where
  "key_value_list_get l key = None"

section \<open>The representation\<close>

text \<open>\<open>lseg h p as q\<close>: following \<open>next\<close> from \<open>p\<close> visits the addresses \<open>as\<close> and arrives at \<open>q\<close>.\<close>

fun lseg :: "kv_heap \<Rightarrow> nat option \<Rightarrow> nat list \<Rightarrow> nat option \<Rightarrow> bool" where
  "lseg h p [] q = (p = q)"
| "lseg h p (a # as) q = (p = Some a \<and> (\<exists>c. h a = Some c \<and> lseg h (next_cell c) as q))"

definition last_ptr :: "nat list \<Rightarrow> nat option" where
  "last_ptr as = (if as = [] then None else Some (last as))"

definition kv_repr :: "kv_list \<Rightarrow> nat list \<Rightarrow> bool" where
  "kv_repr l as \<longleftrightarrow> lseg (kv_heap l) (kv_head l) as None \<and> distinct as \<and> kv_tail l = last_ptr as"

definition kv_abs :: "kv_heap \<Rightarrow> nat list \<Rightarrow> (string \<times> string) list" where
  "kv_abs h as = map (\<lambda>a. (kv_key (the (h a)), kv_value (the (h a)))) as"

definition kv_entries :: "kv_list \<Rightarrow> nat list \<Rightarrow> (string \<times> string) list" where
  "kv_entries l as = kv_abs (kv_heap l) as"

lemma last_ptr_simps [simp]:
  "last_ptr [] = None" "last_ptr (as @ [a]) = Some a" "last_ptr (a # as) = Some (last (a # as))"
  by (auto simp: last_ptr_def)

lemma lseg_append: "lseg h p (as @ bs) q \<longleftrightarrow> (\<exists>r. lseg h p as r \<and> lseg h r bs q)"
  by (induction as arbitrary: p) auto

lemma lseg_cong: "(\<And>a. a \<in> set as \<Longrightarrow> h a = h' a) \<Longrightarrow> lseg h p as q = lseg h' p as q"
  by (induction as arbitrary: p) auto

lemma lseg_in_heap: "lseg h p as q \<Longrightarrow> a \<in> set as \<Longrightarrow> \<exists>c. h a = Some c"
  by (induction as arbitrary: p) auto

lemma lseg_head: "lseg h p (as @ a # bs) q \<Longrightarrow> p = Some (hd (as @ [a]))"
  by (cases as) auto

lemma kv_set_next_other [simp]: "a \<noteq> p \<Longrightarrow> kv_set_next h p q a = h a"
  by (simp add: kv_set_next_def)

lemma kv_set_next_data [simp]:
  "h p = Some c \<Longrightarrow> kv_key (the (kv_set_next h p q a)) = kv_key (the (h a))"
  "h p = Some c \<Longrightarrow> kv_value (the (kv_set_next h p q a)) = kv_value (the (h a))"
  "(kv_set_next h p q a = None) = (h a = None)"
  by (auto simp: kv_set_next_def)

lemma lseg_relink:
  assumes "lseg h p (as @ [x]) r" and "x \<notin> set as"
  shows "lseg (kv_set_next h x r') p (as @ [x]) r'"
proof -
  from assms(1) obtain q c where q: "lseg h p as q" "q = Some x" and c: "h x = Some c"
    by (auto simp: lseg_append)
  have "lseg (kv_set_next h x r') p as q"
    using q(1) assms(2) by (subst lseg_cong [where h' = h]) (auto intro!: kv_set_next_other)
  with q(2) c show ?thesis
    by (auto simp: lseg_append kv_set_next_def)
qed

lemma kv_abs_cong:
  "(\<And>a. a \<in> set as \<Longrightarrow> kv_key (the (h a)) = kv_key (the (h' a)) \<and>
     kv_value (the (h a)) = kv_value (the (h' a))) \<Longrightarrow> kv_abs h as = kv_abs h' as"
  by (simp add: kv_abs_def)

lemma kv_abs_append [simp]: "kv_abs h (as @ bs) = kv_abs h as @ kv_abs h bs"
  by (simp add: kv_abs_def)

section \<open>The operations on the list of entries\<close>

definition kv_keep :: "kv_heap \<Rightarrow> string \<Rightarrow> nat list \<Rightarrow> nat list" where
  "kv_keep h key as = filter (\<lambda>a. kv_key (the (h a)) \<noteq> key) as"

lemma kv_keep_cong:
  "(\<And>a. a \<in> set as \<Longrightarrow> kv_key (the (h a)) = kv_key (the (h' a))) \<Longrightarrow> kv_keep h k as = kv_keep h' k as"
  by (auto simp: kv_keep_def intro: filter_cong)

lemma kv_abs_keep: "kv_abs h (kv_keep h key as) = filter (\<lambda>(k, v). k \<noteq> key) (kv_abs h as)"
  by (induction as) (auto simp: kv_keep_def kv_abs_def)

lemma kv_remove_loop_correct:
  assumes "lseg h headp ps cell" and "lseg h cell as None" and "distinct (ps @ as)"
    and "tailp = last_ptr (ps @ as)" and "prev = last_ptr ps"
  shows "\<exists>l. kv_remove_loop key h headp tailp prev cell = Some l \<and>
    kv_repr l (ps @ kv_keep h key as) \<and>
    kv_entries l (ps @ kv_keep h key as) = kv_abs h (ps @ kv_keep h key as) \<and>
    (\<forall>a. h a = None \<longrightarrow> kv_heap l a = None)"
  using assms
proof (induction as arbitrary: h headp tailp prev cell ps)
  case Nil
  then show ?case
    by (auto simp: kv_remove_loop.simps kv_repr_def kv_keep_def kv_entries_def)
next
  case (Cons a as)
  then obtain c where cell: "cell = Some a" and c: "h a = Some c" and rest: "lseg h (next_cell c) as None"
    by auto
  from Cons.prems(3) have fresh: "a \<notin> set ps" "a \<notin> set as" "distinct (ps @ as)" by auto
  show ?case
  proof (cases "kv_key c = key")
    case False
    have "\<exists>l. kv_remove_loop key h headp tailp (Some a) (next_cell c) = Some l \<and>
        kv_repr l ((ps @ [a]) @ kv_keep h key as) \<and>
        kv_entries l ((ps @ [a]) @ kv_keep h key as) = kv_abs h ((ps @ [a]) @ kv_keep h key as) \<and>
        (\<forall>a. h a = None \<longrightarrow> kv_heap l a = None)"
      by (rule Cons.IH) (use Cons.prems cell c rest in \<open>auto simp: lseg_append\<close>)
    with False cell c show ?thesis
      by (simp add: kv_remove_loop.simps [of key h headp tailp prev "Some a"] kv_keep_def)
  next
    case True
    have keep: "kv_keep h key (a # as) = kv_keep h key as"
      using True c by (simp add: kv_keep_def)
    show ?thesis
    proof (cases ps rule: rev_cases)
      case Nil
      let ?h = "h(a := None)"
      have "\<exists>l. kv_remove_loop key ?h (next_cell c) (if tailp = Some a then None else tailp) None (next_cell c) = Some l \<and>
          kv_repr l ([] @ kv_keep ?h key as) \<and>
          kv_entries l ([] @ kv_keep ?h key as) = kv_abs ?h ([] @ kv_keep ?h key as) \<and>
          (\<forall>a. ?h a = None \<longrightarrow> kv_heap l a = None)"
      proof (rule Cons.IH)
        show "lseg ?h (next_cell c) as None"
          using rest fresh by (subst lseg_cong [where h' = h]) auto
        show "(if tailp = Some a then None else tailp) = last_ptr ([] @ as)"
          using Cons.prems(4) Nil fresh by (cases as rule: rev_cases) (auto simp: last_ptr_def)
      qed (use fresh in auto)
      moreover have "kv_keep ?h key as = kv_keep h key as"
        using fresh by (intro kv_keep_cong) auto
      moreover have "kv_abs ?h (kv_keep h key as) = kv_abs h (kv_keep h key as)"
        using fresh by (intro kv_abs_cong) (auto simp: kv_keep_def)
      moreover have step: "kv_remove_loop key h headp tailp prev cell =
          kv_remove_loop key ?h (next_cell c) (if tailp = Some a then None else tailp) None (next_cell c)"
        using True cell c Nil Cons.prems(1,5) by (subst kv_remove_loop.simps) simp
      ultimately show ?thesis
        unfolding step keep using Nil by auto
    next
      case (snoc qs p)
      let ?h = "(kv_set_next h p (next_cell c))(a := None)"
      let ?tl = "if tailp = Some a then Some p else tailp"
      from Cons.prems(1) snoc obtain d where d: "h p = Some d"
        using lseg_in_heap [of h headp ps cell p] by auto
      have p: "p \<notin> set qs" "p \<noteq> a" "p \<notin> set as" "a \<notin> set qs"
        using Cons.prems(3) snoc by auto
      have head: "headp \<noteq> Some a"
        using Cons.prems(1) snoc p lseg_head [of h headp qs p "[]" cell] by (cases qs) auto
      have "\<exists>l. kv_remove_loop key ?h headp ?tl (Some p) (next_cell c) = Some l \<and>
          kv_repr l (ps @ kv_keep ?h key as) \<and>
          kv_entries l (ps @ kv_keep ?h key as) = kv_abs ?h (ps @ kv_keep ?h key as) \<and>
          (\<forall>a. ?h a = None \<longrightarrow> kv_heap l a = None)"
      proof (rule Cons.IH)
        have "lseg (kv_set_next h p (next_cell c)) headp ps (next_cell c)"
          using Cons.prems(1) p snoc by (auto intro: lseg_relink)
        then show "lseg ?h headp ps (next_cell c)"
          using fresh by (subst lseg_cong [where h' = "kv_set_next h p (next_cell c)"]) auto
        have "?h b = h b" if "b \<in> set as" for b
          using that fresh(2) p(3) by (auto intro!: kv_set_next_other)
        then show "lseg ?h (next_cell c) as None"
          using rest by (subst lseg_cong [where h' = h]) auto
        show "?tl = last_ptr (ps @ as)"
          using Cons.prems(4) snoc fresh p by (cases as rule: rev_cases) (auto simp: last_ptr_def)
      qed (use fresh snoc in auto)
      moreover have "kv_keep ?h key as = kv_keep h key as"
        using fresh d by (intro kv_keep_cong) auto
      moreover have "kv_abs ?h (ps @ kv_keep h key as) = kv_abs h (ps @ kv_keep h key as)"
        using fresh d by (intro kv_abs_cong) (auto simp: kv_keep_def)
      moreover have step: "kv_remove_loop key h headp tailp prev cell =
          kv_remove_loop key ?h headp ?tl (Some p) (next_cell c)"
        using True cell c snoc head Cons.prems(5) by (subst kv_remove_loop.simps) simp
      moreover have "?h b = None" if "h b = None" for b
        using that d by auto
      ultimately show ?thesis
        unfolding step keep by auto
    qed
  qed
qed

lemma kv_append_correct:
  assumes "kv_repr l as" and "kv_heap l a = None"
  shows "kv_repr (kv_append l a key val) (as @ [a]) \<and>
    kv_entries (kv_append l a key val) (as @ [a]) = kv_entries l as @ [(key, val)]"
proof -
  let ?c = "\<lparr>next_cell = None, kv_key = key, kv_value = val, kv_output_mode = OM_NOT_SET\<rparr>"
  let ?h = "(kv_heap l)(a \<mapsto> ?c)"
  from assms have seg: "lseg (kv_heap l) (kv_head l) as None" and dist: "distinct as"
    and tl: "kv_tail l = last_ptr as"
    by (auto simp: kv_repr_def)
  have new: "a \<notin> set as"
    using lseg_in_heap [OF seg] assms(2) by fastforce
  then have seg': "lseg ?h (kv_head l) as None"
    using seg by (subst lseg_cong [where h' = "kv_heap l"]) auto
  show ?thesis
  proof (cases as rule: rev_cases)
    case Nil
    with tl show ?thesis
      by (simp add: kv_append_def kv_repr_def kv_entries_def kv_abs_def)
  next
    case (snoc bs t)
    from seg snoc obtain d where d: "kv_heap l t = Some d"
      using lseg_in_heap [of "kv_heap l" "kv_head l" as None t] by auto
    have ta: "t \<noteq> a" and tbs: "t \<notin> set bs" using new dist snoc by auto
    have "lseg (kv_set_next ?h t (Some a)) (kv_head l) as (Some a)"
      using seg' tbs snoc by (auto intro: lseg_relink)
    moreover have "kv_abs (kv_set_next ?h t (Some a)) as = kv_abs (kv_heap l) as"
      using new ta d by (intro kv_abs_cong) (auto simp: kv_set_next_def)
    ultimately show ?thesis
      using tl snoc ta new dist
      by (simp add: kv_append_def kv_repr_def kv_entries_def lseg_append kv_abs_def last_ptr_def)
  qed
qed

lemma key_value_list_set_internal_correct:
  assumes "kv_repr l as" and "kv_heap l a = None"
  shows "\<exists>l' bs. key_value_list_set_internal l replace a key val = Some l' \<and> kv_repr l' bs \<and>
    kv_entries l' bs =
      (if replace then filter (\<lambda>(k, v). k \<noteq> key) (kv_entries l as) else kv_entries l as) @ [(key, val)]"
proof (cases replace)
  case False
  with kv_append_correct [OF assms] show ?thesis
    by (auto simp: key_value_list_set_internal_def)
next
  case True
  from assms(1) obtain l1 where l1:
    "kv_remove_loop key (kv_heap l) (kv_head l) (kv_tail l) None (kv_head l) = Some l1"
    "kv_repr l1 (kv_keep (kv_heap l) key as)"
    "kv_entries l1 (kv_keep (kv_heap l) key as) = kv_abs (kv_heap l) (kv_keep (kv_heap l) key as)"
    "kv_heap l1 a = None"
    using kv_remove_loop_correct [of "kv_heap l" "kv_head l" "[]" "kv_head l" as "kv_tail l" None key]
      assms(2) by (auto simp: kv_repr_def)
  with kv_append_correct [OF l1(2,4), of key val] True show ?thesis
    by (auto simp: key_value_list_set_internal_def kv_entries_def kv_abs_keep)
qed

section \<open>Item and check status lists\<close>

definition item_list_append_format :: "string list option \<Rightarrow> string \<Rightarrow> int + string list option" where
  "item_list_append_format item_list text =
     (case item_list of
        None \<Rightarrow> Inr None
      | Some l \<Rightarrow>
          (case xvsnprintf MAXLEN text of
             Inl code \<Rightarrow> Inl code
           | Inr t \<Rightarrow> Inr (Some (l @ [t]))))"

definition item_list_append :: "string list option \<Rightarrow> string \<Rightarrow> int + string list option" where
  "item_list_append item_list message = item_list_append_format item_list message"

datatype check_status = CHECK_STATUS_OK | CHECK_STATUS_WARNING | CHECK_STATUS_CRITICAL | CHECK_STATUS_UNKNOWN

definition check_status_list_set_format ::
  "(string \<times> check_status \<times> string) list \<Rightarrow> string \<Rightarrow> check_status \<Rightarrow> string
     \<Rightarrow> int + (string \<times> check_status \<times> string) list" where
  "check_status_list_set_format l item status text =
     (case xvsnprintf MAXLEN text of
        Inl code \<Rightarrow> Inl code
      | Inr details \<Rightarrow> Inr (l @ [(item, status, details)]))"

definition output_check_status :: "check_status \<Rightarrow> string" where
  "output_check_status status =
     (case status of
        CHECK_STATUS_OK \<Rightarrow> ''OK''
      | CHECK_STATUS_WARNING \<Rightarrow> ''WARNING''
      | CHECK_STATUS_CRITICAL \<Rightarrow> ''CRITICAL''
      | CHECK_STATUS_UNKNOWN \<Rightarrow> ''UNKNOWN'')"

section \<open>Properties\<close>

text \<open>
  C22: on a well-formed list both variants of \<open>_key_value_list_set\<close> return, keep the list well
  formed (singly linked, no cycle, tail at the last cell) and append the pair; the replacing variant
  first removes every cell of the key and keeps the others in order.
\<close>

theorem key_value_list_set_refines:
  assumes "kv_repr l as" and "kv_heap l a = None"
  shows "(\<exists>l' bs. key_value_list_set l a key val = Some l' \<and> kv_repr l' bs \<and>
      kv_entries l' bs = kv_entries l as @ [(key, val)]) \<and>
    (\<exists>l' bs. key_value_list_replace_or_set l a key val = Some l' \<and> kv_repr l' bs \<and>
      kv_entries l' bs = filter (\<lambda>(k, v). k \<noteq> key) (kv_entries l as) @ [(key, val)])"
  using key_value_list_set_internal_correct [OF assms, of False]
    key_value_list_set_internal_correct [OF assms, of True]
  by (simp add: key_value_list_set_def key_value_list_replace_or_set_def)

definition example_kv_list :: kv_list where
  "example_kv_list =
     \<lparr>kv_heap = [0 \<mapsto> \<lparr>next_cell = Some 1, kv_key = ''a'', kv_value = ''1'', kv_output_mode = OM_NOT_SET\<rparr>,
                 1 \<mapsto> \<lparr>next_cell = None, kv_key = ''b'', kv_value = ''2'', kv_output_mode = OM_NOT_SET\<rparr>],
      kv_head = Some 0, kv_tail = Some 1\<rparr>"

lemma key_value_list_set_refines_witness:
  "\<exists>l' bs. key_value_list_replace_or_set example_kv_list 2 ''a'' ''9'' = Some l' \<and> kv_repr l' bs \<and>
     kv_entries l' bs = [(''b'', ''2''), (''a'', ''9'')]"
  using key_value_list_set_refines [of example_kv_list "[0, 1]" 2 "''a''" "''9''"]
  by (simp add: example_kv_list_def kv_repr_def kv_entries_def kv_abs_def)

end
