(* ===== verification/Conninfo_Params.thy ===== *)
theory Conninfo_Params
  imports Prelude
begin

text \<open>
  \<open>t_conninfo_param_list\<close> (dbutils.h) and its functions in dbutils.c: two parallel arrays of
  \<open>size + 1\<close> pointers, filled from the front. The arrays are lists indexed and updated as the C
  code does; a \<open>NULL\<close> pointer is \<open>None\<close>. What libpq returns (\<open>PQconndefaults\<close>,
  \<open>PQconninfoParse\<close>, \<open>PQconninfo\<close>) is a list of keywords with optional values, an argument of the
  functions that read it.
\<close>

record conninfo_params =
  cp_size :: nat
  cp_keywords :: "string option list"
  cp_values :: "string option list"

type_synonym conninfo_options = "(string \<times> string option) list"

section \<open>Operations\<close>

text \<open>
  The scan every function starts with: it stops at the end, at the first \<open>NULL\<close> keyword, or at
  the parameter looked for (\<open>True\<close>).
\<close>

function param_scan :: "conninfo_params \<Rightarrow> string \<Rightarrow> nat \<Rightarrow> nat \<times> bool" where
  "param_scan pl param c =
     (if c < cp_size pl then
        (case cp_keywords pl ! c of
           None \<Rightarrow> (c, False)
         | Some k \<Rightarrow> if k = param then (c, True) else param_scan pl param (Suc c))
      else (c, False))"
  by pat_completeness auto
termination
  by (relation "measure (\<lambda>(pl, param, c). cp_size pl - c)") auto

declare param_scan.simps [simp del]

definition param_set :: "conninfo_params \<Rightarrow> string \<Rightarrow> string \<Rightarrow> conninfo_params" where
  "param_set pl param val =
     (case param_scan pl param 0 of
        (c, True) \<Rightarrow> pl\<lparr>cp_values := (cp_values pl)[c := Some val]\<rparr>
      | (c, False) \<Rightarrow>
          pl\<lparr>cp_keywords := (cp_keywords pl)[c := Some param], cp_values := (cp_values pl)[c := Some val]\<rparr>)"

definition param_set_ine :: "conninfo_params \<Rightarrow> string \<Rightarrow> string \<Rightarrow> conninfo_params" where
  "param_set_ine pl param val =
     (case param_scan pl param 0 of
        (c, True) \<Rightarrow> pl
      | (c, False) \<Rightarrow>
          pl\<lparr>cp_keywords := (cp_keywords pl)[c := Some param], cp_values := (cp_values pl)[c := Some val]\<rparr>)"

definition param_get :: "conninfo_params \<Rightarrow> string \<Rightarrow> string option" where
  "param_get pl param =
     (case param_scan pl param 0 of
        (c, True) \<Rightarrow>
          (case cp_values pl ! c of None \<Rightarrow> None | Some v \<Rightarrow> if v \<noteq> [] then Some v else None)
      | (c, False) \<Rightarrow> None)"

text \<open>\<open>initialize_conninfo_params\<close>, with \<open>defs\<close> the list \<open>PQconndefaults\<close> returns.\<close>

fun param_set_options :: "conninfo_params \<Rightarrow> (string \<Rightarrow> bool) \<Rightarrow> conninfo_options \<Rightarrow> conninfo_params" where
  "param_set_options pl skip [] = pl"
| "param_set_options pl skip ((k, v) # opts) =
     param_set_options
       (case v of
          None \<Rightarrow> pl
        | Some val \<Rightarrow> if val = [] then pl else if skip k then pl else param_set pl k val)
       skip opts"

definition initialize_conninfo_params :: "conninfo_options \<Rightarrow> bool \<Rightarrow> conninfo_params" where
  "initialize_conninfo_params defs set_defaults =
     (let n = length defs;
          pl = \<lparr>cp_size = n, cp_keywords = replicate (n + 1) None, cp_values = replicate (n + 1) None\<rparr>
      in if set_defaults then param_set_options pl (\<lambda>_. False) defs else pl)"

text \<open>\<open>parse_conninfo_string\<close>: \<open>parsed\<close> is what \<open>PQconninfoParse\<close> returns, \<open>None\<close> for \<open>NULL\<close>.\<close>

definition local_param :: "string \<Rightarrow> bool" where
  "local_param k \<longleftrightarrow> k = ''application_name'' \<or> k = ''passfile'' \<or> k = ''servicefile''"

definition parse_conninfo_string ::
  "conninfo_options option \<Rightarrow> conninfo_params \<Rightarrow> bool \<Rightarrow> bool \<times> conninfo_params" where
  "parse_conninfo_string parsed pl ignore_local_params =
     (case parsed of
        None \<Rightarrow> (False, pl)
      | Some opts \<Rightarrow> (True, param_set_options pl (\<lambda>k. ignore_local_params \<and> local_param k) opts))"

definition conn_to_param_list :: "conninfo_options \<Rightarrow> conninfo_params \<Rightarrow> conninfo_params" where
  "conn_to_param_list opts pl = param_set_options pl (\<lambda>k. k = ''password'') opts"

text \<open>The entries before the first \<open>NULL\<close> keyword, in order.\<close>

function params_from :: "conninfo_params \<Rightarrow> nat \<Rightarrow> (string \<times> string option) list" where
  "params_from pl c =
     (if c < cp_size pl then
        (case cp_keywords pl ! c of
           None \<Rightarrow> []
         | Some k \<Rightarrow> (k, cp_values pl ! c) # params_from pl (Suc c))
      else [])"
  by pat_completeness auto
termination
  by (relation "measure (\<lambda>(pl, c). cp_size pl - c)") auto

declare params_from.simps [simp del]

definition copy_conninfo_params :: "conninfo_params \<Rightarrow> conninfo_params \<Rightarrow> conninfo_params" where
  "copy_conninfo_params dest src = param_set_options dest (\<lambda>_. False) (params_from src 0)"

text \<open>
  \<open>param_list_to_string\<close>: a space goes before every entry but the one at index 0, and values are
  written without any quoting.
\<close>

fun params_string :: "nat \<Rightarrow> (string \<times> string option) list \<Rightarrow> string" where
  "params_string c [] = []"
| "params_string c ((k, v) # kvs) =
     (case v of
        None \<Rightarrow> []
      | Some val \<Rightarrow> if val = [] then [] else (if c > 0 then '' '' else []) @ k @ ''='' @ val)
     @ params_string (Suc c) kvs"

definition param_list_to_string :: "conninfo_params \<Rightarrow> string" where
  "param_list_to_string pl = params_string 0 (params_from pl 0)"

definition normalize_conninfo_string :: "conninfo_options \<Rightarrow> conninfo_options option \<Rightarrow> string option" where
  "normalize_conninfo_string defs parsed =
     (case parse_conninfo_string parsed (initialize_conninfo_params defs False) False of
        (False, _) \<Rightarrow> None
      | (True, pl) \<Rightarrow> Some (param_list_to_string pl))"

definition has_passfile :: "conninfo_options \<Rightarrow> bool" where
  "has_passfile defs \<longleftrightarrow> list_ex (\<lambda>(k, v). k = ''passfile'') defs"

definition get_conninfo_value :: "conninfo_options option \<Rightarrow> string \<Rightarrow> string \<Rightarrow> bool \<times> string" where
  "get_conninfo_value parsed keyword out =
     (case parsed of
        None \<Rightarrow> (False, out)
      | Some opts \<Rightarrow>
          (True,
           case find (\<lambda>(k, v). k = keyword \<and> v \<noteq> None \<and> v \<noteq> Some []) opts of
             Some (k, Some v) \<Rightarrow> take MAXLEN v
           | _ \<Rightarrow> out))"

section \<open>The interface: a bounded store of named values\<close>

text \<open>
  What the callers rely on: a stored value is read back, other names keep theirs, and a store
  with room for every name takes them all. \<open>names s\<close> are the names in use and \<open>cap s\<close> how many
  there may be.
\<close>

locale param_store =
  fixes get :: "'s \<Rightarrow> string \<Rightarrow> string option" and put :: "'s \<Rightarrow> string \<Rightarrow> string \<Rightarrow> 's"
    and names :: "'s \<Rightarrow> string set" and cap :: "'s \<Rightarrow> nat" and inv :: "'s \<Rightarrow> bool"
  assumes finite_names: "inv s \<Longrightarrow> finite (names s)"
    and get_put: "inv s \<Longrightarrow> card (insert k (names s)) \<le> cap s \<Longrightarrow> v \<noteq> [] \<Longrightarrow>
      get (put s k v) k' = (if k' = k then Some v else get s k')"
    and names_put: "inv s \<Longrightarrow> card (insert k (names s)) \<le> cap s \<Longrightarrow> names (put s k v) = insert k (names s)"
    and cap_put: "cap (put s k v) = cap s"
    and inv_put: "inv s \<Longrightarrow> card (insert k (names s)) \<le> cap s \<Longrightarrow> inv (put s k v)"
begin

lemma put_room:
  assumes "inv s" and "card (insert k (names s) \<union> N) \<le> cap s" and "finite N"
  shows "card (insert k (names s)) \<le> cap s" and "inv (put s k v)"
    and "card (names (put s k v) \<union> N) \<le> cap (put s k v)"
proof -
  have "card (insert k (names s)) \<le> card (insert k (names s) \<union> N)"
    using assms finite_names by (intro card_mono) auto
  with assms(2) show c: "card (insert k (names s)) \<le> cap s" by simp
  then show "inv (put s k v)" using assms(1) by (rule inv_put [rotated])
  show "card (names (put s k v) \<union> N) \<le> cap (put s k v)"
    using assms(2) by (simp add: names_put [OF assms(1) c] cap_put)
qed

lemma fold_put:
  assumes "inv s" and "card (names s \<union> fst ` set kvs) \<le> cap s" and "\<forall>(k, v) \<in> set kvs. v \<noteq> []"
  shows "get (fold (\<lambda>(k, v) s. put s k v) kvs s) k' =
      (case map_of (rev kvs) k' of Some v \<Rightarrow> Some v | None \<Rightarrow> get s k')"
    and "inv (fold (\<lambda>(k, v) s. put s k v) kvs s)"
  using assms
proof (induction kvs arbitrary: s)
  case Nil
  { case 1 then show ?case by simp }
  { case 2 then show ?case by simp }
next
  case (Cons kv kvs)
  obtain k v where kv: "kv = (k, v)" by (cases kv)
  have room: "card (insert k (names s) \<union> fst ` set kvs) \<le> cap s"
    if "card (names s \<union> fst ` set (kv # kvs)) \<le> cap s" for s
    using that by (simp add: kv insert_commute)
  { case 1
    note p = put_room(1) [OF 1(1) room [OF 1(2)]] put_room(2,3) [OF 1(1) room [OF 1(2)], where v = v]
    have "get (fold (\<lambda>(k, v) s. put s k v) kvs (put s k v)) k' =
      (case map_of (rev kvs) k' of Some v \<Rightarrow> Some v | None \<Rightarrow> get (put s k v) k')"
      using 1 p by (intro Cons.IH) (auto simp: kv)
    with 1 p show ?case
      by (auto simp: kv get_put map_add_def split: option.splits) }
  { case 2
    note p = put_room(1) [OF 2(1) room [OF 2(2)]] put_room(2,3) [OF 2(1) room [OF 2(2)], where v = v]
    with 2 Cons.IH(2) show ?case by (auto simp: kv) }
qed

end

section \<open>The parameter list implements it\<close>

text \<open>
  \<open>n\<close> entries are in use: the keywords before index \<open>n\<close> are set and distinct, the rest are
  \<open>NULL\<close>, and so are the values.
\<close>

definition cp_wf_at :: "conninfo_params \<Rightarrow> nat \<Rightarrow> bool" where
  "cp_wf_at pl n \<longleftrightarrow>
     n \<le> cp_size pl \<and> length (cp_keywords pl) = cp_size pl + 1 \<and> length (cp_values pl) = cp_size pl + 1 \<and>
     (\<forall>i < n. cp_keywords pl ! i \<noteq> None \<and> cp_values pl ! i \<noteq> None) \<and>
     (\<forall>i \<le> cp_size pl. n \<le> i \<longrightarrow> cp_keywords pl ! i = None) \<and>
     distinct (take n (cp_keywords pl))"

definition cp_wf :: "conninfo_params \<Rightarrow> bool" where
  "cp_wf pl \<longleftrightarrow> (\<exists>n. cp_wf_at pl n)"

definition cp_names :: "conninfo_params \<Rightarrow> string set" where
  "cp_names pl = {k. Some k \<in> set (cp_keywords pl)}"

lemma cp_names_at:
  assumes "cp_wf_at pl n"
  shows "cp_names pl = {k. \<exists>i < n. cp_keywords pl ! i = Some k}" and "finite (cp_names pl)"
    and "card (cp_names pl) = n"
proof -
  have e: "Some k \<in> set (cp_keywords pl) \<longleftrightarrow> (\<exists>i < n. cp_keywords pl ! i = Some k)" for k
  proof -
    have "i < n" if "i < length (cp_keywords pl)" "cp_keywords pl ! i = Some k" for i
    proof (rule ccontr)
      assume "\<not> i < n"
      with that assms have "cp_keywords pl ! i = None"
        by (auto simp: cp_wf_at_def)
      with that show False by simp
    qed
    with assms show ?thesis by (fastforce simp: in_set_conv_nth cp_wf_at_def)
  qed
  show "cp_names pl = {k. \<exists>i < n. cp_keywords pl ! i = Some k}"
    by (simp add: cp_names_def e)
  have n: "Some ` cp_names pl = set (take n (cp_keywords pl))"
  proof -
    have "x \<in> set (take n (cp_keywords pl)) \<longleftrightarrow> (\<exists>i < n. cp_keywords pl ! i = x)" for x
      using assms by (fastforce simp: in_set_conv_nth cp_wf_at_def)
    with assms show ?thesis
      by (auto simp: cp_names_def e image_iff cp_wf_at_def) (metis option.exhaust)
  qed
  have f: "finite (Some ` cp_names pl)" by (simp add: n)
  then show "finite (cp_names pl)" by (rule finite_imageD) simp
  have "card (cp_names pl) = card (Some ` cp_names pl)"
    by (rule card_image [symmetric]) simp
  also have "\<dots> = n"
    using assms unfolding n by (subst distinct_card) (auto simp: cp_wf_at_def)
  finally show "card (cp_names pl) = n" .
qed

lemma param_scan_from:
  assumes "cp_wf_at pl n" and "c \<le> n" and "\<forall>i < c. cp_keywords pl ! i \<noteq> Some param"
  shows "(\<exists>i < n. cp_keywords pl ! i = Some param \<and> param_scan pl param c = (i, True)) \<or>
    ((\<forall>i < n. cp_keywords pl ! i \<noteq> Some param) \<and> param_scan pl param c = (n, False))"
  using assms
proof (induction pl param c rule: param_scan.induct)
  case (1 pl param c)
  show ?case
  proof (cases "c < n")
    case True
    then obtain k where k: "cp_keywords pl ! c = Some k" and c: "c < cp_size pl"
      using "1.prems"(1) by (auto simp: cp_wf_at_def)
    show ?thesis
    proof (cases "k = param")
      case True
      with k c \<open>c < n\<close> show ?thesis by (auto simp: param_scan.simps [of pl param c])
    next
      case False
      with k "1.prems"(3) have "\<forall>i < Suc c. cp_keywords pl ! i \<noteq> Some param"
        by (auto simp: less_Suc_eq)
      with "1.IH" [OF c k False "1.prems"(1)] True False k c show ?thesis
        by (auto simp: param_scan.simps [of pl param c])
    qed
  next
    case False
    with "1.prems" have n: "c = n" by simp
    with "1.prems"(1) have "c < cp_size pl \<Longrightarrow> cp_keywords pl ! c = None"
      by (auto simp: cp_wf_at_def)
    with "1.prems"(3) n show ?thesis
      by (auto simp: param_scan.simps [of pl param n])
  qed
qed

lemmas param_scan_0 = param_scan_from [where c = 0, simplified]

lemma cp_wf_at_set_old:
  assumes "cp_wf_at pl n" and "i < n"
  shows "cp_wf_at (pl\<lparr>cp_values := (cp_values pl)[i := Some v]\<rparr>) n"
  using assms by (auto simp: cp_wf_at_def nth_list_update)

lemma cp_wf_at_set_new:
  assumes "cp_wf_at pl n" and "n < cp_size pl" and "\<forall>i < n. cp_keywords pl ! i \<noteq> Some k"
  shows "cp_wf_at (pl\<lparr>cp_keywords := (cp_keywords pl)[n := Some k],
    cp_values := (cp_values pl)[n := Some v]\<rparr>) (Suc n)"
proof -
  have "take (Suc n) ((cp_keywords pl)[n := Some k]) = take n (cp_keywords pl) @ [Some k]"
    using assms by (simp add: take_Suc_conv_app_nth cp_wf_at_def)
  moreover have "Some k \<notin> set (take n (cp_keywords pl))"
    using assms by (auto simp: in_set_conv_nth cp_wf_at_def)
  ultimately show ?thesis
    using assms by (auto simp: cp_wf_at_def nth_list_update less_Suc_eq)
qed

lemma param_get_at:
  assumes "cp_wf_at pl n"
  shows "i < n \<Longrightarrow> cp_keywords pl ! i = Some k \<Longrightarrow>
      param_get pl k = (case cp_values pl ! i of None \<Rightarrow> None | Some v \<Rightarrow> if v \<noteq> [] then Some v else None)"
    and "\<forall>i < n. cp_keywords pl ! i \<noteq> Some k \<Longrightarrow> param_get pl k = None"
proof -
  assume i: "i < n" "cp_keywords pl ! i = Some k"
  from param_scan_0 [OF assms, of k] i obtain j where j: "j < n" "cp_keywords pl ! j = Some k"
    and s: "param_scan pl k 0 = (j, True)" by auto
  have "take n (cp_keywords pl) ! i = take n (cp_keywords pl) ! j" using i j by simp
  then have "i = j"
    using assms i j nth_eq_iff_index_eq [of "take n (cp_keywords pl)" i j]
    by (simp add: cp_wf_at_def)
  with s show "param_get pl k =
      (case cp_values pl ! i of None \<Rightarrow> None | Some v \<Rightarrow> if v \<noteq> [] then Some v else None)"
    by (simp add: param_get_def)
next
  assume "\<forall>i < n. cp_keywords pl ! i \<noteq> Some k"
  with param_scan_0 [OF assms, of k] show "param_get pl k = None"
    by (auto simp: param_get_def)
qed

lemma param_set_at:
  assumes wf: "cp_wf_at pl n" and room: "card (insert k (cp_names pl)) \<le> cp_size pl"
  shows "\<exists>m. cp_wf_at (param_set pl k v) m"
    and "cp_names (param_set pl k v) = insert k (cp_names pl)"
    and "param_get (param_set pl k v) k' =
      (if k' = k then (if v = [] then None else Some v) else param_get pl k')"
proof -
  consider (old) i where "i < n" "cp_keywords pl ! i = Some k" "param_scan pl k 0 = (i, True)"
    | (new) "\<forall>i < n. cp_keywords pl ! i \<noteq> Some k" "param_scan pl k 0 = (n, False)"
    using param_scan_0 [OF wf, of k] by blast
  then have "(\<exists>m. cp_wf_at (param_set pl k v) m) \<and>
    cp_names (param_set pl k v) = insert k (cp_names pl) \<and>
    param_get (param_set pl k v) k' = (if k' = k then (if v = [] then None else Some v) else param_get pl k')"
  proof cases
    case old
    let ?pl = "pl\<lparr>cp_values := (cp_values pl)[i := Some v]\<rparr>"
    have set: "param_set pl k v = ?pl" using old by (simp add: param_set_def)
    have wf': "cp_wf_at ?pl n" using wf old by (intro cp_wf_at_set_old)
    have len: "i < length (cp_values pl)" using wf old by (simp add: cp_wf_at_def)
    have "param_get ?pl k' = (if k' = k then (if v = [] then None else Some v) else param_get pl k')"
    proof (cases "\<exists>j < n. cp_keywords pl ! j = Some k'")
      case True
      then obtain j where j: "j < n" "cp_keywords pl ! j = Some k'" by blast
      have "param_get ?pl k' = (case cp_values ?pl ! j of None \<Rightarrow> None | Some v \<Rightarrow> if v \<noteq> [] then Some v else None)"
        using j by (intro param_get_at(1) [OF wf']) auto
      moreover have "param_get pl k' = (case cp_values pl ! j of None \<Rightarrow> None | Some v \<Rightarrow> if v \<noteq> [] then Some v else None)"
        using j by (intro param_get_at(1) [OF wf]) auto
      moreover have "k' = k \<longleftrightarrow> i = j"
        using old j wf nth_eq_iff_index_eq [of "take n (cp_keywords pl)" i j]
        by (auto simp: cp_wf_at_def)
      ultimately show ?thesis using len by auto
    next
      case False
      then have "param_get ?pl k' = None" and "param_get pl k' = None"
        using param_get_at(2) [OF wf'] param_get_at(2) [OF wf] by auto
      moreover have "k' \<noteq> k" using False old by auto
      ultimately show ?thesis by simp
    qed
    moreover have "cp_names ?pl = insert k (cp_names pl)"
      using old wf by (auto simp: cp_names_at(1) [OF wf] cp_names_at(1) [OF wf'])
    ultimately show ?thesis using wf' by (auto simp: set)
  next
    case new
    let ?pl = "pl\<lparr>cp_keywords := (cp_keywords pl)[n := Some k], cp_values := (cp_values pl)[n := Some v]\<rparr>"
    have set: "param_set pl k v = ?pl" using new by (simp add: param_set_def)
    have "k \<notin> cp_names pl" using new by (auto simp: cp_names_at(1) [OF wf])
    with room have n: "n < cp_size pl"
      using cp_names_at(2,3) [OF wf] by simp
    have wf': "cp_wf_at ?pl (Suc n)" using wf n new by (intro cp_wf_at_set_new)
    have len: "n < length (cp_values pl)" "n < length (cp_keywords pl)" using wf by (auto simp: cp_wf_at_def)
    have "param_get ?pl k' = (if k' = k then (if v = [] then None else Some v) else param_get pl k')"
    proof (cases "k' = k")
      case True
      have "param_get ?pl k = (case cp_values ?pl ! n of None \<Rightarrow> None | Some v \<Rightarrow> if v \<noteq> [] then Some v else None)"
        using len by (intro param_get_at(1) [OF wf']) auto
      with True len show ?thesis by simp
    next
      case k': False
      show ?thesis
      proof (cases "\<exists>j < n. cp_keywords pl ! j = Some k'")
        case True
        then obtain j where j: "j < n" "cp_keywords pl ! j = Some k'" by blast
        have "param_get ?pl k' = (case cp_values ?pl ! j of None \<Rightarrow> None | Some v \<Rightarrow> if v \<noteq> [] then Some v else None)"
          using j by (intro param_get_at(1) [OF wf']) auto
        moreover have "param_get pl k' = (case cp_values pl ! j of None \<Rightarrow> None | Some v \<Rightarrow> if v \<noteq> [] then Some v else None)"
          using j by (intro param_get_at(1) [OF wf]) auto
        ultimately show ?thesis using j k' by simp
      next
        case False
        then have "param_get ?pl k' = None"
          using k' len by (intro param_get_at(2) [OF wf']) (auto simp: less_Suc_eq nth_list_update)
        moreover have "param_get pl k' = None"
          using False param_get_at(2) [OF wf] by auto
        ultimately show ?thesis using k' by simp
      qed
    qed
    moreover have "cp_names ?pl = insert k (cp_names pl)"
      using len by (auto simp: cp_names_at(1) [OF wf] cp_names_at(1) [OF wf'] less_Suc_eq nth_list_update)
    ultimately show ?thesis using wf' by (auto simp: set)
  qed
  then show "\<exists>m. cp_wf_at (param_set pl k v) m"
    and "cp_names (param_set pl k v) = insert k (cp_names pl)"
    and "param_get (param_set pl k v) k' =
      (if k' = k then (if v = [] then None else Some v) else param_get pl k')"
    by blast+
qed

lemma cp_size_param_set [simp]: "cp_size (param_set pl k v) = cp_size pl"
  by (simp add: param_set_def split: prod.splits bool.splits)

interpretation conninfo: param_store param_get param_set cp_names cp_size cp_wf
proof
  fix s assume "cp_wf s"
  then show "finite (cp_names s)" using cp_names_at(2) by (auto simp: cp_wf_def)
next
  fix s k and v :: string and k'
  assume "cp_wf s" "card (insert k (cp_names s)) \<le> cp_size s" "v \<noteq> []"
  then show "param_get (param_set s k v) k' = (if k' = k then Some v else param_get s k')"
    using param_set_at(3) by (auto simp: cp_wf_def)
next
  fix s k v
  assume "cp_wf s" "card (insert k (cp_names s)) \<le> cp_size s"
  then show "cp_names (param_set s k v) = insert k (cp_names s)" and "cp_wf (param_set s k v)"
    using param_set_at(1,2) by (auto simp: cp_wf_def)
qed simp

section \<open>Properties\<close>

text \<open>The non-empty values of the keywords that are not skipped, in order.\<close>

definition given_values :: "(string \<Rightarrow> bool) \<Rightarrow> conninfo_options \<Rightarrow> (string \<times> string) list" where
  "given_values skip opts =
     map (\<lambda>(k, v). (k, the v)) (filter (\<lambda>(k, v). v \<noteq> None \<and> v \<noteq> Some [] \<and> \<not> skip k) opts)"

lemma param_set_options_fold:
  "param_set_options pl skip opts = fold (\<lambda>(k, v) pl. param_set pl k v) (given_values skip opts) pl"
  by (induction pl skip opts rule: param_set_options.induct)
    (auto simp: given_values_def split: option.splits)

lemma given_values_skip:
  "map_of (rev (given_values skip opts)) k =
     (if skip k then None else map_of (rev (given_values (\<lambda>_. False) opts)) k)"
  by (induction opts) (auto simp: given_values_def map_add_def split: option.splits)

lemma given_values_names: "fst ` set (given_values skip opts) \<subseteq> fst ` set opts"
  by (force simp: given_values_def)

lemma given_values_nonempty: "\<forall>(k, v) \<in> set (given_values skip opts). v \<noteq> []"
  by (auto simp: given_values_def)

lemma initialize_conninfo_empty:
  "cp_wf (initialize_conninfo_params defs False)" "cp_names (initialize_conninfo_params defs False) = {}"
  "cp_size (initialize_conninfo_params defs False) = length defs"
  "param_get (initialize_conninfo_params defs False) k = None"
proof -
  let ?pl = "initialize_conninfo_params defs False"
  have wf: "cp_wf_at ?pl 0"
    by (auto simp: cp_wf_at_def initialize_conninfo_params_def Let_def simp del: replicate.simps)
  then show "cp_wf ?pl" by (auto simp: cp_wf_def)
  show "cp_names ?pl = {}" "param_get ?pl k = None"
    using cp_names_at(1) [OF wf] param_get_at(2) [OF wf] by auto
  show "cp_size ?pl = length defs" by (simp add: initialize_conninfo_params_def Let_def)
qed

text \<open>
  After \<open>parse_conninfo_string\<close> has filled a fresh parameter list that has a place for every
  keyword, a keyword yields the last non-empty value the connection string gives it, and nothing
  for the local parameters when these are to be ignored.
\<close>

theorem parse_conninfo_lookup:
  assumes "card (fst ` set opts) \<le> length defs"
    and "(parsed, pl) = parse_conninfo_string (Some opts) (initialize_conninfo_params defs False) ignore"
  shows "parsed \<and> param_get pl k =
    (if ignore \<and> local_param k then None else map_of (rev (given_values (\<lambda>_. False) opts)) k)"
proof -
  let ?pl = "initialize_conninfo_params defs False" and ?skip = "\<lambda>k. ignore \<and> local_param k"
  have "card (fst ` set (given_values ?skip opts)) \<le> length defs"
    using assms(1) card_mono [OF _ given_values_names [of ?skip opts]] by simp
  then have "card (cp_names ?pl \<union> fst ` set (given_values ?skip opts)) \<le> cp_size ?pl"
    by (simp add: initialize_conninfo_empty)
  from conninfo.fold_put(1) [OF initialize_conninfo_empty(1) this given_values_nonempty, of k]
  have "param_get (param_set_options ?pl ?skip opts) k = map_of (rev (given_values ?skip opts)) k"
    by (simp add: param_set_options_fold initialize_conninfo_empty split: option.splits)
  with assms(2) show ?thesis
    by (simp add: parse_conninfo_string_def given_values_skip [of ?skip])
qed

lemma parse_conninfo_lookup_witness:
  "let pl = snd (parse_conninfo_string
       (Some [(''host'', Some ''n1''), (''port'', None), (''application_name'', Some ''x''), (''host'', Some ''n2'')])
       (initialize_conninfo_params [(''host'', None), (''port'', None), (''application_name'', None)] False) True)
   in param_get pl ''host'' = Some ''n2'' \<and> param_get pl ''application_name'' = None"
proof -
  let ?opts = "[(''host'', Some ''n1''), (''port'', None), (''application_name'', Some ''x''), (''host'', Some ''n2'')]"
  let ?defs = "[(''host'', None), (''port'', None), (''application_name'', None)]"
  have "card (fst ` set ?opts) \<le> length ?defs" by (simp add: card_insert_if)
  note look = parse_conninfo_lookup [OF this surjective_pairing [symmetric], of True]
  from look [of "''host''"] look [of "''application_name''"] show ?thesis
    by (simp add: given_values_def local_param_def Let_def)
qed

end
