(* ===== verification/Config_Values.thy ===== *)
theory Config_Values
  imports Linked_Lists
begin

text \<open>
  The readers of single configuration values in \<open>configfile.c\<close>: integers (\<open>repmgr_atoi\<close>),
  booleans, values with a time unit, the event notification list, tablespace mappings, and the
  splitting of command output into arguments. An error list that is \<open>NULL\<close> is \<open>None\<close>; leaving the
  program with an exit code is \<open>Inl\<close>.
\<close>

section \<open>strtol\<close>

definition dec_value :: "string \<Rightarrow> int" where
  "dec_value ds = foldl (\<lambda>a c. 10 * a + (of_char c - 48)) 0 ds"

text \<open>
  \<open>strtol\<close> with base 10 and a 64-bit \<open>long\<close>: the value, whether \<open>errno\<close> was set, and the text at
  \<open>endptr\<close> (the whole text when there are no digits).
\<close>

definition strtol :: "string \<Rightarrow> int \<times> bool \<times> string" where
  "strtol s =
     (let t = dropWhile isspace s;
          neg = (t \<noteq> [] \<and> hd t = CHR ''-'');
          u = (if t \<noteq> [] \<and> (hd t = CHR ''-'' \<or> hd t = CHR ''+'') then tl t else t);
          ds = takeWhile is_digit u;
          v = (if neg then - dec_value ds else dec_value ds)
      in if ds = [] then (0, False, s)
         else if v > 2 ^ 63 - 1 then (2 ^ 63 - 1, True, dropWhile is_digit u)
         else if v < - (2 ^ 63) then (- (2 ^ 63), True, dropWhile is_digit u)
         else (v, False, dropWhile is_digit u))"

lemma dec_value_nat_digits: "dec_value (nat_digits n) = int n"
proof (induction n rule: nat_digits.induct)
  case (1 n)
  have dc: "of_char (digit_char d) - 48 = int d" if "d < 10" for d
    using that by simp
  show ?case
  proof (cases "n < 10")
    case True
    then show ?thesis by (simp add: nat_digits.simps [of n] dec_value_def dc)
  next
    case False
    with "1.IH" have "dec_value (nat_digits (n div 10)) = int (n div 10)" by simp
    with False show ?thesis
      by (simp add: nat_digits.simps [of n] dec_value_def dc) presburger
  qed
qed

lemma strtol_int_string:
  assumes "- (2 ^ 63) \<le> n" and "n < 2 ^ 63"
  shows "strtol (int_string n) = (n, False, [])"
proof -
  have d: "takeWhile is_digit (nat_digits m) = nat_digits m" "dropWhile is_digit (nat_digits m) = []" for m
    using nat_digits_is_digit [of m] by (auto simp: list_all_iff takeWhile_eq_all_conv)
  obtain c cs where c: "nat_digits (nat n) = c # cs" by (cases "nat_digits (nat n)") auto
  have "is_digit c" using nat_digits_is_digit [of "nat n"] c by simp
  then have nc: "\<not> isspace c" "c \<noteq> CHR ''-''" "c \<noteq> CHR ''+''"
    using isspace_not_digit by (auto simp: is_digit_def)
  show ?thesis
  proof (cases "n < 0")
    case True
    then have "dec_value (nat_digits (nat (- n))) = - n" by (simp add: dec_value_nat_digits)
    with True assms show ?thesis
      by (simp add: strtol_def int_string_def isspace_def d)
  next
    case False
    then have v: "dec_value (nat_digits (nat n)) = n" by (simp add: dec_value_nat_digits)
    have "dropWhile isspace (nat_digits (nat n)) = nat_digits (nat n)" using c nc by simp
    moreover have "hd (nat_digits (nat n)) = c" using c by simp
    ultimately show ?thesis using False assms nc v
      by (simp add: strtol_def int_string_def d Let_def)
  qed
qed

section \<open>repmgr_atoi\<close>

definition atoi_error :: "string \<Rightarrow> string \<Rightarrow> int \<Rightarrow> string" where
  "atoi_error val config_item minval =
     (let (longval, errno, endptr) = strtol val in
      if endptr = val \<or> errno then
        [CHR 0x22] @ config_item @ [CHR 0x22] @ '': invalid value (provided: '' @ [CHR 0x22] @ val @ [CHR 0x22] @ '')''
      else if to_int32 longval < longval then
        [CHR 0x22] @ config_item @ [CHR 0x22]
          @ '': must be a positive signed 32 bit integer, i.e. 2147483647 or less (provided: ''
          @ [CHR 0x22] @ val @ [CHR 0x22] @ '')''
      else if to_int32 longval < minval then
        [CHR 0x22] @ config_item @ [CHR 0x22] @ '': must be '' @ int_string minval
          @ '' or greater (provided: '' @ [CHR 0x22] @ val @ [CHR 0x22] @ '')''
      else [])"

definition repmgr_atoi ::
  "string \<Rightarrow> string \<Rightarrow> string list option \<Rightarrow> int \<Rightarrow> int + int \<times> string list option" where
  "repmgr_atoi val config_item error_list minval =
     (if val = [] then Inr (0, error_list)
      else
        let (longval, errno, endptr) = strtol val;
            errors = atoi_error val config_item minval
        in if errors \<noteq> [] then
             (if error_list = None then Inl ERR_BAD_CONFIG
              else case item_list_append error_list errors of
                Inl code \<Rightarrow> Inl code
              | Inr error_list' \<Rightarrow> Inr (to_int32 longval, error_list'))
           else Inr (to_int32 longval, error_list))"

text \<open>
  The value read is accepted when \<open>repmgr_atoi\<close> leaves the error list as it was and does not exit.
\<close>

definition atoi_accepts :: "string \<Rightarrow> string \<Rightarrow> int \<Rightarrow> int \<Rightarrow> bool" where
  "atoi_accepts val config_item minval n \<longleftrightarrow> repmgr_atoi val config_item None minval = Inr (n, None)"

lemma atoi_accepts_iff:
  "val \<noteq> [] \<Longrightarrow> strtol val = (longval, errno, endptr) \<Longrightarrow>
   atoi_accepts val item minval n \<longleftrightarrow>
     endptr \<noteq> val \<and> \<not> errno \<and> longval \<le> to_int32 longval \<and> minval \<le> to_int32 longval \<and> n = to_int32 longval"
  by (auto simp: atoi_accepts_def repmgr_atoi_def atoi_error_def)

lemma to_int32_above: "longval \<le> to_int32 longval \<longleftrightarrow> longval < 2 ^ 31"
proof
  assume "longval < 2 ^ 31"
  then show "longval \<le> to_int32 longval"
    using to_int32_id [of longval] to_int32_range(1) [of longval]
    by (cases "- (2 ^ 31) \<le> longval") auto
next
  assume "longval \<le> to_int32 longval"
  with to_int32_range(2) [of longval] show "longval < 2 ^ 31" by simp
qed

section \<open>Booleans and time units\<close>

definition parse_bool ::
  "string option \<Rightarrow> string \<Rightarrow> string list option \<Rightarrow> int + bool \<times> string list option" where
  "parse_bool s config_item error_list =
     (case s of
        None \<Rightarrow> Inr (True, error_list)
      | Some s \<Rightarrow>
          if strcaseeq s ''0'' then Inr (False, error_list)
          else if strcaseeq s ''1'' then Inr (True, error_list)
          else if strcaseeq s ''false'' then Inr (False, error_list)
          else if strcaseeq s ''true'' then Inr (True, error_list)
          else if strcaseeq s ''off'' then Inr (False, error_list)
          else if strcaseeq s ''on'' then Inr (True, error_list)
          else if strcaseeq s ''no'' then Inr (False, error_list)
          else if strcaseeq s ''yes'' then Inr (True, error_list)
          else
            (case item_list_append error_list
               ([CHR 0x22] @ config_item @ [CHR 0x22] @ '': unable to interpret '' @ [CHR 0x22] @ s
                  @ [CHR 0x22] @ '' as a boolean value'') of
               Inl code \<Rightarrow> Inl code
             | Inr error_list' \<Rightarrow> Inr (False, error_list')))"

definition time_units :: "string list" where
  "time_units = [''ms'', ''s'', ''min'', ''h'', ''d'']"

text \<open>The new contents of \<open>dest\<close> and the new error list.\<close>

definition parse_time_unit_parameter ::
  "string \<Rightarrow> string \<Rightarrow> string \<Rightarrow> string list option \<Rightarrow> int + string \<times> string list option" where
  "parse_time_unit_parameter name val dest errors =
     (let (longval, errno, ptr) = strtol val in
      if to_int32 longval < 0 then
        (if errors \<noteq> None then
           (case item_list_append errors (''invalid value provided for '' @ [CHR 0x22] @ name @ [CHR 0x22]) of
              Inl code \<Rightarrow> Inl code
            | Inr errors' \<Rightarrow> Inr (dest, errors'))
         else Inr (dest, errors))
      else if ptr \<noteq> [] \<and> ptr \<notin> set time_units \<and> errors \<noteq> None then
        (case item_list_append errors
           (''value provided for '' @ [CHR 0x22] @ name @ [CHR 0x22] @ '' must be one of ms/s/min/h/d'') of
           Inl code \<Rightarrow> Inl code
         | Inr errors' \<Rightarrow> Inr (dest, errors'))
      else Inr (take MAXLEN val, errors))"

section \<open>Event notification list\<close>

text \<open>
  The loop of \<open>parse_event_notifications_list\<close> over the argument and its terminating NUL: \<open>buf\<close> is
  \<open>event_type_buf\<close>, \<open>out\<close> the list built so far.
\<close>

fun event_list_loop :: "string \<Rightarrow> string \<Rightarrow> string list \<Rightarrow> string list" where
  "event_list_loop [] buf out = out"
| "event_list_loop (c # cs) buf out =
     (if c = CHR '' '' \<or> c = CHR 0x09 then event_list_loop cs buf out
      else if (c = CHR '','' \<or> c = CHR 0x00) \<and> buf \<noteq> [] then
        event_list_loop cs [] (out @ [take MAXLEN buf])
      else if c = CHR '','' then event_list_loop cs buf out
      else event_list_loop cs (buf @ [c]) out)"

definition parse_event_notifications_list :: "string list \<Rightarrow> string \<Rightarrow> string list" where
  "parse_event_notifications_list event_notifications arg =
     event_list_loop (arg @ [CHR 0x00]) [] event_notifications"

text \<open>The reference: the non-empty parts between commas, without spaces and tabs.\<close>

fun split_at_commas :: "string \<Rightarrow> string \<Rightarrow> string list" where
  "split_at_commas [] buf = [buf]"
| "split_at_commas (c # cs) buf =
     (if c = CHR '','' then buf # split_at_commas cs [] else split_at_commas cs (buf @ [c]))"

definition event_types :: "string \<Rightarrow> string list" where
  "event_types arg =
     filter (\<lambda>t. t \<noteq> []) (split_at_commas (filter (\<lambda>c. c \<noteq> CHR '' '' \<and> c \<noteq> CHR 0x09) arg) [])"

lemma event_list_loop_split:
  assumes "CHR 0x00 \<notin> set arg" and "length buf + length arg < MAXLEN"
  shows "event_list_loop (arg @ [CHR 0x00]) buf out =
     out @ filter (\<lambda>t. t \<noteq> []) (split_at_commas (filter (\<lambda>c. c \<noteq> CHR '' '' \<and> c \<noteq> CHR 0x09) arg) buf)"
  using assms
proof (induction arg arbitrary: buf out)
  case Nil
  then show ?case by simp
next
  case (Cons c cs)
  then show ?case by (cases "buf = []") auto
qed

section \<open>Tablespace mappings\<close>

text \<open>
  The loop of \<open>tablespace_list_append\<close>: \<open>prev\<close> is \<open>*(arg_ptr - 1)\<close> (none at the start), \<open>in_new\<close>
  says whether \<open>dst\<close> is \<open>new_dir\<close>.
\<close>

fun tablespace_loop ::
  "char option \<Rightarrow> string \<Rightarrow> bool \<Rightarrow> string \<Rightarrow> string \<Rightarrow> int + string \<times> string" where
  "tablespace_loop prev [] in_new old_dir new_dir = Inr (old_dir, new_dir)"
| "tablespace_loop prev (c # cs) in_new old_dir new_dir =
     (if length (if in_new then new_dir else old_dir) \<ge> MAXPGPATH then Inl ERR_BAD_CONFIG
      else if c = CHR 0x5C \<and> cs \<noteq> [] \<and> hd cs = CHR ''='' then
        tablespace_loop (Some c) cs in_new old_dir new_dir
      else if c = CHR ''='' \<and> prev \<noteq> Some CHR 0x5C then
        (if new_dir \<noteq> [] then Inl ERR_BAD_CONFIG
         else tablespace_loop (Some c) cs True old_dir new_dir)
      else if in_new then tablespace_loop (Some c) cs in_new old_dir (new_dir @ [c])
      else tablespace_loop (Some c) cs in_new (old_dir @ [c]) new_dir)"

definition tablespace_list_append ::
  "(string \<Rightarrow> string) \<Rightarrow> (string \<times> string) list \<Rightarrow> string \<Rightarrow> int + (string \<times> string) list" where
  "tablespace_list_append canonicalize mapping arg =
     (case tablespace_loop None arg False [] [] of
        Inl code \<Rightarrow> Inl code
      | Inr (old_dir, new_dir) \<Rightarrow>
          if old_dir = [] \<or> new_dir = [] then Inl ERR_BAD_CONFIG
          else Inr (mapping @ [(canonicalize old_dir, canonicalize new_dir)]))"

text \<open>A directory name as it is written in a mapping: equal signs are escaped.\<close>

definition escape_equals :: "string \<Rightarrow> string" where
  "escape_equals d = concat (map (\<lambda>c. if c = CHR ''='' then [CHR 0x5C, c] else [c]) d)"

lemma escape_equals_hd: "escape_equals d = c # cs \<Longrightarrow> c \<noteq> CHR ''=''"
  by (cases d) (auto simp: escape_equals_def split: if_splits)

text \<open>Reading an escaped directory name appends it to the directory being read.\<close>

lemma tablespace_loop_escaped:
  assumes "CHR 0x5C \<notin> set d" and "prev \<noteq> Some CHR 0x5C"
    and "length (if in_new then new_dir else old_dir) + length d < MAXPGPATH"
    and "rest \<noteq> [] \<longrightarrow> hd rest = CHR ''=''"
  shows "\<exists>prev'. (d = [] \<longrightarrow> prev' = prev) \<and> prev' \<noteq> Some CHR 0x5C \<and>
    tablespace_loop prev (escape_equals d @ rest) in_new old_dir new_dir =
    tablespace_loop prev' rest in_new (if in_new then old_dir else old_dir @ d)
      (if in_new then new_dir @ d else new_dir)"
  using assms
proof (induction d arbitrary: prev old_dir new_dir)
  case Nil
  then show ?case by (auto simp: escape_equals_def)
next
  case (Cons c d)
  let ?old = "if in_new then old_dir else old_dir @ [c]"
  let ?new = "if in_new then new_dir @ [c] else new_dir"
  have c: "c \<noteq> CHR 0x5C" using Cons.prems(1) by auto
  have step: "tablespace_loop prev (escape_equals (c # d) @ rest) in_new old_dir new_dir =
      tablespace_loop (Some c) (escape_equals d @ rest) in_new ?old ?new"
    using c Cons.prems(2,3) by (auto simp: escape_equals_def)
  have "\<exists>prev'. (d = [] \<longrightarrow> prev' = Some c) \<and> prev' \<noteq> Some CHR 0x5C \<and>
    tablespace_loop (Some c) (escape_equals d @ rest) in_new ?old ?new =
    tablespace_loop prev' rest in_new (if in_new then ?old else ?old @ d)
      (if in_new then ?new @ d else ?new)"
    by (rule Cons.IH) (use Cons.prems c in auto)
  with step show ?case by auto
qed

lemma tablespace_round_trip:
  assumes "old_dir \<noteq> []" and "new_dir \<noteq> []" and "length old_dir < MAXPGPATH" and "length new_dir < MAXPGPATH"
    and "CHR 0x5C \<notin> set old_dir" and "CHR 0x5C \<notin> set new_dir"
  shows "tablespace_loop None (escape_equals old_dir @ [CHR ''=''] @ escape_equals new_dir) False [] [] =
    Inr (old_dir, new_dir)"
proof -
  obtain p where p: "p \<noteq> Some CHR 0x5C" and
    "tablespace_loop None (escape_equals old_dir @ ([CHR ''=''] @ escape_equals new_dir)) False [] [] =
     tablespace_loop p ([CHR ''=''] @ escape_equals new_dir) False old_dir []"
    using tablespace_loop_escaped [of old_dir None False "[]" "[]" "[CHR ''=''] @ escape_equals new_dir"]
      assms by auto
  moreover have "tablespace_loop p ([CHR ''=''] @ escape_equals new_dir) False old_dir [] =
      tablespace_loop (Some CHR ''='') (escape_equals new_dir @ []) True old_dir []"
    using p assms(3) by simp
  moreover obtain q where
    "tablespace_loop (Some CHR ''='') (escape_equals new_dir @ []) True old_dir [] =
     tablespace_loop q [] True old_dir new_dir"
    using tablespace_loop_escaped [of new_dir "Some CHR ''=''" True "[]" old_dir "[]"] assms by auto
  ultimately show ?thesis by simp
qed

section \<open>Splitting command output\<close>

text \<open>\<open>strtok(_, " ")\<close> called until it returns \<open>NULL\<close>: the non-empty parts between spaces.\<close>

fun strtok_all :: "string \<Rightarrow> string \<Rightarrow> string list" where
  "strtok_all [] tok = (if tok = [] then [] else [tok])"
| "strtok_all (c # cs) tok =
     (if c = CHR '' '' then (if tok = [] then [] else [tok]) @ strtok_all cs [] else strtok_all cs (tok @ [c]))"

fun append_items :: "string list \<Rightarrow> string list \<Rightarrow> int + string list" where
  "append_items l [] = Inr l"
| "append_items l (t # ts) =
     (case item_list_append (Some l) (trim t) of
        Inl code \<Rightarrow> Inl code
      | Inr None \<Rightarrow> Inr l
      | Inr (Some l') \<Rightarrow> append_items l' ts)"

definition parse_output_to_argv :: "string \<Rightarrow> int + nat \<times> string list" where
  "parse_output_to_argv s =
     (case append_items [] (strtok_all s []) of
        Inl code \<Rightarrow> Inl code
      | Inr items \<Rightarrow> Inr (length (strtok_all s []) + 1, [] # items))"

lemma append_items_ok:
  "\<forall>t \<in> set ts. length (trim t) < MAXLEN \<Longrightarrow> append_items l ts = Inr (l @ map trim ts)"
  by (induction ts arbitrary: l) (auto simp: item_list_append_def item_list_append_format_def xvsnprintf_def)

lemma strip_length: "length (strip s) \<le> length s"
  by (metis strip_def length_dropWhile_le length_rev order_trans)

lemma strtok_all_tokens:
  "CHR '' '' \<notin> set tok \<Longrightarrow> t \<in> set (strtok_all s tok) \<Longrightarrow>
   t \<noteq> [] \<and> CHR '' '' \<notin> set t \<and> length t \<le> length tok + length s"
proof (induction s arbitrary: tok)
  case Nil
  then show ?case by (auto split: if_splits)
next
  case (Cons c cs)
  show ?case
  proof (cases "c = CHR '' ''")
    case True
    with Cons.prems consider "t = tok" "tok \<noteq> []" | "t \<in> set (strtok_all cs [])"
      by (auto split: if_splits)
    then show ?thesis using Cons.IH [of "[]"] Cons.prems(1) by cases auto
  next
    case False
    with Cons.prems have "t \<in> set (strtok_all cs (tok @ [c]))" "CHR '' '' \<notin> set (tok @ [c])" by auto
    then show ?thesis using Cons.IH [of "tok @ [c]"] by auto
  qed
qed

section \<open>Properties\<close>

text \<open>
  \<open>repmgr_atoi\<close> on the decimal text of an integer of a 64-bit \<open>long\<close>: from \<open>-2^31\<close> up it is
  accepted exactly when it lies between the minimum and \<open>2^31 - 1\<close>, and is then the value read.
  Below \<open>-2^31\<close> only the low 32 bits count: a value whose low 32 bits lie in the permitted range
  is accepted as those bits.
\<close>

theorem repmgr_atoi_range:
  assumes "- (2 ^ 63) \<le> n" and "n < 2 ^ 63"
  shows "(- (2 ^ 31) \<le> n \<longrightarrow>
      (atoi_accepts (int_string n) item minval r \<longleftrightarrow> minval \<le> n \<and> n < 2 ^ 31 \<and> r = n)) \<and>
    (n < - (2 ^ 31) \<longrightarrow>
      (atoi_accepts (int_string n) item minval r \<longleftrightarrow> minval \<le> to_int32 n \<and> r = to_int32 n))"
proof -
  have acc: "atoi_accepts (int_string n) item minval r \<longleftrightarrow>
      n < 2 ^ 31 \<and> minval \<le> to_int32 n \<and> r = to_int32 n"
    using atoi_accepts_iff [OF int_string_nonempty strtol_int_string [OF assms]]
      int_string_nonempty [of n] by (auto simp: to_int32_above)
  show ?thesis
  proof (intro conjI impI)
    assume "- (2 ^ 31) \<le> n"
    then show "atoi_accepts (int_string n) item minval r \<longleftrightarrow> minval \<le> n \<and> n < 2 ^ 31 \<and> r = n"
      using acc to_int32_id [of n] by auto
  next
    assume "n < - (2 ^ 31)"
    then show "atoi_accepts (int_string n) item minval r \<longleftrightarrow> minval \<le> to_int32 n \<and> r = to_int32 n"
      using acc by auto
  qed
qed

lemma repmgr_atoi_range_witness:
  "atoi_accepts (int_string 60) ''reconnect_interval'' 1 60 \<and>
   atoi_accepts (int_string (- 4294967291)) ''reconnect_interval'' 1 5"
  using repmgr_atoi_range [of 60 "''reconnect_interval''" 1 60]
    repmgr_atoi_range [of "- 4294967291" "''reconnect_interval''" 1 5]
  by (simp add: to_int32_def signed_take_bit_int_eq_self_iff signed_take_bit_eq_take_bit_shift)

text \<open>
  Two directory names without backslashes, written with their equal signs escaped and an
  equal sign between them, are stored as the mapping of the one to the other.
\<close>

theorem tablespace_mapping_round_trip:
  assumes "old_dir \<noteq> []" and "new_dir \<noteq> []" and "length old_dir < MAXPGPATH" and "length new_dir < MAXPGPATH"
    and "CHR 0x5C \<notin> set old_dir" and "CHR 0x5C \<notin> set new_dir"
  shows "tablespace_list_append canonicalize mapping (escape_equals old_dir @ [CHR ''=''] @ escape_equals new_dir) =
    Inr (mapping @ [(canonicalize old_dir, canonicalize new_dir)])"
  using assms tablespace_round_trip [OF assms] by (simp add: tablespace_list_append_def)

lemma tablespace_mapping_round_trip_witness:
  "tablespace_list_append (\<lambda>p. p) [] (escape_equals ''/a=b'' @ [CHR ''=''] @ escape_equals ''/c'') =
     Inr [(''/a=b'', ''/c'')]"
  using tablespace_mapping_round_trip [of "''/a=b''" "''/c''" "\<lambda>p. p" "[]"] by simp

text \<open>
  \<open>parse_event_notifications_list\<close> appends the non-empty parts between commas, in order and
  without spaces and tabs, to the list of event notifications.
\<close>

theorem event_notifications_parts:
  assumes "CHR 0x00 \<notin> set arg" and "length arg < MAXLEN"
  shows "parse_event_notifications_list event_notifications arg = event_notifications @ event_types arg"
  using assms event_list_loop_split [of arg "[]" event_notifications]
  by (simp add: parse_event_notifications_list_def event_types_def)

lemma event_notifications_parts_witness:
  "parse_event_notifications_list [] ''a, b,,c'' = [''a'', ''b'', ''c'']"
  using event_notifications_parts [of "''a, b,,c''" "[]"] by (simp add: event_types_def)

end
