(* ===== verification/Config_File.thy ===== *)
theory Config_File
  imports Config_Values
begin

text \<open>
  The configuration file of \<open>configfile.c\<close>: reading its lines (\<open>_parse_line\<close> on the line buffer with
  what earlier lines left in it), the dispatch over the settings (\<open>_parse_config\<close>, and
  \<open>parse_configuration_item\<close> for the flex scanner), the defaults and the checks, and the reload of the
  daemon (\<open>reload_config\<close>).

  The chain of comparisons with the names of the settings is a table of names and kinds of settings,
  and the struct \<open>t_configuration_options\<close> a record of its numbers, its truth values and its texts by
  the names of the fields; a setting has the name of its field.
\<close>

section \<open>Reading a line\<close>

text \<open>The array \<open>buf\<close> of \<open>MAXLINELENGTH\<close> bytes, cleared at first.\<close>

abbreviation (input) MAXLINELENGTH :: nat where "MAXLINELENGTH \<equiv> 4096"

definition empty_buf :: string where
  "empty_buf = replicate MAXLINELENGTH CHR 0x00"

text \<open>\<open>fgets\<close>: at most \<open>MAXLINELENGTH - 1\<close> bytes of the file up to a newline, with a NUL after them.\<close>

fun read_chunk :: "nat \<Rightarrow> string \<Rightarrow> string \<times> string" where
  "read_chunk 0 cs = ([], cs)"
| "read_chunk (Suc n) [] = ([], [])"
| "read_chunk (Suc n) (c # cs) =
     (if c = CHR 0x0A then ([c], cs)
      else let (chunk, rest) = read_chunk n cs in (c # chunk, rest))"

definition fgets_into :: "string \<Rightarrow> string \<Rightarrow> string" where
  "fgets_into chunk buf = chunk @ CHR 0x00 # drop (Suc (length chunk)) buf"

text \<open>A text in a char array ends at its first NUL.\<close>

definition c_string :: "string \<Rightarrow> string" where
  "c_string = takeWhile (\<lambda>c. c \<noteq> CHR 0x00)"

definition is_blank :: "char \<Rightarrow> bool" where
  "is_blank c \<longleftrightarrow> c = CHR '' '' \<or> c = CHR 0x09"

definition line_blank :: "char \<Rightarrow> bool" where
  "line_blank c \<longleftrightarrow> c = CHR '' '' \<or> c = CHR 0x0A \<or> c = CHR 0x0D \<or> c = CHR 0x09"

text \<open>
  \<open>_parse_line\<close> looks at the first \<open>MAXLEN\<close> bytes of the buffer, past the end of the line if there is no
  equal sign in it. The name is written with its NUL to an array of \<open>MAXLEN\<close> bytes: \<open>None\<close> when that
  writes past its end. \<open>i\<close> and \<open>k\<close> are the values of the index after the first and the second loop.
\<close>

definition parse_line :: "string \<Rightarrow> (string \<times> string) option" where
  "parse_line buf =
     (let before = takeWhile (\<lambda>c. c \<noteq> CHR ''='') (take MAXLEN buf);
          i = length before;
          name = filter (\<lambda>c. \<not> line_blank c) before;
          k = i + length (takeWhile is_blank (take (MAXLEN - i) (drop (Suc i) buf)));
          val = filter (\<lambda>c. c \<noteq> CHR 0x27)
            (takeWhile (\<lambda>c. c \<noteq> CHR ''#'' \<and> c \<noteq> CHR 0x0A) (take (MAXLEN - Suc k) (drop (Suc k) buf)))
      in if length name \<ge> MAXLEN then None else Some (c_string name, trim (c_string val)))"

section \<open>The settings\<close>

datatype replication_type = REPLICATION_TYPE_PHYSICAL | REPLICATION_TYPE_BDR
datatype failover_setting = MANUAL | AUTOMATIC
datatype check_setting = PING | QUERY | CONNECTION

record options =
  numbers :: "string \<Rightarrow> int"
  flags :: "string \<Rightarrow> bool"
  texts :: "string \<Rightarrow> string"
  replication :: replication_type
  failover_opt :: failover_setting
  check_type :: check_setting
  tablespace_mapping :: "(string \<times> string) list"
  event_notifications :: "string list"

text \<open>
  What a branch of the dispatch does: a number with its minimum, a number stored in a \<open>bool\<close>, a truth
  value, a text copied with \<open>strncpy\<close> of a size, the same made canonical, a text that must fit its
  array, a delay, a deprecated setting with its warning, and those with values of their own.
\<close>

datatype setting =
  Number int | Truncated int | Flag | Text nat | Canonical nat | Fitting nat | Delay | Deprecated string |
  Replication_Type | Failover_Mode | Check_Type | Tablespaces | Events

definition directory_settings :: "(string \<times> setting) list" where
  "directory_settings = [(''data_directory'', Text MAXPGPATH), (''config_directory'', Text MAXPGPATH)]"

definition canonical_directory_settings :: "(string \<times> setting) list" where
  "canonical_directory_settings =
     [(''data_directory'', Canonical MAXPGPATH), (''config_directory'', Canonical MAXPGPATH)]"

text \<open>The settings both functions know, in the sections of the chain.\<close>

definition general_settings :: "(string \<times> setting) list" where
  "general_settings =
     [(''node_id'', Number 1), (''node_name'', Fitting 64), (''conninfo'', Text MAXLEN),
      (''replication_user'', Fitting 64), (''pg_bindir'', Text MAXPGPATH), (''repmgr_bindir'', Text MAXPGPATH),
      (''replication_type'', Replication_Type),
      (''log_file'', Text MAXLEN), (''log_level'', Text MAXLEN), (''log_facility'', Text MAXLEN),
      (''log_status_interval'', Number 0),
      (''use_replication_slots'', Flag), (''pg_basebackup_options'', Text MAXLEN),
      (''tablespace_mapping'', Tablespaces), (''restore_command'', Text MAXLEN),
      (''recovery_min_apply_delay'', Delay), (''archive_cleanup_command'', Text MAXLEN),
      (''use_primary_conninfo_password'', Flag), (''passfile'', Text MAXPGPATH),
      (''promote_check_timeout'', Number 1), (''promote_check_interval'', Number 1),
      (''primary_follow_timeout'', Number 0), (''standby_follow_timeout'', Number 0),
      (''shutdown_check_timeout'', Number 0), (''standby_reconnect_timeout'', Number 0),
      (''wal_receive_check_timeout'', Number 0), (''node_rejoin_timeout'', Number 0),
      (''archive_ready_warning'', Number 1), (''archive_ready_critical'', Number 1),
      (''replication_lag_warning'', Number 1), (''replication_lag_critical'', Number 1)]"

definition repmgrd_settings :: "(string \<times> setting) list" where
  "repmgrd_settings =
     [(''failover'', Failover_Mode), (''priority'', Number 0), (''location'', Text MAXLEN),
      (''promote_command'', Text MAXLEN), (''follow_command'', Text MAXLEN),
      (''reconnect_attempts'', Number 0), (''reconnect_interval'', Number 0),
      (''monitor_interval_secs'', Number 1), (''monitoring_history'', Flag),
      (''degraded_monitoring_timeout'', Number (-1)), (''async_query_timeout'', Number 0),
      (''primary_notification_timeout'', Number 0), (''repmgrd_standby_startup_timeout'', Number 0),
      (''repmgrd_pid_file'', Text MAXPGPATH), (''standby_disconnect_on_failover'', Flag),
      (''sibling_nodes_disconnect_timeout'', Number 0), (''connection_check_type'', Check_Type),
      (''primary_visibility_consensus'', Flag), (''failover_validation_command'', Text MAXPGPATH),
      (''election_rerun_interval'', Number 0), (''witness_sync_interval'', Number 1)]"

definition service_settings :: "(string \<times> setting) list" where
  "service_settings =
     [(''bdr_local_monitoring_only'', Flag), (''bdr_recovery_timeout'', Truncated 0),
      (''pg_ctl_options'', Text MAXLEN), (''service_start_command'', Text MAXPGPATH),
      (''service_stop_command'', Text MAXPGPATH), (''service_restart_command'', Text MAXPGPATH),
      (''service_reload_command'', Text MAXPGPATH), (''service_promote_command'', Text MAXPGPATH),
      (''repmgrd_service_start_command'', Text MAXPGPATH), (''repmgrd_service_stop_command'', Text MAXPGPATH),
      (''event_notification_command'', Text MAXPGPATH), (''event_notifications'', Events),
      (''barman_host'', Text MAXLEN), (''barman_server'', Text MAXLEN), (''barman_config'', Text MAXLEN),
      (''rsync_options'', Text MAXLEN), (''ssh_options'', Text MAXLEN), (''promote_delay'', Number 1)]"

definition common_settings :: "(string \<times> setting) list" where
  "common_settings = general_settings @ repmgrd_settings @ service_settings"

definition highgo_settings :: "(string \<times> setting) list" where
  "highgo_settings =
     [(''virtual_ip'', Text MAXLEN), (''network_card'', Text MAXLEN),
      (''device_check_timeout'', Number 1), (''device_check_times'', Number 0),
      (''standby_wait_timeout'', Number 1), (''check_brain_split'', Flag)]"

definition quoted :: "string \<Rightarrow> string" where
  "quoted s = [CHR 0x22] @ s @ [CHR 0x22]"

definition deprecated_settings :: "(string \<times> setting) list" where
  "deprecated_settings =
     [(''cluster'', Deprecated (''parameter '' @ quoted ''cluster'' @ '' is deprecated and will be ignored'')),
      (''node'', Deprecated (''parameter '' @ quoted ''node'' @ '' has been renamed to '' @ quoted ''node_id'')),
      (''upstream_node'', Deprecated (''parameter '' @ quoted ''upstream_node'' @ '' has been removed; use ''
         @ quoted ''--upstream-node-id'' @ '' when cloning a standby'')),
      (''loglevel'', Deprecated (''parameter '' @ quoted ''loglevel'' @ '' has been renamed to '' @ quoted ''log_level'')),
      (''logfacility'', Deprecated (''parameter '' @ quoted ''logfacility'' @ '' has been renamed to '' @ quoted ''log_facility'')),
      (''logfile'', Deprecated (''parameter '' @ quoted ''logfile'' @ '' has been renamed to '' @ quoted ''log_file'')),
      (''master_reponse_timeout'', Deprecated (''parameter '' @ quoted ''master_reponse_timeout'' @ '' has been removed; use ''
         @ quoted ''async_query_timeout'' @ '' instead'')),
      (''retry_promote_interval_secs'', Deprecated (''parameter '' @ quoted ''retry_promote_interval_secs''
         @ '' has been removed; use '' @ quoted ''primary_notification_timeout'' @ '' instead''))]"

text \<open>The branches of \<open>_parse_config\<close>, and those of \<open>parse_configuration_item\<close>.\<close>

definition config_settings :: "(string \<times> setting) list" where
  "config_settings = directory_settings @ common_settings @ highgo_settings @ deprecated_settings"

definition item_settings :: "(string \<times> setting) list" where
  "item_settings = canonical_directory_settings @ common_settings @ deprecated_settings"

section \<open>The dispatch\<close>

record parsed =
  opts :: options
  errors :: "string list"
  warnings :: "string list"

definition set_number :: "string \<Rightarrow> int \<Rightarrow> parsed \<Rightarrow> parsed" where
  "set_number name n p = p\<lparr>opts := (opts p)\<lparr>numbers := (numbers (opts p))(name := n)\<rparr>\<rparr>"

definition set_flag :: "string \<Rightarrow> bool \<Rightarrow> parsed \<Rightarrow> parsed" where
  "set_flag name b p = p\<lparr>opts := (opts p)\<lparr>flags := (flags (opts p))(name := b)\<rparr>\<rparr>"

definition set_text :: "string \<Rightarrow> string \<Rightarrow> parsed \<Rightarrow> parsed" where
  "set_text name t p = p\<lparr>opts := (opts p)\<lparr>texts := (texts (opts p))(name := t)\<rparr>\<rparr>"

definition add_error :: "string \<Rightarrow> parsed \<Rightarrow> int + parsed" where
  "add_error message p =
     (case item_list_append (Some (errors p)) message of
        Inl code \<Rightarrow> Inl code
      | Inr list \<Rightarrow> Inr (p\<lparr>errors := the list\<rparr>))"

definition add_warning :: "string \<Rightarrow> parsed \<Rightarrow> int + parsed" where
  "add_warning message p =
     (case item_list_append (Some (warnings p)) message of
        Inl code \<Rightarrow> Inl code
      | Inr list \<Rightarrow> Inr (p\<lparr>warnings := the list\<rparr>))"

text \<open>Storing the answer of a reader that appends to the error list.\<close>

definition store :: "('a \<Rightarrow> parsed \<Rightarrow> parsed) \<Rightarrow> int + 'a \<times> string list option \<Rightarrow> parsed \<Rightarrow> int + parsed" where
  "store put answer p =
     (case answer of
        Inl code \<Rightarrow> Inl code
      | Inr (x, list) \<Rightarrow> Inr (put x (p\<lparr>errors := the list\<rparr>)))"

definition one_of :: "string \<Rightarrow> string" where
  "one_of name = ''value for '' @ quoted name @ '' must be ''"

definition apply_setting ::
  "(string \<Rightarrow> string) \<Rightarrow> setting \<Rightarrow> string \<Rightarrow> string \<Rightarrow> parsed \<Rightarrow> int + parsed" where
  "apply_setting canonicalize setting name val p =
     (case setting of
        Number minval \<Rightarrow> store (set_number name) (repmgr_atoi val name (Some (errors p)) minval) p
      | Truncated minval \<Rightarrow>
          store (\<lambda>n. set_flag name (n \<noteq> 0)) (repmgr_atoi val name (Some (errors p)) minval) p
      | Flag \<Rightarrow> store (set_flag name) (parse_bool (Some val) name (Some (errors p))) p
      | Text n \<Rightarrow> Inr (set_text name (take n val) p)
      | Canonical n \<Rightarrow> Inr (set_text name (canonicalize (take n val)) p)
      | Fitting n \<Rightarrow>
          if length val < n then Inr (set_text name val p)
          else add_error (''value for '' @ quoted name @ '' must contain fewer than '' @ int_string (int n)
            @ '' characters'') p
      | Delay \<Rightarrow>
          (case store (set_text name)
             (parse_time_unit_parameter name val (texts (opts p) name) (Some (errors p))) p of
             Inl code \<Rightarrow> Inl code
           | Inr p \<Rightarrow> Inr (set_flag ''recovery_min_apply_delay_provided'' True p))
      | Deprecated warning \<Rightarrow> add_warning warning p
      | Replication_Type \<Rightarrow>
          if val = ''physical'' then Inr (p\<lparr>opts := (opts p)\<lparr>replication := REPLICATION_TYPE_PHYSICAL\<rparr>\<rparr>)
          else if val = ''bdr'' then Inr (p\<lparr>opts := (opts p)\<lparr>replication := REPLICATION_TYPE_BDR\<rparr>\<rparr>)
          else add_error (one_of name @ quoted ''physical'' @ '' or '' @ quoted ''bdr'') p
      | Failover_Mode \<Rightarrow>
          if val = ''manual'' then Inr (p\<lparr>opts := (opts p)\<lparr>failover_opt := MANUAL\<rparr>\<rparr>)
          else if val = ''automatic'' then Inr (p\<lparr>opts := (opts p)\<lparr>failover_opt := AUTOMATIC\<rparr>\<rparr>)
          else add_error (one_of name @ quoted ''automatic'' @ '' or '' @ quoted ''manual'' @ [CHR 0x0A]) p
      | Check_Type \<Rightarrow>
          if strcaseeq val ''ping'' then Inr (p\<lparr>opts := (opts p)\<lparr>check_type := PING\<rparr>\<rparr>)
          else if strcaseeq val ''connection'' then Inr (p\<lparr>opts := (opts p)\<lparr>check_type := CONNECTION\<rparr>\<rparr>)
          else if strcaseeq val ''query'' then Inr (p\<lparr>opts := (opts p)\<lparr>check_type := QUERY\<rparr>\<rparr>)
          else add_error (one_of name @ quoted ''ping'' @ '', '' @ quoted ''connection'' @ '' or ''
            @ quoted ''query'' @ [CHR 0x0A]) p
      | Tablespaces \<Rightarrow>
          (case tablespace_list_append canonicalize (tablespace_mapping (opts p)) val of
             Inl code \<Rightarrow> Inl code
           | Inr mapping \<Rightarrow> Inr (p\<lparr>opts := (opts p)\<lparr>tablespace_mapping := mapping\<rparr>\<rparr>))
      | Events \<Rightarrow>
          (let p = set_text ''event_notifications_orig'' (take MAXLEN val) p
           in Inr (p\<lparr>opts := (opts p)\<lparr>event_notifications :=
                parse_event_notifications_list (event_notifications (opts p)) val\<rparr>\<rparr>)))"

fun is_deprecated :: "setting \<Rightarrow> bool" where
  "is_deprecated (Deprecated w) = True"
| "is_deprecated _ = False"

text \<open>
  A setting in the file: an unknown one is ignored, and a known one, unless it is deprecated, must
  have a value.
\<close>

definition dispatch ::
  "(string \<Rightarrow> string) \<Rightarrow> (string \<times> setting) list \<Rightarrow> string \<Rightarrow> string \<Rightarrow> parsed \<Rightarrow> int + parsed" where
  "dispatch canonicalize settings name val p =
     (case map_of settings name of
        None \<Rightarrow> Inr p
      | Some setting \<Rightarrow>
          (case apply_setting canonicalize setting name val p of
             Inl code \<Rightarrow> Inl code
           | Inr p \<Rightarrow>
               if \<not> is_deprecated setting \<and> val = [] then add_error (quoted name @ '': no value provided'') p
               else Inr p))"

definition parse_configuration_item ::
  "(string \<Rightarrow> string) \<Rightarrow> string \<Rightarrow> string \<Rightarrow> parsed \<Rightarrow> int + parsed" where
  "parse_configuration_item canonicalize name val p = dispatch canonicalize item_settings name val p"

section \<open>Defaults\<close>

text \<open>\<open>T_CONFIGURATION_OPTIONS_INITIALIZER\<close>, as far as \<open>_parse_config\<close> does not overwrite it.\<close>

definition initial_options :: options where
  "initial_options =
     \<lparr>numbers = (\<lambda>_. 0)(''archive_ready_warning'' := 16, ''archive_ready_critical'' := 128,
        ''replication_lag_warning'' := 300, ''replication_lag_critical'' := 600),
      flags = (\<lambda>_. False), texts = (\<lambda>_. []), replication = REPLICATION_TYPE_PHYSICAL, failover_opt = MANUAL,
      check_type = PING, tablespace_mapping = [], event_notifications = []\<rparr>"

definition default_numbers :: "(string \<times> int) list" where
  "default_numbers =
     [(''node_id'', -1), (''log_status_interval'', 300), (''promote_check_timeout'', 60),
      (''promote_check_interval'', 1), (''primary_follow_timeout'', 60), (''standby_follow_timeout'', 30),
      (''shutdown_check_timeout'', 60), (''standby_reconnect_timeout'', 60), (''wal_receive_check_timeout'', 30),
      (''node_rejoin_timeout'', 60), (''priority'', 100), (''monitor_interval_secs'', 2), (''reconnect_attempts'', 6),
      (''reconnect_interval'', 10), (''degraded_monitoring_timeout'', -1), (''async_query_timeout'', 60),
      (''primary_notification_timeout'', 60), (''repmgrd_standby_startup_timeout'', -1),
      (''sibling_nodes_disconnect_timeout'', 30), (''election_rerun_interval'', 15), (''witness_sync_interval'', 15),
      (''promote_delay'', 0), (''device_check_timeout'', 60), (''device_check_times'', 3), (''standby_wait_timeout'', 10)]"

definition default_texts :: "(string \<times> string) list" where
  "default_texts = [(''location'', ''default''), (''ssh_options'', ''-q -o ConnectTimeout=10'')]"

text \<open>What \<open>_parse_config\<close> sets before it reads the file; the fields named here keep their values.\<close>

definition kept_numbers :: "string list" where
  "kept_numbers = [''archive_ready_warning'', ''archive_ready_critical'', ''replication_lag_warning'', ''replication_lag_critical'']"

definition kept_texts :: "string list" where
  "kept_texts = [''log_level'', ''event_notifications_orig'']"

definition set_defaults :: "options \<Rightarrow> options" where
  "set_defaults cfg =
     cfg\<lparr>numbers := (\<lambda>n. if n \<in> set kept_numbers then numbers cfg n
         else (case map_of default_numbers n of None \<Rightarrow> 0 | Some v \<Rightarrow> v)),
       flags := (\<lambda>n. n = ''bdr_recovery_timeout''),
       texts := (\<lambda>n. if n \<in> set kept_texts then texts cfg n
         else (case map_of default_texts n of None \<Rightarrow> [] | Some t \<Rightarrow> t)),
       replication := REPLICATION_TYPE_PHYSICAL, failover_opt := MANUAL, check_type := PING,
       tablespace_mapping := [], event_notifications := []\<rparr>"

section \<open>Reading the file\<close>

text \<open>
  The loop over the lines, with the line buffer and whether a node id was found; \<open>None\<close> when a line
  makes \<open>_parse_line\<close> write past the end of an array. The fuel is the length of the file.
\<close>

fun read_settings :: "(string \<Rightarrow> string) \<Rightarrow> nat \<Rightarrow> string \<Rightarrow> string \<Rightarrow> bool \<Rightarrow> parsed \<Rightarrow> (int + bool \<times> parsed) option" where
  "read_settings canonicalize 0 file buf found p = Some (Inr (found, p))"
| "read_settings canonicalize (Suc n) file buf found p =
     (if file = [] then Some (Inr (found, p))
      else
        let (chunk, rest) = read_chunk (MAXLINELENGTH - 1) file;
            buf = fgets_into chunk buf
        in case parse_line buf of
             None \<Rightarrow> None
           | Some (name, val) \<Rightarrow>
               if name = [] \<or> hd name = CHR ''#'' then read_settings canonicalize n rest buf found p
               else
                 (case dispatch canonicalize config_settings name val p of
                    Inl code \<Rightarrow> Some (Inl code)
                  | Inr p \<Rightarrow> read_settings canonicalize n rest buf (found \<or> name = ''node_id'') p))"

definition require_text :: "string \<Rightarrow> parsed \<Rightarrow> int + parsed" where
  "require_text name p =
     (if texts (opts p) name = [] then add_error (quoted name @ '': required parameter was not found'') p else Inr p)"

definition or_stop :: "int + parsed \<Rightarrow> (parsed \<Rightarrow> int + parsed) \<Rightarrow> int + parsed" where
  "or_stop r f = (case r of Inl code \<Rightarrow> Inl code | Inr p \<Rightarrow> f p)"

text \<open>\<open>PQconninfoParse\<close> answers with an error message or accepts the string.\<close>

definition check_conninfo :: "(string \<Rightarrow> string option) \<Rightarrow> parsed \<Rightarrow> int + parsed" where
  "check_conninfo conninfo_error p =
     (if texts (opts p) ''conninfo'' = [] then require_text ''conninfo'' p
      else case conninfo_error (texts (opts p) ''conninfo'') of
        None \<Rightarrow> Inr p
      | Some msg \<Rightarrow>
          add_error (take (MAXLEN - 1) (quoted ''conninfo'' @ '': '' @ msg @ [CHR 0x09] @ ''(provided: ''
            @ quoted (texts (opts p) ''conninfo'') @ '')'')) p)"

definition default_startup_timeout :: "parsed \<Rightarrow> parsed" where
  "default_startup_timeout p =
     (if numbers (opts p) ''repmgrd_standby_startup_timeout'' = -1
      then set_number ''repmgrd_standby_startup_timeout'' (numbers (opts p) ''standby_reconnect_timeout'') p
      else p)"

definition check_order :: "bool \<Rightarrow> string \<Rightarrow> parsed \<Rightarrow> int + parsed" where
  "check_order bad message p = (if bad then add_error message p else Inr p)"

definition check_parsed :: "(string \<Rightarrow> string option) \<Rightarrow> bool \<Rightarrow> parsed \<Rightarrow> int + parsed" where
  "check_parsed conninfo_error found p =
     or_stop (if found then Inr p else add_error (quoted ''node_id'' @ '': required parameter was not found'') p) (\<lambda>p.
     or_stop (require_text ''node_name'' p) (\<lambda>p.
     or_stop (require_text ''data_directory'' p) (\<lambda>p.
     or_stop (check_conninfo conninfo_error p) (\<lambda>p.
       let p = default_startup_timeout p; cfg = opts p in
     or_stop (if (texts cfg ''barman_host'' = []) \<noteq> (texts cfg ''barman_server'' = []) then
                or_stop (add_error (''use '' @ quoted ''barman_host'' @ '' for the hostname of the Barman server'') p)
                  (add_error (''use '' @ quoted ''barman_server''
                     @ '' for the name of the [server] section in the Barman configuration file''))
              else Inr p) (\<lambda>p.
     or_stop (check_order (numbers cfg ''archive_ready_warning'' \<ge> numbers cfg ''archive_ready_critical'')
       (quoted ''archive_ready_critical'' @ '' must be greater than  '' @ quoted ''archive_ready_warning'') p) (\<lambda>p.
     or_stop (check_order (numbers cfg ''replication_lag_warning'' \<ge> numbers cfg ''replication_lag_critical'')
       (quoted ''replication_lag_critical'' @ '' must be greater than  '' @ quoted ''replication_lag_warning'') p)
     (check_order (numbers cfg ''standby_reconnect_timeout'' < numbers cfg ''node_rejoin_timeout'')
       (quoted ''standby_reconnect_timeout'' @ '' must be equal to or greater than '' @ quoted ''node_rejoin_timeout''))))))))"

text \<open>
  \<open>_parse_config\<close> with the contents of the file, which is \<open>None\<close> when no file was found; the file that
  was found can be opened.
\<close>

definition parse_config_file ::
  "(string \<Rightarrow> string) \<Rightarrow> (string \<Rightarrow> string option) \<Rightarrow> string option \<Rightarrow> parsed \<Rightarrow> (int + parsed) option" where
  "parse_config_file canonicalize conninfo_error file p =
     (let p = p\<lparr>opts := set_defaults (opts p)\<rparr> in
      case file of
        None \<Rightarrow> Some (Inr p)
      | Some file \<Rightarrow>
          (case read_settings canonicalize (length file) file empty_buf False p of
             None \<Rightarrow> None
           | Some (Inl code) \<Rightarrow> Some (Inl code)
           | Some (Inr (found, p)) \<Rightarrow> Some (check_parsed conninfo_error found p)))"

text \<open>
  \<open>parse_config\<close>: any error ends the program. The lists are static but used once.
\<close>

definition parse_config ::
  "(string \<Rightarrow> string) \<Rightarrow> (string \<Rightarrow> string option) \<Rightarrow> string option \<Rightarrow> options \<Rightarrow> (int + options) option" where
  "parse_config canonicalize conninfo_error file cfg =
     (case parse_config_file canonicalize conninfo_error file \<lparr>opts = cfg, errors = [], warnings = []\<rparr> of
        None \<Rightarrow> None
      | Some (Inl code) \<Rightarrow> Some (Inl code)
      | Some (Inr p) \<Rightarrow> Some (if errors p \<noteq> [] then Inl ERR_BAD_CONFIG else Inr (opts p)))"

section \<open>Finding the file\<close>

text \<open>
  The path \<open>load_config\<close> settles on and whether there is a file: the working directory is the variable
  \<open>PWD\<close> or what \<open>getcwd\<close> answers, \<open>home\<close> the directory above the program's include directory, if the
  program finds itself.
\<close>

definition absolute_path :: "(string \<Rightarrow> string) \<Rightarrow> string option \<Rightarrow> string option \<Rightarrow> string \<Rightarrow> int + string" where
  "absolute_path canonicalize pwd cwd path =
     (let path = canonicalize (take MAXPGPATH path) in
      if path \<noteq> [] \<and> hd path = CHR ''/'' then Inr path
      else
        (case pwd of
           Some dir \<Rightarrow> Inr (canonicalize (take MAXPGPATH (dir @ ''/'' @ path)))
         | None \<Rightarrow>
             (case cwd of
                None \<Rightarrow> Inl ERR_BAD_CONFIG
              | Some dir \<Rightarrow> Inr (canonicalize (take MAXPGPATH (dir @ ''/'' @ path))))))"

definition find_config_file ::
  "(string \<Rightarrow> string) \<Rightarrow> (string \<Rightarrow> bool) \<Rightarrow> string option \<Rightarrow> string option \<Rightarrow> string option \<Rightarrow> string option
     \<Rightarrow> int + string \<times> bool" where
  "find_config_file canonicalize exists_file pwd cwd home config_file =
     (if config_file \<noteq> None \<and> config_file \<noteq> Some [] then
        (case absolute_path canonicalize pwd cwd (the config_file) of
           Inl code \<Rightarrow> Inl code
         | Inr path \<Rightarrow> if exists_file path then Inr (path, True) else Inl ERR_BAD_CONFIG)
      else
        (case home of
           None \<Rightarrow> Inl 1
         | Some dir \<Rightarrow>
             (case maxpath_snprintf (dir @ ''/conf/hg_repmgr.conf'') of
                Inl code \<Rightarrow> Inl code
              | Inr path \<Rightarrow> Inr (path, exists_file path))))"

text \<open>\<open>load_config\<close>; a file that was found can be opened.\<close>

definition load_config ::
  "(string \<Rightarrow> string) \<Rightarrow> (string \<Rightarrow> string option) \<Rightarrow> (string \<Rightarrow> string option) \<Rightarrow> string option \<Rightarrow> string option
     \<Rightarrow> string option \<Rightarrow> string option \<Rightarrow> options \<Rightarrow> (int + options) option" where
  "load_config canonicalize conninfo_error contents pwd cwd home config_file cfg =
     (case find_config_file canonicalize (\<lambda>path. contents path \<noteq> None) pwd cwd home config_file of
        Inl code \<Rightarrow> Some (Inl code)
      | Inr (path, found) \<Rightarrow>
          parse_config canonicalize conninfo_error (if found then contents path else None) cfg)"

section \<open>The recovery configuration\<close>

datatype recovery_action = RTA_PAUSE | RTA_PROMOTE | RTA_SHUTDOWN

record recovery_conf =
  conf_texts :: "string \<Rightarrow> string"
  recovery_target_inclusive :: bool
  recovery_target_timeline :: int
  recovery_target_action :: recovery_action
  standby_mode :: bool

definition recovery_conf_init :: recovery_conf where
  "recovery_conf_init =
     \<lparr>conf_texts = (\<lambda>_. []), recovery_target_inclusive = True, recovery_target_timeline = 0,
      recovery_target_action = RTA_PAUSE, standby_mode = True\<rparr>"

text \<open>The settings that are copied, with the field each is copied to.\<close>

definition recovery_texts :: "(string \<times> string) list" where
  "recovery_texts =
     [(''restore_command'', ''restore_command''), (''archive_cleanup_command'', ''archive_cleanup_command''),
      (''recovery_end_command'', ''recovery_end_command''), (''recovery_target_name'', ''recovery_target_name''),
      (''recovery_target_time'', ''recovery_target_time''), (''recovery_target_xid'', ''recovery_target_xid''),
      (''primary_conninfo'', ''primary_conninfo''), (''primary_slot_name'', ''trigger_file''),
      (''trigger_file'', ''trigger_file'')]"

definition recovery_bool :: "string \<Rightarrow> bool" where
  "recovery_bool val = (case parse_bool (Some val) [] None of Inl code \<Rightarrow> False | Inr (b, list) \<Rightarrow> b)"

definition recovery_item :: "string \<Rightarrow> string \<Rightarrow> recovery_conf \<Rightarrow> recovery_conf" where
  "recovery_item name val conf =
     (case map_of recovery_texts name of
        Some field \<Rightarrow> conf\<lparr>conf_texts := (conf_texts conf)(field := take MAXLEN val)\<rparr>
      | None \<Rightarrow>
          if name = ''recovery_target_inclusive'' then conf\<lparr>recovery_target_inclusive := recovery_bool val\<rparr>
          else if name = ''recovery_target_timeline'' then
            conf\<lparr>recovery_target_timeline := (if val = ''latest'' then 0 else to_int32 (fst (strtol val)))\<rparr>
          else if name = ''recovery_target_action'' then
            (if val = ''pause'' then conf\<lparr>recovery_target_action := RTA_PAUSE\<rparr>
             else if val = ''promote'' then conf\<lparr>recovery_target_action := RTA_PROMOTE\<rparr>
             else if val = ''shutdown'' then conf\<lparr>recovery_target_action := RTA_SHUTDOWN\<rparr>
             else conf)
          else if name = ''standby_mode'' then conf\<lparr>standby_mode := recovery_bool val\<rparr>
          else if name = ''recovery_min_apply_delay'' then
            (case parse_time_unit_parameter name val (conf_texts conf name) None of
               Inl code \<Rightarrow> conf
             | Inr (t, list) \<Rightarrow> conf\<lparr>conf_texts := (conf_texts conf)(name := t)\<rparr>)
          else conf)"

fun read_recovery :: "nat \<Rightarrow> string \<Rightarrow> string \<Rightarrow> recovery_conf \<Rightarrow> recovery_conf option" where
  "read_recovery 0 file buf conf = Some conf"
| "read_recovery (Suc n) file buf conf =
     (if file = [] then Some conf
      else
        let (chunk, rest) = read_chunk (MAXLINELENGTH - 1) file;
            buf = fgets_into chunk buf
        in case parse_line buf of
             None \<Rightarrow> None
           | Some (name, val) \<Rightarrow>
               read_recovery n rest buf
                 (if name = [] \<or> hd name = CHR ''#'' then conf else recovery_item name val conf))"

text \<open>\<open>parse_recovery_conf\<close> with the contents of the file, if it can be opened.\<close>

definition parse_recovery_conf :: "string option \<Rightarrow> recovery_conf \<Rightarrow> (bool \<times> recovery_conf) option" where
  "parse_recovery_conf file conf =
     (case file of
        None \<Rightarrow> Some (False, conf)
      | Some file \<Rightarrow>
          (case read_recovery (length file) file empty_buf conf of
             None \<Rightarrow> None
           | Some conf \<Rightarrow> Some (True, conf)))"

section \<open>Reloading\<close>

text \<open>Copying a changed value: the options and whether something has changed.\<close>

definition reload_number :: "options \<Rightarrow> string \<Rightarrow> options \<times> bool \<Rightarrow> options \<times> bool" where
  "reload_number new name = (\<lambda>(orig, changed).
     if numbers orig name \<noteq> numbers new name
     then (orig\<lparr>numbers := (numbers orig)(name := numbers new name)\<rparr>, True) else (orig, changed))"

definition reload_flag :: "options \<Rightarrow> string \<Rightarrow> options \<times> bool \<Rightarrow> options \<times> bool" where
  "reload_flag new name = (\<lambda>(orig, changed).
     if flags orig name \<noteq> flags new name
     then (orig\<lparr>flags := (flags orig)(name := flags new name)\<rparr>, True) else (orig, changed))"

definition reload_text :: "options \<Rightarrow> string \<Rightarrow> options \<times> bool \<Rightarrow> options \<times> bool" where
  "reload_text new name = (\<lambda>(orig, changed).
     if \<not> strncmp_eq MAXLEN (texts orig name) (texts new name)
     then (orig\<lparr>texts := (texts orig)(name := take (MAXLEN - 1) (texts new name))\<rparr>, True) else (orig, changed))"

definition reload_conninfo :: "(string \<Rightarrow> bool) \<Rightarrow> options \<Rightarrow> options \<times> bool \<Rightarrow> options \<times> bool" where
  "reload_conninfo connects new = (\<lambda>(orig, changed).
     if \<not> strncmp_eq MAXLEN (texts orig ''conninfo'') (texts new ''conninfo'') then
       ((if connects (texts new ''conninfo'')
         then orig\<lparr>texts := (texts orig)(''conninfo'' := take (MAXLEN - 1) (texts new ''conninfo''))\<rparr> else orig), True)
     else (orig, changed))"

definition reload_events :: "options \<Rightarrow> options \<times> bool \<Rightarrow> options \<times> bool" where
  "reload_events new = (\<lambda>(orig, changed).
     if \<not> strncmp_eq MAXLEN (texts orig ''event_notifications_orig'') (texts new ''event_notifications_orig'') then
       (orig\<lparr>texts := (texts orig)(''event_notifications_orig'' := take (MAXLEN - 1) (texts new ''event_notifications_orig'')),
             event_notifications := event_notifications new\<rparr>, True)
     else (orig, changed))"

definition reload_failover :: "options \<Rightarrow> options \<times> bool \<Rightarrow> options \<times> bool" where
  "reload_failover new = (\<lambda>(orig, changed).
     if failover_opt orig \<noteq> failover_opt new then (orig\<lparr>failover_opt := failover_opt new\<rparr>, True) else (orig, changed))"

definition reload_check_type :: "options \<Rightarrow> options \<times> bool \<Rightarrow> options \<times> bool" where
  "reload_check_type new = (\<lambda>(orig, changed).
     if check_type orig \<noteq> check_type new then (orig\<lparr>check_type := check_type new\<rparr>, True) else (orig, changed))"

text \<open>The copies in the order of the code: whether anything but the logging, and whether the logging changed.\<close>

definition reload_steps :: "(string \<Rightarrow> bool) \<Rightarrow> options \<Rightarrow> (options \<times> bool \<Rightarrow> options \<times> bool) list" where
  "reload_steps connects new =
     [reload_number new ''async_query_timeout'', reload_flag new ''bdr_local_monitoring_only'',
      reload_flag new ''bdr_recovery_timeout'', reload_conninfo connects new,
      reload_number new ''degraded_monitoring_timeout'', reload_text new ''event_notification_command'',
      reload_events new, reload_failover new, reload_text new ''follow_command'',
      reload_number new ''monitor_interval_secs'', reload_flag new ''monitoring_history'',
      reload_number new ''primary_notification_timeout'', reload_text new ''promote_command'',
      reload_number new ''promote_delay'', reload_number new ''reconnect_attempts'',
      reload_number new ''reconnect_interval'', reload_number new ''repmgrd_standby_startup_timeout'',
      reload_flag new ''standby_disconnect_on_failover'', reload_number new ''sibling_nodes_disconnect_timeout'',
      reload_check_type new, reload_flag new ''primary_visibility_consensus'',
      reload_text new ''failover_validation_command'', reload_flag new ''check_brain_split'']"

definition reload_options :: "(string \<Rightarrow> bool) \<Rightarrow> options \<Rightarrow> options \<Rightarrow> options \<times> bool \<times> bool" where
  "reload_options connects new orig =
     (let (orig, changed) = fold id (reload_steps connects new) (orig, False);
          (orig, log_changed) = fold id [reload_text new ''log_facility'', reload_text new ''log_file'', reload_text new ''log_level'']
            (orig, False);
          (orig, changed) = reload_number new ''log_status_interval'' (orig, changed)
      in (orig, changed, log_changed))"

text \<open>
  \<open>reload_config\<close>: the lists of errors and warnings are static, so \<open>p\<close> holds what earlier calls have
  put there; the answer is whether the configuration has changed, with the lists for the next call.
\<close>

definition reload_config ::
  "(string \<Rightarrow> string) \<Rightarrow> (string \<Rightarrow> string option) \<Rightarrow> (string \<Rightarrow> bool) \<Rightarrow> string option \<Rightarrow> bool
     \<Rightarrow> string list \<times> string list \<Rightarrow> options \<Rightarrow> (int + bool \<times> options \<times> string list \<times> string list) option" where
  "reload_config canonicalize conninfo_error connects file needs_commands found orig =
     (case parse_config_file canonicalize conninfo_error file \<lparr>opts = initial_options, errors = fst found, warnings = snd found\<rparr> of
        None \<Rightarrow> None
      | Some (Inl code) \<Rightarrow> Some (Inl code)
      | Some (Inr p) \<Rightarrow>
          (case (if needs_commands then or_stop (require_text ''promote_command'' p) (require_text ''follow_command'')
                 else Inr p) of
             Inl code \<Rightarrow> Some (Inl code)
           | Inr p \<Rightarrow>
               (let found = (errors p, warnings p); new = opts p in
                if errors p \<noteq> [] then Some (Inr (False, orig, found))
                else if numbers new ''node_id'' \<noteq> numbers orig ''node_id'' then Some (Inr (False, orig, found))
                else if \<not> strncmp_eq 64 (texts new ''node_name'') (texts orig ''node_name'') then Some (Inr (False, orig, found))
                else (case reload_options connects new orig of
                        (orig, changed, log_changed) \<Rightarrow> Some (Inr (changed, orig, found))))))"

end
