(* ===== verification/Config_Properties.thy ===== *)
theory Config_Properties
  imports Config_File
begin

text \<open>
  Properties of the configuration file: what a line is read as, the two dispatch functions compared,
  what an accepted configuration satisfies, and what a reload changes.
\<close>

section \<open>Lines\<close>

text \<open>A byte that stands for itself in a name, and a value that is read as it is written.\<close>

definition plain_name :: "string \<Rightarrow> bool" where
  "plain_name name \<longleftrightarrow> name \<noteq> [] \<and>
     list_all (\<lambda>c. \<not> line_blank c \<and> c \<noteq> CHR ''='' \<and> c \<noteq> CHR 0x00) name"

definition plain_value :: "string \<Rightarrow> bool" where
  "plain_value v \<longleftrightarrow> list_all (\<lambda>c. c \<noteq> CHR 0x27 \<and> c \<noteq> CHR ''#'' \<and> c \<noteq> CHR 0x0A \<and> c \<noteq> CHR 0x00) v \<and> trim v = v"

definition setting_line :: "string \<Rightarrow> string \<Rightarrow> string" where
  "setting_line name v = name @ ''='' @ [CHR 0x27] @ v @ [CHR 0x27, CHR 0x0A]"

lemma takeWhile_stops: "list_all P xs \<Longrightarrow> \<not> P y \<Longrightarrow> takeWhile P (xs @ y # ys) = xs"
  by (induction xs) auto

lemma filter_keeps: "list_all P xs \<Longrightarrow> filter P xs = xs"
  by (induction xs) auto

lemma take_past: "length xs < n \<Longrightarrow> take n (xs @ y # ys) = xs @ y # take (n - Suc (length xs)) ys"
  by (auto dest!: less_imp_Suc_add)

text \<open>What a text with its first equal sign in place is read as, whatever follows its line.\<close>

lemma parse_setting:
  assumes before: "list_all (\<lambda>c. c \<noteq> CHR ''='') before" and v: "plain_value v"
    and short: "length before + length v + 3 < MAXLEN"
  shows "parse_line (before @ CHR ''='' # (CHR 0x27 # v @ [CHR 0x27]) @ CHR 0x0A # rest) =
    Some (c_string (filter (\<lambda>c. \<not> line_blank c) before), v)"
proof -
  let ?val = "CHR 0x27 # v @ [CHR 0x27]"
  let ?buf = "before @ CHR ''='' # ?val @ CHR 0x0A # rest"
  have "takeWhile (\<lambda>c. c \<noteq> CHR ''='') (take MAXLEN ?buf) = before"
    using short by (subst take_past) (simp_all add: takeWhile_stops before)
  moreover have "takeWhile is_blank (take n (?val @ r)) = []" for n r
    by (cases n) (simp_all add: is_blank_def)
  moreover have "takeWhile (\<lambda>c. c \<noteq> CHR ''#'' \<and> c \<noteq> CHR 0x0A)
      (take (MAXLEN - Suc (length before)) (?val @ CHR 0x0A # rest)) = ?val"
    using short v by (subst take_past) (simp, rule takeWhile_stops, auto simp: plain_value_def list_all_iff)
  moreover have "filter (\<lambda>c. c \<noteq> CHR 0x27) ?val = v" "c_string v = v" "trim v = v"
    using v by (auto simp: plain_value_def list_all_iff c_string_def filter_id_conv takeWhile_eq_all_conv)
  moreover have "length (filter (\<lambda>c. \<not> line_blank c) before) < MAXLEN"
    using short length_filter_le [of "\<lambda>c. \<not> line_blank c" before] by linarith
  ultimately show ?thesis
    unfolding parse_line_def by (simp add: Let_def)
qed

lemma setting_line_read:
  assumes "plain_name name" and "plain_value v" and "length name + length v + 3 < MAXLEN"
  shows "parse_line (fgets_into (setting_line name v) buf) = Some (name, v)"
proof -
  have "list_all (\<lambda>c. c \<noteq> CHR ''='') name" "filter (\<lambda>c. \<not> line_blank c) name = name" "c_string name = name"
    using assms(1) by (auto simp: plain_name_def list_all_iff c_string_def filter_id_conv takeWhile_eq_all_conv)
  with parse_setting [of name v] assms show ?thesis
    by (simp add: setting_line_def fgets_into_def)
qed

text \<open>
  A setting written as its name, an equal sign and its quoted value is read back as this name and
  this value, whatever earlier lines have left in the buffer.
\<close>

theorem setting_line_round_trip:
  assumes "plain_name name" and "plain_value v" and "length name + length v + 3 < MAXLEN"
  shows "parse_line (fgets_into (setting_line name v) buf) = Some (name, v)"
  using assms by (rule setting_line_read)

lemma setting_line_round_trip_witness:
  "parse_line (fgets_into (setting_line ''priority'' ''100'') empty_buf) = Some (''priority'', ''100'')"
  by (rule setting_line_round_trip; simp add: plain_name_def plain_value_def line_blank_def trim_eq_strip strip_def isspace_def)

text \<open>
  C26: a name on a line of its own, without an equal sign, takes the value of the line before it when
  it is shorter than the name there by two characters or more: \<open>_parse_line\<close> looks for the equal sign past
  the end of the line, in what the line before has left in the buffer.
\<close>

theorem bare_name_takes_previous_value:
  assumes "plain_name name" and "plain_name previous" and "plain_value v"
    and "length name + 2 \<le> length previous" and "length previous + length v + 3 < MAXLEN"
  shows "parse_line (fgets_into (name @ [CHR 0x0A]) (fgets_into (setting_line previous v) buf)) = Some (name, v)"
proof -
  let ?before = "name @ CHR 0x0A # CHR 0x00 # drop (length name + 2) previous"
  have eq: "list_all (\<lambda>c. c \<noteq> CHR ''='') ?before"
    using assms(1,2) by (auto simp: plain_name_def list_all_iff dest: in_set_dropD)
  have "fgets_into (name @ [CHR 0x0A]) (fgets_into (setting_line previous v) buf) =
      ?before @ CHR ''='' # (CHR 0x27 # v @ [CHR 0x27]) @ CHR 0x0A # CHR 0x00 # drop (Suc (length (setting_line previous v))) buf"
    using assms(4) by (simp add: fgets_into_def setting_line_def)
  moreover have "length ?before + length v + 3 < MAXLEN" using assms(4,5) by simp
  moreover have "c_string (filter (\<lambda>c. \<not> line_blank c) ?before) = name"
  proof -
    have "filter (\<lambda>c. \<not> line_blank c) name = name" "list_all (\<lambda>c. c \<noteq> CHR 0x00) name"
      using assms(1) by (auto simp: plain_name_def list_all_iff filter_id_conv)
    then show ?thesis by (simp add: c_string_def line_blank_def takeWhile_stops)
  qed
  ultimately show ?thesis
    using parse_setting [OF eq assms(3), of "CHR 0x00 # drop (Suc (length (setting_line previous v))) buf"] by simp
qed

lemma bare_name_takes_previous_value_witness:
  "parse_line (fgets_into (''conninfo'' @ [CHR 0x0A])
     (fgets_into (setting_line ''data_directory'' ''/var/lib/pgsql'') empty_buf)) = Some (''conninfo'', ''/var/lib/pgsql'')"
  by (rule bare_name_takes_previous_value; simp add: plain_name_def plain_value_def line_blank_def trim_eq_strip strip_def isspace_def)

section \<open>The two dispatch functions\<close>

lemma names_apart:
  "list_all (\<lambda>(n, s). map_of item_settings n = None) highgo_settings"
  "list_all (\<lambda>(n, s). map_of item_settings n = Some (Canonical MAXPGPATH) \<and>
     map_of config_settings n = Some (Text MAXPGPATH) \<and> map_of highgo_settings n = None) directory_settings"
  by code_simp+


section \<open>Errors add up\<close>

text \<open>
  A step of the reader keeps the errors there are, and leaves a number alone unless it stores one that
  is in range or reports an error.
\<close>

definition sound_step :: "parsed \<Rightarrow> parsed \<Rightarrow> bool" where
  "sound_step p q \<longleftrightarrow> (\<exists>extra. errors q = errors p @ extra) \<and>
     (errors q = [] \<longrightarrow> (\<forall>n. numbers (opts q) n = numbers (opts p) n \<or>
        (\<exists>m. map_of config_settings n = Some (Number m) \<and> m \<le> numbers (opts q) n \<and> numbers (opts q) n < 2 ^ 31)))"

lemma sound_step_refl [simp]: "sound_step p p"
  by (simp add: sound_step_def)

lemma sound_step_trans: "sound_step p q \<Longrightarrow> sound_step q r \<Longrightarrow> sound_step p r"
  unfolding sound_step_def by (metis Nil_is_append_conv append_assoc)

lemma sound_same:
  "errors q = errors p @ extra \<Longrightarrow> numbers (opts q) = numbers (opts p) \<Longrightarrow> sound_step p q"
  by (auto simp: sound_step_def)

lemma item_list_more: "item_list_append (Some l) message = Inr x \<Longrightarrow> x = Some (l @ [message])"
  by (auto simp: item_list_append_def item_list_append_format_def xvsnprintf_fits split: sum.splits)

lemma add_error_more: "add_error message p = Inr q \<Longrightarrow> q = p\<lparr>errors := errors p @ [message]\<rparr>"
  by (auto simp: add_error_def split: sum.splits dest!: item_list_more)

lemma add_error_sound: "add_error message p = Inr q \<Longrightarrow> sound_step p q"
  by (drule add_error_more) (rule sound_same; simp)

lemma add_warning_sound: "add_warning message p = Inr q \<Longrightarrow> sound_step p q"
  by (auto simp: add_warning_def intro: sound_same [where extra = "[]"] split: sum.splits)

lemma atoi_more:
  assumes "repmgr_atoi val name (Some l) m = Inr (n, x)"
  shows "\<exists>extra. x = Some (l @ extra) \<and> (extra = [] \<and> val \<noteq> [] \<longrightarrow> m \<le> n \<and> n < 2 ^ 31)"
  using assms to_int32_range
  by (auto simp: repmgr_atoi_def atoi_error_def Let_def split: prod.splits if_splits sum.splits dest!: item_list_more)

lemma parse_bool_more: "parse_bool s name (Some l) = Inr (b, x) \<Longrightarrow> \<exists>extra. x = Some (l @ extra)"
  by (auto simp: parse_bool_def Let_def split: option.splits sum.splits if_splits dest!: item_list_more)

lemma delay_more: "parse_time_unit_parameter name val dest (Some l) = Inr (t, x) \<Longrightarrow> \<exists>extra. x = Some (l @ extra)"
  by (auto simp: parse_time_unit_parameter_def Let_def split: prod.splits sum.splits if_splits dest!: item_list_more)

lemma store_extra:
  assumes "store put answer p = Inr q" and "\<And>x y. answer = Inr (x, y) \<Longrightarrow> \<exists>extra. y = Some (errors p @ extra)"
    and "\<And>x p. errors (put x p) = errors p \<and> numbers (opts (put x p)) = numbers (opts p)"
  shows "sound_step p q"
  using assms by (fastforce simp: store_def intro: sound_same split: sum.splits)

text \<open>A branch of the dispatch; with a value that is not empty a number it stores is in range.\<close>

lemma apply_setting_sound:
  assumes "apply_setting canonicalize setting name val p = Inr q" and "\<forall>m. setting \<noteq> Number m"
  shows "sound_step p q"
proof (cases setting)
  case (Truncated m)
  with assms show ?thesis
    by (auto simp: apply_setting_def set_flag_def elim!: store_extra dest: atoi_more)
next
  case Flag
  with assms show ?thesis
    by (auto simp: apply_setting_def set_flag_def elim!: store_extra dest: parse_bool_more)
next
  case Delay
  from assms obtain r where r: "store (set_text name)
      (parse_time_unit_parameter name val (texts (opts p) name) (Some (errors p))) p = Inr r"
    "q = set_flag ''recovery_min_apply_delay_provided'' True r"
    by (auto simp: Delay apply_setting_def split: sum.splits)
  from r(1) have "sound_step p r"
    by (rule store_extra) (auto simp: set_text_def dest: delay_more)
  moreover have "sound_step r q" using r(2) by (auto simp: set_flag_def intro: sound_same [where extra = "[]"])
  ultimately show ?thesis by (rule sound_step_trans)
qed (use assms in \<open>auto simp: apply_setting_def set_text_def Let_def dest: add_error_sound add_warning_sound
       intro: sound_same [where extra = "[]"] split: if_splits sum.splits\<close>)

lemma apply_number_sound:
  assumes "apply_setting canonicalize (Number m) name val p = Inr q"
  shows "\<exists>extra. errors q = errors p @ extra \<and>
    (\<forall>n. n \<noteq> name \<longrightarrow> numbers (opts q) n = numbers (opts p) n) \<and>
    (extra = [] \<and> val \<noteq> [] \<longrightarrow> m \<le> numbers (opts q) name \<and> numbers (opts q) name < 2 ^ 31)"
  using assms
  by (auto simp: apply_setting_def store_def set_number_def split: sum.splits prod.splits dest!: atoi_more)

lemma dispatch_sound:
  assumes "dispatch canonicalize config_settings name val p = Inr q"
  shows "sound_step p q"
proof (cases "map_of config_settings name")
  case None
  with assms show ?thesis by (simp add: dispatch_def)
next
  case (Some setting)
  with assms obtain r where r: "apply_setting canonicalize setting name val p = Inr r"
    "(if \<not> is_deprecated setting \<and> val = [] then add_error (quoted name @ '': no value provided'') r else Inr r) = Inr q"
    by (auto simp: dispatch_def split: sum.splits)
  show ?thesis
  proof (cases "\<exists>m. setting = Number m")
    case True
    then obtain m where m: "setting = Number m" by blast
    from apply_number_sound r(1) m obtain extra where extra: "errors r = errors p @ extra"
      "\<forall>n. n \<noteq> name \<longrightarrow> numbers (opts r) n = numbers (opts p) n"
      "extra = [] \<and> val \<noteq> [] \<longrightarrow> m \<le> numbers (opts r) name \<and> numbers (opts r) name < 2 ^ 31" by blast
    show ?thesis
    proof (cases "val = []")
      case True
      with r(2) m have "errors q = errors r @ [quoted name @ '': no value provided'']"
        by (auto dest!: add_error_more)
      with extra show ?thesis by (simp add: sound_step_def)
    next
      case False
      with r(2) have "q = r" by simp
      with extra False Some m show ?thesis unfolding sound_step_def by auto
    qed
  next
    case False
    then have "sound_step p r" using apply_setting_sound r(1) by blast
    moreover have "sound_step r q" using r(2) by (auto dest: add_error_sound split: if_splits)
    ultimately show ?thesis by (rule sound_step_trans)
  qed
qed

lemma read_settings_sound:
  "read_settings canonicalize n cs buf found p = Some (Inr (done, q)) \<Longrightarrow> sound_step p q"
proof (induction n arbitrary: cs buf found p)
  case 0
  then show ?case by simp
next
  case (Suc n)
  from Suc.prems show ?case
    by (auto simp: Let_def split: if_splits prod.splits option.splits sum.splits
        intro: Suc.IH sound_step_trans dest!: dispatch_sound)
qed

section \<open>Accepted configurations\<close>

lemma or_stop_Inr: "or_stop r f = Inr q \<longleftrightarrow> (\<exists>p. r = Inr p \<and> f p = Inr q)"
  by (simp add: or_stop_def split: sum.splits)

text \<open>The checks after the reading: without errors in the end every one of them has passed.\<close>

lemma add_error_errors: "add_error message p = Inr q \<Longrightarrow> errors q = [] \<longleftrightarrow> False"
  by (drule add_error_more) simp

lemma check_passed:
  "check_order bad message p = Inr q \<Longrightarrow> errors q = [] \<Longrightarrow> \<not> bad \<and> q = p"
  "require_text name p = Inr q \<Longrightarrow> errors q = [] \<Longrightarrow> texts (opts p) name \<noteq> [] \<and> q = p"
  "check_conninfo conninfo_error p = Inr q \<Longrightarrow> errors q = [] \<Longrightarrow>
     texts (opts p) ''conninfo'' \<noteq> [] \<and> conninfo_error (texts (opts p) ''conninfo'') = None \<and> q = p"
  by (auto simp: check_order_def require_text_def check_conninfo_def add_error_errors split: if_splits option.splits)

definition consistent :: "options \<Rightarrow> bool" where
  "consistent cfg \<longleftrightarrow>
     texts cfg ''node_name'' \<noteq> [] \<and> texts cfg ''data_directory'' \<noteq> [] \<and> texts cfg ''conninfo'' \<noteq> [] \<and>
     (texts cfg ''barman_host'' = [] \<longleftrightarrow> texts cfg ''barman_server'' = []) \<and>
     numbers cfg ''archive_ready_warning'' < numbers cfg ''archive_ready_critical'' \<and>
     numbers cfg ''replication_lag_warning'' < numbers cfg ''replication_lag_critical'' \<and>
     numbers cfg ''node_rejoin_timeout'' \<le> numbers cfg ''standby_reconnect_timeout''"

lemma default_startup_simps [simp]:
  "errors (default_startup_timeout p) = errors p" "texts (opts (default_startup_timeout p)) = texts (opts p)"
  "numbers (opts (default_startup_timeout p)) n =
     (if n = ''repmgrd_standby_startup_timeout'' \<and> numbers (opts p) n = -1
      then numbers (opts p) ''standby_reconnect_timeout'' else numbers (opts p) n)"
  by (auto simp: default_startup_timeout_def set_number_def)

lemma check_parsed_passed:
  assumes "check_parsed conninfo_error found p = Inr q" and "errors q = []"
  shows "found \<and> q = default_startup_timeout p \<and> consistent (opts q)"
proof -
  let ?p = "default_startup_timeout p"
  let ?cfg = "opts ?p"
  from assms(1) obtain p1 p2 p3 p4 p5 p6 p7 where
    1: "(if found then Inr p else add_error (quoted ''node_id'' @ '': required parameter was not found'') p) = Inr p1" and
    2: "require_text ''node_name'' p1 = Inr p2" and 3: "require_text ''data_directory'' p2 = Inr p3" and
    4: "check_conninfo conninfo_error p3 = Inr p4" and
    5: "(if (texts (opts (default_startup_timeout p4)) ''barman_host'' = []) \<noteq> (texts (opts (default_startup_timeout p4)) ''barman_server'' = []) then
          or_stop (add_error (''use '' @ quoted ''barman_host'' @ '' for the hostname of the Barman server'') (default_startup_timeout p4))
            (add_error (''use '' @ quoted ''barman_server'' @ '' for the name of the [server] section in the Barman configuration file''))
        else Inr (default_startup_timeout p4)) = Inr p5" and
    6: "check_order (numbers (opts (default_startup_timeout p4)) ''archive_ready_warning'' \<ge> numbers (opts (default_startup_timeout p4)) ''archive_ready_critical'')
       (quoted ''archive_ready_critical'' @ '' must be greater than  '' @ quoted ''archive_ready_warning'') p5 = Inr p6" and
    7: "check_order (numbers (opts (default_startup_timeout p4)) ''replication_lag_warning'' \<ge> numbers (opts (default_startup_timeout p4)) ''replication_lag_critical'')
       (quoted ''replication_lag_critical'' @ '' must be greater than  '' @ quoted ''replication_lag_warning'') p6 = Inr p7" and
    8: "check_order (numbers (opts (default_startup_timeout p4)) ''standby_reconnect_timeout'' < numbers (opts (default_startup_timeout p4)) ''node_rejoin_timeout'')
       (quoted ''standby_reconnect_timeout'' @ '' must be equal to or greater than '' @ quoted ''node_rejoin_timeout'') p7 = Inr q"
    unfolding check_parsed_def Let_def or_stop_Inr by blast
  note c8 = check_passed(1) [OF 8 assms(2)]
  then have q7: "errors p7 = []" using assms(2) by simp
  note c7 = check_passed(1) [OF 7 q7]
  then have q6: "errors p6 = []" using q7 by simp
  note c6 = check_passed(1) [OF 6 q6]
  then have q5: "errors p5 = []" using q6 by simp
  have c5: "(texts (opts p4) ''barman_host'' = []) = (texts (opts p4) ''barman_server'' = []) \<and> p5 = default_startup_timeout p4"
    using 5 q5 by (auto simp: or_stop_Inr add_error_errors split: if_splits)
  then have q4: "errors p4 = []" using q5 by simp
  note c4 = check_passed(3) [OF 4 q4]
  then have q3: "errors p3 = []" using q4 by simp
  note c3 = check_passed(2) [OF 3 q3]
  then have q2: "errors p2 = []" using q3 by simp
  note c2 = check_passed(2) [OF 2 q2]
  then have q1: "errors p1 = []" using q2 by simp
  have "found \<and> p1 = p" using 1 q1 by (auto simp: add_error_errors split: if_splits)
  with c2 c3 c4 c5 c6 c7 c8 show ?thesis by (auto simp: consistent_def)
qed

lemma sound_errors: "sound_step p q \<Longrightarrow> errors q = [] \<Longrightarrow> errors p = []"
  by (auto simp: sound_step_def)

lemma dispatch_node_id:
  assumes "dispatch canonicalize config_settings ''node_id'' val p = Inr q" and "errors q = []"
  shows "1 \<le> numbers (opts q) ''node_id''"
proof -
  have "map_of config_settings ''node_id'' = Some (Number 1)" by code_simp
  with assms obtain r where r: "apply_setting canonicalize (Number 1) ''node_id'' val p = Inr r"
    "(if val = [] then add_error (quoted ''node_id'' @ '': no value provided'') r else Inr r) = Inr q"
    by (auto simp: dispatch_def split: sum.splits)
  then have "val \<noteq> []" "r = q" using assms(2) by (auto simp: add_error_errors split: if_splits)
  with apply_number_sound [OF r(1)] assms(2) show ?thesis by auto
qed

lemma node_id_found:
  "read_settings canonicalize n cs buf found p = Some (Inr (seen, q)) \<Longrightarrow> errors q = [] \<Longrightarrow>
   seen \<Longrightarrow> found \<or> 1 \<le> numbers (opts q) ''node_id''"
proof (induction n arbitrary: cs buf found p)
  case 0
  then show ?case by simp
next
  case (Suc n)
  show ?case
  proof (cases "cs = []")
    case True
    with Suc.prems show ?thesis by simp
  next
    case False
    obtain chunk rest where chunk: "read_chunk (MAXLINELENGTH - 1) cs = (chunk, rest)" by fastforce
    with Suc.prems(1) False obtain name val where line: "parse_line (fgets_into chunk buf) = Some (name, val)"
      by (auto simp: Let_def split: option.splits)
    show ?thesis
    proof (cases "name = [] \<or> hd name = CHR ''#''")
      case True
      with Suc.prems(1) False chunk line
      have "read_settings canonicalize n rest (fgets_into chunk buf) found p = Some (Inr (seen, q))"
        by (simp add: Let_def)
      from Suc.IH [OF this Suc.prems(2,3)] show ?thesis .
    next
      case skip: False
      with Suc.prems(1) False chunk line obtain r where r: "dispatch canonicalize config_settings name val p = Inr r"
        "read_settings canonicalize n rest (fgets_into chunk buf) (found \<or> name = ''node_id'') r = Some (Inr (seen, q))"
        by (auto simp: Let_def split: sum.splits)
      from read_settings_sound [OF r(2)] have sound: "sound_step r q" .
      from Suc.IH [OF r(2) Suc.prems(2,3)] have "found \<or> name = ''node_id'' \<or> 1 \<le> numbers (opts q) ''node_id''" by simp
      moreover have "1 \<le> numbers (opts q) ''node_id''" if "name = ''node_id''"
      proof -
        have "1 \<le> numbers (opts r) ''node_id''"
          using dispatch_node_id r(1) that sound_errors [OF sound Suc.prems(2)] by blast
        moreover have "map_of config_settings ''node_id'' = Some (Number 1)" by code_simp
        ultimately show ?thesis
          using sound Suc.prems(2) unfolding sound_step_def by (metis option.inject setting.inject(1))
      qed
      ultimately show ?thesis by blast
    qed
  qed
qed

text \<open>The defaults are in range as well, with three exceptions.\<close>

lemma defaults_in_range:
  "list_all (\<lambda>(n, s). case s of
     Number m \<Rightarrow> n \<in> set [''node_id'', ''promote_delay'', ''repmgrd_standby_startup_timeout''] \<or>
       (m \<le> numbers (set_defaults initial_options) n \<and> numbers (set_defaults initial_options) n < 2 ^ 31)
   | _ \<Rightarrow> True) config_settings"
  "numbers (set_defaults initial_options) ''repmgrd_standby_startup_timeout'' = -1"
  "distinct (map fst config_settings)"
  by code_simp+

text \<open>
  C23: a configuration file that is read without errors, into options as they are initialised, gives a
  configuration with a node id, a node name, a data directory and a connection string, in which every number
  is at least its minimum and fits 32 bits (\<open>promote_delay\<close>, a setting for tests, is zero when it is not set), and in
  which the warning levels are below the critical ones and the rejoin timeout is at most the timeout
  of the reconnection.
\<close>

theorem accepted_configuration:
  assumes parsed: "parse_config_file canonicalize conninfo_error (Some cs) \<lparr>opts = initial_options, errors = [], warnings = ws\<rparr> = Some (Inr q)"
    and ok: "errors q = []"
  shows "consistent (opts q) \<and>
    (\<forall>(name, setting) \<in> set config_settings. \<forall>m. setting = Number m \<and> name \<noteq> ''promote_delay'' \<longrightarrow>
       m \<le> numbers (opts q) name \<and> numbers (opts q) name < 2 ^ 31)"
proof -
  let ?p = "\<lparr>opts = set_defaults initial_options, errors = [], warnings = ws\<rparr>"
  from parsed obtain seen r where
    read: "read_settings canonicalize (length cs) cs empty_buf False ?p = Some (Inr (seen, r))" and
    check: "check_parsed conninfo_error seen r = Inr q"
    by (auto simp: parse_config_file_def Let_def split: option.splits sum.splits)
  note passed = check_parsed_passed [OF check ok]
  then have r: "errors r = []" using ok by simp
  have sound: "sound_step ?p r" using read_settings_sound [OF read] .
  have node_id: "1 \<le> numbers (opts r) ''node_id''" using node_id_found [OF read r] passed by simp
  have range: "m \<le> numbers (opts r) n \<and> numbers (opts r) n < 2 ^ 31 \<or>
      n = ''repmgrd_standby_startup_timeout'' \<and> numbers (opts r) n = -1"
    if member: "(n, Number m) \<in> set config_settings" and other: "n \<noteq> ''promote_delay''" for n m
  proof -
    have kind: "map_of config_settings n = Some (Number m)" using member defaults_in_range(3) by simp
    have default: "n = ''node_id'' \<or> n = ''repmgrd_standby_startup_timeout'' \<or>
        m \<le> numbers (set_defaults initial_options) n \<and> numbers (set_defaults initial_options) n < 2 ^ 31"
      using defaults_in_range(1) member other by (auto simp: list_all_iff)
    have "numbers (set_defaults initial_options) ''node_id'' = -1" by code_simp
    moreover have "numbers (opts r) n = numbers (set_defaults initial_options) n \<or>
        m \<le> numbers (opts r) n \<and> numbers (opts r) n < 2 ^ 31"
      using sound r kind unfolding sound_step_def by fastforce
    ultimately show ?thesis using default node_id defaults_in_range(2) by auto
  qed
  have "map_of config_settings ''standby_reconnect_timeout'' = Some (Number 0)" by code_simp
  from range [OF map_of_SomeD [OF this]]
  have reconnect: "0 \<le> numbers (opts r) ''standby_reconnect_timeout'' \<and> numbers (opts r) ''standby_reconnect_timeout'' < 2 ^ 31"
    by simp
  have startup: "m = 0" if "(''repmgrd_standby_startup_timeout'', Number m) \<in> set config_settings" for m
  proof -
    have "map_of config_settings ''repmgrd_standby_startup_timeout'' = Some (Number 0)" by code_simp
    with that defaults_in_range(3) show ?thesis by (metis map_of_eq_Some_iff option.inject setting.inject(1))
  qed
  have "m \<le> numbers (opts q) n \<and> numbers (opts q) n < 2 ^ 31"
    if "(n, Number m) \<in> set config_settings" "n \<noteq> ''promote_delay''" for n m
    using range [OF that] reconnect startup that(1) passed by (auto split: if_splits)
  with passed show ?thesis by blast
qed

definition example_file :: string where
  "example_file = setting_line ''node_id'' ''1'' @ setting_line ''node_name'' ''a'' @ setting_line ''data_directory'' ''/d''
     @ setting_line ''conninfo'' ''host=a'' @ []"

lemma read_chunk_line:
  "CHR 0x0A \<notin> set cs \<Longrightarrow> length cs < n \<Longrightarrow> read_chunk n (cs @ CHR 0x0A # rest) = (cs @ [CHR 0x0A], rest)"
proof (induction cs arbitrary: n)
  case Nil
  then show ?case by (cases n) auto
next
  case (Cons c cs)
  then show ?case by (cases n) auto
qed

text \<open>The loop takes one setting after the other from a file of such lines.\<close>

lemma read_settings_line:
  assumes "plain_name name" and "hd name \<noteq> CHR ''#''" and "plain_value v" and "length name + length v + 3 < MAXLEN"
  shows "read_settings canonicalize (Suc n) (setting_line name v @ rest) buf found p =
    (case dispatch canonicalize config_settings name v p of
       Inl code \<Rightarrow> Some (Inl code)
     | Inr p \<Rightarrow> read_settings canonicalize n rest (fgets_into (setting_line name v) buf) (found \<or> name = ''node_id'') p)"
proof -
  have "CHR 0x0A \<notin> set (name @ ''='' @ [CHR 0x27] @ v @ [CHR 0x27])"
    using assms(1,3) by (auto simp: plain_name_def plain_value_def line_blank_def list_all_iff)
  from read_chunk_line [OF this, of "MAXLINELENGTH - 1" rest] assms(4)
  have "read_chunk (MAXLINELENGTH - 1) (setting_line name v @ rest) = (setting_line name v, rest)"
    by (simp add: setting_line_def)
  moreover have "name \<noteq> []" using assms(1) by (simp add: plain_name_def)
  moreover have "setting_line name v \<noteq> []" by (simp add: setting_line_def)
  ultimately show ?thesis
    using assms(2) setting_line_read [OF assms(1,3,4)] by (simp add: Let_def)
qed

definition example_parsed :: parsed where
  "example_parsed =
     (let p = \<lparr>opts = set_defaults initial_options, errors = [], warnings = []\<rparr>
      in default_startup_timeout (set_text ''conninfo'' ''host=a'' (set_text ''data_directory'' ''/d''
           (set_text ''node_name'' ''a'' (set_number ''node_id'' 1 p)))))"

lemma example_file_parsed:
  "parse_config_file (\<lambda>d. d) (\<lambda>_. None) (Some example_file) \<lparr>opts = initial_options, errors = [], warnings = []\<rparr> =
     Some (Inr example_parsed)"
proof -
  have plain: "plain_name ''node_id''" "plain_name ''node_name''" "plain_name ''data_directory''" "plain_name ''conninfo''"
    "plain_value ''1''" "plain_value ''a''" "plain_value ''/d''" "plain_value ''host=a''"
    by (simp_all add: plain_name_def plain_value_def line_blank_def trim_eq_strip strip_def isspace_def)
  have size: "length example_file = Suc (Suc (Suc (Suc 60)))" by (simp add: example_file_def setting_line_def)
  have kinds: "map_of config_settings ''node_id'' = Some (Number 1)" "map_of config_settings ''node_name'' = Some (Fitting 64)"
    "map_of config_settings ''data_directory'' = Some (Text MAXPGPATH)" "map_of config_settings ''conninfo'' = Some (Text MAXLEN)"
    "repmgr_atoi ''1'' ''node_id'' (Some []) 1 = Inr (1, Some [])"
    by code_simp+
  have node_id: "read_settings canonicalize (Suc n) (setting_line ''node_id'' ''1'' @ rest) buf found \<lparr>opts = x, errors = [], warnings = ws\<rparr> =
      read_settings canonicalize n rest (fgets_into (setting_line ''node_id'' ''1'') buf) True (set_number ''node_id'' 1 \<lparr>opts = x, errors = [], warnings = ws\<rparr>)"
    for canonicalize n rest buf found x ws
    by (rule trans [OF read_settings_line]) (simp_all add: plain dispatch_def kinds apply_setting_def store_def)
  have node_name: "read_settings canonicalize (Suc n) (setting_line ''node_name'' ''a'' @ rest) buf found p =
      read_settings canonicalize n rest (fgets_into (setting_line ''node_name'' ''a'') buf) found (set_text ''node_name'' ''a'' p)"
    for canonicalize n rest buf found p
    by (rule trans [OF read_settings_line]) (simp_all add: plain dispatch_def kinds apply_setting_def)
  have data_directory: "read_settings canonicalize (Suc n) (setting_line ''data_directory'' ''/d'' @ rest) buf found p =
      read_settings canonicalize n rest (fgets_into (setting_line ''data_directory'' ''/d'') buf) found (set_text ''data_directory'' ''/d'' p)"
    for canonicalize n rest buf found p
    by (rule trans [OF read_settings_line]) (simp_all add: plain dispatch_def kinds apply_setting_def)
  have conninfo: "read_settings canonicalize (Suc n) (setting_line ''conninfo'' ''host=a'' @ rest) buf found p =
      read_settings canonicalize n rest (fgets_into (setting_line ''conninfo'' ''host=a'') buf) found (set_text ''conninfo'' ''host=a'' p)"
    for canonicalize n rest buf found p
    by (rule trans [OF read_settings_line]) (simp_all add: plain dispatch_def kinds apply_setting_def)
  have at_end: "read_settings canonicalize n [] buf found p = Some (Inr (found, p))" for canonicalize n buf found p
    by (cases n) simp_all
  have read: "read_settings (\<lambda>d. d) (length example_file) example_file empty_buf False
      \<lparr>opts = set_defaults initial_options, errors = [], warnings = []\<rparr> =
    Some (Inr (True, set_text ''conninfo'' ''host=a'' (set_text ''data_directory'' ''/d''
           (set_text ''node_name'' ''a'' (set_number ''node_id'' 1 \<lparr>opts = set_defaults initial_options, errors = [], warnings = []\<rparr>)))))"
    unfolding size unfolding example_file_def by (simp only: node_id node_name data_directory conninfo at_end)
  show ?thesis
    by (simp add: parse_config_file_def read Let_def) (simp add: check_parsed_def or_stop_def require_text_def check_conninfo_def
        check_order_def example_parsed_def set_text_def set_number_def default_startup_timeout_def set_defaults_def
        initial_options_def kept_numbers_def kept_texts_def default_numbers_def default_texts_def Let_def)
qed

lemma accepted_configuration_witness:
  "consistent (opts example_parsed) \<and> 1 \<le> numbers (opts example_parsed) ''node_id''"
proof -
  have "errors example_parsed = []" by (simp add: example_parsed_def set_text_def set_number_def)
  from accepted_configuration [OF example_file_parsed this]
  have "consistent (opts example_parsed)"
    "\<forall>(name, setting) \<in> set config_settings. \<forall>m. setting = Number m \<and> name \<noteq> ''promote_delay'' \<longrightarrow>
       m \<le> numbers (opts example_parsed) name" by auto
  moreover have "map_of config_settings ''node_id'' = Some (Number 1)" by code_simp
  ultimately show ?thesis by (fastforce dest!: map_of_SomeD)
qed

section \<open>Reloads\<close>

lemma grows_parse:
  assumes "parse_config_file canonicalize conninfo_error cs p = Some (Inr q)" and "errors p \<noteq> []"
  shows "errors q \<noteq> []"
proof (cases cs)
  case None
  with assms show ?thesis by (auto simp: parse_config_file_def Let_def)
next
  case (Some ls)
  with assms(1) obtain seen r where
    read: "read_settings canonicalize (length ls) ls empty_buf False (p\<lparr>opts := set_defaults (opts p)\<rparr>) = Some (Inr (seen, r))" and
    check: "check_parsed conninfo_error seen r = Inr q"
    by (auto simp: parse_config_file_def Let_def split: option.splits sum.splits)
  from read_settings_sound [OF read] assms(2) have "errors r \<noteq> []" by (auto simp: sound_step_def)
  then show ?thesis using check_parsed_passed [OF check] by auto
qed

text \<open>A series of reloads, each with the servers that can be reached, the file and the type of the node.\<close>

fun reload_all ::
  "(string \<Rightarrow> string) \<Rightarrow> (string \<Rightarrow> string option) \<Rightarrow> ((string \<Rightarrow> bool) \<times> string option \<times> bool) list
     \<Rightarrow> string list \<times> string list \<Rightarrow> options \<Rightarrow> (int + options \<times> string list \<times> string list) option" where
  "reload_all canonicalize conninfo_error [] found orig = Some (Inr (orig, found))"
| "reload_all canonicalize conninfo_error ((connects, cs, needs) # rest) found orig =
     (case reload_config canonicalize conninfo_error connects cs needs found orig of
        None \<Rightarrow> None
      | Some (Inl code) \<Rightarrow> Some (Inl code)
      | Some (Inr (changed, orig, found)) \<Rightarrow> reload_all canonicalize conninfo_error rest found orig)"

lemma reload_refused:
  assumes "reload_config canonicalize conninfo_error connects cs needs found orig = Some (Inr (changed, orig', found'))"
    and "fst found \<noteq> []"
  shows "\<not> changed \<and> orig' = orig \<and> fst found' \<noteq> []"
proof -
  from assms(1) obtain p q where
    p: "parse_config_file canonicalize conninfo_error cs \<lparr>opts = initial_options, errors = fst found, warnings = snd found\<rparr> = Some (Inr p)" and
    q: "(if needs then or_stop (require_text ''promote_command'' p) (require_text ''follow_command'') else Inr p) = Inr q" and
    r: "errors q \<noteq> [] \<longrightarrow> (changed, orig', found') = (False, orig, errors q, warnings q)"
    by (auto simp: reload_config_def Let_def split: option.splits sum.splits if_splits prod.splits)
  from grows_parse [OF p] assms(2) have "errors p \<noteq> []" by simp
  moreover have "errors p = []" if "errors q = []"
  proof (cases needs)
    case True
    with q obtain mid where "require_text ''promote_command'' p = Inr mid" "require_text ''follow_command'' mid = Inr q"
      by (auto simp: or_stop_Inr)
    with that check_passed(2) show ?thesis by metis
  qed (use q that in simp)
  ultimately have "errors q \<noteq> []" by blast
  with r show ?thesis by simp
qed

text \<open>
  C24: once a reload has found an error, every later reload is refused: the list of errors is static, so
  whatever the file says then, no reload changes the configuration any more.
\<close>

theorem reload_refused_for_good:
  assumes "fst found \<noteq> []"
    and "reload_all canonicalize conninfo_error requests found orig = Some (Inr (orig', found'))"
  shows "orig' = orig \<and> fst found' \<noteq> []"
  using assms
proof (induction requests arbitrary: found)
  case Nil
  then show ?case by simp
next
  case (Cons r requests)
  obtain connects cs needs where r: "r = (connects, cs, needs)" by (cases r) auto
  from Cons.prems(2) obtain changed mid found'' where
    first: "reload_config canonicalize conninfo_error connects cs needs found orig = Some (Inr (changed, mid, found''))" and
    later: "reload_all canonicalize conninfo_error requests found'' mid = Some (Inr (orig', found'))"
    by (auto simp: r split: option.splits sum.splits)
  from reload_refused [OF first Cons.prems(1)] later Cons.IH [of found''] show ?case by simp
qed

lemma reload_refused_for_good_witness:
  "case reload_all (\<lambda>d. d) (\<lambda>_. None) [(\<lambda>_. True, None, False)] ([''bad''], []) initial_options of
     Some (Inr (orig, found)) \<Rightarrow> fst found \<noteq> [] | _ \<Rightarrow> False"
proof -
  have "reload_all (\<lambda>d. d) (\<lambda>_. None) [(\<lambda>_. True, None, False)] ([''bad''], []) initial_options =
      Some (Inr (initial_options, [''bad''], []))"
    by (simp add: reload_config_def parse_config_file_def)
  from reload_refused_for_good [OF _ this] show ?thesis by (simp add: reload_config_def parse_config_file_def)
qed

section \<open>What a reload changes\<close>

definition reloadable_numbers :: "string list" where
  "reloadable_numbers =
     [''async_query_timeout'', ''degraded_monitoring_timeout'', ''monitor_interval_secs'', ''primary_notification_timeout'',
      ''promote_delay'', ''reconnect_attempts'', ''reconnect_interval'', ''repmgrd_standby_startup_timeout'',
      ''sibling_nodes_disconnect_timeout'', ''log_status_interval'']"

definition reloadable_flags :: "string list" where
  "reloadable_flags =
     [''bdr_local_monitoring_only'', ''bdr_recovery_timeout'', ''monitoring_history'', ''standby_disconnect_on_failover'',
      ''primary_visibility_consensus'', ''check_brain_split'']"

definition reloadable_texts :: "string list" where
  "reloadable_texts =
     [''conninfo'', ''event_notification_command'', ''event_notifications_orig'', ''follow_command'', ''promote_command'',
      ''failover_validation_command'', ''log_facility'', ''log_file'', ''log_level'']"

lemma reload_numbers [simp]:
  "numbers (fst (reload_number new a x)) n = (if n = a then numbers new n else numbers (fst x) n)"
  "numbers (fst (reload_flag new a x)) = numbers (fst x)" "numbers (fst (reload_text new a x)) = numbers (fst x)"
  "numbers (fst (reload_conninfo c new x)) = numbers (fst x)" "numbers (fst (reload_events new x)) = numbers (fst x)"
  "numbers (fst (reload_failover new x)) = numbers (fst x)" "numbers (fst (reload_check_type new x)) = numbers (fst x)"
  by (auto simp: reload_number_def reload_flag_def reload_text_def reload_conninfo_def reload_events_def
      reload_failover_def reload_check_type_def split: prod.split)

lemma reload_flags [simp]:
  "flags (fst (reload_flag new a x)) n = (if n = a then flags new n else flags (fst x) n)"
  "flags (fst (reload_number new a x)) = flags (fst x)" "flags (fst (reload_text new a x)) = flags (fst x)"
  "flags (fst (reload_conninfo c new x)) = flags (fst x)" "flags (fst (reload_events new x)) = flags (fst x)"
  "flags (fst (reload_failover new x)) = flags (fst x)" "flags (fst (reload_check_type new x)) = flags (fst x)"
  by (auto simp: reload_number_def reload_flag_def reload_text_def reload_conninfo_def reload_events_def
      reload_failover_def reload_check_type_def split: prod.split)

lemma reload_texts [simp]:
  "n \<noteq> a \<Longrightarrow> texts (fst (reload_text new a x)) n = texts (fst x) n"
  "n \<noteq> ''conninfo'' \<Longrightarrow> texts (fst (reload_conninfo c new x)) n = texts (fst x) n"
  "n \<noteq> ''event_notifications_orig'' \<Longrightarrow> texts (fst (reload_events new x)) n = texts (fst x) n"
  "texts (fst (reload_number new a x)) = texts (fst x)" "texts (fst (reload_flag new a x)) = texts (fst x)"
  "texts (fst (reload_failover new x)) = texts (fst x)" "texts (fst (reload_check_type new x)) = texts (fst x)"
  by (auto simp: reload_number_def reload_flag_def reload_text_def reload_conninfo_def reload_events_def
      reload_failover_def reload_check_type_def split: prod.split)

lemma reload_rest [simp]:
  "replication (fst (reload_number new a x)) = replication (fst x)" "replication (fst (reload_flag new a x)) = replication (fst x)"
  "replication (fst (reload_text new a x)) = replication (fst x)" "replication (fst (reload_conninfo c new x)) = replication (fst x)"
  "replication (fst (reload_events new x)) = replication (fst x)" "replication (fst (reload_failover new x)) = replication (fst x)"
  "replication (fst (reload_check_type new x)) = replication (fst x)"
  "tablespace_mapping (fst (reload_number new a x)) = tablespace_mapping (fst x)"
  "tablespace_mapping (fst (reload_flag new a x)) = tablespace_mapping (fst x)"
  "tablespace_mapping (fst (reload_text new a x)) = tablespace_mapping (fst x)"
  "tablespace_mapping (fst (reload_conninfo c new x)) = tablespace_mapping (fst x)"
  "tablespace_mapping (fst (reload_events new x)) = tablespace_mapping (fst x)"
  "tablespace_mapping (fst (reload_failover new x)) = tablespace_mapping (fst x)"
  "tablespace_mapping (fst (reload_check_type new x)) = tablespace_mapping (fst x)"
  by (auto simp: reload_number_def reload_flag_def reload_text_def reload_conninfo_def reload_events_def
      reload_failover_def reload_check_type_def split: prod.split)

lemma reload_options_parts:
  "numbers (fst (reload_options connects new orig)) n = (if n \<in> set reloadable_numbers then numbers new n else numbers orig n)"
  "flags (fst (reload_options connects new orig)) n = (if n \<in> set reloadable_flags then flags new n else flags orig n)"
  "n \<notin> set reloadable_texts \<Longrightarrow> texts (fst (reload_options connects new orig)) n = texts orig n"
  "replication (fst (reload_options connects new orig)) = replication orig"
  "tablespace_mapping (fst (reload_options connects new orig)) = tablespace_mapping orig"
  subgoal by (simp add: reload_options_def reload_steps_def reloadable_numbers_def case_prod_unfold Let_def)
  subgoal by (simp add: reload_options_def reload_steps_def reloadable_flags_def case_prod_unfold Let_def)
  subgoal by (simp add: reload_options_def reload_steps_def reloadable_texts_def case_prod_unfold Let_def)
  subgoal by (simp add: reload_options_def reload_steps_def case_prod_unfold Let_def)
  subgoal by (simp add: reload_options_def reload_steps_def case_prod_unfold Let_def)
  done

text \<open>
  A reload either leaves the configuration as it is, or was read from the file without errors, and
  then takes the reloadable numbers and truth values from the file and leaves every other setting as it is: the node's
  id, its name, its directories, its virtual address.
\<close>

theorem reload_takes_reloadable:
  assumes "reload_config canonicalize conninfo_error connects cs needs found orig = Some (Inr (changed, orig', found'))"
  shows "\<not> changed \<and> orig' = orig \<or>
    (\<exists>p. parse_config_file canonicalize conninfo_error cs \<lparr>opts = initial_options, errors = fst found, warnings = snd found\<rparr> = Some (Inr p) \<and>
       errors p = [] \<and> numbers (opts p) ''node_id'' = numbers orig ''node_id'' \<and>
       (\<forall>n. numbers orig' n = (if n \<in> set reloadable_numbers then numbers (opts p) n else numbers orig n)) \<and>
       (\<forall>n. flags orig' n = (if n \<in> set reloadable_flags then flags (opts p) n else flags orig n)) \<and>
       (\<forall>n. n \<notin> set reloadable_texts \<longrightarrow> texts orig' n = texts orig n) \<and>
       replication orig' = replication orig \<and> tablespace_mapping orig' = tablespace_mapping orig)"
proof -
  from assms obtain p q where
    p: "parse_config_file canonicalize conninfo_error cs \<lparr>opts = initial_options, errors = fst found, warnings = snd found\<rparr> = Some (Inr p)" and
    q: "(if needs then or_stop (require_text ''promote_command'' p) (require_text ''follow_command'') else Inr p) = Inr q" and
    r: "\<not> changed \<and> orig' = orig \<or> errors q = [] \<and> numbers (opts q) ''node_id'' = numbers orig ''node_id'' \<and>
      orig' = fst (reload_options connects (opts q) orig)"
    by (auto simp: reload_config_def Let_def split: option.splits sum.splits if_splits prod.splits)
  have "q = p" if "errors q = []"
  proof (cases needs)
    case True
    with q obtain mid where "require_text ''promote_command'' p = Inr mid" "require_text ''follow_command'' mid = Inr q"
      by (auto simp: or_stop_Inr)
    with that check_passed(2) show ?thesis by metis
  qed (use q that in simp)
  with p r reload_options_parts [where connects = connects and new = "opts q" and orig = orig] show ?thesis by auto
qed

lemma reload_takes_reloadable_witness:
  "case reload_config (\<lambda>d. d) (\<lambda>_. None) (\<lambda>_. True) None False ([], [])
       (initial_options\<lparr>numbers := (numbers initial_options)(''node_id'' := -1, ''priority'' := 7)\<rparr>) of
     Some (Inr (changed, orig, found)) \<Rightarrow> numbers orig ''priority'' = 7 | _ \<Rightarrow> False"
proof -
  let ?orig = "initial_options\<lparr>numbers := (numbers initial_options)(''node_id'' := -1, ''priority'' := 7)\<rparr>"
  have start: "numbers (set_defaults initial_options) ''node_id'' = -1" "texts (set_defaults initial_options) ''node_name'' = []"
    "texts initial_options ''node_name'' = []"
    by code_simp+
  obtain orig changed logged where "reload_options (\<lambda>_. True) (set_defaults initial_options) ?orig = (orig, changed, logged)"
    using prod_cases3 by blast
  then have run: "reload_config (\<lambda>d. d) (\<lambda>_. None) (\<lambda>_. True) None False ([], []) ?orig = Some (Inr (changed, orig, [], []))"
    by (simp add: reload_config_def parse_config_file_def Let_def start)
  from reload_takes_reloadable [OF run] have "numbers orig ''priority'' = 7"
    by (auto simp: reloadable_numbers_def)
  with run show ?thesis by simp
qed

end
