(* ===== verification/Shared_State.thy ===== *)
theory Shared_State
  imports Prelude
begin

text \<open>
  The server extension \<open>repmgr.c\<close>: the structure in the server's shared memory through which the
  \<open>repmgrd\<close> processes of a cluster talk to each other, and its SQL-callable functions. A function
  takes the server (its shared memory, the state file on disk, its clock) and returns the datum it
  answers with and the server. \<open>NULL\<close> arguments are \<open>None\<close>. The functions take the lock once, or
  take it shared and then again exclusively; the second kind is modelled step by step for
  \<open>am_bdr_failover_handler\<close> at the end of the theory.
\<close>

section \<open>State\<close>

abbreviation (input) UNKNOWN_NODE_ID :: int where "UNKNOWN_NODE_ID \<equiv> - 1"
abbreviation (input) UNKNOWN_PID :: int where "UNKNOWN_PID \<equiv> - 1"
abbreviation (input) ELECTION_RERUN_NOTIFICATION :: int where "ELECTION_RERUN_NOTIFICATION \<equiv> - 2"
abbreviation (input) POSTGRES_EPOCH_JDATE :: int where "POSTGRES_EPOCH_JDATE \<equiv> 2451545"

datatype node_voting_status = VS_UNKNOWN | VS_NO_VOTE | VS_VOTE_REQUEST_RECEIVED | VS_VOTE_INITIATED

record shared_state =
  last_updated :: int
  local_node_id :: int
  repmgrd_pid :: int
  repmgrd_pidfile :: string
  repmgrd_paused :: bool
  shm_upstream_last_seen :: int
  voting_status :: node_voting_status
  current_electoral_term :: int
  candidate_node_id :: int
  follow_new_primary_flag :: bool
  bdr_failover_handler :: int

text \<open>\<open>state_file\<close> is the first line of \<open>repmgrd_state.txt\<close>; \<open>now\<close> is the clock in microseconds.\<close>

record server =
  shmem :: "shared_state option"
  state_file :: "string option"
  now :: int

datatype datum = DNull | DVoid | DInt int | DBool bool | DText string | DTimestamp int

text \<open>
  \<open>repmgr_shmem_startup\<close>: \<open>raw\<close> is the memory \<open>ShmemInitStruct\<close> returns, \<open>found\<close> whether it was
  there already. \<open>last_updated\<close> is not initialised.
\<close>

definition repmgr_shmem_startup :: "shared_state \<Rightarrow> bool \<Rightarrow> server \<Rightarrow> server" where
  "repmgr_shmem_startup raw found srv =
     srv\<lparr>shmem := Some
       (if \<not> found then
          raw\<lparr>local_node_id := UNKNOWN_NODE_ID, repmgrd_pid := UNKNOWN_PID, repmgrd_pidfile := [],
            repmgrd_paused := False, current_electoral_term := 0,
            shm_upstream_last_seen := POSTGRES_EPOCH_JDATE, voting_status := VS_NO_VOTE,
            candidate_node_id := UNKNOWN_NODE_ID, follow_new_primary_flag := False,
            bdr_failover_handler := UNKNOWN_NODE_ID\<rparr>
        else raw)\<rparr>"

section \<open>The state file\<close>

text \<open>
  \<open>sscanf\<close> with \<open>%i\<close>: white space, a sign, then digits in the base the prefix says (\<open>0x\<close> for 16,
  \<open>0\<close> for 8, otherwise 10). The result is the number and the rest of the text.
\<close>

definition scan_i :: "string \<Rightarrow> (int \<times> string) option" where
  "scan_i s =
     (let t = dropWhile isspace s;
          neg = (t \<noteq> [] \<and> hd t = CHR ''-'');
          u = (if t \<noteq> [] \<and> (hd t = CHR ''-'' \<or> hd t = CHR ''+'') then tl t else t);
          r = (if take 2 u = ''0x'' \<or> take 2 u = ''0X'' then scan_digits 16 (drop 2 u)
               else if take 1 u = ''0'' then scan_digits 8 u
               else scan_digits 10 u)
      in map_option (\<lambda>(v, rest). (if neg then - v else v, rest)) r)"

text \<open>
  The two variables after \<open>sscanf(buffer, "%i:%i", ...)\<close>: a conversion that fails leaves its
  variable (and the ones after it) as it was.
\<close>

definition read_state_file :: "string option \<Rightarrow> int \<times> int" where
  "read_state_file file =
     (case file of
        None \<Rightarrow> (UNKNOWN_NODE_ID, - 1)
      | Some buffer \<Rightarrow>
          (case scan_i buffer of
             None \<Rightarrow> (UNKNOWN_NODE_ID, - 1)
           | Some (stored_node_id, rest) \<Rightarrow>
               (case rest of
                  c # rest' \<Rightarrow>
                    (if c = CHR '':'' then
                       (case scan_i rest' of None \<Rightarrow> (stored_node_id, - 1) | Some (p, _) \<Rightarrow> (stored_node_id, p))
                     else (stored_node_id, - 1))
                | [] \<Rightarrow> (stored_node_id, - 1))))"

section \<open>SQL functions\<close>

definition set_local_node_id :: "int option \<Rightarrow> server \<Rightarrow> datum \<times> server" where
  "set_local_node_id arg srv =
     (case shmem srv of
        None \<Rightarrow> (DNull, srv)
      | Some sh \<Rightarrow>
          (case arg of
             None \<Rightarrow> (DNull, srv)
           | Some node_id \<Rightarrow>
               let (stored_node_id, paused) = read_state_file (state_file srv);
                   sh = (if local_node_id sh = UNKNOWN_NODE_ID then sh\<lparr>local_node_id := node_id\<rparr> else sh);
                   sh = (if stored_node_id = local_node_id sh then
                           (if paused = 0 then sh\<lparr>repmgrd_paused := False\<rparr>
                            else if paused = 1 then sh\<lparr>repmgrd_paused := True\<rparr>
                            else sh)
                         else sh)
               in (DVoid, srv\<lparr>shmem := Some sh\<rparr>)))"

definition get_local_node_id :: "server \<Rightarrow> datum" where
  "get_local_node_id srv =
     (case shmem srv of None \<Rightarrow> DNull | Some sh \<Rightarrow> DInt (local_node_id sh))"

definition standby_set_last_updated :: "server \<Rightarrow> datum \<times> server" where
  "standby_set_last_updated srv =
     (case shmem srv of
        None \<Rightarrow> (DNull, srv)
      | Some sh \<Rightarrow> (DTimestamp (now srv), srv\<lparr>shmem := Some (sh\<lparr>last_updated := now srv\<rparr>)\<rparr>))"

definition standby_get_last_updated :: "server \<Rightarrow> datum" where
  "standby_get_last_updated srv =
     (case shmem srv of None \<Rightarrow> DNull | Some sh \<Rightarrow> DTimestamp (last_updated sh))"

definition set_upstream_last_seen :: "server \<Rightarrow> datum \<times> server" where
  "set_upstream_last_seen srv =
     (case shmem srv of
        None \<Rightarrow> (DVoid, srv)
      | Some sh \<Rightarrow> (DVoid, srv\<lparr>shmem := Some (sh\<lparr>shm_upstream_last_seen := now srv\<rparr>)\<rparr>))"

text \<open>\<open>TimestampDifference\<close> yields whole seconds, and zero when the clock went backwards.\<close>

definition get_upstream_last_seen :: "server \<Rightarrow> datum" where
  "get_upstream_last_seen srv =
     (case shmem srv of
        None \<Rightarrow> DInt (- 1)
      | Some sh \<Rightarrow>
          if shm_upstream_last_seen sh = POSTGRES_EPOCH_JDATE then DInt (- 1)
          else
            let diff = now srv - shm_upstream_last_seen sh;
                secs = (if diff \<le> 0 then 0 else diff div 1000000)
            in DInt (to_int32 secs))"

definition notify_follow_primary :: "int option \<Rightarrow> server \<Rightarrow> datum \<times> server" where
  "notify_follow_primary arg srv =
     (case shmem srv of
        None \<Rightarrow> (DVoid, srv)
      | Some sh \<Rightarrow>
          (case arg of
             None \<Rightarrow> (DVoid, srv)
           | Some primary_node_id \<Rightarrow>
               if local_node_id sh \<noteq> UNKNOWN_NODE_ID then
                 (DVoid, srv\<lparr>shmem := Some
                    (sh\<lparr>candidate_node_id := primary_node_id, follow_new_primary_flag := True\<rparr>)\<rparr>)
               else (DVoid, srv)))"

definition get_new_primary :: "server \<Rightarrow> datum" where
  "get_new_primary srv =
     (case shmem srv of
        None \<Rightarrow> DInt UNKNOWN_NODE_ID
      | Some sh \<Rightarrow> DInt (if follow_new_primary_flag sh then candidate_node_id sh else UNKNOWN_NODE_ID))"

definition reset_voting_status :: "server \<Rightarrow> datum \<times> server" where
  "reset_voting_status srv =
     (case shmem srv of
        None \<Rightarrow> (DNull, srv)
      | Some sh \<Rightarrow>
          if local_node_id sh \<noteq> UNKNOWN_NODE_ID then
            (DVoid, srv\<lparr>shmem := Some
               (sh\<lparr>voting_status := VS_NO_VOTE, candidate_node_id := UNKNOWN_NODE_ID,
                  follow_new_primary_flag := False\<rparr>)\<rparr>)
          else (DVoid, srv))"

definition am_bdr_failover_handler :: "int option \<Rightarrow> server \<Rightarrow> datum \<times> server" where
  "am_bdr_failover_handler arg srv =
     (case shmem srv of
        None \<Rightarrow> (DNull, srv)
      | Some sh \<Rightarrow>
          (case arg of
             None \<Rightarrow> (DNull, srv)
           | Some node_id \<Rightarrow>
               if bdr_failover_handler sh = UNKNOWN_NODE_ID then
                 (DBool True, srv\<lparr>shmem := Some (sh\<lparr>bdr_failover_handler := node_id\<rparr>)\<rparr>)
               else if bdr_failover_handler sh = node_id then (DBool True, srv)
               else (DBool False, srv)))"

definition unset_bdr_failover_handler :: "server \<Rightarrow> datum \<times> server" where
  "unset_bdr_failover_handler srv =
     (case shmem srv of
        None \<Rightarrow> (DNull, srv)
      | Some sh \<Rightarrow>
          if local_node_id sh \<noteq> UNKNOWN_NODE_ID then
            (DVoid, srv\<lparr>shmem := Some (sh\<lparr>bdr_failover_handler := UNKNOWN_NODE_ID\<rparr>)\<rparr>)
          else (DVoid, srv))"

definition get_repmgrd_pid :: "server \<Rightarrow> datum" where
  "get_repmgrd_pid srv = (case shmem srv of None \<Rightarrow> DNull | Some sh \<Rightarrow> DInt (repmgrd_pid sh))"

definition get_repmgrd_pidfile :: "server \<Rightarrow> datum" where
  "get_repmgrd_pidfile srv =
     (case shmem srv of
        None \<Rightarrow> DNull
      | Some sh \<Rightarrow> if repmgrd_pidfile sh = [] then DNull else DText (repmgrd_pidfile sh))"

definition set_repmgrd_pid :: "int option \<Rightarrow> string option \<Rightarrow> server \<Rightarrow> datum \<times> server" where
  "set_repmgrd_pid arg0 arg1 srv =
     (case shmem srv of
        None \<Rightarrow> (DVoid, srv)
      | Some sh \<Rightarrow>
          let pid = (case arg0 of None \<Rightarrow> UNKNOWN_PID | Some p \<Rightarrow> p);
              pidfile = (if pid \<noteq> UNKNOWN_PID then arg1 else None)
          in (DVoid, srv\<lparr>shmem := Some
                (sh\<lparr>repmgrd_pid := pid,
                   repmgrd_pidfile := (case pidfile of None \<Rightarrow> [] | Some f \<Rightarrow> take MAXPGPATH f)\<rparr>)\<rparr>))"

text \<open>\<open>kill_ok p\<close>: \<open>kill(p, 0)\<close> returns 0.\<close>

definition repmgrd_is_running :: "(int \<Rightarrow> bool) \<Rightarrow> server \<Rightarrow> datum" where
  "repmgrd_is_running kill_ok srv =
     (case shmem srv of
        None \<Rightarrow> DNull
      | Some sh \<Rightarrow> if repmgrd_pid sh = UNKNOWN_PID then DBool False else DBool (kill_ok (repmgrd_pid sh)))"

text \<open>\<open>can_open\<close>: \<open>AllocateFile\<close> could open the state file for writing.\<close>

definition repmgrd_pause :: "bool option \<Rightarrow> bool \<Rightarrow> server \<Rightarrow> datum \<times> server" where
  "repmgrd_pause arg can_open srv =
     (case shmem srv of
        None \<Rightarrow> (DNull, srv)
      | Some sh \<Rightarrow>
          (case arg of
             None \<Rightarrow> (DNull, srv)
           | Some pause \<Rightarrow>
               let srv = srv\<lparr>shmem := Some (sh\<lparr>repmgrd_paused := pause\<rparr>)\<rparr> in
               if \<not> can_open then (DVoid, srv)
               else (DVoid, srv\<lparr>state_file := Some
                 (int_string (local_node_id sh) @ '':'' @ int_string (if pause then 1 else 0))\<rparr>)))"

definition repmgrd_is_paused :: "server \<Rightarrow> datum" where
  "repmgrd_is_paused srv =
     (case shmem srv of None \<Rightarrow> DNull | Some sh \<Rightarrow> DBool (repmgrd_paused sh))"

definition get_wal_receiver_pid :: "int \<Rightarrow> server \<Rightarrow> datum" where
  "get_wal_receiver_pid walrcv_pid srv = (case shmem srv of None \<Rightarrow> DNull | Some sh \<Rightarrow> DInt walrcv_pid)"

section \<open>Reading back what was written\<close>

lemma digit_value_digit_char: "d < 10 \<Longrightarrow> digit_value (digit_char d) = int d"
  by (simp add: digit_value_def)

lemma nat_digits_values: "list_all (\<lambda>c. digit_value c < 10) (nat_digits n)"
  using nat_digits_is_digit [of n]
proof (rule list.pred_mono_strong)
  fix c assume "is_digit c"
  then have "48 \<le> (of_char c :: nat)" "(of_char c :: nat) \<le> 57" by (auto simp: is_digit_def)
  then have "48 \<le> int (of_char c)" "int (of_char c) \<le> 57" by linarith+
  then have "48 \<le> (of_char c :: int)" "(of_char c :: int) \<le> 57" by (simp_all only: of_nat_of_char)
  then show "digit_value c < 10" by (simp add: digit_value_def Let_def)
qed

lemma foldl_nat_digits: "foldl (\<lambda>a c. 10 * a + digit_value c) 0 (nat_digits n) = int n"
proof (induction n rule: nat_digits.induct)
  case (1 n)
  show ?case
  proof (cases "n < 10")
    case True
    then show ?thesis by (simp add: nat_digits.simps [of n] digit_value_digit_char)
  next
    case False
    with "1.IH" show ?thesis
      by (simp add: nat_digits.simps [of n] digit_value_digit_char) presburger
  qed
qed

lemma nat_digits_hd: "0 < n \<Longrightarrow> hd (nat_digits n) \<noteq> CHR ''0''"
proof (induction n rule: nat_digits.induct)
  case (1 n)
  show ?case
  proof (cases "n < 10")
    case True
    have "of_char (digit_char n) = 48 + n" using True by simp
    with "1.prems" have "digit_char n \<noteq> CHR ''0''" by auto
    with True show ?thesis by (subst nat_digits.simps) simp
  next
    case False
    then have "hd (nat_digits (n div 10)) \<noteq> CHR ''0''" by (intro "1.IH") auto
    with False show ?thesis by (subst nat_digits.simps) simp
  qed
qed

lemma scan_i_positive:
  assumes "0 < n" and "rest = [] \<or> \<not> digit_value (hd rest) < 10"
  shows "scan_i (int_string n @ rest) = Some (n, rest)"
proof -
  obtain c cs where c: "nat_digits (nat n) = c # cs" by (cases "nat_digits (nat n)") auto
  have dig: "is_digit c" using nat_digits_is_digit [of "nat n"] c by simp
  have nz: "c \<noteq> CHR ''0''" using nat_digits_hd [of "nat n"] assms(1) c by simp
  have ns: "\<not> isspace c" "c \<noteq> CHR ''-''" "c \<noteq> CHR ''+''"
    using dig isspace_not_digit by (auto simp: is_digit_def)
  have all: "\<forall>x \<in> set (nat_digits (nat n)). digit_value x < 10"
    using nat_digits_values [of "nat n"] by (simp add: list_all_iff)
  then have "takeWhile (\<lambda>c. digit_value c < 10) (nat_digits (nat n) @ rest) = nat_digits (nat n)"
    and "dropWhile (\<lambda>c. digit_value c < 10) (nat_digits (nat n) @ rest) = rest"
    using assms(2) by (auto simp: takeWhile_append dropWhile_append; cases rest; auto)+
  then have "scan_digits 10 (nat_digits (nat n) @ rest) = Some (n, rest)"
    using assms(1) by (simp add: scan_digits_def foldl_nat_digits)
  then show ?thesis
    using assms(1) ns nz by (simp add: scan_i_def int_string_def c Let_def numeral_2_eq_2)
qed

lemma int_string_0: "int_string 0 = ''0''" "int_string 1 = ''1''"
  by code_simp+

lemma scan_i_flags: "scan_i ''0'' = Some (0, [])" "scan_i ''1'' = Some (1, [])"
  by code_simp+

lemma read_written_state:
  assumes "0 < n"
  shows "read_state_file (Some (int_string n @ '':'' @ int_string (if pause then 1 else 0))) =
    (n, if pause then 1 else 0)"
proof -
  have "scan_i (int_string n @ ('':'' @ int_string (if pause then 1 else 0))) =
      Some (n, '':'' @ int_string (if pause then 1 else 0))"
    using assms by (intro scan_i_positive) (auto simp: digit_value_def)
  then show ?thesis
    by (cases pause) (simp_all add: read_state_file_def scan_i_flags int_string_0)
qed

section \<open>The notification channel\<close>

text \<open>
  What a waiting \<open>repmgrd\<close> relies on: a promoted node writes a node id into the channel, the node
  polls it, and clears it once it has acted. \<open>ready\<close> is that the node has announced its own id.
\<close>

locale notification_channel =
  fixes notify :: "int \<Rightarrow> 's \<Rightarrow> 's" and poll :: "'s \<Rightarrow> int" and reset :: "'s \<Rightarrow> 's"
    and ready :: "'s \<Rightarrow> bool"
  assumes poll_notify: "ready s \<Longrightarrow> poll (notify n s) = n"
    and poll_reset: "ready s \<Longrightarrow> poll (reset s) = UNKNOWN_NODE_ID"
    and ready_notify [simp]: "ready (notify n s) = ready s"
    and ready_reset [simp]: "ready (reset s) = ready s"
    and deaf: "\<not> ready s \<Longrightarrow> notify n s = s"
begin

lemma ready_notifications [simp]: "ready (fold notify ns s) = ready s"
  by (induction ns arbitrary: s) auto

lemma last_notification_wins: "ready s \<Longrightarrow> poll (fold notify (ns @ [n]) s) = n"
  by (simp add: poll_notify)

lemma nothing_before_reset: "ready s \<Longrightarrow> poll (reset (fold notify ns s)) = UNKNOWN_NODE_ID"
  by (simp add: poll_reset)

lemma notifications_lost: "\<not> ready s \<Longrightarrow> fold notify ns s = s"
  by (induction ns) (auto simp: deaf)

end

definition announced :: "server \<Rightarrow> bool" where
  "announced srv = (case shmem srv of None \<Rightarrow> False | Some sh \<Rightarrow> local_node_id sh \<noteq> UNKNOWN_NODE_ID)"

fun datum_int :: "datum \<Rightarrow> int" where
  "datum_int (DInt i) = i"
| "datum_int _ = 0"

interpretation channel: notification_channel "\<lambda>n srv. snd (notify_follow_primary (Some n) srv)"
  "\<lambda>srv. datum_int (get_new_primary srv)" "\<lambda>srv. snd (reset_voting_status srv)" announced
  by unfold_locales
    (auto simp: announced_def notify_follow_primary_def get_new_primary_def reset_voting_status_def
      split: option.splits)

section \<open>Histories of the shared memory\<close>

text \<open>
  One step of the server is a call of one of the functions, with any argument, or the passing of
  time; \<open>history\<close> is what can happen from a given state on.
\<close>

inductive shm_step :: "server \<Rightarrow> server \<Rightarrow> bool" where
  step_set_local: "shm_step srv (snd (set_local_node_id arg srv))"
| step_last_updated: "shm_step srv (snd (standby_set_last_updated srv))"
| step_last_seen: "shm_step srv (snd (set_upstream_last_seen srv))"
| step_notify: "shm_step srv (snd (notify_follow_primary arg srv))"
| step_reset: "shm_step srv (snd (reset_voting_status srv))"
| step_am_handler: "shm_step srv (snd (am_bdr_failover_handler arg srv))"
| step_unset_handler: "shm_step srv (snd (unset_bdr_failover_handler srv))"
| step_set_pid: "shm_step srv (snd (set_repmgrd_pid arg0 arg1 srv))"
| step_pause: "shm_step srv (snd (repmgrd_pause pause can_open srv))"
| step_clock: "now srv \<le> t \<Longrightarrow> shm_step srv (srv\<lparr>now := t\<rparr>)"

inductive history :: "server \<Rightarrow> server \<Rightarrow> bool" where
  start: "history srv srv"
| more: "history srv t \<Longrightarrow> shm_step t u \<Longrightarrow> history srv u"

lemmas shm_ops = set_local_node_id_def standby_set_last_updated_def set_upstream_last_seen_def
  notify_follow_primary_def reset_voting_status_def am_bdr_failover_handler_def
  unset_bdr_failover_handler_def set_repmgrd_pid_def repmgrd_pause_def

definition shm_inv :: "shared_state \<Rightarrow> bool" where
  "shm_inv sh \<longleftrightarrow>
     (follow_new_primary_flag sh \<longrightarrow> local_node_id sh \<noteq> UNKNOWN_NODE_ID) \<and>
     (\<not> follow_new_primary_flag sh \<longrightarrow> candidate_node_id sh = UNKNOWN_NODE_ID) \<and>
     voting_status sh = VS_NO_VOTE \<and> current_electoral_term sh = 0"

lemma shm_startup_inv: "shm_inv (the (shmem (repmgr_shmem_startup raw False srv)))"
  by (simp add: repmgr_shmem_startup_def shm_inv_def)

lemma shm_step_inv:
  assumes "shm_step s t" and "shmem s = Some sh" and "shm_inv sh"
  shows "\<exists>sh'. shmem t = Some sh' \<and> shm_inv sh' \<and>
    (local_node_id sh \<noteq> UNKNOWN_NODE_ID \<longrightarrow> local_node_id sh' = local_node_id sh)"
  using assms
  by cases (auto simp: shm_ops shm_inv_def Let_def split: option.splits prod.splits)

lemma history_inv:
  assumes "history s t" and "shmem s = Some sh" and "shm_inv sh"
  shows "\<exists>sh'. shmem t = Some sh' \<and> shm_inv sh' \<and>
    (local_node_id sh \<noteq> UNKNOWN_NODE_ID \<longrightarrow> local_node_id sh' = local_node_id sh)"
  using assms
proof induction
  case (more srv t u)
  then obtain sh1 where "shmem t = Some sh1" "shm_inv sh1"
    "local_node_id sh \<noteq> UNKNOWN_NODE_ID \<longrightarrow> local_node_id sh1 = local_node_id sh" by auto
  with shm_step_inv [OF more(2), of sh1] show ?case by auto
qed auto

section \<open>Choosing the BDR failover handler under concurrency\<close>

text \<open>
  The critical sections of concurrent calls of \<open>am_bdr_failover_handler\<close>, one backend each. A
  backend that finds no handler under the shared lock releases it and takes the lock exclusively
  (\<open>Upgrading\<close>); it then writes its node id without looking again.
\<close>

datatype backend = Calling int | Upgrading int | Answered int bool

record handler_race =
  handler :: int
  backends :: "backend list"

definition backend_step :: "nat \<Rightarrow> handler_race \<Rightarrow> handler_race" where
  "backend_step i r =
     (if i < length (backends r) then
        (case backends r ! i of
           Calling n \<Rightarrow>
             if handler r = UNKNOWN_NODE_ID then r\<lparr>backends := (backends r)[i := Upgrading n]\<rparr>
             else r\<lparr>backends := (backends r)[i := Answered n (handler r = n)]\<rparr>
         | Upgrading n \<Rightarrow> r\<lparr>handler := n, backends := (backends r)[i := Answered n True]\<rparr>
         | Answered n b \<Rightarrow> r)
      else r)"

definition race_from :: "int list \<Rightarrow> handler_race" where
  "race_from ns = \<lparr>handler = UNKNOWN_NODE_ID, backends = map Calling ns\<rparr>"

definition run_race :: "nat list \<Rightarrow> handler_race \<Rightarrow> handler_race" where
  "run_race schedule r = fold backend_step schedule r"

text \<open>A call that is not interrupted is the atomic function.\<close>

lemma backend_uninterrupted:
  assumes "i < length (backends r)" and "backends r ! i = Calling n" and "shmem srv = Some sh"
    and "bdr_failover_handler sh = handler r"
  shows "\<exists>b. fst (am_bdr_failover_handler (Some n) srv) = DBool b \<and>
    backends (run_race [i, i] r) ! i = Answered n b"
    and "bdr_failover_handler (the (shmem (snd (am_bdr_failover_handler (Some n) srv)))) =
      handler (run_race [i, i] r)"
proof -
  have two: "run_race [i, i] r = backend_step i (backend_step i r)" by (simp add: run_race_def)
  consider "handler r = UNKNOWN_NODE_ID" | "handler r \<noteq> UNKNOWN_NODE_ID" by blast
  then have "(\<exists>b. fst (am_bdr_failover_handler (Some n) srv) = DBool b \<and>
      backends (run_race [i, i] r) ! i = Answered n b) \<and>
    bdr_failover_handler (the (shmem (snd (am_bdr_failover_handler (Some n) srv)))) =
      handler (run_race [i, i] r)"
    using assms by cases (auto simp add: two backend_step_def am_bdr_failover_handler_def)
  then show "\<exists>b. fst (am_bdr_failover_handler (Some n) srv) = DBool b \<and>
      backends (run_race [i, i] r) ! i = Answered n b"
    and "bdr_failover_handler (the (shmem (snd (am_bdr_failover_handler (Some n) srv)))) =
      handler (run_race [i, i] r)" by blast+
qed

definition race_inv :: "handler_race \<Rightarrow> bool" where
  "race_inv r \<longleftrightarrow>
     (\<forall>n b. Answered n b \<in> set (backends r) \<longrightarrow> Answered (handler r) True \<in> set (backends r)) \<and>
     (handler r \<noteq> UNKNOWN_NODE_ID \<longrightarrow> Answered (handler r) True \<in> set (backends r))"

lemma backend_step_inv: "race_inv r \<Longrightarrow> race_inv (backend_step i r)"
proof (cases "i < length (backends r)")
  case True
  assume inv: "race_inv r"
  have keep: "Answered m c \<in> set (backends r) \<Longrightarrow> \<forall>m' c'. backends r ! i \<noteq> Answered m' c' \<Longrightarrow>
      Answered m c \<in> set ((backends r)[i := b])" for m c b
    by (metis in_set_conv_nth length_list_update nth_list_update_neq)
  have new: "b \<in> set ((backends r)[i := b])" for b using True by (rule set_update_memI)
  have sub: "x \<in> set ((backends r)[i := b]) \<Longrightarrow> x = b \<or> x \<in> set (backends r)" for x b
    using set_update_subset_insert by fastforce
  show ?thesis
  proof (cases "backends r ! i")
    case (Calling n)
    show ?thesis
    proof (cases "handler r = UNKNOWN_NODE_ID")
      case True
      then show ?thesis using inv Calling \<open>i < _\<close> keep
        by (auto simp: race_inv_def backend_step_def dest!: sub)
    next
      case False
      then have "Answered (handler r) True \<in> set (backends r)" using inv by (simp add: race_inv_def)
      then have "Answered (handler r) True \<in> set ((backends r)[i := b])" for b
        using keep Calling by simp
      then show ?thesis using False Calling \<open>i < _\<close> by (simp add: race_inv_def backend_step_def)
    qed
  next
    case (Upgrading n)
    then show ?thesis using \<open>i < _\<close> new [of "Answered n True"]
      by (simp add: race_inv_def backend_step_def)
  next
    case (Answered n b)
    then show ?thesis using inv \<open>i < _\<close> by (simp add: backend_step_def)
  qed
qed (simp add: backend_step_def)

lemma run_race_inv: "race_inv r \<Longrightarrow> race_inv (run_race schedule r)"
  by (induction schedule arbitrary: r) (auto simp: run_race_def backend_step_inv)

lemma race_from_inv: "race_inv (race_from ns)"
  by (auto simp: race_inv_def race_from_def)

section \<open>Properties\<close>

text \<open>
  A pause survives a restart of the server: after \<open>repmgrd_pause\<close> has written the state file,
  a fresh shared memory segment gets the same pause setting as soon as the node announces the id
  it had.
\<close>

theorem pause_survives_restart:
  assumes "shmem srv = Some sh" and "0 < local_node_id sh"
  shows "let srv1 = snd (repmgrd_pause (Some pause) True srv);
             srv2 = repmgr_shmem_startup raw False srv1;
             srv3 = snd (set_local_node_id (Some (local_node_id sh)) srv2)
         in repmgrd_is_paused srv3 = DBool pause \<and> get_local_node_id srv3 = get_local_node_id srv"
  using assms read_written_state [OF assms(2), of pause]
  by (cases pause) (auto simp: repmgrd_pause_def repmgr_shmem_startup_def set_local_node_id_def
      repmgrd_is_paused_def get_local_node_id_def Let_def)

definition example_shm :: shared_state where
  "example_shm = \<lparr>last_updated = 0, local_node_id = 2, repmgrd_pid = 100, repmgrd_pidfile = [],
     repmgrd_paused = False, shm_upstream_last_seen = 0, voting_status = VS_NO_VOTE,
     current_electoral_term = 0, candidate_node_id = UNKNOWN_NODE_ID,
     follow_new_primary_flag = False, bdr_failover_handler = UNKNOWN_NODE_ID\<rparr>"

definition example_server :: server where
  "example_server = \<lparr>shmem = Some example_shm, state_file = None, now = 0\<rparr>"

lemma pause_survives_restart_witness:
  "repmgrd_is_paused (snd (set_local_node_id (Some 2)
     (repmgr_shmem_startup example_shm False (snd (repmgrd_pause (Some True) True example_server))))) = DBool True"
  using pause_survives_restart [of example_server example_shm True example_shm]
  by (simp add: example_server_def example_shm_def Let_def)

text \<open>
  Of several notifications a node that has announced itself receives before it looks, it
  follows the last; and after it has reset its voting status it sees none of them.
\<close>

theorem notifications_last_wins:
  assumes "announced srv"
  shows "datum_int (get_new_primary
      (fold (\<lambda>n srv. snd (notify_follow_primary (Some n) srv)) (ns @ [n]) srv)) = n \<and>
    datum_int (get_new_primary (snd (reset_voting_status
      (fold (\<lambda>n srv. snd (notify_follow_primary (Some n) srv)) ns srv)))) = UNKNOWN_NODE_ID"
  using channel.last_notification_wins [OF assms] channel.nothing_before_reset [OF assms] by blast

lemma notifications_last_wins_witness:
  "datum_int (get_new_primary
     (fold (\<lambda>n srv. snd (notify_follow_primary (Some n) srv)) ([3, ELECTION_RERUN_NOTIFICATION] @ [5])
       example_server)) = 5"
  using notifications_last_wins [of example_server "[3, ELECTION_RERUN_NOTIFICATION]" 5]
  by (simp add: announced_def example_server_def example_shm_def)

text \<open>
  C21: whatever sequence of calls reaches the shared memory after start-up, a pending notification
  implies that the node has announced its id, a node without one has no candidate, and the node id
  once set never changes; the voting status and the electoral term kept there never leave their
  initial values.
\<close>

theorem shared_memory_invariant:
  assumes "history (repmgr_shmem_startup raw False srv) t" and "history t u"
  shows "\<exists>sh sh'. shmem t = Some sh \<and> shmem u = Some sh' \<and> shm_inv sh \<and> shm_inv sh' \<and>
    (local_node_id sh \<noteq> UNKNOWN_NODE_ID \<longrightarrow> local_node_id sh' = local_node_id sh)"
proof -
  have "shmem (repmgr_shmem_startup raw False srv) =
      Some (the (shmem (repmgr_shmem_startup raw False srv)))"
    by (simp add: repmgr_shmem_startup_def)
  from history_inv [OF assms(1) this shm_startup_inv] obtain sh where
    sh: "shmem t = Some sh" "shm_inv sh" by blast
  from history_inv [OF assms(2) this] sh show ?thesis by blast
qed

lemma shared_memory_invariant_witness:
  "\<exists>sh sh'. shmem (snd (set_local_node_id (Some 2) (repmgr_shmem_startup example_shm False example_server))) =
      Some sh \<and>
    shmem (snd (notify_follow_primary (Some 7)
      (snd (set_local_node_id (Some 2) (repmgr_shmem_startup example_shm False example_server))))) = Some sh' \<and>
    shm_inv sh \<and> shm_inv sh' \<and>
    (local_node_id sh \<noteq> UNKNOWN_NODE_ID \<longrightarrow> local_node_id sh' = local_node_id sh)"
  by (rule shared_memory_invariant [OF more [OF start step_set_local] more [OF start step_notify]])

text \<open>
  C20: concurrent calls of \<open>am_bdr_failover_handler\<close>: under every schedule the node recorded in
  shared memory was told that it is the handler as soon as any call has been answered; but the
  function releases the shared lock before it takes the exclusive one and does not look again, so
  there is a schedule of two calls in which two different nodes are both told that they are the
  only handler.
\<close>

theorem bdr_handler_race:
  "(\<forall>schedule ns n b. Answered n b \<in> set (backends (run_race schedule (race_from ns))) \<longrightarrow>
      Answered (handler (run_race schedule (race_from ns))) True
        \<in> set (backends (run_race schedule (race_from ns)))) \<and>
   backends (run_race [0, 1, 0, 1] (race_from [1, 2])) = [Answered 1 True, Answered 2 True]"
proof
  show "\<forall>schedule ns n b. Answered n b \<in> set (backends (run_race schedule (race_from ns))) \<longrightarrow>
      Answered (handler (run_race schedule (race_from ns))) True
        \<in> set (backends (run_race schedule (race_from ns)))"
    using run_race_inv [OF race_from_inv] unfolding race_inv_def by blast
  show "backends (run_race [0, 1, 0, 1] (race_from [1, 2])) = [Answered 1 True, Answered 2 True]"
    by (simp add: run_race_def race_from_def backend_step_def)
qed

lemma bdr_handler_race_witness:
  "Answered (handler (run_race [0, 0] (race_from [1, 2]))) True
     \<in> set (backends (run_race [0, 0] (race_from [1, 2])))"
  using bdr_handler_race [THEN conjunct1, rule_format, of 1 True "[0, 0]" "[1, 2]"]
  by (simp add: run_race_def race_from_def backend_step_def)

end
