(* ===== verification/Node_Types.thy ===== *)
theory Node_Types
  imports Prelude
begin

text \<open>
  The data of \<open>dbutils.h\<close> every part of the program shares: the enumerations, the node record
  \<open>t_node_info\<close>, the replication information \<open>ReplInfo\<close>, and the conversions of \<open>dbutils.c\<close> between
  a node's type and its name in the table \<open>repmgr.nodes\<close>.
\<close>

section \<open>Enumerations\<close>

datatype server_type = UNKNOWN | PRIMARY | STANDBY | WITNESS | BDR
datatype recovery_type = RECTYPE_UNKNOWN | RECTYPE_PRIMARY | RECTYPE_STANDBY
datatype record_status = RECORD_ERROR | RECORD_FOUND | RECORD_NOT_FOUND
datatype monitoring_state = MS_NORMAL | MS_DEGRADED
datatype node_status = NODE_STATUS_UNKNOWN | NODE_STATUS_UP | NODE_STATUS_SHUTTING_DOWN
  | NODE_STATUS_DOWN | NODE_STATUS_UNCLEAN_SHUTDOWN | NODE_STATUS_REJECTED

abbreviation (input) NODE_NOT_FOUND :: int where "NODE_NOT_FOUND \<equiv> - 1"
abbreviation (input) NO_UPSTREAM_NODE :: int where "NO_UPSTREAM_NODE \<equiv> - 1"
abbreviation (input) UNKNOWN_NODE_ID :: int where "UNKNOWN_NODE_ID \<equiv> - 1"
abbreviation (input) ELECTION_RERUN_NOTIFICATION :: int where "ELECTION_RERUN_NOTIFICATION \<equiv> - 2"
abbreviation (input) NAMEDATALEN :: nat where "NAMEDATALEN \<equiv> 64"
abbreviation (input) InvalidXLogRecPtr :: "64 word" where "InvalidXLogRecPtr \<equiv> 0"

text \<open>
  A \<open>PGconn *\<close> is \<open>NULL\<close> or the connection opened by the \<open>n\<close>-th call out of the program, with
  the connection string or the parameter list it was opened with.
\<close>

datatype pgconn = NULL_CONN | CONN string nat | CONN_PARAMS "(string \<times> string option) list" nat

section \<open>Node records\<close>

record node_info =
  node_id :: int
  upstream_node_id :: int
  node_type :: server_type
  node_name :: string
  upstream_node_name :: string
  conninfo :: string
  repluser :: string
  location :: string
  priority :: int
  active :: bool
  slot_name :: string
  config_file :: string
  virtual_ip :: string
  network_card :: string
  last_wal_receive_lsn :: "64 word"
  node_status :: node_status
  recovery_type :: recovery_type
  node_monitoring_state :: monitoring_state
  node_conn :: pgconn
  node_details :: string
  reachable :: bool
  attached :: bool
  max_wal_senders :: int
  attached_wal_receivers :: int
  max_replication_slots :: int
  total_replication_slots :: int
  active_replication_slots :: int
  inactive_replication_slots :: int
  failed_connect_times :: int

text \<open>\<open>T_NODE_INFO_INITIALIZER\<close>, and the record \<open>pg_malloc0\<close> returns: all bytes zero.\<close>

definition node_info_init :: node_info where
  "node_info_init =
     \<lparr>node_id = NODE_NOT_FOUND, upstream_node_id = NO_UPSTREAM_NODE, node_type = UNKNOWN,
      node_name = [], upstream_node_name = [], conninfo = [], repluser = [],
      location = ''default'', priority = 100, active = True, slot_name = [], config_file = [],
      virtual_ip = [], network_card = [], last_wal_receive_lsn = InvalidXLogRecPtr,
      node_status = NODE_STATUS_UNKNOWN, recovery_type = RECTYPE_UNKNOWN,
      node_monitoring_state = MS_NORMAL, node_conn = NULL_CONN, node_details = [], reachable = True, attached = True,
      max_wal_senders = - 1, attached_wal_receivers = - 1, max_replication_slots = - 1,
      total_replication_slots = - 1, active_replication_slots = - 1, inactive_replication_slots = - 1,
      failed_connect_times = 0\<rparr>"

definition node_info_zero :: node_info where
  "node_info_zero =
     \<lparr>node_id = 0, upstream_node_id = 0, node_type = UNKNOWN, node_name = [], upstream_node_name = [],
      conninfo = [], repluser = [], location = [], priority = 0, active = False, slot_name = [],
      config_file = [], virtual_ip = [], network_card = [], last_wal_receive_lsn = 0,
      node_status = NODE_STATUS_UP, recovery_type = RECTYPE_PRIMARY,
      node_monitoring_state = MS_NORMAL, node_conn = NULL_CONN, node_details = [], reachable = False, attached = False,
      max_wal_senders = 0, attached_wal_receivers = 0, max_replication_slots = 0,
      total_replication_slots = 0, active_replication_slots = 0, inactive_replication_slots = 0,
      failed_connect_times = 0\<rparr>"

record repl_info =
  current_timestamp :: string
  in_recovery :: bool
  ri_last_wal_receive_lsn :: "64 word"
  last_wal_replay_lsn :: "64 word"
  last_xact_replay_timestamp :: string
  replication_lag_time :: int
  receiving_streamed_wal :: bool
  wal_replay_paused :: bool
  upstream_last_seen :: int

definition init_replication_info :: "repl_info \<Rightarrow> repl_info" where
  "init_replication_info ri =
     ri\<lparr>current_timestamp := [], in_recovery := False, ri_last_wal_receive_lsn := InvalidXLogRecPtr,
       last_wal_replay_lsn := InvalidXLogRecPtr, last_xact_replay_timestamp := [],
       replication_lag_time := 0, receiving_streamed_wal := True, wal_replay_paused := False,
       upstream_last_seen := - 1\<rparr>"

section \<open>Conversions\<close>

definition parse_node_type :: "string \<Rightarrow> server_type" where
  "parse_node_type s =
     (if s = ''primary'' then PRIMARY
      else if s = ''standby'' then STANDBY
      else if s = ''witness'' then WITNESS
      else if s = ''bdr'' then BDR
      else UNKNOWN)"

definition get_node_type_string :: "server_type \<Rightarrow> string" where
  "get_node_type_string t =
     (case t of
        PRIMARY \<Rightarrow> ''primary''
      | STANDBY \<Rightarrow> ''standby''
      | WITNESS \<Rightarrow> ''witness''
      | BDR \<Rightarrow> ''bdr''
      | UNKNOWN \<Rightarrow> ''unknown'')"

definition print_monitoring_state :: "monitoring_state \<Rightarrow> string" where
  "print_monitoring_state s = (case s of MS_NORMAL \<Rightarrow> ''normal'' | MS_DEGRADED \<Rightarrow> ''degraded'')"

definition atobool :: "string \<Rightarrow> bool" where
  "atobool value = (value = ''t'')"

lemma parse_node_type_string [simp, enum_simps]: "parse_node_type (get_node_type_string t) = t"
  by (cases t) (simp_all add: parse_node_type_def get_node_type_string_def)

lemma get_node_type_string_inj [simp]: "get_node_type_string t = get_node_type_string u \<longleftrightarrow> t = u"
  by (metis parse_node_type_string)

section \<open>Positions in the write-ahead log\<close>

text \<open>
  \<open>sscanf\<close> with \<open>%x\<close>: white space, a sign, an optional \<open>0x\<close>, hexadecimal digits; the value
  saturates at 64 bits and its low 32 bits are stored.
\<close>

definition scan_x :: "string \<Rightarrow> (32 word \<times> string) option" where
  "scan_x s =
     (let t = dropWhile isspace s;
          neg = (t \<noteq> [] \<and> hd t = CHR ''-'');
          u = (if t \<noteq> [] \<and> (hd t = CHR ''-'' \<or> hd t = CHR ''+'') then tl t else t);
          r = (if take 2 u = ''0x'' \<or> take 2 u = ''0X'' then scan_digits 16 (drop 2 u) else scan_digits 16 u)
      in map_option
           (\<lambda>(v, rest). (let m = min v (2 ^ 64 - 1) in word_of_int (if neg then - m else m), rest)) r)"

definition parse_lsn :: "string \<Rightarrow> 64 word" where
  "parse_lsn str =
     (case scan_x str of
        None \<Rightarrow> InvalidXLogRecPtr
      | Some (high, rest) \<Rightarrow>
          (case rest of
             [] \<Rightarrow> InvalidXLogRecPtr
           | c # rest' \<Rightarrow>
               if c = CHR ''/'' then
                 (case scan_x rest' of
                    None \<Rightarrow> InvalidXLogRecPtr
                  | Some (low, _) \<Rightarrow> push_bit 32 (ucast high) + ucast low)
               else InvalidXLogRecPtr))"

text \<open>The text of a position, \<open>%X/%X\<close> of its two halves, as the server prints it.\<close>

definition hex_char :: "nat \<Rightarrow> char" where
  "hex_char d = (if d < 10 then char_of (48 + d) else char_of (55 + d))"

fun hex_digits :: "nat \<Rightarrow> string" where
  "hex_digits n = (if n < 16 then [hex_char n] else hex_digits (n div 16) @ [hex_char (n mod 16)])"

declare hex_digits.simps [simp del]

definition lsn_string :: "64 word \<Rightarrow> string" where
  "lsn_string w = hex_digits (unat (drop_bit 32 w)) @ ''/'' @ hex_digits (unat (take_bit 32 w))"

lemma hex_char_code:
  "d < 16 \<Longrightarrow> (of_char (hex_char d) :: nat) = (if d < 10 then 48 + d else 55 + d)"
  by (simp add: hex_char_def)

lemma hex_char_value:
  assumes "d < 16"
  shows "digit_value (hex_char d) = int d"
proof -
  have "int (of_char (hex_char d)) = int (if d < 10 then 48 + d else 55 + d)"
    using assms by (simp only: hex_char_code)
  then have "(of_char (hex_char d) :: int) = int (if d < 10 then 48 + d else 55 + d)"
    by (simp only: of_nat_of_char)
  with assms show ?thesis by (auto simp: digit_value_def Let_def)
qed

lemma hex_digits_chars: "c \<in> set (hex_digits n) \<Longrightarrow> \<exists>d < 16. c = hex_char d"
proof (induction n rule: hex_digits.induct)
  case (1 n)
  have "\<exists>d < 16. hex_char (n mod 16) = hex_char d" by (rule exI [of _ "n mod 16"]) simp
  with 1 show ?case by (cases "n < 16") (auto simp: hex_digits.simps [of n])
qed

lemma hex_char_plain:
  assumes "d < 16"
  shows "\<not> isspace (hex_char d)" and "hex_char d \<noteq> CHR ''-''" and "hex_char d \<noteq> CHR ''+''"
    and "hex_char d \<noteq> CHR ''x''" and "hex_char d \<noteq> CHR ''X''"
proof -
  have "isspace c \<or> c = CHR ''-'' \<or> c = CHR ''+'' \<or> c = CHR ''x'' \<or> c = CHR ''X'' \<Longrightarrow>
      (of_char c :: nat) < 48 \<or> 71 \<le> (of_char c :: nat)" for c
    by (auto simp: isspace_def)
  with hex_char_code [OF assms] assms
  show "\<not> isspace (hex_char d)" and "hex_char d \<noteq> CHR ''-''" and "hex_char d \<noteq> CHR ''+''"
    and "hex_char d \<noteq> CHR ''x''" and "hex_char d \<noteq> CHR ''X''"
    by (fastforce split: if_splits)+
qed

lemma hex_digits_foldl: "foldl (\<lambda>a c. 16 * a + digit_value c) 0 (hex_digits n) = int n"
proof (induction n rule: hex_digits.induct)
  case (1 n)
  then show ?case
    by (cases "n < 16") (simp_all add: hex_digits.simps [of n] hex_char_value, presburger)
qed

lemma hex_digits_nonempty [simp]: "hex_digits n \<noteq> []"
  by (subst hex_digits.simps) simp

lemma scan_x_hex_digits:
  assumes "n < 2 ^ 32" and "rest = [] \<or> digit_value (hd rest) \<ge> 16 \<and> hd rest \<noteq> CHR ''x'' \<and> hd rest \<noteq> CHR ''X''"
  shows "scan_x (hex_digits n @ rest) = Some (word_of_int (int n), rest)"
proof -
  obtain c cs where c: "hex_digits n = c # cs" by (cases "hex_digits n") auto
  have hex: "\<exists>d < 16. x = hex_char d" if "x \<in> set (c # cs)" for x
    using that hex_digits_chars [of x n] c by simp
  then obtain d where "d < 16" "c = hex_char d" by auto
  note plain = hex_char_plain [OF \<open>d < 16\<close>, folded \<open>c = hex_char d\<close>]
  have val: "\<forall>x \<in> set (hex_digits n). digit_value x < 16"
    using hex_digits_chars hex_char_value by fastforce
  then have tw: "takeWhile (\<lambda>c. digit_value c < 16) (hex_digits n @ rest) = hex_digits n"
    and dw: "dropWhile (\<lambda>c. digit_value c < 16) (hex_digits n @ rest) = rest"
    using assms(2) by (auto simp: takeWhile_append dropWhile_append; cases rest; auto)+
  have digits: "scan_digits 16 (hex_digits n @ rest) = Some (int n, rest)"
    by (simp add: scan_digits_def tw dw hex_digits_foldl)
  have second: "take 2 (c # cs @ rest) \<noteq> ''0x'' \<and> take 2 (c # cs @ rest) \<noteq> ''0X''"
  proof (cases cs)
    case Nil
    with assms(2) show ?thesis by (cases rest) auto
  next
    case (Cons e es)
    with hex [of e] hex_char_plain(4,5) show ?thesis by auto
  qed
  have "min (int n) (2 ^ 64 - 1) = int n" using assms(1) by simp
  with digits second plain show ?thesis by (auto simp: scan_x_def c Let_def)
qed

lemma parse_lsn_string: "parse_lsn (lsn_string w) = w"
proof -
  have high: "unat (drop_bit 32 w) < 2 ^ 32"
  proof -
    have w: "unat w < 2 ^ 64" using unsigned_less [of w] by simp
    then have "unat w div 2 ^ 32 < 2 ^ 32" by (intro less_mult_imp_div_less) simp
    moreover have "unat (drop_bit 32 w) = unat w div 2 ^ 32"
      by (subst unsigned_drop_bit_eq) (use w in \<open>simp add: drop_bit_eq_div take_bit_eq_mod\<close>)
    ultimately show ?thesis by simp
  qed
  have low: "unat (take_bit 32 w) < 2 ^ 32"
    using take_bit_nat_less_exp [of 32 "unat w"] by (simp add: unsigned_take_bit_eq)
  have slash: "digit_value CHR ''/'' = 99" by (simp add: digit_value_def)
  have s1: "scan_x (lsn_string w) = Some (word_of_int (int (unat (drop_bit 32 w))), ''/'' @ hex_digits (unat (take_bit 32 w)))"
    unfolding lsn_string_def using high by (rule scan_x_hex_digits) (simp add: slash)
  have s2: "scan_x (hex_digits (unat (take_bit 32 w))) = Some (word_of_int (int (unat (take_bit 32 w))), [])"
    using scan_x_hex_digits [OF low, of "[]"] by simp
  have half: "(ucast (word_of_int (int (unat x)) :: 32 word) :: 64 word) = take_bit 32 x" for x :: "64 word"
    by (rule bit_eqI) (auto simp: bit_simps)
  have "take_bit 32 (drop_bit 32 w) = drop_bit 32 w" and "take_bit 32 (take_bit 32 w) = take_bit 32 w"
    by (rule bit_eqI, auto simp: bit_simps dest: bit_imp_le_length)+
  then have "push_bit 32 (ucast (word_of_int (int (unat (drop_bit 32 w))) :: 32 word) :: 64 word)
      + ucast (word_of_int (int (unat (take_bit 32 w))) :: 32 word) = w"
    unfolding half by (simp only: bits_ident)
  then show ?thesis by (simp add: parse_lsn_def s1 s2)
qed

text \<open>
  \<open>parse_lsn\<close> reads back every position as the server prints it, two hexadecimal halves with a
  slash between them.
\<close>

theorem lsn_round_trip: "parse_lsn (lsn_string w) = w"
  by (rule parse_lsn_string)

end
