(* ===== verification/Node_Records.thy ===== *)
theory Node_Records
  imports Node_Types
begin

text \<open>
  The node record functions of \<open>dbutils.c\<close>: each sends SQL statements on the table \<open>repmgr.nodes\<close>
  through a connection. The connection is a computation over the state of the database session:
  the rows, the transaction that is open, and the server's answers. \<open>db_answers k\<close> says whether the
  \<open>k\<close>-th statement is executed at all (a statement that is not, has no effect and yields an error); a
  statement is also refused when it breaks a constraint of the table (sql: \<open>repmgr--4.4.sql\<close>), and
  after an error inside a transaction every further statement up to its end is refused.
\<close>

section \<open>The table\<close>

record node_row =
  row_node_id :: int
  row_upstream_node_id :: "int option"
  row_active :: bool
  row_node_name :: string
  row_type :: string
  row_location :: string
  row_priority :: int
  row_conninfo :: string
  row_repluser :: string
  row_slot_name :: "string option"
  row_config_file :: string
  row_virtual_ip :: "string option"
  row_network_card :: "string option"

record database =
  db_rows :: "node_row list"
  db_saved :: "node_row list option"
  db_aborted :: bool
  db_deferred :: bool
  db_answers :: "nat \<Rightarrow> bool"
  db_executed :: nat

definition row_types :: "string list" where
  "row_types = [''primary'', ''standby'', ''witness'', ''bdr'']"

text \<open>The foreign key is deferrable, the primary key and the check on the type are not.\<close>

definition fk_ok :: "node_row list \<Rightarrow> bool" where
  "fk_ok rows =
     list_all (\<lambda>r. case row_upstream_node_id r of
                 None \<Rightarrow> True | Some u \<Rightarrow> u \<in> set (map row_node_id rows)) rows"

definition rows_ok :: "bool \<Rightarrow> node_row list \<Rightarrow> bool" where
  "rows_ok deferred rows \<longleftrightarrow>
     distinct (map row_node_id rows) \<and> list_all (\<lambda>r. row_type r \<in> set row_types) rows \<and>
     (deferred \<or> fk_ok rows)"

section \<open>Statements and transactions\<close>

definition tick :: "database \<Rightarrow> database" where
  "tick db = db\<lparr>db_executed := db_executed db + 1\<rparr>"

definition answered :: "database \<Rightarrow> bool" where
  "answered db \<longleftrightarrow> db_answers db (db_executed db)"

definition sql_command :: "(node_row list \<Rightarrow> node_row list) \<Rightarrow> (database, bool) state" where
  "sql_command f = State (\<lambda>db.
     if \<not> db_aborted db \<and> answered db \<and> rows_ok (db_deferred db) (f (db_rows db))
     then (True, tick (db\<lparr>db_rows := f (db_rows db)\<rparr>))
     else (False, tick (db\<lparr>db_aborted := (db_saved db \<noteq> None)\<rparr>)))"

definition sql_query :: "(node_row list \<Rightarrow> 'a) \<Rightarrow> (database, 'a option) state" where
  "sql_query f = State (\<lambda>db.
     if \<not> db_aborted db \<and> answered db then (Some (f (db_rows db)), tick db)
     else (None, tick (db\<lparr>db_aborted := (db_saved db \<noteq> None)\<rparr>)))"

definition begin_transaction :: "(database, bool) state" where
  "begin_transaction = State (\<lambda>db.
     if answered db \<and> \<not> db_aborted db then
       (True, tick (if db_saved db = None then db\<lparr>db_saved := Some (db_rows db)\<rparr> else db))
     else (False, tick db))"

text \<open>The end of a transaction restores the rows when the transaction does not commit.\<close>

definition end_transaction :: "node_row list \<Rightarrow> database \<Rightarrow> database" where
  "end_transaction rows db =
     tick (db\<lparr>db_rows := rows, db_saved := None, db_aborted := False, db_deferred := False\<rparr>)"

definition rows_before :: "database \<Rightarrow> node_row list" where
  "rows_before db = (case db_saved db of None \<Rightarrow> db_rows db | Some rows \<Rightarrow> rows)"

text \<open>
  \<open>COMMIT\<close> of a transaction in which an error occurred succeeds as a command but rolls back; with
  a violated deferred constraint it fails and rolls back.
\<close>

definition commit_transaction :: "(database, bool) state" where
  "commit_transaction = State (\<lambda>db.
     if \<not> answered db then (False, end_transaction (rows_before db) db)
     else if db_aborted db then (True, end_transaction (rows_before db) db)
     else if fk_ok (db_rows db) then (True, end_transaction (db_rows db) db)
     else (False, end_transaction (rows_before db) db))"

definition rollback_transaction :: "(database, bool) state" where
  "rollback_transaction = State (\<lambda>db. (answered db, end_transaction (rows_before db) db))"

definition defer_constraints :: "(database, bool) state" where
  "defer_constraints = State (\<lambda>db.
     if \<not> db_aborted db \<and> answered db then (True, tick (db\<lparr>db_deferred := (db_saved db \<noteq> None)\<rparr>))
     else (False, tick (db\<lparr>db_aborted := (db_saved db \<noteq> None)\<rparr>)))"

section \<open>Reading node records\<close>

text \<open>
  \<open>_populate_node_record\<close> from a result row: the columns of \<open>REPMGR_NODES_COLUMNS\<close>, which do not
  include \<open>virtual_ip\<close> and \<open>network_card\<close>; a \<open>NULL\<close> text is read as the empty string.
\<close>

definition populate_node_record :: "node_row \<Rightarrow> string \<Rightarrow> bool \<Rightarrow> node_info \<Rightarrow> node_info" where
  "populate_node_record r upstream_name init_defaults info =
     (let info = info\<lparr>node_id := row_node_id r,
        node_type := parse_node_type (row_type r),
        upstream_node_id := (case row_upstream_node_id r of None \<Rightarrow> NO_UPSTREAM_NODE | Some u \<Rightarrow> u),
        node_name := take (NAMEDATALEN - 1) (row_node_name r),
        conninfo := take (MAXLEN - 1) (row_conninfo r),
        repluser := take (NAMEDATALEN - 1) (row_repluser r),
        slot_name := take (MAXLEN - 1) (case row_slot_name r of None \<Rightarrow> [] | Some s \<Rightarrow> s),
        location := take (MAXLEN - 1) (row_location r),
        priority := row_priority r,
        active := row_active r,
        config_file := take (MAXPGPATH - 1) (row_config_file r),
        upstream_node_name := take (NAMEDATALEN - 1) upstream_name\<rparr>
      in if init_defaults then
           info\<lparr>node_status := NODE_STATUS_UNKNOWN, recovery_type := RECTYPE_UNKNOWN,
             last_wal_receive_lsn := InvalidXLogRecPtr, node_monitoring_state := MS_NORMAL,
             node_conn := NULL_CONN\<rparr>
         else info)"

text \<open>
  \<open>_get_node_record\<close> on the first row of the query's result; the node record is left alone when
  there is none.
\<close>

definition get_node_record_where ::
  "(node_row list \<Rightarrow> (node_row \<times> string) list) \<Rightarrow> bool \<Rightarrow> node_info
     \<Rightarrow> (database, record_status \<times> node_info) state" where
  "get_node_record_where q init_defaults info = do {
     res \<leftarrow> sql_query q;
     ret (case res of
            None \<Rightarrow> (RECORD_ERROR, info)
          | Some [] \<Rightarrow> (RECORD_NOT_FOUND, info)
          | Some ((r, up) # _) \<Rightarrow> (RECORD_FOUND, populate_node_record r up init_defaults info))
   }"

definition rows_with_id :: "int \<Rightarrow> node_row list \<Rightarrow> (node_row \<times> string) list" where
  "rows_with_id n rows = map (\<lambda>r. (r, [])) (filter (\<lambda>r. row_node_id r = n) rows)"

definition get_node_record :: "int \<Rightarrow> node_info \<Rightarrow> (database, record_status \<times> node_info) state" where
  "get_node_record n info = get_node_record_where (rows_with_id n) True info"

definition refresh_node_record :: "int \<Rightarrow> node_info \<Rightarrow> (database, record_status \<times> node_info) state" where
  "refresh_node_record n info = get_node_record_where (rows_with_id n) False info"

definition get_node_record_with_upstream ::
  "int \<Rightarrow> node_info \<Rightarrow> (database, record_status \<times> node_info) state" where
  "get_node_record_with_upstream n info =
     get_node_record_where
       (\<lambda>rows. map (\<lambda>r. (r, case find (\<lambda>u. Some (row_node_id u) = row_upstream_node_id r) rows of
                               None \<Rightarrow> [] | Some u \<Rightarrow> row_node_name u))
                 (filter (\<lambda>r. row_node_id r = n) rows)) True info"

definition get_node_record_by_name ::
  "string \<Rightarrow> node_info \<Rightarrow> (database, record_status \<times> node_info) state" where
  "get_node_record_by_name name info =
     get_node_record_where
       (\<lambda>rows. map (\<lambda>r. (r, [])) (filter (\<lambda>r. row_node_name r = name) rows)) True info"

text \<open>Without \<open>ORDER BY\<close> the server may return the rows in any order; here it is the table's.\<close>

definition get_primary_node_id :: "(database, int) state" where
  "get_primary_node_id = do {
     res \<leftarrow> sql_query (\<lambda>rows. map row_node_id (filter (\<lambda>r. row_type r = ''primary'' \<and> row_active r) rows));
     ret (case res of
            None \<Rightarrow> UNKNOWN_NODE_ID
          | Some [] \<Rightarrow> NODE_NOT_FOUND
          | Some (n # _) \<Rightarrow> n)
   }"

definition get_primary_node_record :: "node_info \<Rightarrow> (database, bool \<times> node_info) state" where
  "get_primary_node_record info = do {
     primary_node_id \<leftarrow> get_primary_node_id;
     if primary_node_id = UNKNOWN_NODE_ID then ret (False, info)
     else do {
       (record_status, info) \<leftarrow> get_node_record primary_node_id info;
       ret (record_status = RECORD_FOUND, info)
     }
   }"

definition get_local_node_record :: "int \<Rightarrow> node_info \<Rightarrow> (database, int + bool \<times> node_info) state" where
  "get_local_node_record n info = do {
     (record_status, info) \<leftarrow> get_node_record n info;
     ret (if record_status \<noteq> RECORD_FOUND then Inl ERR_BAD_CONFIG else Inr (True, info))
   }"

text \<open>\<open>_populate_node_records\<close> allocates a zeroed record for each row.\<close>

definition populate_node_records :: "node_row list option \<Rightarrow> node_info list" where
  "populate_node_records res =
     (case res of
        None \<Rightarrow> []
      | Some rows \<Rightarrow> map (\<lambda>r. populate_node_record r [] True node_info_zero) rows)"

definition get_all_node_records :: "(database, bool \<times> node_info list) state" where
  "get_all_node_records = do {
     res \<leftarrow> sql_query (sort_key row_node_id);
     ret (res \<noteq> None, populate_node_records res)
   }"

definition hg_get_all_node_records :: "node_info list \<Rightarrow> (database, node_info list) state" where
  "hg_get_all_node_records old = do {
     res \<leftarrow> sql_query (sort_key row_node_id);
     ret (if res \<noteq> None then populate_node_records res else old)
   }"

definition get_downstream_node_records :: "int \<Rightarrow> (database, node_info list) state" where
  "get_downstream_node_records n = do {
     res \<leftarrow> sql_query (\<lambda>rows. sort_key row_node_id (filter (\<lambda>r. row_upstream_node_id r = Some n) rows));
     ret (populate_node_records res)
   }"

definition get_active_sibling_node_records :: "int \<Rightarrow> int \<Rightarrow> (database, node_info list) state" where
  "get_active_sibling_node_records n upstream = do {
     res \<leftarrow> sql_query (\<lambda>rows. sort_key row_node_id
       (filter (\<lambda>r. row_upstream_node_id r = Some upstream \<and> row_node_id r \<noteq> n \<and> row_active r) rows));
     ret (populate_node_records res)
   }"

section \<open>Writing node records\<close>

text \<open>The parameters of the statement \<open>_create_update_node_record\<close> sends.\<close>

definition node_row_params :: "node_info \<Rightarrow> int option \<Rightarrow> node_row" where
  "node_row_params info upstream =
     \<lparr>row_node_id = node_id info, row_upstream_node_id = upstream, row_active = active info,
      row_node_name = node_name info, row_type = get_node_type_string (node_type info),
      row_location = location info, row_priority = priority info, row_conninfo = conninfo info,
      row_repluser = repluser info,
      row_slot_name = (if slot_name info \<noteq> [] then Some (slot_name info) else None),
      row_config_file = config_file info, row_virtual_ip = Some (virtual_ip info),
      row_network_card = Some (network_card info)\<rparr>"

definition create_update_node_record :: "bool \<Rightarrow> node_info \<Rightarrow> (database, bool) state" where
  "create_update_node_record create info = do {
     upstream \<leftarrow>
       (if upstream_node_id info = NO_UPSTREAM_NODE \<and> node_type info = STANDBY then do {
          primary_node_id \<leftarrow> get_primary_node_id;
          ret (Some primary_node_id)
        }
        else if upstream_node_id info \<noteq> NO_UPSTREAM_NODE then ret (Some (upstream_node_id info))
        else ret None);
     let row = node_row_params info upstream;
     if create then sql_command (\<lambda>rows. rows @ [row])
     else sql_command (map (\<lambda>r. if row_node_id r = node_id info then row else r))
   }"

definition create_node_record :: "node_info \<Rightarrow> (database, bool) state" where
  "create_node_record info = create_update_node_record True info"

definition update_node_record :: "node_info \<Rightarrow> (database, bool) state" where
  "update_node_record info = create_update_node_record False info"

text \<open>\<open>UPDATE ... WHERE node_id = n\<close>.\<close>

definition update_where :: "int \<Rightarrow> (node_row \<Rightarrow> node_row) \<Rightarrow> node_row list \<Rightarrow> node_row list" where
  "update_where n f rows = map (\<lambda>r. if row_node_id r = n then f r else r) rows"

definition update_node_record_set_active :: "int \<Rightarrow> bool \<Rightarrow> (database, bool) state" where
  "update_node_record_set_active n act = sql_command (update_where n (\<lambda>r. r\<lparr>row_active := act\<rparr>))"

definition update_node_record_set_active_standby :: "int \<Rightarrow> (database, bool) state" where
  "update_node_record_set_active_standby n =
     sql_command (update_where n (\<lambda>r. r\<lparr>row_type := ''standby'', row_active := True\<rparr>))"

definition deactivate_primaries :: "int \<Rightarrow> node_row list \<Rightarrow> node_row list" where
  "deactivate_primaries n rows =
     map (\<lambda>r. if row_type r = ''primary'' \<and> row_active r \<and> row_node_id r \<noteq> n
              then r\<lparr>row_active := False\<rparr> else r) rows"

definition activate_primary :: "int \<Rightarrow> node_row list \<Rightarrow> node_row list" where
  "activate_primary n =
     update_where n (\<lambda>r. r\<lparr>row_type := ''primary'', row_upstream_node_id := None, row_active := True\<rparr>)"

definition update_node_record_set_primary :: "int \<Rightarrow> (database, bool) state" where
  "update_node_record_set_primary this_node_id = do {
     _ \<leftarrow> begin_transaction;
     ok \<leftarrow> sql_command (deactivate_primaries this_node_id);
     if \<not> ok then do { _ \<leftarrow> rollback_transaction; ret False }
     else do {
       ok \<leftarrow> sql_command (activate_primary this_node_id);
       if \<not> ok then do { _ \<leftarrow> rollback_transaction; ret False }
       else commit_transaction
     }
   }"

definition update_node_record_set_upstream :: "int \<Rightarrow> int \<Rightarrow> (database, bool) state" where
  "update_node_record_set_upstream this_node_id new_upstream_node_id =
     sql_command (update_where this_node_id (\<lambda>r. r\<lparr>row_upstream_node_id := Some new_upstream_node_id\<rparr>))"

definition update_node_record_status :: "int \<Rightarrow> string \<Rightarrow> int \<Rightarrow> bool \<Rightarrow> (database, bool) state" where
  "update_node_record_status this_node_id t upstream act =
     sql_command (update_where this_node_id
       (\<lambda>r. r\<lparr>row_type := t, row_upstream_node_id := Some upstream, row_active := act\<rparr>))"

definition update_node_record_conn_priority :: "int \<Rightarrow> string \<Rightarrow> int \<Rightarrow> (database, bool) state" where
  "update_node_record_conn_priority opt_node_id opt_conninfo opt_priority =
     sql_command (update_where opt_node_id (\<lambda>r. r\<lparr>row_conninfo := opt_conninfo, row_priority := opt_priority\<rparr>))"

definition update_node_record_slot_name :: "int \<Rightarrow> string \<Rightarrow> (database, bool) state" where
  "update_node_record_slot_name n slot = sql_command (update_where n (\<lambda>r. r\<lparr>row_slot_name := Some slot\<rparr>))"

definition delete_node_record :: "int \<Rightarrow> (database, bool) state" where
  "delete_node_record n = sql_command (filter (\<lambda>r. row_node_id r \<noteq> n))"

definition truncate_node_records :: "(database, bool) state" where
  "truncate_node_records = sql_command (\<lambda>_. [])"

fun create_node_records :: "node_info list \<Rightarrow> (database, unit) state" where
  "create_node_records [] = ret ()"
| "create_node_records (info # infos) = do { _ \<leftarrow> create_node_record info; create_node_records infos }"

text \<open>
  \<open>witness_copy_node_records\<close> on the witness's session; \<open>primary\<close> is the session on the primary.
\<close>

definition witness_copy_node_records :: "database \<Rightarrow> (database, bool) state" where
  "witness_copy_node_records primary = do {
     _ \<leftarrow> begin_transaction;
     ok \<leftarrow> defer_constraints;
     if \<not> ok then do { _ \<leftarrow> rollback_transaction; ret False }
     else do {
       ok \<leftarrow> truncate_node_records;
       if \<not> ok then do { _ \<leftarrow> rollback_transaction; ret False }
       else do {
         _ \<leftarrow> create_node_records (snd (result get_all_node_records primary));
         _ \<leftarrow> commit_transaction;
         ret True
       }
     }
   }"

section \<open>The session invariant\<close>

text \<open>
  Whatever is sent, the rows satisfy the table's constraints, the foreign key only outside a
  transaction that has deferred it; and the rows a rollback restores satisfy all of them.
\<close>

definition db_ok :: "database \<Rightarrow> bool" where
  "db_ok db \<longleftrightarrow> rows_ok (db_deferred db) (db_rows db) \<and>
     (case db_saved db of None \<Rightarrow> \<not> db_deferred db \<and> \<not> db_aborted db | Some rows \<Rightarrow> rows_ok False rows)"

lemma rows_ok_deferred: "rows_ok False rows \<Longrightarrow> rows_ok d rows"
  by (simp add: rows_ok_def)

lemma rows_ok_fk: "rows_ok d rows \<Longrightarrow> fk_ok rows \<Longrightarrow> rows_ok False rows"
  by (simp add: rows_ok_def)

lemma db_ok_tick [simp]: "db_ok (tick db) = db_ok db"
  by (simp add: db_ok_def tick_def split: option.split)

lemma end_transaction_ok: "rows_ok False rows \<Longrightarrow> db_ok (end_transaction rows db)"
  by (simp add: db_ok_def end_transaction_def tick_def)

lemma rows_before_ok: "db_ok db \<Longrightarrow> rows_ok False (rows_before db)"
  by (auto simp: db_ok_def rows_before_def split: option.splits)

lemma run_end_transaction [simp]:
  "run_state rollback_transaction db = (answered db, end_transaction (rows_before db) db)"
  by (simp add: rollback_transaction_def)

abbreviation keeps_ok :: "(database, 'a) state \<Rightarrow> bool" where
  "keeps_ok m \<equiv> valid db_ok m (\<lambda>_. db_ok)"

lemma keeps_ok_sql_command: "keeps_ok (sql_command f)"
  by (rule validI) (auto simp: sql_command_def db_ok_def tick_def split: option.splits)

lemma keeps_ok_sql_query: "keeps_ok (sql_query f)"
  by (rule validI) (auto simp: sql_query_def db_ok_def tick_def split: option.splits)

lemma keeps_ok_begin: "keeps_ok begin_transaction"
  by (rule validI) (auto simp: begin_transaction_def db_ok_def tick_def split: option.splits)

lemma keeps_ok_defer: "keeps_ok defer_constraints"
  by (rule validI) (auto simp: defer_constraints_def db_ok_def tick_def rows_ok_deferred rows_ok_def
      split: option.splits)

lemma keeps_ok_rollback: "keeps_ok rollback_transaction"
  by (rule validI) (simp add: end_transaction_ok rows_before_ok)

lemma keeps_ok_commit: "keeps_ok commit_transaction"
proof (rule validI)
  fix db assume ok: "db_ok db"
  then have "fk_ok (db_rows db) \<Longrightarrow> rows_ok False (db_rows db)"
    by (auto simp: db_ok_def intro: rows_ok_fk)
  with ok show "db_ok (final commit_transaction db)"
    by (simp add: commit_transaction_def end_transaction_ok rows_before_ok)
qed

lemma keeps_ok_ret: "keeps_ok (ret x)"
  by (rule valid_return_inv)

lemmas keeps_ok_calls = keeps_ok_sql_command keeps_ok_sql_query keeps_ok_begin keeps_ok_defer
  keeps_ok_rollback keeps_ok_commit keeps_ok_ret

lemma keeps_ok_get_primary: "keeps_ok get_primary_node_id"
  unfolding get_primary_node_id_def by (intro wp_inv keeps_ok_calls)

lemma keeps_ok_create_update: "keeps_ok (create_update_node_record create info)"
  unfolding create_update_node_record_def Let_def
  by (intro wp_inv keeps_ok_get_primary keeps_ok_calls)

lemma keeps_ok_set_primary: "keeps_ok (update_node_record_set_primary n)"
  unfolding update_node_record_set_primary_def by (intro wp_inv keeps_ok_calls)

lemma keeps_ok_create_records: "keeps_ok (create_node_records infos)"
  by (induction infos) (auto intro!: wp_inv keeps_ok_calls keeps_ok_create_update simp: create_node_record_def)

lemma keeps_ok_witness_copy: "keeps_ok (witness_copy_node_records primary)"
  unfolding witness_copy_node_records_def truncate_node_records_def
  by (intro wp_inv keeps_ok_create_records keeps_ok_calls)

lemmas update_defs = update_node_record_set_active_def update_node_record_set_active_standby_def
  update_node_record_set_upstream_def update_node_record_status_def update_node_record_conn_priority_def
  update_node_record_slot_name_def delete_node_record_def truncate_node_records_def

section \<open>Properties\<close>

text \<open>Any call of this theory on the session, whatever the server answers.\<close>

inductive node_step :: "database \<Rightarrow> database \<Rightarrow> bool" where
  step_create: "node_step db (final (create_node_record info) db)"
| step_update: "node_step db (final (update_node_record info) db)"
| step_active: "node_step db (final (update_node_record_set_active n act) db)"
| step_active_standby: "node_step db (final (update_node_record_set_active_standby n) db)"
| step_primary: "node_step db (final (update_node_record_set_primary n) db)"
| step_upstream: "node_step db (final (update_node_record_set_upstream n u) db)"
| step_status: "node_step db (final (update_node_record_status n t u act) db)"
| step_conn_priority: "node_step db (final (update_node_record_conn_priority n c p) db)"
| step_slot: "node_step db (final (update_node_record_slot_name n slot) db)"
| step_delete: "node_step db (final (delete_node_record n) db)"
| step_truncate: "node_step db (final truncate_node_records db)"
| step_witness_copy: "node_step db (final (witness_copy_node_records primary) db)"

lemma keeps_ok_final: "keeps_ok m \<Longrightarrow> db_ok db \<Longrightarrow> db_ok (final m db)"
  by (rule validD)

lemma node_step_ok: "node_step db db' \<Longrightarrow> db_ok db \<Longrightarrow> db_ok db'"
  by (induction rule: node_step.induct)
    (auto simp only: update_defs create_node_record_def update_node_record_def
      intro!: keeps_ok_final keeps_ok_create_update keeps_ok_set_primary keeps_ok_witness_copy
        keeps_ok_sql_command)


definition example_row :: "int \<Rightarrow> string \<Rightarrow> int option \<Rightarrow> bool \<Rightarrow> node_row" where
  "example_row n t upstream act =
     \<lparr>row_node_id = n, row_upstream_node_id = upstream, row_active = act, row_node_name = ''node'' @ int_string n,
      row_type = t, row_location = ''default'', row_priority = 100, row_conninfo = ''host=n'',
      row_repluser = ''repmgr'', row_slot_name = None, row_config_file = ''/etc/repmgr.conf'',
      row_virtual_ip = Some ''10.0.0.9'', row_network_card = Some ''eth0''\<rparr>"

lemma example_row_sel:
  "row_node_id (example_row n t u act) = n" "row_upstream_node_id (example_row n t u act) = u"
  "row_type (example_row n t u act) = t" "row_active (example_row n t u act) = act"
  by (simp_all add: example_row_def)

definition example_db :: database where
  "example_db =
     \<lparr>db_rows = [example_row 1 ''primary'' None True, example_row 2 ''standby'' (Some 1) True,
        example_row 3 ''standby'' (Some 1) True],
      db_saved = None, db_aborted = False, db_deferred = False, db_answers = (\<lambda>_. True), db_executed = 0\<rparr>"

lemma example_db_ok: "db_ok example_db"
  by (simp add: example_db_def example_row_def db_ok_def rows_ok_def row_types_def fk_ok_def)


definition active_primaries :: "node_row list \<Rightarrow> int list" where
  "active_primaries rows = map row_node_id (filter (\<lambda>r. row_type r = ''primary'' \<and> row_active r) rows)"

lemma distinct_select:
  "distinct (map f xs) \<Longrightarrow> map f (filter (\<lambda>x. f x = n) xs) = (if n \<in> f ` set xs then [n] else [])"
proof (induction xs)
  case (Cons x xs)
  then show ?case by (cases "f x = n") auto
qed simp

lemma promoted_select:
  "active_primaries (activate_primary n (deactivate_primaries n rows)) =
     map row_node_id (filter (\<lambda>r. row_node_id r = n) rows)"
proof (induction rows)
  case (Cons r rows)
  then show ?case
    by (cases "row_node_id r = n"; cases "row_type r = ''primary'' \<and> row_active r")
      (simp_all add: active_primaries_def activate_primary_def deactivate_primaries_def update_where_def)
qed (simp add: active_primaries_def activate_primary_def deactivate_primaries_def update_where_def)

lemma promoted_rows:
  "distinct (map row_node_id rows) \<Longrightarrow>
   active_primaries (activate_primary n (deactivate_primaries n rows)) =
     (if n \<in> set (map row_node_id rows) then [n] else [])"
  by (simp add: promoted_select distinct_select)



text \<open>
  The candidates an election looks at: \<open>get_active_sibling_node_records\<close> returns the active
  nodes with the given upstream other than the node itself, each once, in ascending order of their
  ids; and nothing when the query fails.
\<close>

theorem siblings_sorted:
  assumes "db_ok db"
  shows "let ids = map node_id (result (get_active_sibling_node_records n u) db) in
    sorted ids \<and> distinct ids \<and> n \<notin> set ids \<and>
    set ids = (if \<not> db_aborted db \<and> answered db
               then row_node_id ` {r \<in> set (db_rows db). row_upstream_node_id r = Some u \<and>
                       row_node_id r \<noteq> n \<and> row_active r}
               else {})"
proof -
  let ?f = "\<lambda>r. row_upstream_node_id r = Some u \<and> row_node_id r \<noteq> n \<and> row_active r"
  have ids: "map node_id (populate_node_records (Some rs)) = map row_node_id rs" for rs
    by (simp add: populate_node_records_def populate_node_record_def Let_def)
  have "distinct (map row_node_id (db_rows db))" using assms by (simp add: db_ok_def rows_ok_def)
  then have d: "distinct (map row_node_id (sort_key row_node_id (filter ?f (db_rows db))))"
    by (simp add: distinct_map inj_on_def)
  have run: "map node_id (result (get_active_sibling_node_records n u) db) =
      (if \<not> db_aborted db \<and> answered db then map row_node_id (sort_key row_node_id (filter ?f (db_rows db)))
       else [])"
    using ids by (auto simp: get_active_sibling_node_records_def sql_query_def populate_node_records_def)
  from d show ?thesis unfolding run Let_def by (auto simp del: distinct_map)
qed

lemma siblings_sorted_witness:
  "set (map node_id (result (get_active_sibling_node_records 2 1) example_db)) = {3}"
proof -
  have "row_node_id ` {r \<in> set (db_rows example_db). row_upstream_node_id r = Some 1 \<and>
      row_node_id r \<noteq> 2 \<and> row_active r} = {3}"
    by (auto simp: example_db_def example_row_sel
        intro!: rev_image_eqI [of "example_row 3 ''standby'' (Some 1) True"])
  with siblings_sorted [OF example_db_ok, of 2 1] show ?thesis
    by (simp add: Let_def example_db_def answered_def)
qed

text \<open>
  A row whose texts fit the buffers of \<open>t_node_info\<close> and which can be written back as it is; the
  copy of a row loses the two columns \<open>REPMGR_NODES_COLUMNS\<close> does not name.
\<close>

definition row_fits :: "node_row \<Rightarrow> bool" where
  "row_fits r \<longleftrightarrow>
     length (row_node_name r) < NAMEDATALEN \<and> length (row_repluser r) < NAMEDATALEN \<and>
     length (row_conninfo r) < MAXLEN \<and> length (row_location r) < MAXLEN \<and>
     length (row_config_file r) < MAXPGPATH \<and>
     (case row_slot_name r of None \<Rightarrow> True | Some s \<Rightarrow> s \<noteq> [] \<and> length s < MAXLEN) \<and>
     row_upstream_node_id r \<noteq> Some NO_UPSTREAM_NODE \<and>
     (row_type r = ''standby'' \<longrightarrow> row_upstream_node_id r \<noteq> None)"

definition copied_row :: "node_row \<Rightarrow> node_row" where
  "copied_row r = r\<lparr>row_virtual_ip := Some [], row_network_card := Some []\<rparr>"

lemma row_type_string: "t \<in> set row_types \<Longrightarrow> get_node_type_string (parse_node_type t) = t"
  by (auto simp: row_types_def parse_node_type_def get_node_type_string_def)

lemma create_copied_row:
  assumes "row_fits r" and "row_type r \<in> set row_types"
  shows "create_node_record (populate_node_record r [] True node_info_zero) =
    sql_command (\<lambda>rows. rows @ [copied_row r])"
proof -
  have st: "parse_node_type (row_type r) = STANDBY \<longleftrightarrow> row_type r = ''standby''"
    using assms(2) by (auto simp: row_types_def parse_node_type_def)
  have t: "get_node_type_string (parse_node_type (row_type r)) = row_type r"
    using assms(2) by (rule row_type_string)
  have "node_row_params (populate_node_record r [] True node_info_zero) (row_upstream_node_id r) = copied_row r"
    using assms(1) t
    by (cases r) (auto simp: row_fits_def node_row_params_def populate_node_record_def copied_row_def
        node_info_zero_def Let_def split: option.splits)
  then show ?thesis
    using assms(1) st
    by (auto simp: row_fits_def create_node_record_def create_update_node_record_def populate_node_record_def
        node_info_zero_def Let_def split: option.splits)
qed

lemma create_copied_rows:
  assumes "\<forall>k. db_answers db k" and "db_deferred db" and "\<not> db_aborted db"
    and "\<forall>r \<in> set rs. row_fits r \<and> row_type r \<in> set row_types"
    and "rows_ok True (db_rows db @ map copied_row rs)"
  shows "\<exists>k. final (create_node_records (map (\<lambda>r. populate_node_record r [] True node_info_zero) rs)) db =
    db\<lparr>db_rows := db_rows db @ map copied_row rs, db_executed := k\<rparr>"
  using assms
proof (induction rs arbitrary: db)
  case (Cons r rs)
  let ?db = "tick (db\<lparr>db_rows := db_rows db @ [copied_row r]\<rparr>)"
  have "rows_ok True (db_rows db @ [copied_row r])"
    using Cons.prems(5) by (auto simp: rows_ok_def)
  with Cons.prems have step: "final (create_node_record (populate_node_record r [] True node_info_zero)) db = ?db"
    by (simp add: create_copied_row sql_command_def answered_def)
  have "\<exists>k. final (create_node_records (map (\<lambda>r. populate_node_record r [] True node_info_zero) rs)) ?db =
      ?db\<lparr>db_rows := db_rows ?db @ map copied_row rs, db_executed := k\<rparr>"
    by (rule Cons.IH) (use Cons.prems in \<open>auto simp: tick_def\<close>)
  then show ?case using step by (simp add: case_prod_unfold tick_def)
next
  case Nil
  show ?case by (rule exI [of _ "db_executed db"]) simp
qed

text \<open>
  \<open>witness_copy_node_records\<close>: when every statement gets through, the witness's table becomes
  the primary's, ordered by node id, with the virtual IP and network card of every node emptied;
  when the primary's table cannot be read, the witness's table is emptied and the copy still
  reports success.
\<close>

theorem witness_copy_result:
  assumes "db_saved witness = None" and "\<not> db_aborted witness" and "\<forall>k. db_answers witness k"
  shows "(db_ok primary \<and> db_saved primary = None \<and> answered primary \<and>
      (\<forall>r \<in> set (db_rows primary). row_fits r) \<longrightarrow>
      result (witness_copy_node_records primary) witness \<and>
      db_rows (final (witness_copy_node_records primary) witness) =
        map copied_row (sort_key row_node_id (db_rows primary))) \<and>
    (\<not> answered primary \<longrightarrow>
      result (witness_copy_node_records primary) witness \<and>
      db_rows (final (witness_copy_node_records primary) witness) = [])"
proof -
  let ?w = "tick (tick (tick (witness\<lparr>db_saved := Some (db_rows witness), db_deferred := True, db_rows := []\<rparr>)))"
  have steps: "run_state (witness_copy_node_records primary) witness =
      (True, final commit_transaction (final (create_node_records (snd (result get_all_node_records primary))) ?w))"
    using assms
    by (simp add: witness_copy_node_records_def begin_transaction_def defer_constraints_def
        truncate_node_records_def sql_command_def answered_def tick_def rows_ok_def case_prod_unfold)
  show ?thesis
  proof (intro conjI impI)
    assume p: "db_ok primary \<and> db_saved primary = None \<and> answered primary \<and> (\<forall>r \<in> set (db_rows primary). row_fits r)"
    let ?rs = "sort_key row_node_id (db_rows primary)"
    have ok: "rows_ok False (db_rows primary)" and "\<not> db_aborted primary"
      using p by (auto simp: db_ok_def)
    then have res: "snd (result get_all_node_records primary) = map (\<lambda>r. populate_node_record r [] True node_info_zero) ?rs"
      using p by (simp add: get_all_node_records_def sql_query_def populate_node_records_def)
    have ids: "map row_node_id (map copied_row ?rs) = map row_node_id ?rs"
      by (simp add: copied_row_def)
    have "distinct (map row_node_id ?rs)" using ok by (simp add: rows_ok_def distinct_map)
    moreover have "fk_ok (map copied_row ?rs)"
    proof -
      have e: "set (map row_node_id (map copied_row ?rs)) = set (map row_node_id (db_rows primary))"
        unfolding ids by simp
      from ok show ?thesis unfolding rows_ok_def fk_ok_def e by (auto simp: list_all_iff copied_row_def)
    qed
    ultimately have okr: "rows_ok False (map copied_row ?rs)"
      using ok by (auto simp: rows_ok_def list_all_iff copied_row_def comp_def)
    have "\<exists>k. final (create_node_records (map (\<lambda>r. populate_node_record r [] True node_info_zero) ?rs)) ?w =
        ?w\<lparr>db_rows := db_rows ?w @ map copied_row ?rs, db_executed := k\<rparr>"
      by (rule create_copied_rows)
        (use assms p ok okr in \<open>auto simp: tick_def rows_ok_def list_all_iff\<close>)
    then obtain k where k: "final (create_node_records (snd (result get_all_node_records primary))) ?w =
        ?w\<lparr>db_rows := map copied_row ?rs, db_executed := k\<rparr>"
      unfolding res by (auto simp: tick_def)
    show "result (witness_copy_node_records primary) witness" by (simp add: steps)
    have "db_rows (final (witness_copy_node_records primary) witness) =
        db_rows (final commit_transaction (?w\<lparr>db_rows := map copied_row ?rs, db_executed := k\<rparr>))"
      by (simp only: steps k snd_conv)
    then show "db_rows (final (witness_copy_node_records primary) witness) = map copied_row ?rs"
      using assms okr
      by (simp add: commit_transaction_def answered_def tick_def end_transaction_def rows_ok_def)
  next
    assume "\<not> answered primary"
    then have res: "snd (result get_all_node_records primary) = []"
      by (simp add: get_all_node_records_def sql_query_def populate_node_records_def)
    show "result (witness_copy_node_records primary) witness" by (simp add: steps)
    show "db_rows (final (witness_copy_node_records primary) witness) = []"
      using assms by (simp add: steps res commit_transaction_def answered_def tick_def end_transaction_def fk_ok_def)
  qed
qed

lemma witness_copy_result_witness:
  "db_rows (final (witness_copy_node_records (example_db\<lparr>db_answers := \<lambda>_. False\<rparr>)) example_db) = []"
  using witness_copy_result [of example_db "example_db\<lparr>db_answers := \<lambda>_. False\<rparr>"]
  by (simp add: example_db_def answered_def)

definition fits_buffers :: "node_info \<Rightarrow> bool" where
  "fits_buffers info \<longleftrightarrow>
     length (node_name info) < NAMEDATALEN \<and> length (upstream_node_name info) < NAMEDATALEN \<and>
     length (conninfo info) < MAXLEN \<and> length (repluser info) < NAMEDATALEN \<and>
     length (location info) < MAXLEN \<and> length (slot_name info) < MAXLEN \<and>
     length (config_file info) < MAXPGPATH \<and> length (virtual_ip info) < MAXLEN \<and>
     length (network_card info) < MAXLEN"

lemma init_fits: "fits_buffers node_info_init"
  by (simp add: fits_buffers_def node_info_init_def)

lemma populate_fits: "fits_buffers info \<Longrightarrow> fits_buffers (populate_node_record r up b info)"
  by (simp add: fits_buffers_def populate_node_record_def Let_def min_less_iff_disj)

lemma where_fits: "fits_buffers info \<Longrightarrow> fits_buffers (snd (result (get_node_record_where q b info) db))"
  by (auto simp: get_node_record_where_def case_prod_unfold populate_fits split: option.splits list.splits)

lemma list_fits: "i \<in> set (populate_node_records res) \<Longrightarrow> fits_buffers i"
proof -
  have "fits_buffers node_info_zero" by (simp add: fits_buffers_def node_info_zero_def)
  then show "i \<in> set (populate_node_records res) \<Longrightarrow> fits_buffers i"
    by (auto simp: populate_node_records_def populate_fits split: option.splits)
qed

text \<open>
  C19: every text of a node record fits the array it is stored in, its final NUL included, whatever the
  node table holds: the functions that read records keep this of the record they are given, and
  every record of the lists they build has it.
\<close>

theorem node_records_fit:
  assumes "fits_buffers info"
  shows "fits_buffers node_info_init \<and>
    fits_buffers (snd (result (get_node_record n info) db)) \<and>
    fits_buffers (snd (result (refresh_node_record n info) db)) \<and>
    fits_buffers (snd (result (get_node_record_with_upstream n info) db)) \<and>
    fits_buffers (snd (result (get_node_record_by_name name info) db)) \<and>
    fits_buffers (snd (result (get_primary_node_record info) db)) \<and>
    (\<forall>i \<in> set (snd (result get_all_node_records db)). fits_buffers i) \<and>
    (\<forall>i \<in> set (result (get_downstream_node_records n) db). fits_buffers i) \<and>
    (\<forall>i \<in> set (result (get_active_sibling_node_records n upstream) db). fits_buffers i)"
  using where_fits [OF assms] list_fits assms
  by (simp add: init_fits get_node_record_def refresh_node_record_def
      get_node_record_with_upstream_def get_node_record_by_name_def get_primary_node_record_def
      get_all_node_records_def get_downstream_node_records_def get_active_sibling_node_records_def
      case_prod_unfold)

lemma node_records_fit_witness: "fits_buffers (snd (result (get_node_record 1 node_info_init) example_db))"
  using node_records_fit [OF init_fits] by blast

end
