(* ===== verification/World.thy ===== *)
theory World
  imports Node_Records Conninfo_Params Config_Values
begin

text \<open>
  What the daemon \<open>repmgrd\<close> has around it. \<open>env\<close> is everything outside the program: libpq, the
  servers, the operating system. Every call out of the program takes the next number of the clock,
  and \<open>env\<close> says what the \<open>k\<close>-th call answers; nothing is assumed of these answers, so a theorem
  about the daemon holds for every behaviour of the servers, the network and the commands it runs.
  \<open>daemon\<close> holds the global variables of \<open>repmgrd.c\<close> and \<open>repmgrd-physical.c\<close>, the clock, and the
  trace of what the daemon did to its surroundings.
\<close>

section \<open>The surroundings\<close>

text \<open>
  \<open>e_result\<close> is the result of \<open>PQexec\<close>: \<open>None\<close> for an error, otherwise rows of possibly \<open>NULL\<close>
  texts. \<open>e_session\<close> is the database session behind a connection, for the functions of
  \<open>Node_Records\<close>; \<open>e_uninit\<close> is what two variables hold that are read uninitialised on one path;
  \<open>e_exit\<close> is the status \<open>system\<close> and \<open>pclose\<close> report, \<open>e_output\<close> what a command prints, \<open>e_file\<close> the
  content of a file that can be opened. \<open>e_pg_version\<close> is the content of \<open>PG_VERSION\<close> and \<open>e_control\<close> what can
  be read from \<open>pg_control\<close>, in the layout of that version. \<open>e_names\<close> and \<open>e_number\<close> are lists of names and
  numbers the operating system or a server answers.
\<close>

datatype pg_ping = PQPING_OK | PQPING_REJECT | PQPING_NO_RESPONSE | PQPING_NO_ATTEMPT

datatype db_state = DB_STARTUP | DB_SHUTDOWNED | DB_SHUTDOWNED_IN_RECOVERY | DB_SHUTDOWNING
  | DB_IN_CRASH_RECOVERY | DB_IN_ARCHIVE_RECOVERY | DB_IN_PRODUCTION

record control_data =
  cd_system_identifier :: "64 word"
  cd_state :: db_state
  cd_checkPoint :: "64 word"
  cd_data_checksum_version :: "32 word"
  cd_timeline :: "32 word"
  cd_minRecoveryPointTLI :: "32 word"
  cd_minRecoveryPoint :: "64 word"

type_synonym pgresult = "string option list list option"

record env =
  e_status :: "nat \<Rightarrow> pgconn \<Rightarrow> bool"
  e_result :: "nat \<Rightarrow> pgresult"
  e_session :: "nat \<Rightarrow> pgconn \<Rightarrow> database"
  e_ping :: "nat \<Rightarrow> pg_ping"
  e_exit :: "nat \<Rightarrow> int"
  e_flag :: "nat \<Rightarrow> bool"
  e_now :: "nat \<Rightarrow> int"
  e_time_text :: "nat \<Rightarrow> string"
  e_version :: "pgconn \<Rightarrow> int"
  e_options :: "pgconn \<Rightarrow> conninfo_options"
  e_parse :: "string \<Rightarrow> conninfo_options option"
  e_defaults :: conninfo_options
  e_uninit :: "32 word \<times> 32 word"
  e_output :: "nat \<Rightarrow> string"
  e_file :: "nat \<Rightarrow> string option"
  e_pg_version :: "nat \<Rightarrow> string option"
  e_control :: "nat \<Rightarrow> control_data option"
  e_names :: "nat \<Rightarrow> string list"
  e_number :: "nat \<Rightarrow> int"

section \<open>The daemon\<close>

datatype failover_mode = FAILOVER_MANUAL | FAILOVER_AUTOMATIC
datatype connection_check = CHECK_PING | CHECK_QUERY | CHECK_CONNECTION

datatype failover_state = FAILOVER_STATE_UNKNOWN | FAILOVER_STATE_NONE | FAILOVER_STATE_PROMOTED
  | FAILOVER_STATE_PROMOTION_FAILED | FAILOVER_STATE_PRIMARY_REAPPEARED
  | FAILOVER_STATE_LOCAL_NODE_FAILURE | FAILOVER_STATE_WAITING_NEW_PRIMARY
  | FAILOVER_STATE_FOLLOW_NEW_PRIMARY | FAILOVER_STATE_REQUIRES_MANUAL_FAILOVER
  | FAILOVER_STATE_FOLLOWED_NEW_PRIMARY | FAILOVER_STATE_FOLLOWING_ORIGINAL_PRIMARY
  | FAILOVER_STATE_NO_NEW_PRIMARY | FAILOVER_STATE_FOLLOW_FAIL
  | FAILOVER_STATE_NODE_NOTIFICATION_ERROR | FAILOVER_STATE_ELECTION_RERUN

text \<open>The settings of \<open>t_configuration_options\<close> the modelled functions read.\<close>

record config =
  opt_node_id :: int
  opt_failover :: failover_mode
  opt_promote_command :: string
  opt_follow_command :: string
  opt_monitor_interval_secs :: int
  opt_reconnect_attempts :: int
  opt_reconnect_interval :: int
  opt_async_query_timeout :: int
  opt_primary_notification_timeout :: int
  opt_repmgrd_standby_startup_timeout :: int
  opt_standby_disconnect_on_failover :: bool
  opt_sibling_nodes_disconnect_timeout :: int
  opt_connection_check_type :: connection_check
  opt_primary_visibility_consensus :: bool
  opt_failover_validation_command :: string
  opt_election_rerun_interval :: int
  opt_event_notification_command :: string
  opt_event_notifications :: "string list"
  opt_promote_delay :: int
  opt_virtual_ip :: string
  opt_network_card :: string
  opt_data_directory :: string
  opt_pg_bindir :: string
  opt_degraded_monitoring_timeout :: int
  opt_device_check_timeout :: int
  opt_device_check_times :: int
  opt_check_brain_split :: bool
  opt_standby_wait_timeout :: int
  opt_monitoring_history :: bool
  opt_witness_sync_interval :: int

text \<open>
  What the program did: statements with an effect, commands, connections closed, sleeping; the last ones
  only the client does.
\<close>

datatype effect =
    Notified pgconn int
  | Reset_Voting pgconn
  | Incremented_Term pgconn
  | Announced_Node_Id pgconn int
  | Announced_Pid pgconn int "string option"
  | Resumed_Replay pgconn
  | Set_Upstream pgconn int int
  | Copied_Records pgconn pgconn
  | Recorded_Event pgconn int string bool string
  | Ran string
  | Slept int
  | Closed pgconn
  | Unlinked string
  | Altered_System pgconn string int
  | Reloaded_Config pgconn
  | Signalled int int
  | Set_Active pgconn int bool
  | Set_Standby pgconn int
  | Set_Primary pgconn int
  | Saw_Upstream pgconn
  | Recorded_Lag pgconn int int string string "64 word" "64 word" "64 word" "64 word"
  | Printed string
  | Promoted pgconn
  | Checkpointed pgconn
  | Created_Slot pgconn string
  | Dropped_Slot pgconn string
  | Paused_Repmgrd pgconn bool
  | Created_Record pgconn node_info
  | Updated_Record pgconn node_info
  | Deleted_Record pgconn int
  | Truncated_Records pgconn
  | Wrote_File string string
  | Reset_Term pgconn
  | Ran_Statement pgconn string
  | Set_Status pgconn int string int bool
  | Set_Slot_Name pgconn int string

record daemon =
  clock :: nat
  config :: config
  local_node_info :: node_info
  upstream_node_info :: node_info
  local_conn :: pgconn
  upstream_conn :: pgconn
  primary_conn :: pgconn
  monitoring_state :: monitoring_state
  degraded_monitoring_start :: int
  failover_state :: failover_state
  own_pid :: int
  pid_file :: string
  primary_node_id :: int
  startup_event_logged :: bool
  touch_label :: bool
  switch_async_mode :: bool
  unreachable_standby_counts :: int
  unreachable_sync_standby_start :: int
  last_monitoring_update :: int
  trace :: "effect list"

section \<open>Calls out of the program\<close>

definition call :: "(nat \<Rightarrow> 'a) \<Rightarrow> (daemon, 'a) state" where
  "call f = State (\<lambda>d. (f (clock d), d\<lparr>clock := clock d + 1\<rparr>))"

definition emit :: "effect \<Rightarrow> (daemon, unit) state" where
  "emit e = modify (\<lambda>d. d\<lparr>trace := trace d @ [e]\<rparr>)"

lemma run_call [simp]: "run_state (call f) d = (f (clock d), d\<lparr>clock := clock d + 1\<rparr>)"
  by (simp add: call_def)

lemma run_emit [simp]: "run_state (emit e) d = ((), d\<lparr>trace := trace d @ [e]\<rparr>)"
  by (simp add: emit_def)

text \<open>\<open>PQstatus(conn) == CONNECTION_OK\<close>; the status of \<open>NULL\<close> is \<open>CONNECTION_BAD\<close>.\<close>

definition PQstatus_ok :: "env \<Rightarrow> pgconn \<Rightarrow> (daemon, bool) state" where
  "PQstatus_ok env conn = gets (\<lambda>d. conn \<noteq> NULL_CONN \<and> e_status env (clock d) conn)"

definition PQexec :: "env \<Rightarrow> pgconn \<Rightarrow> (daemon, pgresult) state" where
  "PQexec env conn = call (\<lambda>k. if conn = NULL_CONN then None else e_result env k)"

text \<open>A field of a result, \<open>None\<close> when it is \<open>NULL\<close> or out of range; and its text.\<close>

definition PQcell :: "string option list list \<Rightarrow> nat \<Rightarrow> nat \<Rightarrow> string option" where
  "PQcell res i j = (if i < length res \<and> j < length (res ! i) then res ! i ! j else None)"

definition PQgetvalue :: "string option list list \<Rightarrow> nat \<Rightarrow> nat \<Rightarrow> string" where
  "PQgetvalue res i j = (case PQcell res i j of None \<Rightarrow> [] | Some t \<Rightarrow> t)"

definition atoi :: "string \<Rightarrow> int" where
  "atoi s = to_int32 (fst (strtol s))"

lemma nat_digits_length: "n < 10 ^ Suc k \<Longrightarrow> length (nat_digits n) \<le> Suc k"
proof (induction k arbitrary: n)
  case 0
  then show ?case by (simp add: nat_digits.simps [of n])
next
  case (Suc k)
  then have "n div 10 < 10 ^ Suc k" by (simp add: less_mult_imp_div_less mult.commute)
  from Suc.IH [OF this] show ?case by (cases "n < 10") (simp_all add: nat_digits.simps [of n])
qed

lemma int_string_length: "- (2 ^ 31) \<le> n \<Longrightarrow> n < 2 ^ 31 \<Longrightarrow> length (int_string n) \<le> 11"
  using nat_digits_length [of "nat n" 9] nat_digits_length [of "nat (- n)" 9]
  by (auto simp: int_string_def nat_less_iff)

lemma atoi_int_string: "- (2 ^ 31) \<le> n \<Longrightarrow> n < 2 ^ 31 \<Longrightarrow> atoi (int_string n) = n"
  using strtol_int_string [of n] to_int32_id [of n] by (simp add: atoi_def)

text \<open>A function of \<open>Node_Records\<close> on the session behind a connection.\<close>

definition on_session :: "env \<Rightarrow> pgconn \<Rightarrow> (database, 'a) state \<Rightarrow> (daemon, 'a) state" where
  "on_session env conn m = call (\<lambda>k. result m (e_session env k conn))"

text \<open>A call that answers with a truth value, and the clock of the machine in microseconds.\<close>

definition ask :: "env \<Rightarrow> (daemon, bool) state" where
  "ask env = call (e_flag env)"

definition gettimeofday :: "env \<Rightarrow> (daemon, int) state" where
  "gettimeofday env = call (e_now env)"

definition sleep :: "int \<Rightarrow> (daemon, unit) state" where
  "sleep secs = do { _ \<leftarrow> emit (Slept secs); call (\<lambda>_. ()) }"

definition system_command :: "env \<Rightarrow> string \<Rightarrow> (daemon, int) state" where
  "system_command env cmd = do { _ \<leftarrow> emit (Ran cmd); call (e_exit env) }"

definition is_server_available :: "env \<Rightarrow> string \<Rightarrow> (daemon, bool) state" where
  "is_server_available env conninfo_string = call (\<lambda>k. e_ping env k = PQPING_OK)"

definition connection_ping :: "env \<Rightarrow> pgconn \<Rightarrow> (daemon, bool) state" where
  "connection_ping env conn = do { res \<leftarrow> PQexec env conn; ret (res \<noteq> None) }"

definition close_connection :: "pgconn \<Rightarrow> (daemon, unit) state" where
  "close_connection conn = (if conn = NULL_CONN then ret () else emit (Closed conn))"

text \<open>A computation that may leave the program (\<open>Inl\<close> of the exit code), and what follows it.\<close>

definition or_exit :: "(daemon, int + 'a) state \<Rightarrow> ('a \<Rightarrow> (daemon, int + 'b) state) \<Rightarrow> (daemon, int + 'b) state" where
  "or_exit m f = do { r \<leftarrow> m; (case r of Inl code \<Rightarrow> ret (Inl code) | Inr x \<Rightarrow> f x) }"

section \<open>Connections\<close>

definition set_config :: "env \<Rightarrow> pgconn \<Rightarrow> (daemon, bool) state" where
  "set_config env conn = do { res \<leftarrow> PQexec env conn; ret (res \<noteq> None) }"

text \<open>
  \<open>_establish_db_connection\<close>: \<open>Inl\<close> is the exit of the program. A connection that could not be
  established is returned all the same, its status being bad; a connection string that cannot be
  parsed gives \<open>NULL\<close>.
\<close>

definition conninfo_with_defaults :: "env \<Rightarrow> conninfo_options \<Rightarrow> conninfo_params" where
  "conninfo_with_defaults env opts =
     param_set_ine
       (param_set_ine
         (snd (parse_conninfo_string (Some opts) (initialize_conninfo_params (e_defaults env) False) False))
         ''connect_timeout'' ''2'')
       ''fallback_application_name'' ''repmgr''"

definition establish_db_connection_exit :: "env \<Rightarrow> string \<Rightarrow> bool \<Rightarrow> (daemon, int + pgconn) state" where
  "establish_db_connection_exit env conninfo_string exit_on_error =
     (case e_parse env conninfo_string of
        None \<Rightarrow> ret (Inr NULL_CONN)
      | Some opts \<Rightarrow> do {
          let connection_string = param_list_to_string (conninfo_with_defaults env opts);
          conn \<leftarrow> call (\<lambda>k. CONN connection_string k);
          ok \<leftarrow> PQstatus_ok env conn;
          if \<not> ok then
            (if exit_on_error then do { _ \<leftarrow> emit (Closed conn); ret (Inl ERR_DB_CONN) }
             else ret (Inr conn))
          else do {
            ok \<leftarrow> set_config env conn;
            if \<not> ok \<and> exit_on_error then do { _ \<leftarrow> emit (Closed conn); ret (Inl ERR_DB_CONN) }
            else ret (Inr conn)
          }
        })"

text \<open>With \<open>exit_on_error\<close> false the call never leaves the program.\<close>

definition establish_db_connection :: "env \<Rightarrow> string \<Rightarrow> (daemon, pgconn) state" where
  "establish_db_connection env conninfo_string = do {
     r \<leftarrow> establish_db_connection_exit env conninfo_string False;
     ret (case r of Inl _ \<Rightarrow> NULL_CONN | Inr conn \<Rightarrow> conn)
   }"

definition establish_db_connection_by_params :: "env \<Rightarrow> conninfo_params \<Rightarrow> (daemon, pgconn) state" where
  "establish_db_connection_by_params env pl = do {
     let pl = param_set_ine (param_set_ine pl ''connect_timeout'' ''2'')
                ''fallback_application_name'' ''repmgr'';
     conn \<leftarrow> call (\<lambda>k. CONN_PARAMS (params_from pl 0) k);
     ok \<leftarrow> PQstatus_ok env conn;
     if \<not> ok then ret conn
     else if (\<exists>kv \<in> set (params_from pl 0). fst kv = ''replication'') then ret conn
     else do { _ \<leftarrow> set_config env conn; ret conn }
   }"

section \<open>Calls that leave the daemon's variables alone\<close>

text \<open>\<open>vars d\<close> is the daemon without its clock and trace; \<open>keeps_vars\<close> collects its rules.\<close>

definition vars :: "daemon \<Rightarrow> daemon" where
  "vars d = d\<lparr>clock := 0, trace := []\<rparr>"

definition keeps_vars :: "(daemon, 'a) state \<Rightarrow> bool" where
  "keeps_vars m \<longleftrightarrow> (\<forall>d. vars (final m d) = vars d)"

named_theorems keeps \<open>computations that leave the daemon's variables alone\<close>

lemma vars_simps [simp]:
  "config (vars d) = config d" "local_node_info (vars d) = local_node_info d"
  "upstream_node_info (vars d) = upstream_node_info d" "local_conn (vars d) = local_conn d"
  "upstream_conn (vars d) = upstream_conn d" "primary_conn (vars d) = primary_conn d"
  "monitoring_state (vars d) = monitoring_state d" "failover_state (vars d) = failover_state d"
  "degraded_monitoring_start (vars d) = degraded_monitoring_start d"
  "own_pid (vars d) = own_pid d" "pid_file (vars d) = pid_file d"
  "primary_node_id (vars d) = primary_node_id d" "startup_event_logged (vars d) = startup_event_logged d"
  "touch_label (vars d) = touch_label d" "switch_async_mode (vars d) = switch_async_mode d"
  "unreachable_standby_counts (vars d) = unreachable_standby_counts d"
  by (simp_all add: vars_def)

lemma keeps_varsD: "keeps_vars m \<Longrightarrow> vars (final m d) = vars d"
  by (simp add: keeps_vars_def)

text \<open>Each variable after a computation that keeps them.\<close>

lemma keeps_vars_fields:
  assumes "keeps_vars m"
  shows "config (final m d) = config d" "local_node_info (final m d) = local_node_info d"
    "upstream_node_info (final m d) = upstream_node_info d" "local_conn (final m d) = local_conn d"
    "upstream_conn (final m d) = upstream_conn d" "primary_conn (final m d) = primary_conn d"
    "monitoring_state (final m d) = monitoring_state d" "failover_state (final m d) = failover_state d"
  using keeps_varsD [OF assms, of d] by (metis vars_simps)+

lemma keeps_ret [keeps]: "keeps_vars (ret x)"
  by (simp add: keeps_vars_def)

lemma keeps_gets [keeps]: "keeps_vars (gets f)"
  by (simp add: keeps_vars_def)

lemma keeps_call [keeps]: "keeps_vars (call f)"
  by (simp add: keeps_vars_def vars_def)

lemma keeps_emit [keeps]: "keeps_vars (emit e)"
  by (simp add: keeps_vars_def vars_def)

lemma keeps_bind [keeps]:
  "keeps_vars m \<Longrightarrow> (\<And>x. keeps_vars (f x)) \<Longrightarrow> keeps_vars (State_Monad.bind m f)"
  by (simp add: keeps_vars_def case_prod_unfold)

lemma keeps_if [keeps]: "(b \<Longrightarrow> keeps_vars m) \<Longrightarrow> (\<not> b \<Longrightarrow> keeps_vars n) \<Longrightarrow> keeps_vars (if b then m else n)"
  by simp

lemma keeps_option [keeps]:
  "(x = None \<Longrightarrow> keeps_vars m) \<Longrightarrow> (\<And>y. x = Some y \<Longrightarrow> keeps_vars (f y)) \<Longrightarrow>
   keeps_vars (case x of None \<Rightarrow> m | Some y \<Rightarrow> f y)"
  by (cases x) auto

lemma keeps_prod [keeps]:
  "(\<And>y z. keeps_vars (f y z)) \<Longrightarrow> keeps_vars (case x of (y, z) \<Rightarrow> f y z)"
  by (cases x) auto

lemma keeps_let [keeps]: "keeps_vars (f x) \<Longrightarrow> keeps_vars (let y = x in f y)"
  by simp

lemma keeps_PQstatus [keeps]: "keeps_vars (PQstatus_ok env conn)"
  unfolding PQstatus_ok_def by (intro keeps)

lemma keeps_PQexec [keeps]: "keeps_vars (PQexec env conn)"
  unfolding PQexec_def by (intro keeps)

lemma keeps_on_session [keeps]: "keeps_vars (on_session env conn m)"
  unfolding on_session_def by (intro keeps)

lemma keeps_system_calls [keeps]:
  "keeps_vars (sleep secs)" "keeps_vars (system_command env cmd)" "keeps_vars (ask env)"
  "keeps_vars (gettimeofday env)" "keeps_vars (is_server_available env s)"
  "keeps_vars (connection_ping env conn)" "keeps_vars (close_connection conn)" "keeps_vars (set_config env conn)"
  unfolding sleep_def system_command_def ask_def gettimeofday_def is_server_available_def
    connection_ping_def close_connection_def set_config_def by (intro keeps)+

lemma keeps_establish_exit [keeps]: "keeps_vars (establish_db_connection_exit env s exit_on_error)"
  unfolding establish_db_connection_exit_def by (intro keeps)

lemma keeps_establish [keeps]: "keeps_vars (establish_db_connection env s)"
  unfolding establish_db_connection_def by (intro keeps)

lemma keeps_establish_by_params [keeps]: "keeps_vars (establish_db_connection_by_params env pl)"
  unfolding establish_db_connection_by_params_def by (intro keeps)

end
