(* ===== verification/Server_Queries.thy ===== *)
theory Server_Queries
  imports World Str_Util
begin

text \<open>
  The functions of \<open>dbutils.c\<close> through which \<open>repmgrd\<close> asks a server something or tells it
  something: recovery state, the electoral term, the shared memory functions of the extension,
  replication positions, system identification, timeline history, and events.
\<close>

section \<open>Recovery state and the primary\<close>

definition get_recovery_type :: "env \<Rightarrow> pgconn \<Rightarrow> (daemon, recovery_type) state" where
  "get_recovery_type env conn = do {
     res \<leftarrow> PQexec env conn;
     ret (case res of
            None \<Rightarrow> RECTYPE_UNKNOWN
          | Some rows \<Rightarrow>
              if length rows = 1 then
                (if PQgetvalue rows 0 0 = ''f'' then RECTYPE_PRIMARY else RECTYPE_STANDBY)
              else RECTYPE_UNKNOWN)
   }"

text \<open>
  \<open>_get_primary_connection\<close>: \<open>primary_candidates\<close> is its query. The search returns the connection
  to the first node that is not in recovery, and its id.
\<close>

definition primary_candidates :: "node_row list \<Rightarrow> node_row list" where
  "primary_candidates rows =
     sort_key (\<lambda>r. if row_type r = ''primary'' then 1 else (2 :: nat))
       (sort_key row_priority
         (sort_key row_node_id (filter (\<lambda>r. row_active r \<and> row_type r \<noteq> ''witness'') rows)))"

fun find_primary :: "env \<Rightarrow> node_row list \<Rightarrow> (daemon, (pgconn \<times> int) option) state" where
  "find_primary env [] = ret None"
| "find_primary env (r # rs) = do {
     remote_conn \<leftarrow> establish_db_connection env (row_conninfo r);
     ok \<leftarrow> PQstatus_ok env remote_conn;
     if \<not> ok then do { _ \<leftarrow> close_connection remote_conn; find_primary env rs }
     else do {
       recovery_type \<leftarrow> get_recovery_type env remote_conn;
       if recovery_type = RECTYPE_PRIMARY then ret (Some (remote_conn, row_node_id r))
       else do { _ \<leftarrow> emit (Closed remote_conn); find_primary env rs }
     }
   }"

definition get_primary_connection :: "env \<Rightarrow> pgconn \<Rightarrow> (daemon, pgconn \<times> int) state" where
  "get_primary_connection env conn = do {
     res \<leftarrow> on_session env conn (sql_query primary_candidates);
     (case res of
        None \<Rightarrow> ret (NULL_CONN, NODE_NOT_FOUND)
      | Some rows \<Rightarrow> do {
          found \<leftarrow> find_primary env rows;
          ret (case found of None \<Rightarrow> (NULL_CONN, NODE_NOT_FOUND) | Some (c, n) \<Rightarrow> (c, n))
        })
   }"

definition establish_primary_db_connection ::
  "env \<Rightarrow> pgconn \<Rightarrow> bool \<Rightarrow> (daemon, int + pgconn) state" where
  "establish_primary_db_connection env conn exit_on_error = do {
     (found, info) \<leftarrow> on_session env conn (get_primary_node_record node_info_init);
     if \<not> found then ret (Inr NULL_CONN)
     else establish_db_connection_exit env (conninfo info) exit_on_error
   }"

section \<open>The electoral term and the extension's functions\<close>

abbreviation (input) VOTING_TERM_NOT_SET :: int where "VOTING_TERM_NOT_SET \<equiv> - 1"
abbreviation (input) UNKNOWN_PID :: int where "UNKNOWN_PID \<equiv> - 1"

definition get_current_term :: "env \<Rightarrow> pgconn \<Rightarrow> (daemon, int) state" where
  "get_current_term env conn = do {
     res \<leftarrow> PQexec env conn;
     ret (case res of
            None \<Rightarrow> VOTING_TERM_NOT_SET
          | Some rows \<Rightarrow> if length rows > 0 then atoi (PQgetvalue rows 0 0) else VOTING_TERM_NOT_SET)
   }"

definition increment_current_term :: "env \<Rightarrow> pgconn \<Rightarrow> (daemon, unit) state" where
  "increment_current_term env conn = do {
     _ \<leftarrow> emit (Incremented_Term conn);
     _ \<leftarrow> PQexec env conn;
     ret ()
   }"

text \<open>The first column of the first row as an integer, \<open>-1\<close> after an error or for \<open>NULL\<close>.\<close>

definition query_int :: "env \<Rightarrow> pgconn \<Rightarrow> (daemon, int) state" where
  "query_int env conn = do {
     res \<leftarrow> PQexec env conn;
     ret (case res of
            None \<Rightarrow> - 1
          | Some rows \<Rightarrow> (case PQcell rows 0 0 of None \<Rightarrow> - 1 | Some t \<Rightarrow> atoi t))
   }"

definition repmgrd_get_local_node_id :: "env \<Rightarrow> pgconn \<Rightarrow> (daemon, int) state" where
  "repmgrd_get_local_node_id env conn = query_int env conn"

definition repmgrd_get_pid :: "env \<Rightarrow> pgconn \<Rightarrow> (daemon, int) state" where
  "repmgrd_get_pid env conn = query_int env conn"

definition get_wal_receiver_pid_sql :: "env \<Rightarrow> pgconn \<Rightarrow> (daemon, int) state" where
  "get_wal_receiver_pid_sql env conn = query_int env conn"

definition repmgrd_set_local_node_id :: "env \<Rightarrow> pgconn \<Rightarrow> int \<Rightarrow> (daemon, bool) state" where
  "repmgrd_set_local_node_id env conn n = do {
     _ \<leftarrow> emit (Announced_Node_Id conn n);
     res \<leftarrow> PQexec env conn;
     ret (res \<noteq> None)
   }"

definition repmgrd_set_pid :: "env \<Rightarrow> pgconn \<Rightarrow> int \<Rightarrow> string option \<Rightarrow> (daemon, unit) state" where
  "repmgrd_set_pid env conn pid pidfile = do {
     _ \<leftarrow> emit (Announced_Pid conn pid pidfile);
     _ \<leftarrow> PQexec env conn;
     ret ()
   }"

definition repmgrd_is_paused_sql :: "env \<Rightarrow> pgconn \<Rightarrow> (daemon, bool) state" where
  "repmgrd_is_paused_sql env conn = do {
     res \<leftarrow> PQexec env conn;
     ret (case res of
            None \<Rightarrow> False
          | Some rows \<Rightarrow> (case PQcell rows 0 0 of None \<Rightarrow> False | Some t \<Rightarrow> atobool t))
   }"

definition notify_follow_primary_sql :: "env \<Rightarrow> pgconn \<Rightarrow> int \<Rightarrow> (daemon, unit) state" where
  "notify_follow_primary_sql env conn n = do {
     _ \<leftarrow> emit (Notified conn n);
     _ \<leftarrow> PQexec env conn;
     ret ()
   }"

definition get_new_primary_sql :: "env \<Rightarrow> pgconn \<Rightarrow> (daemon, bool \<times> int) state" where
  "get_new_primary_sql env conn = do {
     n \<leftarrow> query_int env conn;
     ret (n \<noteq> UNKNOWN_NODE_ID, n)
   }"

definition reset_voting_status_sql :: "env \<Rightarrow> pgconn \<Rightarrow> (daemon, unit) state" where
  "reset_voting_status_sql env conn = do {
     _ \<leftarrow> emit (Reset_Voting conn);
     _ \<leftarrow> PQexec env conn;
     ret ()
   }"

section \<open>Replication\<close>

definition resume_wal_replay :: "env \<Rightarrow> pgconn \<Rightarrow> (daemon, bool) state" where
  "resume_wal_replay env conn = do {
     _ \<leftarrow> emit (Resumed_Replay conn);
     res \<leftarrow> PQexec env conn;
     ret (res \<noteq> None)
   }"

definition get_node_current_lsn :: "env \<Rightarrow> pgconn \<Rightarrow> (daemon, 64 word) state" where
  "get_node_current_lsn env conn = do {
     res \<leftarrow> PQexec env conn;
     ret (case res of
            None \<Rightarrow> InvalidXLogRecPtr
          | Some rows \<Rightarrow>
              (case PQcell rows 0 0 of None \<Rightarrow> InvalidXLogRecPtr | Some t \<Rightarrow> parse_lsn t))
   }"

text \<open>\<open>get_replication_info\<close>: the replication record is left alone when the query fails.\<close>

definition get_replication_info ::
  "env \<Rightarrow> pgconn \<Rightarrow> server_type \<Rightarrow> repl_info \<Rightarrow> (daemon, bool \<times> repl_info) state" where
  "get_replication_info env conn t ri = do {
     res \<leftarrow> PQexec env conn;
     ret (case res of
            None \<Rightarrow> (False, ri)
          | Some rows \<Rightarrow>
              if length rows = 0 then (False, ri)
              else (True,
                ri\<lparr>current_timestamp := take (MAXLEN - 1) (PQgetvalue rows 0 0),
                  in_recovery := atobool (PQgetvalue rows 0 1),
                  ri_last_wal_receive_lsn := parse_lsn (PQgetvalue rows 0 2),
                  last_wal_replay_lsn := parse_lsn (PQgetvalue rows 0 3),
                  last_xact_replay_timestamp := take (MAXLEN - 1) (PQgetvalue rows 0 4),
                  replication_lag_time := atoi (PQgetvalue rows 0 5),
                  receiving_streamed_wal := atobool (PQgetvalue rows 0 6),
                  wal_replay_paused := atobool (PQgetvalue rows 0 7),
                  upstream_last_seen := atoi (PQgetvalue rows 0 8)\<rparr>))
   }"

record system_identification =
  system_identifier :: "64 word"
  timeline :: "32 word"
  xlogpos :: "64 word"

definition identify_system :: "env \<Rightarrow> pgconn \<Rightarrow> (daemon, system_identification option) state" where
  "identify_system env repl_conn = do {
     res \<leftarrow> PQexec env repl_conn;
     ret (case res of
            None \<Rightarrow> None
          | Some rows \<Rightarrow>
              if length rows = 0 then None
              else Some \<lparr>system_identifier = word_of_int (fst (strtol (PQgetvalue rows 0 0))),
                         timeline = word_of_int (atoi (PQgetvalue rows 0 1)),
                         xlogpos = parse_lsn (PQgetvalue rows 0 2)\<rparr>)
   }"

section \<open>Timeline history\<close>

unbundle bit_operations_syntax

text \<open>
  \<open>sscanf\<close> with \<open>%u\t%X/%X\<close> on a line of the history file: the variables that were assigned.
\<close>

definition scan_u :: "string \<Rightarrow> (32 word \<times> string) option" where
  "scan_u s =
     (let t = dropWhile isspace s;
          neg = (t \<noteq> [] \<and> hd t = CHR ''-'');
          u = (if t \<noteq> [] \<and> (hd t = CHR ''-'' \<or> hd t = CHR ''+'') then tl t else t)
      in map_option
           (\<lambda>(v, rest). (let m = min v (2 ^ 64 - 1) in word_of_int (if neg then - m else m), rest))
           (scan_digits 10 u))"

definition scan_history_line ::
  "string \<Rightarrow> 32 word option \<times> 32 word option \<times> 32 word option" where
  "scan_history_line buf =
     (case scan_u buf of
        None \<Rightarrow> (None, None, None)
      | Some (tli, rest) \<Rightarrow>
          (case scan_x (dropWhile isspace rest) of
             None \<Rightarrow> (Some tli, None, None)
           | Some (hi, rest') \<Rightarrow>
               (case rest' of
                  [] \<Rightarrow> (Some tli, Some hi, None)
                | c # cs \<Rightarrow>
                    if c = CHR ''/'' then
                      (case scan_x cs of
                         None \<Rightarrow> (Some tli, Some hi, None)
                       | Some (lo, _) \<Rightarrow> (Some tli, Some hi, Some lo))
                    else (Some tli, Some hi, None))))"

text \<open>
  The loop over the file's content: a line (at most \<open>MAXLEN\<close> bytes of it at a time) is scanned into
  the three variables, which keep their value when it does not assign them; the loop stops at the
  line of timeline \<open>tli - 1\<close>. A line is taken with the character after it.
\<close>

definition overwrite :: "'a \<Rightarrow> 'a option \<Rightarrow> 'a" where
  "overwrite old new = (case new of None \<Rightarrow> old | Some v \<Rightarrow> v)"

function history_loop ::
  "32 word \<Rightarrow> string \<Rightarrow> 32 word \<Rightarrow> 32 word \<Rightarrow> 32 word \<Rightarrow> 32 word \<times> 32 word \<times> 32 word" where
  "history_loop tli [] file_tli hi lo = (file_tli, hi, lo)"
| "history_loop tli (c # cs) file_tli hi lo =
     (if c = CHR 0x0A then history_loop tli cs file_tli hi lo
      else
        let line = take MAXLEN (takeWhile (\<lambda>x. x \<noteq> CHR 0x0A) (c # cs));
            rest = drop (length line) (c # cs);
            (t, h, l) = scan_history_line line;
            file_tli' = overwrite file_tli t; hi' = overwrite hi h; lo' = overwrite lo l
        in if l \<noteq> None \<and> file_tli' = tli - 1 then (file_tli', hi', lo')
           else history_loop tli (tl rest) file_tli' hi' lo')"
  by pat_completeness auto
termination
  by (relation "measure (\<lambda>(tli, content, file_tli, hi, lo). length content)") (auto simp: Let_def)

declare history_loop.simps [simp del]

text \<open>
  The switch point, if the history names the timeline before \<open>tli\<close>. \<open>UNKNOWN_TIMELINE_ID\<close> is \<open>-1\<close> as
  a 32-bit unsigned integer. \<open>hi0\<close> and \<open>lo0\<close> are what the uninitialised variables hold.
\<close>

definition timeline_switchpoint :: "32 word \<Rightarrow> 32 word \<Rightarrow> 32 word \<Rightarrow> string \<Rightarrow> 64 word option" where
  "timeline_switchpoint hi0 lo0 tli content =
     (let (file_tli, hi, lo) = history_loop tli content (- 1) hi0 lo0 in
      if file_tli = - 1 \<or> file_tli \<noteq> tli - 1 then None
      else Some (push_bit 32 (ucast hi) OR ucast lo))"

definition get_timeline_history ::
  "env \<Rightarrow> pgconn \<Rightarrow> 32 word \<Rightarrow> (daemon, 64 word option) state" where
  "get_timeline_history env repl_conn tli = do {
     res \<leftarrow> PQexec env repl_conn;
     ret (case res of
            None \<Rightarrow> None
          | Some rows \<Rightarrow>
              if length rows \<noteq> 1 \<or> length (rows ! 0) \<noteq> 2 then None
              else timeline_switchpoint (fst (e_uninit env)) (snd (e_uninit env)) tli (PQgetvalue rows 0 1))
   }"

section \<open>Queries leave the daemon's variables alone\<close>

lemma keeps_get_recovery_type [keeps]: "keeps_vars (get_recovery_type env conn)"
  unfolding get_recovery_type_def by (intro keeps)

lemma keeps_find_primary [keeps]: "keeps_vars (find_primary env rs)"
  by (induction rs) (auto intro!: keeps)

lemma keeps_get_primary_connection [keeps]: "keeps_vars (get_primary_connection env conn)"
  unfolding get_primary_connection_def by (intro keeps)

lemma keeps_query_int [keeps]: "keeps_vars (query_int env conn)"
  unfolding query_int_def by (intro keeps)

lemma keeps_queries [keeps]:
  "keeps_vars (get_current_term env conn)" "keeps_vars (increment_current_term env conn)"
  "keeps_vars (repmgrd_get_local_node_id env conn)" "keeps_vars (repmgrd_get_pid env conn)"
  "keeps_vars (get_wal_receiver_pid_sql env conn)" "keeps_vars (repmgrd_set_local_node_id env conn n)"
  "keeps_vars (repmgrd_set_pid env conn n file)" "keeps_vars (notify_follow_primary_sql env conn n)"
  "keeps_vars (get_new_primary_sql env conn)" "keeps_vars (reset_voting_status_sql env conn)"
  "keeps_vars (resume_wal_replay env conn)" "keeps_vars (get_node_current_lsn env conn)"
  "keeps_vars (get_replication_info env conn t ri)" "keeps_vars (identify_system env conn)"
  "keeps_vars (get_timeline_history env conn tli)"
  unfolding get_current_term_def increment_current_term_def repmgrd_get_local_node_id_def
    repmgrd_get_pid_def get_wal_receiver_pid_sql_def repmgrd_set_local_node_id_def repmgrd_set_pid_def
    notify_follow_primary_sql_def get_new_primary_sql_def reset_voting_status_sql_def
    resume_wal_replay_def get_node_current_lsn_def get_replication_info_def identify_system_def
    get_timeline_history_def
  by (intro keeps)+

end
