(* ===== verification/Events.thy ===== *)
theory Events
  imports Server_Queries
begin

text \<open>
  \<open>_create_event\<close> of \<open>dbutils.c\<close>: an event is recorded in the table \<open>repmgr.events\<close> when there is a
  connection to a primary, and reported by running the \<open>event_notification_command\<close> when one is
  configured and the event is among the ones to report.
\<close>

section \<open>The notification command\<close>

record event_info =
  ev_node_name :: "string option"
  ev_conninfo_str :: "string option"
  ev_node_id :: int

definition event_info_init :: event_info where
  "event_info_init = \<lparr>ev_node_name = None, ev_conninfo_str = None, ev_node_id = UNKNOWN_NODE_ID\<rparr>"

text \<open>What \<open>%c\<close> stands for, \<open>None\<close> for a letter without meaning; \<open>%%\<close> is treated in the loop.\<close>

definition event_sub ::
  "int \<Rightarrow> string \<Rightarrow> bool \<Rightarrow> string option \<Rightarrow> string \<Rightarrow> event_info \<Rightarrow> char \<Rightarrow> string option" where
  "event_sub n event successful details timestamp info c =
     (if c = CHR ''n'' then Some (int_string n)
      else if c = CHR ''a'' then Some (case ev_node_name info of None \<Rightarrow> [] | Some name \<Rightarrow> name)
      else if c = CHR ''e'' then Some event
      else if c = CHR ''d'' then Some (case details of None \<Rightarrow> [] | Some d \<Rightarrow> escape_double_quotes d)
      else if c = CHR ''s'' then Some (if successful then ''1'' else ''0'')
      else if c = CHR ''t'' then Some timestamp
      else if c = CHR ''c'' then Some (case ev_conninfo_str info of None \<Rightarrow> [] | Some s \<Rightarrow> s)
      else if c = CHR ''p'' then
        Some (if ev_node_id info \<noteq> UNKNOWN_NODE_ID then int_string (ev_node_id info) else [])
      else None)"

text \<open>
  The loop over the template; \<open>out\<close> is what precedes \<open>dst_ptr\<close>, \<open>cap\<close> is \<open>end_ptr - parsed_command\<close>.
  \<open>snprintf\<close> and \<open>strlcpy\<close> get \<open>end_ptr - dst_ptr\<close> bytes, one of which is for the NUL.
\<close>

function event_loop :: "nat \<Rightarrow> (char \<Rightarrow> string option) \<Rightarrow> string \<Rightarrow> string \<Rightarrow> string" where
  "event_loop cap sub [] out = out"
| "event_loop cap sub (c # cs) out =
     (let plain = (if length out < cap then out @ [c] else out) in
      if c = CHR ''%'' then
        (case cs of
           [] \<Rightarrow> event_loop cap sub cs plain
         | d # ds \<Rightarrow>
             if d = CHR ''%'' then
               (if length out < cap then event_loop cap sub ds (out @ [d]) else event_loop cap sub cs out)
             else
               (case sub d of
                  None \<Rightarrow> event_loop cap sub cs plain
                | Some r \<Rightarrow> event_loop cap sub ds (out @ take (cap - length out - 1) r)))
      else event_loop cap sub cs plain)"
  by pat_completeness auto
termination
  by (relation "measure (\<lambda>(cap, sub, src, out). length src)") auto

text \<open>The expansion without a bound.\<close>

function expand_event :: "(char \<Rightarrow> string option) \<Rightarrow> string \<Rightarrow> string" where
  "expand_event sub [] = []"
| "expand_event sub (c # cs) =
     (if c = CHR ''%'' then
        (case cs of
           [] \<Rightarrow> [c]
         | d # ds \<Rightarrow>
             if d = CHR ''%'' then d # expand_event sub ds
             else (case sub d of
                     None \<Rightarrow> c # expand_event sub cs
                   | Some r \<Rightarrow> r @ expand_event sub ds))
      else c # expand_event sub cs)"
  by pat_completeness auto
termination
  by (relation "measure (\<lambda>(sub, src). length src)") auto

interpretation event_template: command_template
  "\<lambda>c. if c = CHR ''%'' then Some ''%'' else sub c" "expand_event sub"
  for sub
  by unfold_locales (auto split: if_splits list.splits)

lemma event_loop_bound: "length out \<le> cap \<Longrightarrow> length (event_loop cap sub t out) \<le> cap"
proof (induction cap sub t out rule: event_loop.induct)
  case (2 cap sub c cs out)
  then show ?case
    by (cases cs; cases "sub (hd cs)") (simp_all add: Let_def del: append_assoc)
qed simp

lemma event_loop_fits:
  "length out + length (expand_event sub t) < cap \<Longrightarrow>
   event_loop cap sub t out = out @ expand_event sub t"
proof (induction cap sub t out rule: event_loop.induct)
  case (2 cap sub c cs out)
  show ?case
  proof (cases "c = CHR ''%'' \<and> cs \<noteq> []")
    case False
    show ?thesis
    proof (cases "c = CHR ''%''")
      case True
      with False "2.prems" show ?thesis by (simp add: Let_def)
    next
      case plain: False
      then have step: "event_loop cap sub (c # cs) out = event_loop cap sub cs (out @ [c])"
        and exp: "expand_event sub (c # cs) = c # expand_event sub cs"
        using "2.prems" by (simp_all add: Let_def)
      have "event_loop cap sub cs (out @ [c]) = (out @ [c]) @ expand_event sub cs"
        using "2.IH"(6) [OF refl plain] "2.prems" exp by simp
      then show ?thesis using step exp by simp
    qed
  next
    case True
    then obtain d ds where c: "c = CHR ''%''" and cs: "cs = d # ds" by (cases cs) auto
    consider "d = CHR ''%''" | "d \<noteq> CHR ''%''" "sub d = None" | r where "d \<noteq> CHR ''%''" "sub d = Some r"
      by (cases "sub d") auto
    then show ?thesis
    proof cases
      case 1
      with 2 c cs show ?thesis by simp
    next
      case d: 2
      with "2.IH"(4) [OF refl c cs] "2.prems" c cs show ?thesis by (simp add: Let_def)
    next
      case d: 3
      with "2.IH"(5) [OF refl c cs] "2.prems" c cs show ?thesis by (simp add: Let_def)
    qed
  qed
qed simp

section \<open>Events\<close>

definition create_event ::
  "env \<Rightarrow> pgconn \<Rightarrow> int \<Rightarrow> string \<Rightarrow> bool \<Rightarrow> string option \<Rightarrow> event_info \<Rightarrow> bool \<Rightarrow> (daemon, bool) state" where
  "create_event env conn n event successful details info send_notification = do {
     conn_ok \<leftarrow> PQstatus_ok env conn;
     recovery_type \<leftarrow> (if conn_ok then get_recovery_type env conn else ret RECTYPE_UNKNOWN);
     (success, event_timestamp) \<leftarrow>
       (if recovery_type = RECTYPE_PRIMARY then do {
          _ \<leftarrow> emit (Recorded_Event conn n event successful (case details of None \<Rightarrow> [] | Some t \<Rightarrow> t));
          res \<leftarrow> PQexec env conn;
          ret (case res of
                 None \<Rightarrow> (False, [])
               | Some rows \<Rightarrow> (True, take (MAXLEN - 1) (PQgetvalue rows 0 0)))
        }
        else ret (True, []));
     event_timestamp \<leftarrow> (if event_timestamp = [] then call (e_time_text env) else ret event_timestamp);
     opts \<leftarrow> gets config;
     if \<not> send_notification \<or> opt_event_notification_command opts = [] then ret success
     else if opt_event_notifications opts \<noteq> [] \<and> event \<notin> set (opt_event_notifications opts) then ret success
     else do {
       r \<leftarrow> system_command env
         (event_loop (MAXPGPATH - 1) (event_sub n event successful details event_timestamp info)
            (opt_event_notification_command opts) []);
       ret (success \<and> r = 0)
     }
   }"

definition create_event_record ::
  "env \<Rightarrow> pgconn \<Rightarrow> int \<Rightarrow> string \<Rightarrow> bool \<Rightarrow> string \<Rightarrow> (daemon, bool) state" where
  "create_event_record env conn n event successful details =
     create_event env conn n event successful (Some details) event_info_init False"

definition create_event_notification ::
  "env \<Rightarrow> pgconn \<Rightarrow> int \<Rightarrow> string \<Rightarrow> bool \<Rightarrow> string \<Rightarrow> (daemon, bool) state" where
  "create_event_notification env conn n event successful details =
     create_event env conn n event successful (Some details) event_info_init True"

lemma keeps_events [keeps]:
  "keeps_vars (create_event env conn n event successful details info send)"
  "keeps_vars (create_event_notification env conn n event successful text)"
  "keeps_vars (create_event_record env conn n event successful text)"
  unfolding create_event_notification_def create_event_record_def create_event_def
  by (intro keeps)+

end
