(* ===== verification/Connections.thy ===== *)
theory Connections
  imports Events
begin

text \<open>
  How \<open>repmgrd\<close> keeps its connections: waiting for a connection (\<open>dbutils.c\<close>), checking the
  connection to the upstream and reconnecting to a node (\<open>repmgrd.c\<close>), and checking a connection
  before a failover (\<open>repmgrd-physical.c\<close>). A C variable that holds a connection and is passed by
  address is a pair of a selector and an update of the daemon's state.
\<close>

section \<open>Waiting for a connection\<close>

text \<open>
  The loop of \<open>wait_connection_availability\<close>; \<open>timeout\<close> is what is left, in microseconds. The loop
  ends when the connection is idle, on an error, or when the rounds' elapsed time has used up the
  timeout; a machine clock that stands still could keep it going for ever, so it has \<open>fuel\<close>.
\<close>

fun wait_loop :: "env \<Rightarrow> nat \<Rightarrow> int \<Rightarrow> (daemon, int option) state" where
  "wait_loop env 0 timeout = ret None"
| "wait_loop env (Suc fuel) timeout =
     (if timeout > 0 then do {
        consumed \<leftarrow> ask env;
        if \<not> consumed then ret (Some 0)
        else do {
          busy \<leftarrow> ask env;
          if \<not> busy then ret (Some 1)
          else do {
            before \<leftarrow> gettimeofday env;
            selected \<leftarrow> ask env;
            if \<not> selected then ret (Some (- 1))
            else do {
              after \<leftarrow> gettimeofday env;
              wait_loop env fuel (timeout - (after - before))
            }
          }
        }
      }
      else ret (Some (if timeout \<ge> 0 then 1 else - 1)))"

text \<open>The fuel is enough when the clock advances between two readings.\<close>

lemma wait_loop_returns:
  assumes "\<And>j k. j < k \<Longrightarrow> e_now env j < e_now env k"
  shows "nat timeout < fuel \<Longrightarrow> result (wait_loop env fuel timeout) d \<noteq> None"
proof (induction fuel arbitrary: timeout d)
  case (Suc fuel)
  define k where "k = clock d"
  have step: "e_now env (Suc (Suc k)) < e_now env (Suc (Suc (Suc (Suc k))))" using assms by simp
  show ?case
  proof (cases "timeout > 0")
    case True
    with Suc.prems step have
      "nat (timeout - (e_now env (Suc (Suc (Suc (Suc k)))) - e_now env (Suc (Suc k)))) < fuel" by linarith
    from Suc.IH [OF this] True show ?thesis
      by (simp add: ask_def gettimeofday_def k_def)
  qed simp
qed simp

definition wait_connection_availability :: "env \<Rightarrow> pgconn \<Rightarrow> int \<Rightarrow> (daemon, int) state" where
  "wait_connection_availability env conn timeout = do {
     r \<leftarrow> wait_loop env (nat (timeout * 1000000) + 1) (timeout * 1000000);
     ret (case r of None \<Rightarrow> - 1 | Some v \<Rightarrow> v)
   }"

definition cancel_query :: "env \<Rightarrow> pgconn \<Rightarrow> int \<Rightarrow> (daemon, bool) state" where
  "cancel_query env conn timeout = do {
     r \<leftarrow> wait_connection_availability env conn timeout;
     if r \<noteq> 1 then ret False
     else do {
       have_cancel \<leftarrow> ask env;
       if \<not> have_cancel then ret False else ask env
     }
   }"

section \<open>The connection to the upstream\<close>

text \<open>One attempt: the connection is up, and a query sent on it comes back.\<close>

definition upstream_attempt :: "env \<Rightarrow> (daemon \<Rightarrow> pgconn) \<Rightarrow> (daemon, bool) state" where
  "upstream_attempt env conn_of = do {
     conn \<leftarrow> gets conn_of;
     timeout \<leftarrow> gets (\<lambda>d. opt_async_query_timeout (config d));
     ok \<leftarrow> PQstatus_ok env conn;
     if \<not> ok then ret False
     else do {
       cancelled \<leftarrow> cancel_query env conn timeout;
       if \<not> cancelled then ret False
       else do {
         idle \<leftarrow> wait_connection_availability env conn timeout;
         if idle \<noteq> 1 then ret False
         else do {
           sent \<leftarrow> ask env;
           if \<not> sent then ret False
           else do {
             idle \<leftarrow> wait_connection_availability env conn timeout;
             ret (idle = 1)
           }
         }
       }
     }
   }"

text \<open>\<open>retries\<close> is 1 until the connection has been opened again (\<open>twice\<close> in the source).\<close>

fun upstream_loop ::
  "env \<Rightarrow> (daemon \<Rightarrow> pgconn) \<Rightarrow> (pgconn \<Rightarrow> daemon \<Rightarrow> daemon) \<Rightarrow> string \<Rightarrow> nat \<Rightarrow> (daemon, bool) state" where
  "upstream_loop env conn_of set_conn conninfo_string 0 = upstream_attempt env conn_of"
| "upstream_loop env conn_of set_conn conninfo_string (Suc retries) = do {
     ok \<leftarrow> upstream_attempt env conn_of;
     if ok then ret True
     else do {
       conn \<leftarrow> gets conn_of;
       _ \<leftarrow> close_connection conn;
       conn \<leftarrow> call (\<lambda>k. CONN conninfo_string k);
       _ \<leftarrow> modify (set_conn conn);
       upstream_loop env conn_of set_conn conninfo_string retries
     }
   }"

definition check_upstream_connection ::
  "env \<Rightarrow> (daemon \<Rightarrow> pgconn) \<Rightarrow> (pgconn \<Rightarrow> daemon \<Rightarrow> daemon) \<Rightarrow> string \<Rightarrow> (daemon, bool) state" where
  "check_upstream_connection env conn_of set_conn conninfo_string = do {
     check_type \<leftarrow> gets (\<lambda>d. opt_connection_check_type (config d));
     if check_type = CHECK_PING then is_server_available env conninfo_string
     else if check_type = CHECK_CONNECTION then do {
       test_conn \<leftarrow> call (\<lambda>k. CONN conninfo_string k);
       ok \<leftarrow> PQstatus_ok env test_conn;
       _ \<leftarrow> emit (Closed test_conn);
       ret ok
     }
     else upstream_loop env conn_of set_conn conninfo_string 1
   }"

section \<open>Reconnecting\<close>

text \<open>
  The loop of \<open>try_reconnect\<close>, with the attempts that are left; it answers with the node status the
  function stores in the node record.
\<close>

fun reconnect_loop ::
  "env \<Rightarrow> (daemon \<Rightarrow> pgconn) \<Rightarrow> (pgconn \<Rightarrow> daemon \<Rightarrow> daemon) \<Rightarrow> conninfo_params \<Rightarrow> nat
     \<Rightarrow> (daemon, node_status) state" where
  "reconnect_loop env conn_of set_conn pl 0 = ret NODE_STATUS_DOWN"
| "reconnect_loop env conn_of set_conn pl (Suc attempts) = do {
     interval \<leftarrow> gets (\<lambda>d. opt_reconnect_interval (config d));
     let next = (do {
       _ \<leftarrow> (if attempts > 0 then sleep interval else ret ());
       reconnect_loop env conn_of set_conn pl attempts
     });
     available \<leftarrow> call (\<lambda>k. e_ping env k = PQPING_OK);
     if \<not> available then next
     else do {
       our_conn \<leftarrow> establish_db_connection_by_params env pl;
       ok \<leftarrow> PQstatus_ok env our_conn;
       if \<not> ok then do { _ \<leftarrow> close_connection our_conn; next }
       else do {
         conn \<leftarrow> gets conn_of;
         old_ok \<leftarrow> PQstatus_ok env conn;
         usable \<leftarrow> (if old_ok then connection_ping env conn else ret False);
         _ \<leftarrow> (if usable then emit (Closed our_conn)
              else do { _ \<leftarrow> close_connection conn; modify (set_conn our_conn) });
         ret NODE_STATUS_UP
       }
     }
   }"

definition try_reconnect ::
  "env \<Rightarrow> (daemon \<Rightarrow> pgconn) \<Rightarrow> (pgconn \<Rightarrow> daemon \<Rightarrow> daemon) \<Rightarrow> node_info \<Rightarrow> (daemon, node_info) state" where
  "try_reconnect env conn_of set_conn info = do {
     max_attempts \<leftarrow> gets (\<lambda>d. opt_reconnect_attempts (config d));
     let pl = param_set_ine
       (param_set_ine
         (snd (parse_conninfo_string (e_parse env (conninfo info))
                 (initialize_conninfo_params (e_defaults env) False) False))
         ''connect_timeout'' ''2'')
       ''fallback_application_name'' ''repmgr'';
     status \<leftarrow> reconnect_loop env conn_of set_conn pl (nat max_attempts);
     ret (info\<lparr>node_status := status\<rparr>)
   }"

section \<open>Before a failover\<close>

definition check_connection ::
  "env \<Rightarrow> node_info \<Rightarrow> (daemon \<Rightarrow> pgconn) \<Rightarrow> (pgconn \<Rightarrow> daemon \<Rightarrow> daemon) \<Rightarrow> (daemon, unit) state" where
  "check_connection env info conn_of set_conn = do {
     available \<leftarrow> is_server_available env (conninfo info);
     conn \<leftarrow> gets conn_of;
     _ \<leftarrow> (if \<not> available then do { _ \<leftarrow> close_connection conn; modify (set_conn NULL_CONN) } else ret ());
     conn \<leftarrow> gets conn_of;
     ok \<leftarrow> PQstatus_ok env conn;
     if ok then ret ()
     else do {
       _ \<leftarrow> close_connection conn;
       conn \<leftarrow> establish_db_connection env (conninfo info);
       _ \<leftarrow> modify (set_conn conn);
       ok \<leftarrow> PQstatus_ok env conn;
       if \<not> ok then do { _ \<leftarrow> close_connection conn; modify (set_conn NULL_CONN) }
       else do {
         stored_local_node_id \<leftarrow> repmgrd_get_local_node_id env conn;
         if stored_local_node_id = UNKNOWN_NODE_ID then do {
           own_id \<leftarrow> gets (\<lambda>d. opt_node_id (config d));
           _ \<leftarrow> repmgrd_set_local_node_id env conn own_id;
           local \<leftarrow> gets local_conn;
           pid \<leftarrow> gets own_pid;
           file \<leftarrow> gets pid_file;
           repmgrd_set_pid env local pid (Some file)
         }
         else ret ()
       }
     }
   }"

definition reset_node_voting_status :: "env \<Rightarrow> (daemon, unit) state" where
  "reset_node_voting_status env = do {
     _ \<leftarrow> modify (\<lambda>d. d\<lparr>failover_state := FAILOVER_STATE_NONE\<rparr>);
     conn \<leftarrow> gets local_conn;
     ok \<leftarrow> PQstatus_ok env conn;
     if \<not> ok then ret () else reset_voting_status_sql env conn
   }"

text \<open>\<open>monitoring_state = MS_DEGRADED; INSTR_TIME_SET_CURRENT(degraded_monitoring_start)\<close>.\<close>

definition enter_degraded :: "env \<Rightarrow> (daemon, unit) state" where
  "enter_degraded env = do {
     _ \<leftarrow> modify (\<lambda>d. d\<lparr>monitoring_state := MS_DEGRADED\<rparr>);
     t \<leftarrow> gettimeofday env;
     modify (\<lambda>d. d\<lparr>degraded_monitoring_start := t\<rparr>)
   }"

text \<open>\<open>terminate\<close>: what it does before it leaves with the given code.\<close>

definition terminate :: "env \<Rightarrow> int \<Rightarrow> (daemon, int) state" where
  "terminate env retval = do {
     conn \<leftarrow> gets local_conn;
     ok \<leftarrow> PQstatus_ok env conn;
     _ \<leftarrow> (if ok then repmgrd_set_pid env conn (- 1) None else ret ());
     file \<leftarrow> gets pid_file;
     _ \<leftarrow> (if file \<noteq> [] then emit (Unlinked file) else ret ());
     ret retval
   }"

end
