(* ===== verification/Follow_Check.thy ===== *)
theory Follow_Check
  imports Connections
begin

text \<open>
  \<open>check_node_can_follow\<close> of \<open>repmgrd-physical.c\<close>: whether the local node can attach to another
  node, decided from the system identifiers, the timelines and the positions in the write-ahead
  log.
\<close>

text \<open>
  \<open>PQconninfo\<close> of a connection into a parameter list; a \<open>NULL\<close> user, which would be passed to
  \<open>strcmp\<close>, is not equal to any user here.
\<close>

definition replication_params :: "env \<Rightarrow> pgconn \<Rightarrow> conninfo_params" where
  "replication_params env conn =
     conn_to_param_list (e_options env conn) (initialize_conninfo_params (e_defaults env) False)"

definition local_replication_params :: "env \<Rightarrow> pgconn \<Rightarrow> string \<Rightarrow> conninfo_params" where
  "local_replication_params env conn user =
     param_set (param_set (replication_params env conn) ''user'' user) ''replication'' ''1''"

definition target_replication_params :: "env \<Rightarrow> pgconn \<Rightarrow> string \<Rightarrow> conninfo_params" where
  "target_replication_params env conn user =
     (let pl = replication_params env conn;
          pl = (if param_get pl ''user'' \<noteq> Some user
                then param_set (param_set pl ''user'' user) ''dbname'' ''replication'' else pl)
      in param_set pl ''replication'' ''1'')"

definition check_node_can_follow ::
  "env \<Rightarrow> pgconn \<Rightarrow> 64 word \<Rightarrow> pgconn \<Rightarrow> node_info \<Rightarrow> (daemon, bool) state" where
  "check_node_can_follow env conn local_xlogpos target_conn target = do {
     info \<leftarrow> gets local_node_info;
     local_repl_conn \<leftarrow> establish_db_connection_by_params env
       (local_replication_params env conn (repluser info));
     ok \<leftarrow> PQstatus_ok env local_repl_conn;
     if \<not> ok then do { _ \<leftarrow> close_connection local_repl_conn; ret False }
     else do {
       local_id \<leftarrow> identify_system env local_repl_conn;
       _ \<leftarrow> close_connection local_repl_conn;
       (case local_id of
          None \<Rightarrow> ret False
        | Some local_id \<Rightarrow> do {
            target_repl_conn \<leftarrow> establish_db_connection_by_params env
              (target_replication_params env target_conn (repluser target));
            ok \<leftarrow> PQstatus_ok env target_repl_conn;
            if \<not> ok then ret False
            else do {
              target_id \<leftarrow> identify_system env target_repl_conn;
              (case target_id of
                 None \<Rightarrow> do { _ \<leftarrow> close_connection target_repl_conn; ret False }
               | Some target_id \<Rightarrow> do {
                   can_follow \<leftarrow>
                     (if system_identifier target_id \<noteq> system_identifier local_id then ret False
                      else if timeline target_id < timeline local_id then ret False
                      else if timeline target_id = timeline local_id then do {
                        target_xlogpos \<leftarrow> get_node_current_lsn env target_conn;
                        if local_xlogpos = InvalidXLogRecPtr \<or> target_xlogpos = InvalidXLogRecPtr
                        then ret False
                        else ret (local_xlogpos \<le> target_xlogpos)
                      }
                      else do {
                        history \<leftarrow> get_timeline_history env target_repl_conn (timeline local_id + 1);
                        ret (case history of
                               None \<Rightarrow> False
                             | Some switchpoint \<Rightarrow> \<not> local_xlogpos > switchpoint)
                      });
                   _ \<leftarrow> close_connection target_repl_conn;
                   ret can_follow
                 })
            }
          })
     }
   }"

lemma keeps_check_node_can_follow [keeps]: "keeps_vars (check_node_can_follow env conn lsn tconn target)"
  unfolding check_node_can_follow_def by (intro keeps)

end
