(* ===== verification/Election.thy ===== *)
theory Election
  imports Follow_Check "HOL-Library.Multiset"
begin

text \<open>
  \<open>do_election\<close> of \<open>repmgrd-physical.c\<close>: a standby that has lost its primary looks at its siblings
  and decides whether it is to be promoted. The loop's local variables are the record \<open>election\<close>;
  the pointer to the current candidate is a copy of the node record it points to, which does not
  change while it is the candidate. The siblings come back as the loop leaves them.
\<close>

section \<open>Definitions\<close>

datatype election_result = ELECTION_NOT_CANDIDATE | ELECTION_WON | ELECTION_LOST
  | ELECTION_CANCELLED | ELECTION_RERUN

record election =
  visible_nodes :: int
  primary_location_seen :: bool
  nodes_with_primary_still_visible :: int
  candidate_node :: node_info

text \<open>A replication record with arbitrary contents, as it is declared on the stack.\<close>

definition uninit_repl_info :: repl_info where
  "uninit_repl_info =
     \<lparr>current_timestamp = [], in_recovery = False, ri_last_wal_receive_lsn = 0, last_wal_replay_lsn = 0,
      last_xact_replay_timestamp = [], replication_lag_time = 0, receiving_streamed_wal = False,
      wal_replay_paused = False, upstream_last_seen = 0\<rparr>"

text \<open>The failover validation command: \<open>%n\<close> and \<open>%a\<close> are the node's id and name.\<close>

definition validation_sub :: "node_info \<Rightarrow> char \<Rightarrow> string option" where
  "validation_sub info c =
     (if c = CHR ''n'' then Some (int_string (node_id info))
      else if c = CHR ''a'' then Some (node_name info)
      else None)"

definition parse_failover_validation_command :: "string \<Rightarrow> node_info \<Rightarrow> string" where
  "parse_failover_validation_command template info = expand_event (validation_sub info) template"

definition execute_failover_validation_command :: "env \<Rightarrow> node_info \<Rightarrow> (daemon, election_result) state" where
  "execute_failover_validation_command env info = do {
     opts \<leftarrow> gets config;
     return_value \<leftarrow> system_command env
       (parse_failover_validation_command (opt_failover_validation_command opts) info);
     ret (if return_value \<noteq> 0 then ELECTION_RERUN else ELECTION_WON)
   }"

definition better_candidate :: "node_info \<Rightarrow> node_info \<Rightarrow> node_info" where
  "better_candidate cell cand =
     (if last_wal_receive_lsn cell > last_wal_receive_lsn cand then cell
      else if last_wal_receive_lsn cell = last_wal_receive_lsn cand then
        (if priority cell > priority cand then cell
         else if priority cell = priority cand then (if node_id cell < node_id cand then cell else cand)
         else cand)
      else cand)"

text \<open>
  The body of the loop. The result is the sibling's record, the loop's variables, and whether the
  election ends here because the sibling is a primary this node can follow.
\<close>

definition visit_sibling :: "env \<Rightarrow> node_info \<Rightarrow> election \<Rightarrow> (daemon, node_info \<times> election \<times> bool) state" where
  "visit_sibling env cell st = do {
     conn \<leftarrow> establish_db_connection env (conninfo cell);
     let cell = cell\<lparr>node_status := NODE_STATUS_UNKNOWN, node_conn := conn\<rparr>;
     ok \<leftarrow> PQstatus_ok env conn;
     if \<not> ok then ret (cell, st, False)
     else do {
       let cell = cell\<lparr>node_status := NODE_STATUS_UP\<rparr>;
       upstream \<leftarrow> gets upstream_node_info;
       let st = st\<lparr>visible_nodes := visible_nodes st + 1,
                  primary_location_seen := primary_location_seen st \<or>
                    strncmp_eq MAXLEN (location cell) (location upstream)\<rparr>;
       pid \<leftarrow> repmgrd_get_pid env conn;
       if pid = UNKNOWN_PID then ret (cell, st, False)
       else do {
         (found, ri) \<leftarrow> get_replication_info env conn (node_type cell) uninit_repl_info;
         if \<not> found then ret (cell, st, False)
         else if \<not> in_recovery ri then do {
           local \<leftarrow> gets local_node_info;
           lconn \<leftarrow> gets local_conn;
           can_follow \<leftarrow> check_node_can_follow env lconn (last_wal_receive_lsn local) conn cell;
           ret (cell, st, can_follow)
         }
         else do {
           opts \<leftarrow> gets config;
           let st = (if upstream_last_seen ri \<ge> 0 \<and> upstream_last_seen ri < opt_monitor_interval_secs opts * 2
                     then st\<lparr>nodes_with_primary_still_visible := nodes_with_primary_still_visible st + 1\<rparr>
                     else st);
           if node_type cell = WITNESS then ret (cell, st, False)
           else if priority cell \<le> 0 then ret (cell, st, False)
           else do {
             let cell = cell\<lparr>last_wal_receive_lsn := ri_last_wal_receive_lsn ri\<rparr>;
             ret (cell, st\<lparr>candidate_node := better_candidate cell (candidate_node st)\<rparr>, False)
           }
         }
       }
     }
   }"

text \<open>The loop; the third component is \<open>*new_primary_id\<close> when the election is cancelled in it.\<close>

fun election_loop ::
  "env \<Rightarrow> node_info list \<Rightarrow> election \<Rightarrow> (daemon, node_info list \<times> election \<times> int option) state" where
  "election_loop env [] st = ret ([], st, None)"
| "election_loop env (cell # cells) st = do {
     (cell, st, cancelled) \<leftarrow> visit_sibling env cell st;
     if cancelled then ret (cell # cells, st, Some (node_id cell))
     else do {
       (cells, st, r) \<leftarrow> election_loop env cells st;
       ret (cell # cells, st, r)
     }
   }"

text \<open>What follows the loop. \<open>visible_nodes <= total_nodes / 2.0\<close> is written without the fraction.\<close>

definition election_verdict :: "env \<Rightarrow> int \<Rightarrow> election \<Rightarrow> (daemon, election_result) state" where
  "election_verdict env total_nodes st = do {
     opts \<leftarrow> gets config;
     if \<not> primary_location_seen st then do {
       _ \<leftarrow> enter_degraded env;
       _ \<leftarrow> reset_node_voting_status env;
       ret ELECTION_CANCELLED
     }
     else if nodes_with_primary_still_visible st > 0 \<and> opt_primary_visibility_consensus opts then do {
       _ \<leftarrow> enter_degraded env;
       _ \<leftarrow> reset_node_voting_status env;
       ret ELECTION_CANCELLED
     }
     else if 2 * visible_nodes st \<le> total_nodes then do {
       _ \<leftarrow> enter_degraded env;
       _ \<leftarrow> reset_node_voting_status env;
       ret ELECTION_CANCELLED
     }
     else do {
       local \<leftarrow> gets local_node_info;
       if node_id (candidate_node st) = node_id local then
         (if opt_failover_validation_command opts \<noteq> [] then
            execute_failover_validation_command env (candidate_node st)
          else ret ELECTION_WON)
       else ret ELECTION_LOST
     }
   }"

text \<open>
  Reading the local position, and resuming WAL replay when it is paused; \<open>None\<close> when the election
  is lost here.
\<close>

definition election_local_lsn :: "env \<Rightarrow> (daemon, 64 word option) state" where
  "election_local_lsn env = do {
     conn \<leftarrow> gets local_conn;
     (found, ri) \<leftarrow> get_replication_info env conn STANDBY uninit_repl_info;
     if \<not> found then ret None
     else do {
       resumed \<leftarrow> (if wal_replay_paused ri then resume_wal_replay env conn else ret True);
       ret (if resumed then Some (ri_last_wal_receive_lsn ri) else None)
     }
   }"

text \<open>The loop and the verdict, with the local node as the first candidate.\<close>

definition election_count ::
  "env \<Rightarrow> node_info list \<Rightarrow> bool \<Rightarrow> 64 word \<Rightarrow> (daemon, election_result \<times> node_info list \<times> int) state" where
  "election_count env siblings same_location lsn = do {
     _ \<leftarrow> modify (\<lambda>d. d\<lparr>local_node_info := (local_node_info d)\<lparr>last_wal_receive_lsn := lsn\<rparr>\<rparr>);
     local \<leftarrow> gets local_node_info;
     (siblings, st, found) \<leftarrow> election_loop env siblings
       \<lparr>visible_nodes = 1, primary_location_seen = same_location,
        nodes_with_primary_still_visible = 0, candidate_node = local\<rparr>;
     (case found of
        Some new_primary_id \<Rightarrow> ret (ELECTION_CANCELLED, siblings, new_primary_id)
      | None \<Rightarrow> do {
          r \<leftarrow> election_verdict env (int (length siblings) + 1) st;
          ret (r, siblings, UNKNOWN_NODE_ID)
        })
   }"

text \<open>
  The result, the sibling list, and the id of a primary to follow (\<open>UNKNOWN_NODE_ID\<close>, the value the
  caller initialises it with, when there is none).
\<close>

definition do_election :: "env \<Rightarrow> (daemon, election_result \<times> node_info list \<times> int) state" where
  "do_election env = do {
     conn \<leftarrow> gets local_conn;
     electoral_term \<leftarrow> get_current_term env conn;
     opts \<leftarrow> gets config;
     local \<leftarrow> gets local_node_info;
     upstream \<leftarrow> gets upstream_node_info;
     if electoral_term = - 1 then ret (ELECTION_NOT_CANDIDATE, [], UNKNOWN_NODE_ID)
     else if opt_failover opts = FAILOVER_MANUAL then ret (ELECTION_NOT_CANDIDATE, [], UNKNOWN_NODE_ID)
     else if priority local \<le> 0 then ret (ELECTION_LOST, [], UNKNOWN_NODE_ID)
     else do {
       siblings \<leftarrow> on_session env conn (get_active_sibling_node_records (node_id local) (node_id upstream));
       let same_location = strncmp_eq MAXLEN (location upstream) (location local);
       _ \<leftarrow> modify (\<lambda>d. d\<lparr>local_node_info := (local_node_info d)\<lparr>last_wal_receive_lsn := InvalidXLogRecPtr\<rparr>\<rparr>);
       if siblings = [] then
         (if same_location then
            (if opt_failover_validation_command opts \<noteq> [] then do {
               local \<leftarrow> gets local_node_info;
               r \<leftarrow> execute_failover_validation_command env local;
               ret (r, [], UNKNOWN_NODE_ID)
             }
             else ret (ELECTION_WON, [], UNKNOWN_NODE_ID))
          else do {
            _ \<leftarrow> enter_degraded env;
            ret (ELECTION_NOT_CANDIDATE, [], UNKNOWN_NODE_ID)
          })
       else do {
         lsn \<leftarrow> election_local_lsn env;
         (case lsn of
            None \<Rightarrow> ret (ELECTION_LOST, siblings, UNKNOWN_NODE_ID)
          | Some lsn \<Rightarrow> election_count env siblings same_location lsn)
       }
     }
   }"

section \<open>The order of the candidates\<close>

text \<open>A ballot: the position in the write-ahead log, then the priority, then the lower node id.\<close>

datatype ballot = Ballot "64 word" int int

instantiation ballot :: linorder
begin

fun less_ballot :: "ballot \<Rightarrow> ballot \<Rightarrow> bool" where
  "less_ballot (Ballot l p n) (Ballot l' p' n') \<longleftrightarrow>
     l < l' \<or> l = l' \<and> (p < p' \<or> p = p' \<and> n' < n)"

definition less_eq_ballot :: "ballot \<Rightarrow> ballot \<Rightarrow> bool" where
  "less_eq_ballot a b \<longleftrightarrow> a < b \<or> a = b"

instance
proof
  fix x y z :: ballot
  show "(x < y) = (x \<le> y \<and> \<not> y \<le> x)" and "x \<le> x" and "x \<le> y \<or> y \<le> x"
    and "x \<le> y \<Longrightarrow> y \<le> z \<Longrightarrow> x \<le> z" and "x \<le> y \<Longrightarrow> y \<le> x \<Longrightarrow> x = y"
    by (cases x; cases y; cases z; auto simp: less_eq_ballot_def)+
qed

end

definition ballot_of :: "node_info \<Rightarrow> ballot" where
  "ballot_of info = Ballot (last_wal_receive_lsn info) (priority info) (node_id info)"

text \<open>The interface of a running best candidate: the better of two is the one of higher rank.\<close>

locale running_candidate =
  fixes rank :: "'c \<Rightarrow> 'k::linorder" and better :: "'c \<Rightarrow> 'c \<Rightarrow> 'c"
  assumes better_rank: "better x c = (if rank c < rank x then x else c)"
begin

lemma rank_better: "rank (better x c) = max (rank x) (rank c)"
  by (auto simp: better_rank max_def)

lemma fold_member: "fold better xs c \<in> insert c (set xs)"
proof (induction xs arbitrary: c)
  case (Cons x xs)
  then show ?case using Cons [of "better x c"] by (auto simp: better_rank split: if_splits)
qed simp

lemma fold_rank: "rank (fold better xs c) = Max (rank ` insert c (set xs))"
proof (induction xs arbitrary: c)
  case (Cons x xs)
  have "rank (fold better (x # xs) c) = Max (insert (max (rank x) (rank c)) (rank ` set xs))"
    using Cons [of "better x c"] by (simp add: rank_better)
  then show ?case by (cases "set xs = {}") (auto simp: max.assoc max.left_commute max.commute)
qed simp

text \<open>The order in which the others are looked at does not matter.\<close>

lemma fold_order:
  assumes "mset xs = mset ys" and "inj_on rank (insert c (set xs))"
  shows "fold better xs c = fold better ys c"
proof -
  have "set xs = set ys" using assms(1) by (rule mset_eq_setD)
  then have "rank (fold better xs c) = rank (fold better ys c)" by (simp add: fold_rank)
  then show ?thesis
    using assms(2) fold_member [of xs c] fold_member [of ys c] \<open>set xs = set ys\<close>
    by (auto simp: inj_on_def)
qed

end

interpretation candidates: running_candidate ballot_of better_candidate
  by unfold_locales (auto simp: better_candidate_def ballot_of_def)

section \<open>What the loop establishes\<close>

lemma keeps_visit_sibling [keeps]: "keeps_vars (visit_sibling env cell st)"
  unfolding visit_sibling_def by (intro keeps)

lemma keeps_election_loop [keeps]: "keeps_vars (election_loop env cells st)"
  by (induction cells arbitrary: st) (auto intro!: keeps)

definition same_node :: "node_info \<Rightarrow> node_info \<Rightarrow> bool" where
  "same_node a b \<longleftrightarrow> node_id a = node_id b \<and> priority a = priority b \<and> node_type a = node_type b \<and>
     location a = location b"

text \<open>A visit: the node is compared with the candidate, or nothing changes but the counters.\<close>

definition visited :: "node_info \<Rightarrow> election \<Rightarrow> node_info \<times> election \<times> bool \<Rightarrow> bool" where
  "visited cell st r \<longleftrightarrow>
     (case r of (cell', st', cancelled) \<Rightarrow>
        same_node cell cell' \<and>
        visible_nodes st' = visible_nodes st + (if node_status cell' = NODE_STATUS_UP then 1 else 0) \<and>
        (candidate_node st' = candidate_node st \<and> last_wal_receive_lsn cell' = last_wal_receive_lsn cell \<or>
         candidate_node st' = better_candidate cell' (candidate_node st) \<and>
         node_status cell' = NODE_STATUS_UP \<and> node_type cell \<noteq> WITNESS \<and> 0 < priority cell))"

lemma visit_sibling_visited: "returns (visit_sibling env cell st) (visited cell st)"
  unfolding visit_sibling_def
  by (intro rets) (auto simp: visited_def same_node_def Let_def)

definition looped :: "node_info list \<Rightarrow> election \<Rightarrow> node_info list \<times> election \<times> int option \<Rightarrow> bool" where
  "looped cells st r \<longleftrightarrow>
     (case r of (cells', st', found) \<Rightarrow>
        list_all2 same_node cells cells' \<and>
        (found = None \<longrightarrow>
           visible_nodes st' = visible_nodes st + int (length (filter (\<lambda>c. node_status c = NODE_STATUS_UP) cells')) \<and>
           (\<exists>xs. set xs \<subseteq> set cells' \<and> candidate_node st' = fold better_candidate xs (candidate_node st) \<and>
              (\<forall>c \<in> set cells'. last_wal_receive_lsn c \<noteq> InvalidXLogRecPtr \<longrightarrow> c \<in> set xs) \<and>
              (\<forall>c \<in> set xs. node_status c = NODE_STATUS_UP \<and> node_type c \<noteq> WITNESS \<and> 0 < priority c))))"

lemma same_node_refl [simp]: "same_node a a"
  by (simp add: same_node_def)

lemma election_loop_looped:
  "\<forall>c \<in> set cells. last_wal_receive_lsn c = InvalidXLogRecPtr \<Longrightarrow>
   returns (election_loop env cells st) (looped cells st)"
proof (induction cells arbitrary: st)
  case Nil
  show ?case by (auto simp: looped_def intro!: rets)
next
  case (Cons cell cells)
  have rest: "looped (cell # cells) st (cell' # cells', st2, r)"
    if "visited cell st (cell', st1, False)" and "looped cells st1 (cells', st2, r)" for cell' cells' st1 st2 r
  proof -
    have lsn: "last_wal_receive_lsn cell = InvalidXLogRecPtr" using Cons.prems by simp
    have same: "list_all2 same_node (cell # cells) (cell' # cells')"
      using that by (simp add: visited_def looped_def)
    show ?thesis
    proof (cases r)
      case None
      with that obtain xs where xs: "set xs \<subseteq> set cells'"
        "candidate_node st2 = fold better_candidate xs (candidate_node st1)"
        "\<forall>c \<in> set cells'. last_wal_receive_lsn c \<noteq> InvalidXLogRecPtr \<longrightarrow> c \<in> set xs"
        "\<forall>c \<in> set xs. node_status c = NODE_STATUS_UP \<and> node_type c \<noteq> WITNESS \<and> 0 < priority c"
        and vis: "visible_nodes st2 = visible_nodes st1 +
            int (length (filter (\<lambda>c. node_status c = NODE_STATUS_UP) cells'))"
        by (auto simp: looped_def)
      have vis': "visible_nodes st2 = visible_nodes st +
          int (length (filter (\<lambda>c. node_status c = NODE_STATUS_UP) (cell' # cells')))"
        using that(1) vis by (simp add: visited_def)
      from that(1) consider "candidate_node st1 = candidate_node st" "last_wal_receive_lsn cell' = InvalidXLogRecPtr"
        | "candidate_node st1 = better_candidate cell' (candidate_node st)" "node_status cell' = NODE_STATUS_UP"
          "node_type cell' \<noteq> WITNESS" "0 < priority cell'"
        by (auto simp: visited_def same_node_def lsn)
      then show ?thesis
      proof cases
        case 1
        with xs same vis' show ?thesis by (auto simp: looped_def intro!: exI [of _ xs])
      next
        case 2
        with xs same vis' show ?thesis by (auto simp: looped_def intro!: exI [of _ "cell' # xs"])
      qed
    next
      case (Some n)
      with same show ?thesis by (simp add: looped_def)
    qed
  qed
  have IH: "returns (election_loop env cells st1) (looped cells st1)" for st1
    using Cons by simp
  show ?case
    unfolding election_loop.simps
  proof (rule returns_bind [OF visit_sibling_visited], goal_cases)
    case (1 x)
    obtain cell' st1 c where x: "x = (cell', st1, c)" by (cases x)
    show ?case
    proof (cases c)
      case True
      with 1 x show ?thesis by (auto intro!: returns_ret simp: looped_def visited_def list_all2_refl)
    next
      case False
      have step: "looped (cell # cells) st (case y of (cs, st, r) \<Rightarrow> (cell' # cs, st, r))"
        if "looped cells st1 y" for y
        using rest [of cell' st1] 1 x False that by (cases y) auto
      have "returns (do { (cells, st, r) \<leftarrow> election_loop env cells st1; ret (cell' # cells, st, r) })
          (looped (cell # cells) st)"
        by (rule returns_bind [OF IH]) (use step in \<open>auto intro!: returns_ret split: prod.splits\<close>)
      with x False show ?thesis by simp
    qed
  qed
qed

section \<open>What a victory means\<close>

definition up_siblings :: "node_info list \<Rightarrow> node_info list" where
  "up_siblings sibs = filter (\<lambda>s. node_status s = NODE_STATUS_UP) sibs"

text \<open>
  A majority of the nodes attached to the primary was visible, the local node included, and every
  sibling whose position was read loses against the local node.
\<close>

definition won_against :: "node_info list \<Rightarrow> node_info \<Rightarrow> bool" where
  "won_against sibs local \<longleftrightarrow>
     length sibs + 1 < 2 * (1 + length (up_siblings sibs)) \<and>
     (\<forall>s \<in> set sibs. last_wal_receive_lsn s \<noteq> InvalidXLogRecPtr \<longrightarrow> ballot_of s < ballot_of local)"

lemma keeps_enter_degraded_config:
  "config (final (enter_degraded env) d) = config d"
  "local_node_info (final (enter_degraded env) d) = local_node_info d"
  by (simp_all add: enter_degraded_def gettimeofday_def)

lemma election_verdict_won:
  assumes "result (election_verdict env nodes st) d = ELECTION_WON"
  shows "primary_location_seen st" and "nodes < 2 * visible_nodes st"
    and "nodes_with_primary_still_visible st > 0 \<longrightarrow> \<not> opt_primary_visibility_consensus (config d)"
    and "node_id (candidate_node st) = node_id (local_node_info d)"
    and "local_node_info (final (election_verdict env nodes st) d) = local_node_info d"
    and "config (final (election_verdict env nodes st) d) = config d"
  using assms
  by (auto simp: election_verdict_def execute_failover_validation_command_def system_command_def
      case_prod_unfold Let_def split: if_splits)

lemma candidate_is_local:
  assumes "looped sibs \<lparr>visible_nodes = 1, primary_location_seen = b,
      nodes_with_primary_still_visible = 0, candidate_node = local\<rparr> (sibs', st, None)"
    and "\<forall>s \<in> set sibs. node_id s \<noteq> node_id local" and "node_id (candidate_node st) = node_id local"
    and "int (length sibs') + 1 < 2 * visible_nodes st"
  shows "won_against sibs' local"
proof -
  from assms(1) obtain xs where xs: "set xs \<subseteq> set sibs'" "candidate_node st = fold better_candidate xs local"
    "\<forall>c \<in> set sibs'. last_wal_receive_lsn c \<noteq> InvalidXLogRecPtr \<longrightarrow> c \<in> set xs"
    and vis: "visible_nodes st = 1 + int (length (up_siblings sibs'))"
    and same: "list_all2 same_node sibs sibs'"
    by (auto simp: looped_def up_siblings_def)
  have ids: "node_id x \<noteq> node_id local" if "x \<in> set sibs'" for x
  proof -
    from that obtain i where i: "i < length sibs'" "x = sibs' ! i" by (auto simp: in_set_conv_nth)
    with same have "same_node (sibs ! i) x" "i < length sibs" by (auto simp: list_all2_conv_all_nth)
    with assms(2) show ?thesis by (auto simp: same_node_def)
  qed
  have "candidate_node st = local"
    using candidates.fold_member [of xs local] xs(1,2) ids assms(3) by auto
  then have "ballot_of local = Max (ballot_of ` insert local (set xs))"
    using candidates.fold_rank [of xs local] xs(2) by simp
  then have le: "ballot_of x \<le> ballot_of local" if "x \<in> set xs" for x
    using that by (metis Max_ge finite_imageI finite_set finite_insert imageI insertCI)
  have "ballot_of x < ballot_of local" if "x \<in> set sibs'" "last_wal_receive_lsn x \<noteq> InvalidXLogRecPtr" for x
  proof -
    have "ballot_of x \<noteq> ballot_of local" using ids [OF that(1)] by (simp add: ballot_of_def)
    moreover have "ballot_of x \<le> ballot_of local" using le xs(3) that by blast
    ultimately show ?thesis by simp
  qed
  with assms(4) vis show ?thesis by (auto simp: won_against_def)
qed

lemma election_count_won:
  assumes "run_state (election_count env sibs b lsn) d = ((ELECTION_WON, sibs', n), d')"
    and "\<forall>s \<in> set sibs. last_wal_receive_lsn s = InvalidXLogRecPtr \<and> node_id s \<noteq> node_id (local_node_info d)"
  shows "won_against sibs' (local_node_info d')" and "config d' = config d"
    and "local_node_info d' = (local_node_info d)\<lparr>last_wal_receive_lsn := lsn\<rparr>"
    and "list_all2 same_node sibs sibs'"
proof -
  let ?local = "(local_node_info d)\<lparr>last_wal_receive_lsn := lsn\<rparr>"
  let ?d = "d\<lparr>local_node_info := ?local\<rparr>"
  let ?st = "\<lparr>visible_nodes = 1, primary_location_seen = b, nodes_with_primary_still_visible = 0,
    candidate_node = ?local\<rparr>"
  let ?loop = "election_loop env sibs ?st"
  obtain cs st found where l: "result ?loop ?d = (cs, st, found)" by (cases "result ?loop ?d") auto
  have looped: "looped sibs ?st (cs, st, found)"
    using election_loop_looped [of sibs env ?st] assms(2) returnsD [of ?loop "looped sibs ?st" ?d] l by auto
  note kept = keeps_vars_fields [OF keeps_election_loop, of env sibs ?st ?d]
  from assms(1) have none: "found = None"
    and run: "cs = sibs'" "run_state (election_verdict env (int (length cs) + 1) st) (final ?loop ?d) = (ELECTION_WON, d')"
    by (auto simp: election_count_def case_prod_unfold l split: option.splits if_splits
        dest: arg_cong [where f = fst] intro: prod_eqI)
  then have won: "result (election_verdict env (int (length cs) + 1) st) (final ?loop ?d) = ELECTION_WON"
    and d': "d' = final (election_verdict env (int (length cs) + 1) st) (final ?loop ?d)" by auto
  note v = election_verdict_won [OF won]
  show "local_node_info d' = ?local" using v(5) kept(2) d' by simp
  then show "won_against sibs' (local_node_info d')"
    using candidate_is_local [of sibs b ?local cs st] looped none assms(2) v(2,4) kept(2) run by simp
  show "config d' = config d" using v(6) kept(1) d' by simp
  show "list_all2 same_node sibs sibs'" using looped run by (simp add: looped_def)
qed

lemma sibling_query:
  "s \<in> set (result (get_active_sibling_node_records n u) db) \<Longrightarrow>
   node_id s \<noteq> n \<and> last_wal_receive_lsn s = InvalidXLogRecPtr \<and> active s"
  by (auto simp: get_active_sibling_node_records_def sql_query_def populate_node_records_def
      populate_node_record_def Let_def split: if_splits)

lemma keeps_election_local_lsn [keeps]: "keeps_vars (election_local_lsn env)"
  unfolding election_local_lsn_def by (intro keeps)

lemma do_election_won:
  assumes "run_state (do_election env) d = ((ELECTION_WON, sibs, n), d')"
  shows "opt_failover (config d) \<noteq> FAILOVER_MANUAL" and "0 < priority (local_node_info d)"
    and "node_id (local_node_info d') = node_id (local_node_info d)"
    and "priority (local_node_info d') = priority (local_node_info d)"
    and "sibs = [] \<longrightarrow> strncmp_eq MAXLEN (location (upstream_node_info d)) (location (local_node_info d))"
    and "sibs \<noteq> [] \<longrightarrow> won_against sibs (local_node_info d')"
proof -
  let ?d1 = "final (get_current_term env (local_conn d)) d"
  let ?sibs = "result (get_active_sibling_node_records (node_id (local_node_info d)) (node_id (upstream_node_info d)))
      (e_session env (clock ?d1) (local_conn d))"
  let ?b = "strncmp_eq MAXLEN (location (upstream_node_info d)) (location (local_node_info d))"
  let ?d2 = "?d1\<lparr>clock := clock ?d1 + 1, local_node_info := (local_node_info d)\<lparr>last_wal_receive_lsn := 0\<rparr>\<rparr>"
  note kept = keeps_vars_fields [OF keeps_queries(1), of env "local_conn d" d]
  note kept2 = keeps_vars_fields [OF keeps_election_local_lsn, of env ?d2]
  from assms show m: "opt_failover (config d) \<noteq> FAILOVER_MANUAL" and p: "0 < priority (local_node_info d)"
    by (auto simp: do_election_def case_prod_unfold kept split: if_splits)
  have "node_id (local_node_info d') = node_id (local_node_info d) \<and>
    priority (local_node_info d') = priority (local_node_info d) \<and>
    (sibs = [] \<longrightarrow> ?b) \<and> (sibs \<noteq> [] \<longrightarrow> won_against sibs (local_node_info d'))"
  proof (cases "?sibs = []")
    case True
    with assms m p have "sibs = [] \<and> ?b \<and> local_node_info d' = (local_node_info d)\<lparr>last_wal_receive_lsn := 0\<rparr>"
      by (auto simp: do_election_def case_prod_unfold kept on_session_def
          execute_failover_validation_command_def system_command_def Let_def split: if_splits)
    then show ?thesis by simp
  next
    case False
    obtain r d3 where r: "run_state (election_local_lsn env) ?d2 = (r, d3)" by fastforce
    from assms m p False r obtain lsn where "r = Some lsn"
      and count: "run_state (election_count env ?sibs ?b lsn) d3 = ((ELECTION_WON, sibs, n), d')"
      by (auto simp: do_election_def case_prod_unfold kept on_session_def Let_def split: if_splits option.splits)
    have "local_node_info d3 = (local_node_info d)\<lparr>last_wal_receive_lsn := 0\<rparr>"
      using kept2(2) r by simp
    moreover from this have "\<forall>s \<in> set ?sibs. last_wal_receive_lsn s = InvalidXLogRecPtr \<and> node_id s \<noteq> node_id (local_node_info d3)"
      using sibling_query by force
    ultimately show ?thesis using election_count_won [OF count] False by (auto simp: list_all2_Nil2)
  qed
  then show "node_id (local_node_info d') = node_id (local_node_info d)"
    and "priority (local_node_info d') = priority (local_node_info d)"
    and "sibs = [] \<longrightarrow> ?b" and "sibs \<noteq> [] \<longrightarrow> won_against sibs (local_node_info d')" by blast+
qed

section \<open>An example\<close>

definition example_config :: config where
  "example_config =
     \<lparr>opt_node_id = 2, opt_failover = FAILOVER_AUTOMATIC, opt_promote_command = ''promote'',
      opt_follow_command = ''follow %n'', opt_monitor_interval_secs = 2, opt_reconnect_attempts = 6,
      opt_reconnect_interval = 10, opt_async_query_timeout = 60, opt_primary_notification_timeout = 60,
      opt_repmgrd_standby_startup_timeout = 60, opt_standby_disconnect_on_failover = False,
      opt_sibling_nodes_disconnect_timeout = 30, opt_connection_check_type = CHECK_PING,
      opt_primary_visibility_consensus = False, opt_failover_validation_command = [],
      opt_election_rerun_interval = 15, opt_event_notification_command = [], opt_event_notifications = [],
      opt_promote_delay = 0, opt_virtual_ip = [], opt_network_card = [], opt_data_directory = ''/data'',
      opt_pg_bindir = ''/bin'', opt_degraded_monitoring_timeout = 0, opt_device_check_timeout = 60,
      opt_device_check_times = 3, opt_check_brain_split = True, opt_standby_wait_timeout = 0,
      opt_monitoring_history = False, opt_witness_sync_interval = 15\<rparr>"

definition example_daemon :: "int \<Rightarrow> daemon" where
  "example_daemon n =
     \<lparr>clock = 0, config = example_config,
      local_node_info = node_info_init\<lparr>node_id := n, upstream_node_id := 1, node_type := STANDBY\<rparr>,
      upstream_node_info = node_info_init\<lparr>node_id := 1, node_type := PRIMARY\<rparr>,
      local_conn = CONN ''local'' 0, upstream_conn = NULL_CONN, primary_conn = NULL_CONN,
      monitoring_state = MS_NORMAL, degraded_monitoring_start = 0, failover_state = FAILOVER_STATE_NONE,
      own_pid = 100, pid_file = [], primary_node_id = UNKNOWN_NODE_ID, startup_event_logged = False,
      touch_label = False, switch_async_mode = False, unreachable_standby_counts = 0,
      unreachable_sync_standby_start = 0, last_monitoring_update = 0, trace = []\<rparr>"

text \<open>Call 2 asks for the local position, call 6 for the sibling's; every server answers.\<close>

definition example_env :: "string \<Rightarrow> string \<Rightarrow> env" where
  "example_env local_lsn sibling_lsn =
     \<lparr>e_status = (\<lambda>_ _. True),
      e_result = (\<lambda>k. let lsn = Some (if k = 2 then local_lsn else sibling_lsn) in
        Some [[Some ''1'', Some ''t'', lsn, lsn, None, Some ''0'', Some ''t'', Some ''f'', Some ''-1'']]),
      e_session = (\<lambda>_ _. example_db), e_ping = (\<lambda>_. PQPING_OK), e_exit = (\<lambda>_. 0), e_flag = (\<lambda>_. True),
      e_now = (\<lambda>_. 0), e_time_text = (\<lambda>_. []), e_version = (\<lambda>_. 100000), e_options = (\<lambda>_. []),
      e_parse = (\<lambda>_. Some []), e_defaults = [(''connect_timeout'', None), (''fallback_application_name'', None)],
      e_uninit = (0, 0), e_output = (\<lambda>_. []), e_file = (\<lambda>_. None), e_pg_version = (\<lambda>_. Some ''10''),
      e_control = (\<lambda>_. None), e_names = (\<lambda>_. []), e_number = (\<lambda>_. 0)\<rparr>"

abbreviation (input) run_A :: "(election_result \<times> node_info list \<times> int) \<times> daemon" where
  "run_A \<equiv> run_state (do_election (example_env ''0/3'' ''0/2'')) (example_daemon 2)"

abbreviation (input) run_B :: "(election_result \<times> node_info list \<times> int) \<times> daemon" where
  "run_B \<equiv> run_state (do_election (example_env ''0/2'' ''0/3'')) (example_daemon 3)"

lemma example_runs:
  "fst (fst run_A) = ELECTION_WON" "map node_id (fst (snd (fst run_A))) = [3]"
  "map node_status (fst (snd (fst run_A))) = [NODE_STATUS_UP]"
  "map ballot_of (fst (snd (fst run_A))) = [Ballot 2 100 3]" "ballot_of (local_node_info (snd run_A)) = Ballot 3 100 2"
  "map ballot_of (fst (snd (fst run_B))) = [Ballot 3 100 2]" "ballot_of (local_node_info (snd run_B)) = Ballot 2 100 3"
  by code_simp+

text \<open>Node 3 with an outdated view of node 2: both nodes win.\<close>

abbreviation (input) run_C :: "(election_result \<times> node_info list \<times> int) \<times> daemon" where
  "run_C \<equiv> run_state (do_election (example_env ''0/2'' ''0/1'')) (example_daemon 3)"

lemma example_run_C:
  "fst (fst run_C) = ELECTION_WON" "map node_id (fst (snd (fst run_C))) = [2]"
  by code_simp+

section \<open>Properties\<close>

text \<open>
  C1: two standbys of the same primary that each see the other as it is (with the position and the
  priority the other itself votes with) do not both win their elections.
\<close>

theorem no_two_winners:
  assumes "run_state (do_election envA) dA = ((resultA, sibsA, nA), dA')"
    and "run_state (do_election envB) dB = ((resultB, sibsB, nB), dB')"
    and "b \<in> set sibsA" and "last_wal_receive_lsn b \<noteq> InvalidXLogRecPtr"
    and "ballot_of b = ballot_of (local_node_info dB')"
    and "a \<in> set sibsB" and "last_wal_receive_lsn a \<noteq> InvalidXLogRecPtr"
    and "ballot_of a = ballot_of (local_node_info dA')"
  shows "\<not> (resultA = ELECTION_WON \<and> resultB = ELECTION_WON)"
proof
  assume "resultA = ELECTION_WON \<and> resultB = ELECTION_WON"
  moreover have "sibsA \<noteq> []" "sibsB \<noteq> []" using assms(3,6) by auto
  ultimately have "won_against sibsA (local_node_info dA')" "won_against sibsB (local_node_info dB')"
    using do_election_won(6) [of envA dA sibsA nA dA'] do_election_won(6) [of envB dB sibsB nB dB'] assms(1,2)
    by auto
  then have "ballot_of b < ballot_of (local_node_info dA')" "ballot_of a < ballot_of (local_node_info dB')"
    using assms(3,4,6,7) by (auto simp: won_against_def)
  with assms(5,8) show False by simp
qed

lemma no_two_winners_witness:
  "\<not> (fst (fst run_A) = ELECTION_WON \<and> fst (fst run_B) = ELECTION_WON)"
proof -
  obtain a where a: "fst (snd (fst run_B)) = [a]" and ba: "ballot_of a = Ballot 3 100 2"
    using example_runs(6) by (cases "fst (snd (fst run_B))") auto
  obtain b where b: "fst (snd (fst run_A)) = [b]" and bb: "ballot_of b = Ballot 2 100 3"
    using example_runs(4) by (cases "fst (snd (fst run_A))") auto
  have "run_A = ((fst (fst run_A), [b], snd (snd (fst run_A))), snd run_A)"
    and "run_B = ((fst (fst run_B), [a], snd (snd (fst run_B))), snd run_B)"
    using a b by (metis prod.collapse)+
  then show ?thesis
    by (rule no_two_winners [where a = a and b = b])
      (use ba bb example_runs(5,7) in \<open>simp_all add: ballot_of_def\<close>)
qed

text \<open>The nodes a node sees, itself included.\<close>

definition visible_ids :: "int \<Rightarrow> node_info list \<Rightarrow> int set" where
  "visible_ids n sibs = insert n (node_id ` set (up_siblings sibs))"

text \<open>
  C2: whatever is lost or delayed, two nodes attached to the same primary cannot both win in
  separate parts of a split network: if both win, some node was visible to both.
\<close>

theorem winners_share_a_witness:
  assumes "run_state (do_election envA) dA = ((ELECTION_WON, sibsA, nA), dA')"
    and "run_state (do_election envB) dB = ((ELECTION_WON, sibsB, nB), dB')"
    and "sibsA \<noteq> []" and "sibsB \<noteq> []"
    and "distinct (node_id (local_node_info dA) # map node_id sibsA)"
    and "distinct (node_id (local_node_info dB) # map node_id sibsB)"
    and "set (node_id (local_node_info dA) # map node_id sibsA) = set (node_id (local_node_info dB) # map node_id sibsB)"
  shows "visible_ids (node_id (local_node_info dA)) sibsA \<inter> visible_ids (node_id (local_node_info dB)) sibsB \<noteq> {}"
proof -
  have vis: "card (visible_ids n sibs) = 1 + length (up_siblings sibs) \<and>
      visible_ids n sibs \<subseteq> set (n # map node_id sibs)" if "distinct (n # map node_id sibs)" for n sibs
  proof -
    have "inj_on node_id (set (up_siblings sibs))" "distinct (up_siblings sibs)" "set (up_siblings sibs) \<subseteq> set sibs"
      using that by (auto simp: up_siblings_def distinct_map intro: inj_on_subset)
    moreover have "n \<notin> node_id ` set (up_siblings sibs)" using that calculation(3) by auto
    ultimately show ?thesis by (auto simp: visible_ids_def card_image distinct_card)
  qed
  let ?N = "set (node_id (local_node_info dA) # map node_id sibsA)"
  let ?A = "visible_ids (node_id (local_node_info dA)) sibsA"
  let ?B = "visible_ids (node_id (local_node_info dB)) sibsB"
  have N: "card ?N = length sibsA + 1" "card ?N = length sibsB + 1"
    using distinct_card [OF assms(5)] distinct_card [OF assms(6)] assms(7) by simp_all
  have "card ?N < 2 * card ?A" "card ?N < 2 * card ?B"
    using do_election_won(6) [OF assms(1)] do_election_won(6) [OF assms(2)] assms(3,4)
      vis [OF assms(5)] vis [OF assms(6)] N by (auto simp: won_against_def)
  then have "card ?N < card ?A + card ?B" by linarith
  moreover have "card (?A \<union> ?B) \<le> card ?N"
    using vis [OF assms(5)] vis [OF assms(6)] assms(7) by (intro card_mono) auto
  ultimately show ?thesis
    using card_Un_disjoint [of ?A ?B] by (auto simp: visible_ids_def)
qed

lemma winners_share_a_witness_witness:
  "visible_ids (node_id (local_node_info (example_daemon 2))) (fst (snd (fst run_A))) \<inter>
   visible_ids (node_id (local_node_info (example_daemon 3))) (fst (snd (fst run_C))) \<noteq> {}"
proof (rule winners_share_a_witness)
  show "run_A = ((ELECTION_WON, fst (snd (fst run_A)), snd (snd (fst run_A))), snd run_A)"
    using example_runs(1) by (metis prod.collapse)
  show "run_C = ((ELECTION_WON, fst (snd (fst run_C)), snd (snd (fst run_C))), snd run_C)"
    using example_run_C(1) by (metis prod.collapse)
  show "fst (snd (fst run_A)) \<noteq> []" "fst (snd (fst run_C)) \<noteq> []"
    using example_runs(2) example_run_C(2) by auto
  have "node_id (local_node_info (example_daemon n)) = n" for n by (simp add: example_daemon_def)
  then show "distinct (node_id (local_node_info (example_daemon 2)) # map node_id (fst (snd (fst run_A))))"
    and "distinct (node_id (local_node_info (example_daemon 3)) # map node_id (fst (snd (fst run_C))))"
    and "set (node_id (local_node_info (example_daemon 2)) # map node_id (fst (snd (fst run_A)))) =
      set (node_id (local_node_info (example_daemon 3)) # map node_id (fst (snd (fst run_C))))"
    unfolding example_runs(2) example_run_C(2) by auto
qed

text \<open>
  C7: a node that wins is configured for automatic failover and has a positive priority; without
  siblings it is in the primary's location; with siblings it saw more than half of the nodes and
  every sibling whose position it read has a lower ballot.
\<close>

theorem election_won_requirements:
  assumes "run_state (do_election env) d = ((ELECTION_WON, sibs, n), d')"
  shows "opt_failover (config d) = FAILOVER_AUTOMATIC \<and> 0 < priority (local_node_info d') \<and>
    (if sibs = [] then strncmp_eq MAXLEN (location (upstream_node_info d)) (location (local_node_info d))
     else length sibs + 1 < 2 * (1 + length (up_siblings sibs)) \<and>
       (\<forall>s \<in> set sibs. last_wal_receive_lsn s \<noteq> InvalidXLogRecPtr \<longrightarrow>
          ballot_of s < ballot_of (local_node_info d')))"
  using do_election_won [OF assms]
  by (cases "opt_failover (config d)") (auto simp: won_against_def)

lemma election_won_requirements_witness: "0 < priority (local_node_info (snd run_A))"
proof -
  have "run_A = ((ELECTION_WON, fst (snd (fst run_A)), snd (snd (fst run_A))), snd run_A)"
    using example_runs(1) by (metis prod.collapse)
  from election_won_requirements [OF this] show ?thesis by blast
qed

text \<open>
  The candidate the loop ends with does not depend on the order in which the siblings are
  visited, and has the greatest ballot of all.
\<close>

theorem candidate_order_irrelevant:
  assumes "mset sibs = mset sibs'" and "distinct (map node_id (local # sibs))"
  shows "fold better_candidate sibs local = fold better_candidate sibs' local \<and>
    (\<forall>s \<in> set (local # sibs). ballot_of s \<le> ballot_of (fold better_candidate sibs local))"
proof -
  have "inj_on ballot_of (insert local (set sibs))"
  proof (rule inj_onI)
    fix x y assume xy: "x \<in> insert local (set sibs)" "y \<in> insert local (set sibs)" "ballot_of x = ballot_of y"
    have "inj_on node_id (set (local # sibs))" using assms(2) by (simp only: distinct_map)
    then show "x = y" by (rule inj_onD) (use xy in \<open>auto simp: ballot_of_def\<close>)
  qed
  then show ?thesis
    using candidates.fold_order [OF assms(1)] candidates.fold_rank [of sibs local] by simp
qed

lemma candidate_order_irrelevant_witness:
  "let x = node_info_init\<lparr>node_id := 3\<rparr>; y = node_info_init\<lparr>node_id := 4, last_wal_receive_lsn := 9\<rparr>;
       local = node_info_init\<lparr>node_id := 2\<rparr>
   in fold better_candidate [x, y] local = fold better_candidate [y, x] local"
  using candidate_order_irrelevant [of "[node_info_init\<lparr>node_id := 3\<rparr>, node_info_init\<lparr>node_id := 4, last_wal_receive_lsn := 9\<rparr>]"
      "[node_info_init\<lparr>node_id := 4, last_wal_receive_lsn := 9\<rparr>, node_info_init\<lparr>node_id := 3\<rparr>]"
      "node_info_init\<lparr>node_id := 2\<rparr>"]
  by (simp add: add_mset_commute)

text \<open>
  The verdict after the loop: the election is cancelled and the node enters degraded monitoring
  when no node in the primary's location was seen, when the primary is still visible to a sibling
  and consensus is asked for, or without a majority; otherwise the candidate wins, subject to the
  validation command, and every other node loses.
\<close>

theorem verdict_table:
  "let r = result (election_verdict env nodes st) d; d' = final (election_verdict env nodes st) d in
   r = (if \<not> primary_location_seen st then ELECTION_CANCELLED
        else if nodes_with_primary_still_visible st > 0 \<and> opt_primary_visibility_consensus (config d)
        then ELECTION_CANCELLED
        else if 2 * visible_nodes st \<le> nodes then ELECTION_CANCELLED
        else if node_id (candidate_node st) \<noteq> node_id (local_node_info d) then ELECTION_LOST
        else if opt_failover_validation_command (config d) = [] then ELECTION_WON
        else if e_exit env (clock d) \<noteq> 0 then ELECTION_RERUN
        else ELECTION_WON) \<and>
   (if r = ELECTION_CANCELLED then monitoring_state d' = MS_DEGRADED \<and> failover_state d' = FAILOVER_STATE_NONE
    else monitoring_state d' = monitoring_state d \<and> failover_state d' = failover_state d)"
proof -
  let ?cancel = "do { _ \<leftarrow> enter_degraded env; _ \<leftarrow> reset_node_voting_status env; ret ELECTION_CANCELLED }"
  have cancel: "result ?cancel d = ELECTION_CANCELLED \<and> monitoring_state (final ?cancel d) = MS_DEGRADED \<and>
      failover_state (final ?cancel d) = FAILOVER_STATE_NONE"
    by (simp add: enter_degraded_def gettimeofday_def reset_node_voting_status_def case_prod_unfold
        keeps_vars_fields [OF keeps_queries(10)] keeps_vars_fields [OF keeps_PQstatus])
  have verdict: "election_verdict env nodes st = (do {
      opts \<leftarrow> gets config;
      if \<not> primary_location_seen st \<or> (nodes_with_primary_still_visible st > 0 \<and> opt_primary_visibility_consensus opts)
          \<or> 2 * visible_nodes st \<le> nodes then ?cancel
      else do {
        local \<leftarrow> gets local_node_info;
        if node_id (candidate_node st) = node_id local then
          (if opt_failover_validation_command opts \<noteq> [] then
             execute_failover_validation_command env (candidate_node st)
           else ret ELECTION_WON)
        else ret ELECTION_LOST
      } })"
    unfolding election_verdict_def by (intro arg_cong [where f = "State_Monad.bind (gets config)"] ext) auto
  show ?thesis
  proof (cases "\<not> primary_location_seen st \<or> (nodes_with_primary_still_visible st > 0 \<and>
      opt_primary_visibility_consensus (config d)) \<or> 2 * visible_nodes st \<le> nodes")
    case True
    then have "run_state (election_verdict env nodes st) d = run_state ?cancel d"
      unfolding verdict by simp
    then have r: "result (election_verdict env nodes st) d = ELECTION_CANCELLED"
      and d': "monitoring_state (final (election_verdict env nodes st) d) = MS_DEGRADED"
        "failover_state (final (election_verdict env nodes st) d) = FAILOVER_STATE_NONE"
      using cancel by simp_all
    show ?thesis unfolding Let_def r if_True using True d' by (simp del: not_gr_zero) argo
  next
    case False
    then show ?thesis
      unfolding verdict
      by (auto simp: Let_def execute_failover_validation_command_def system_command_def case_prod_unfold)
  qed
qed

text \<open>
  A sibling that answers every query as a server that is not in recovery, as a witness server
  does, never adds to the nodes that still see the primary, whatever it reports.
\<close>

theorem witness_report_ignored:
  assumes "\<forall>k rows. e_result env k = Some rows \<longrightarrow> PQgetvalue rows 0 1 \<noteq> ''t''"
    and "result (visit_sibling env cell st) d = (cell', st', cancelled)"
  shows "nodes_with_primary_still_visible st' = nodes_with_primary_still_visible st \<and>
    candidate_node st' = candidate_node st"
proof -
  have ri: "returns (get_replication_info env conn t ri) (\<lambda>(found, ri). found \<longrightarrow> \<not> in_recovery ri)"
    for conn t ri
    unfolding get_replication_info_def PQexec_def
    using assms(1) by (auto simp: returns_def atobool_def split: option.splits)
  have "returns (visit_sibling env cell st) (\<lambda>(c, st', b).
      nodes_with_primary_still_visible st' = nodes_with_primary_still_visible st \<and>
      candidate_node st' = candidate_node st)"
    unfolding visit_sibling_def Let_def
    by (intro rets returns_bind [OF ri]; (clarsimp split: prod.splits)?;
        (intro rets returns_bind [OF ri])?; auto intro!: rets)
  from returnsD [OF this, of d] assms(2) show ?thesis by simp
qed

definition witness_env :: env where
  "witness_env = (example_env [] [])\<lparr>e_result := \<lambda>k.
     Some [[Some ''1'', Some ''f'', Some ''0/1'', Some ''0/1'', None, Some ''0'', Some ''t'', Some ''f'', Some ''1'']]\<rparr>"

lemma witness_report_ignored_witness:
  "let st = \<lparr>visible_nodes = 1, primary_location_seen = True, nodes_with_primary_still_visible = 0,
       candidate_node = node_info_init\<rparr>
   in nodes_with_primary_still_visible (fst (snd (result
        (visit_sibling witness_env (node_info_init\<lparr>node_type := WITNESS\<rparr>) st) (example_daemon 2)))) = 0"
proof -
  have "\<forall>k rows. e_result witness_env k = Some rows \<longrightarrow> PQgetvalue rows 0 1 \<noteq> ''t''"
    by (simp add: witness_env_def PQgetvalue_def PQcell_def)
  note w = witness_report_ignored [OF this]
  show ?thesis unfolding Let_def by (subst w [THEN conjunct1]) (auto simp: prod_eq_iff)
qed

end
