(* ===== verification/Wal_Receiver.thy ===== *)
theory Wal_Receiver
  imports Connections
begin

text \<open>
  Stopping and restarting a standby's WAL receiver around a failover (\<open>sysutils.c\<close>), with the
  functions of \<open>dbutils.c\<close> that read and change a server setting. The receiver is kept away by raising
  \<open>wal_retrieve_retry_interval\<close> by a day, and allowed back by lowering it again.
\<close>

section \<open>Settings\<close>

text \<open>\<open>PQparameterStatus(conn, "is_superuser")\<close> compared with \<open>on\<close>.\<close>

definition is_superuser_connection :: "env \<Rightarrow> pgconn \<Rightarrow> (daemon, bool) state" where
  "is_superuser_connection env conn = ask env"

fun setting_value :: "string \<Rightarrow> string option list list \<Rightarrow> string option" where
  "setting_value setting [] = None"
| "setting_value setting (row # rows) =
     (if PQgetvalue [row] 0 0 = setting then Some (PQgetvalue [row] 0 1) else setting_value setting rows)"

text \<open>\<open>output\<close> is left alone when the setting cannot be read.\<close>

definition get_pg_setting :: "env \<Rightarrow> pgconn \<Rightarrow> string \<Rightarrow> string \<Rightarrow> (daemon, bool \<times> string) state" where
  "get_pg_setting env conn setting output = do {
     escaped \<leftarrow> ask env;
     if \<not> escaped then ret (False, output)
     else do {
       res \<leftarrow> PQexec env conn;
       ret (case res of
              None \<Rightarrow> (False, output)
            | Some rows \<Rightarrow>
                (case setting_value setting rows of
                   None \<Rightarrow> (False, output)
                 | Some v \<Rightarrow> (True, take (MAXLEN - 1) v)))
     }
   }"

definition alter_system_int :: "env \<Rightarrow> pgconn \<Rightarrow> string \<Rightarrow> int \<Rightarrow> (daemon, bool) state" where
  "alter_system_int env conn name val = do {
     _ \<leftarrow> emit (Altered_System conn name val);
     res \<leftarrow> PQexec env conn;
     ret (res \<noteq> None)
   }"

text \<open>\<open>pg_reload_conf\<close> answers \<open>false\<close> also when the statement succeeds.\<close>

definition pg_reload_conf :: "env \<Rightarrow> pgconn \<Rightarrow> (daemon, bool) state" where
  "pg_reload_conf env conn = do {
     _ \<leftarrow> emit (Reloaded_Config conn);
     _ \<leftarrow> PQexec env conn;
     ret False
   }"

section \<open>The WAL receiver\<close>

abbreviation (input) WALRECEIVER_DISABLE_TIMEOUT_VALUE :: int where
  "WALRECEIVER_DISABLE_TIMEOUT_VALUE \<equiv> 86400000"
abbreviation (input) wal_retry_setting :: string where
  "wal_retry_setting \<equiv> ''wal_retrieve_retry_interval''"

text \<open>
  \<open>kill(pid, 0)\<close> until it fails, at most \<open>n\<close> times; \<open>kill_rounds\<close> is the loop around it. \<open>SIGTERM\<close> is 15.
\<close>

fun await_exit :: "env \<Rightarrow> nat \<Rightarrow> (daemon, unit) state" where
  "await_exit env 0 = ret ()"
| "await_exit env (Suc n) = do {
     alive \<leftarrow> ask env;
     if \<not> alive then ret ()
     else do { _ \<leftarrow> sleep 1; await_exit env n }
   }"

fun kill_rounds :: "env \<Rightarrow> pgconn \<Rightarrow> nat \<Rightarrow> int \<Rightarrow> (daemon, int) state" where
  "kill_rounds env conn 0 pid = ret pid"
| "kill_rounds env conn (Suc n) pid = do {
     _ \<leftarrow> emit (Signalled pid 15);
     _ \<leftarrow> await_exit env 30;
     _ \<leftarrow> sleep 1;
     pid \<leftarrow> get_wal_receiver_pid_sql env conn;
     if pid = UNKNOWN_PID \<or> pid = 0 then ret pid else kill_rounds env conn n pid
   }"

text \<open>
  The buffer the setting is read into is not initialised; \<open>uninit_text\<close> stands for what \<open>atoi\<close> finds
  in it. The raised interval is computed without overflow whenever it is used.
\<close>

definition uninit_text :: "env \<Rightarrow> string" where
  "uninit_text env = int_string (sint (fst (e_uninit env)))"

definition disable_wal_receiver :: "env \<Rightarrow> pgconn \<Rightarrow> (daemon, int) state" where
  "disable_wal_receiver env conn = do {
     superuser \<leftarrow> is_superuser_connection env conn;
     if \<not> superuser then ret UNKNOWN_PID
     else do {
       rectype \<leftarrow> get_recovery_type env conn;
       if rectype = RECTYPE_PRIMARY then ret UNKNOWN_PID
       else do {
         wal_receiver_pid \<leftarrow> get_wal_receiver_pid_sql env conn;
         if wal_receiver_pid = UNKNOWN_PID then ret UNKNOWN_PID
         else do {
           (_, buf) \<leftarrow> get_pg_setting env conn wal_retry_setting (uninit_text env);
           let interval = atoi buf;
           _ \<leftarrow> (if interval < WALRECEIVER_DISABLE_TIMEOUT_VALUE then do {
                 _ \<leftarrow> alter_system_int env conn wal_retry_setting (interval + WALRECEIVER_DISABLE_TIMEOUT_VALUE);
                 pg_reload_conf env conn
               }
               else ret False);
           if wal_receiver_pid = 0 then ret UNKNOWN_PID
           else do {
             _ \<leftarrow> sleep 5;
             kill_rounds env conn 2 wal_receiver_pid
           }
         }
       }
     }
   }"

fun await_wal_receiver :: "env \<Rightarrow> pgconn \<Rightarrow> nat \<Rightarrow> int \<Rightarrow> (daemon, int) state" where
  "await_wal_receiver env conn 0 pid = ret pid"
| "await_wal_receiver env conn (Suc n) pid = do {
     pid \<leftarrow> get_wal_receiver_pid_sql env conn;
     if pid > 0 then ret pid
     else do { _ \<leftarrow> sleep 1; await_wal_receiver env conn n pid }
   }"

definition enable_wal_receiver :: "env \<Rightarrow> pgconn \<Rightarrow> bool \<Rightarrow> (daemon, int) state" where
  "enable_wal_receiver env conn wait_startup = do {
     superuser \<leftarrow> is_superuser_connection env conn;
     if \<not> superuser then ret UNKNOWN_PID
     else do {
       rectype \<leftarrow> get_recovery_type env conn;
       if rectype = RECTYPE_PRIMARY then ret UNKNOWN_PID
       else do {
         (found, buf) \<leftarrow> get_pg_setting env conn wal_retry_setting (uninit_text env);
         if \<not> found then ret UNKNOWN_PID
         else do {
           let interval = atoi buf;
           changed \<leftarrow>
             (if interval > WALRECEIVER_DISABLE_TIMEOUT_VALUE then do {
                success \<leftarrow> alter_system_int env conn wal_retry_setting (interval - WALRECEIVER_DISABLE_TIMEOUT_VALUE);
                if \<not> success then ret False
                else do { _ \<leftarrow> pg_reload_conf env conn; ret True }
              }
              else ret True);
           if \<not> changed then ret UNKNOWN_PID
           else if \<not> wait_startup then ret UNKNOWN_PID
           else do {
             pid \<leftarrow> await_wal_receiver env conn 30 UNKNOWN_PID;
             ret (if pid = 0 then UNKNOWN_PID else pid)
           }
         }
       }
     }
   }"

section \<open>Both leave the daemon's variables alone\<close>

lemma keeps_settings [keeps]:
  "keeps_vars (is_superuser_connection env conn)" "keeps_vars (get_pg_setting env conn s out)"
  "keeps_vars (alter_system_int env conn s v)" "keeps_vars (pg_reload_conf env conn)"
  unfolding is_superuser_connection_def get_pg_setting_def alter_system_int_def pg_reload_conf_def
  by (intro keeps)+

lemma keeps_await_exit [keeps]: "keeps_vars (await_exit env n)"
  by (induction n) (auto intro!: keeps)

lemma keeps_kill_rounds [keeps]: "keeps_vars (kill_rounds env conn n pid)"
  by (induction n arbitrary: pid) (auto intro!: keeps)

lemma keeps_await_wal_receiver [keeps]: "keeps_vars (await_wal_receiver env conn n pid)"
  by (induction n arbitrary: pid) (auto intro!: keeps)

lemma keeps_wal_receiver [keeps]:
  "keeps_vars (disable_wal_receiver env conn)" "keeps_vars (enable_wal_receiver env conn wait)"
  unfolding disable_wal_receiver_def enable_wal_receiver_def by (intro keeps)+

end
