(* ===== verification/Traces.thy ===== *)
theory Traces
  imports Wal_Receiver Election
begin

text \<open>
  Reasoning about what the daemon does to its surroundings. \<open>yields P m Q\<close> says that \<open>m\<close> only adds
  to the trace, and that \<open>Q\<close> holds of its answer and of the added effects that satisfy \<open>P\<close>; the rules
  in \<open>yielding\<close> compute with it the way weakest preconditions are computed. \<open>quiet m\<close> says that none
  of the effects of \<open>m\<close> decides anything about the cluster.
\<close>

section \<open>Effects of a computation\<close>

definition yields :: "(effect \<Rightarrow> bool) \<Rightarrow> (daemon, 'a) state \<Rightarrow> ('a \<Rightarrow> effect list \<Rightarrow> bool) \<Rightarrow> bool" where
  "yields P m Q \<longleftrightarrow> (\<forall>d. \<exists>es. trace (final m d) = trace d @ es \<and> Q (result m d) (filter P es))"

text \<open>The effects \<open>m\<close> adds when it runs from \<open>d\<close>.\<close>

definition added :: "(daemon, 'a) state \<Rightarrow> daemon \<Rightarrow> effect list" where
  "added m d = drop (length (trace d)) (trace (final m d))"

named_theorems yielding \<open>rules for the effects of a computation\<close>

lemma yieldsD: "yields P m Q \<Longrightarrow> Q (result m d) (filter P (added m d))"
  by (auto simp: yields_def added_def dest!: spec [of _ d])

lemma yields_trace: "yields P m Q \<Longrightarrow> trace (final m d) = trace d @ added m d"
  by (auto simp: yields_def added_def dest!: spec [of _ d])

lemma yields_mono: "yields P m R \<Longrightarrow> (\<And>x es. R x es \<Longrightarrow> Q x es) \<Longrightarrow> yields P m Q"
  unfolding yields_def by blast

lemma yields_ret [yielding]: "Q x [] \<Longrightarrow> yields P (ret x) Q"
  by (simp add: yields_def)

lemma yields_gets [yielding]: "(\<And>x. Q x []) \<Longrightarrow> yields P (gets f) Q"
  by (simp add: yields_def)

lemma yields_call [yielding]: "(\<And>x. Q x []) \<Longrightarrow> yields P (call f) Q"
  by (simp add: yields_def)

lemma yields_session:
  "(\<And>k. Q (result m (e_session env k conn)) []) \<Longrightarrow> yields P (on_session env conn m) Q"
  unfolding yields_def on_session_def by simp

lemma yields_modify [yielding]: "(\<And>d. trace (f d) = trace d) \<Longrightarrow> Q () [] \<Longrightarrow> yields P (modify f) Q"
  by (simp add: yields_def)

lemma yields_emit [yielding]: "(P e \<Longrightarrow> Q () [e]) \<Longrightarrow> (\<not> P e \<Longrightarrow> Q () []) \<Longrightarrow> yields P (emit e) Q"
  by (simp add: yields_def)

lemma yields_bind [yielding]:
  assumes "yields P m (\<lambda>x es. yields P (f x) (\<lambda>y es'. Q y (es @ es')))"
  shows "yields P (State_Monad.bind m f) Q"
proof (unfold yields_def, rule allI)
  fix d
  obtain es where es: "trace (final m d) = trace d @ es"
    "yields P (f (result m d)) (\<lambda>y es'. Q y (filter P es @ es'))"
    using assms unfolding yields_def by blast
  then obtain es' where "trace (final (f (result m d)) (final m d)) = trace (final m d) @ es'"
    "Q (result (f (result m d)) (final m d)) (filter P es @ filter P es')"
    unfolding yields_def by blast
  with es show "\<exists>es. trace (final (State_Monad.bind m f) d) = trace d @ es \<and>
      Q (result (State_Monad.bind m f) d) (filter P es)"
    by (intro exI [of _ "es @ es'"]) (simp add: case_prod_unfold)
qed

lemma yields_if [yielding]:
  "(b \<Longrightarrow> yields P m Q) \<Longrightarrow> (\<not> b \<Longrightarrow> yields P n Q) \<Longrightarrow> yields P (if b then m else n) Q"
  by simp

lemma yields_option [yielding]:
  "(x = None \<Longrightarrow> yields P m Q) \<Longrightarrow> (\<And>y. x = Some y \<Longrightarrow> yields P (f y) Q) \<Longrightarrow>
   yields P (case x of None \<Rightarrow> m | Some y \<Rightarrow> f y) Q"
  by (cases x) auto

lemma yields_sum [yielding]:
  "(\<And>y. x = Inl y \<Longrightarrow> yields P (f y) Q) \<Longrightarrow> (\<And>y. x = Inr y \<Longrightarrow> yields P (g y) Q) \<Longrightarrow>
   yields P (case x of Inl y \<Rightarrow> f y | Inr y \<Rightarrow> g y) Q"
  by (cases x) auto

lemma yields_prod [yielding]:
  "(\<And>y z. x = (y, z) \<Longrightarrow> yields P (f y z) Q) \<Longrightarrow> yields P (case x of (y, z) \<Rightarrow> f y z) Q"
  by (cases x) auto

lemma yields_let [yielding]: "yields P (f x) Q \<Longrightarrow> yields P (let y = x in f y) Q"
  by simp

lemma yields_or_exit [yielding]:
  "yields P m (\<lambda>x es. case x of Inl c \<Rightarrow> Q (Inl c) es
     | Inr v \<Rightarrow> yields P (f v) (\<lambda>y es'. Q y (es @ es'))) \<Longrightarrow> yields P (or_exit m f) Q"
  unfolding or_exit_def
  by (rule yields_bind, erule yields_mono) (auto intro: yields_ret split: sum.splits)

section \<open>Runs from a given state\<close>

text \<open>
  The same from one starting state, with the state the computation ends in; \<open>running\<close> collects the
  rules.
\<close>

definition runs ::
  "(effect \<Rightarrow> bool) \<Rightarrow> (daemon, 'a) state \<Rightarrow> daemon \<Rightarrow> ('a \<Rightarrow> effect list \<Rightarrow> daemon \<Rightarrow> bool) \<Rightarrow> bool" where
  "runs P m d Q \<longleftrightarrow>
     (\<exists>es. trace (final m d) = trace d @ es \<and> Q (result m d) (filter P es) (final m d))"

named_theorems running \<open>rules for the run of a computation from a given state\<close>

lemma runsD: "runs P m d Q \<Longrightarrow> Q (result m d) (filter P (added m d)) (final m d)"
  by (auto simp: runs_def added_def)

lemma runs_mono: "runs P m d R \<Longrightarrow> (\<And>x es d'. R x es d' \<Longrightarrow> Q x es d') \<Longrightarrow> runs P m d Q"
  unfolding runs_def by blast

lemma runs_yields: "yields P m R \<Longrightarrow> (\<And>x es d'. R x es \<Longrightarrow> Q x es d') \<Longrightarrow> runs P m d Q"
  unfolding yields_def runs_def by blast

lemma runs_yields_keeps:
  "yields P m R \<Longrightarrow> keeps_vars m \<Longrightarrow> (\<And>x es d'. R x es \<Longrightarrow> vars d' = vars d \<Longrightarrow> Q x es d') \<Longrightarrow> runs P m d Q"
  unfolding yields_def runs_def keeps_vars_def by blast

lemma runs_ret [running]: "Q x [] d \<Longrightarrow> runs P (ret x) d Q"
  by (simp add: runs_def)

lemma runs_gets [running]: "Q (f d) [] d \<Longrightarrow> runs P (gets f) d Q"
  by (simp add: runs_def)

lemma runs_modify: "trace (f d) = trace d \<Longrightarrow> Q () [] (f d) \<Longrightarrow> runs P (modify f) d Q"
  by (simp add: runs_def)

lemma runs_bind [running]:
  assumes "runs P m d (\<lambda>x es d'. runs P (f x) d' (\<lambda>y es' d''. Q y (es @ es') d''))"
  shows "runs P (State_Monad.bind m f) d Q"
proof -
  obtain es where es: "trace (final m d) = trace d @ es"
    "runs P (f (result m d)) (final m d) (\<lambda>y es' d''. Q y (filter P es @ es') d'')"
    using assms unfolding runs_def by blast
  then obtain es' where "trace (final (f (result m d)) (final m d)) = trace (final m d) @ es'"
    "Q (result (f (result m d)) (final m d)) (filter P es @ filter P es') (final (f (result m d)) (final m d))"
    unfolding runs_def by blast
  with es show ?thesis
    unfolding runs_def by (intro exI [of _ "es @ es'"]) (simp add: case_prod_unfold)
qed

lemma runs_if [running]:
  "(b \<Longrightarrow> runs P m d Q) \<Longrightarrow> (\<not> b \<Longrightarrow> runs P n d Q) \<Longrightarrow> runs P (if b then m else n) d Q"
  by simp

lemma runs_option [running]:
  "(x = None \<Longrightarrow> runs P m d Q) \<Longrightarrow> (\<And>y. x = Some y \<Longrightarrow> runs P (f y) d Q) \<Longrightarrow>
   runs P (case x of None \<Rightarrow> m | Some y \<Rightarrow> f y) d Q"
  by (cases x) auto

lemma runs_prod [running]:
  "(\<And>y z. x = (y, z) \<Longrightarrow> runs P (f y z) d Q) \<Longrightarrow> runs P (case x of (y, z) \<Rightarrow> f y z) d Q"
  by (cases x) auto

lemma runs_let [running]: "runs P (f x) d Q \<Longrightarrow> runs P (let y = x in f y) d Q"
  by simp

lemma runs_or_exit [running]:
  assumes "runs P m d (\<lambda>x es d'. case x of Inl c \<Rightarrow> Q (Inl c) es d'
     | Inr v \<Rightarrow> runs P (f v) d' (\<lambda>y es' d''. Q y (es @ es') d''))"
  shows "runs P (or_exit m f) d Q"
  unfolding or_exit_def
  by (rule runs_bind, rule runs_mono, rule assms) (auto intro: runs_ret split: sum.splits)

lemma sum_cases [running, yielding]:
  "(\<And>y. x = Inl y \<Longrightarrow> F y) \<Longrightarrow> (\<And>y. x = Inr y \<Longrightarrow> G y) \<Longrightarrow> case x of Inl y \<Rightarrow> F y | Inr y \<Rightarrow> G y"
  by (cases x) auto

section \<open>Quiet computations\<close>

definition decisive :: "effect \<Rightarrow> bool" where
  "decisive e \<longleftrightarrow> (\<exists>c n. e = Notified c n) \<or> (\<exists>c. e = Incremented_Term c) \<or>
     (\<exists>c n u. e = Set_Upstream c n u) \<or> (\<exists>c d. e = Copied_Records c d) \<or> (\<exists>c n. e = Set_Primary c n)"

abbreviation quiet :: "(daemon, 'a) state \<Rightarrow> bool" where
  "quiet m \<equiv> yields decisive m (\<lambda>_ es. es = [])"

named_theorems quietly \<open>computations that decide nothing about the cluster\<close>

lemma decisive_simps [simp]:
  "decisive (Notified c n)" "decisive (Incremented_Term c)" "decisive (Set_Upstream c n u)"
  "decisive (Copied_Records c c')" "\<not> decisive (Reset_Voting c)" "\<not> decisive (Announced_Node_Id c n)"
  "\<not> decisive (Announced_Pid c n f)" "\<not> decisive (Resumed_Replay c)"
  "\<not> decisive (Recorded_Event c n t b s)" "\<not> decisive (Ran s)" "\<not> decisive (Slept n)"
  "\<not> decisive (Closed c)" "\<not> decisive (Unlinked s)" "\<not> decisive (Altered_System c s n)"
  "\<not> decisive (Reloaded_Config c)" "\<not> decisive (Signalled n n')" "decisive (Set_Primary c n)"
  "\<not> decisive (Set_Active c n a)" "\<not> decisive (Set_Standby c n)" "\<not> decisive (Saw_Upstream c)"
  "\<not> decisive (Recorded_Lag c n n' s t l l' m m')" "\<not> decisive (Printed s)" "\<not> decisive (Promoted c)"
  "\<not> decisive (Checkpointed c)" "\<not> decisive (Created_Slot c s)" "\<not> decisive (Dropped_Slot c s)"
  "\<not> decisive (Paused_Repmgrd c b)" "\<not> decisive (Wrote_File s t)" "\<not> decisive (Reset_Term c)"
  "\<not> decisive (Ran_Statement c s)" "\<not> decisive (Set_Status c n s n' b)" "\<not> decisive (Set_Slot_Name c n s)"
  "\<not> decisive (Created_Record c r)" "\<not> decisive (Updated_Record c r)" "\<not> decisive (Deleted_Record c n)"
  "\<not> decisive (Truncated_Records c)"
  by (simp_all add: decisive_def)

lemma quiet_bind [quietly]: "quiet m \<Longrightarrow> (\<And>x. quiet (f x)) \<Longrightarrow> quiet (State_Monad.bind m f)"
  by (rule yields_bind, erule yields_mono) simp

lemma quiet_or_exit [quietly]: "quiet m \<Longrightarrow> (\<And>x. quiet (f x)) \<Longrightarrow> quiet (or_exit m f)"
  by (rule yields_or_exit, erule yields_mono) (auto split: sum.splits)

lemmas quiet_basic [quietly] =
  yields_ret [where P = decisive and Q = "\<lambda>_ es. es = []", OF refl]
  yields_gets [where P = decisive and Q = "\<lambda>_ es. es = []", OF refl]
  yields_call [where P = decisive and Q = "\<lambda>_ es. es = []", OF refl]
  yields_if [where P = decisive and Q = "\<lambda>_ es. es = []"]
  yields_option [where P = decisive and Q = "\<lambda>_ es. es = []"]
  yields_sum [where P = decisive and Q = "\<lambda>_ es. es = []"]
  yields_prod [where P = decisive and Q = "\<lambda>_ es. es = []"]
  yields_let [where P = decisive and Q = "\<lambda>_ es. es = []"]

lemma quiet_emit [quietly]: "\<not> decisive e \<Longrightarrow> quiet (emit e)"
  by (rule yields_emit) auto

lemma quiet_modify [quietly]: "(\<And>d. trace (f d) = trace d) \<Longrightarrow> quiet (modify f)"
  by (rule yields_modify) auto

text \<open>A quiet computation inside a larger one.\<close>

lemma yields_quiet: "quiet m \<Longrightarrow> (\<And>x. Q x []) \<Longrightarrow> (\<And>e. P e \<Longrightarrow> decisive e) \<Longrightarrow> yields P m Q"
proof -
  assume quiet: "quiet m" and Q: "\<And>x. Q x []" and P: "\<And>e. P e \<Longrightarrow> decisive e"
  show "yields P m Q"
  proof (unfold yields_def, rule allI)
    fix d
    obtain es where "trace (final m d) = trace d @ es" "filter decisive es = []"
      using quiet unfolding yields_def by blast
    moreover from this(2) P have "filter P es = []" by (auto simp: filter_empty_conv)
    ultimately show "\<exists>es. trace (final m d) = trace d @ es \<and> Q (result m d) (filter P es)"
      using Q by auto
  qed
qed

lemma yields_quietly: "quiet m \<Longrightarrow> (\<And>x. Q x []) \<Longrightarrow> yields decisive m Q"
  by (rule yields_quiet)

text \<open>The rule for a quiet computation that leaves the variables alone, and for one that may not.\<close>

lemma runs_quiet:
  "quiet m \<Longrightarrow> keeps_vars m \<Longrightarrow> (\<And>x d'. vars d' = vars d \<Longrightarrow> Q x [] d') \<Longrightarrow> runs decisive m d Q"
  by (erule runs_yields_keeps) auto

lemma vars_fields:
  "vars d' = vars d \<Longrightarrow> config d' = config d \<and> local_node_info d' = local_node_info d \<and>
     upstream_node_info d' = upstream_node_info d \<and> local_conn d' = local_conn d \<and>
     upstream_conn d' = upstream_conn d \<and> primary_conn d' = primary_conn d \<and>
     monitoring_state d' = monitoring_state d \<and> failover_state d' = failover_state d"
  by (metis vars_simps)

lemma runs_quiet_final: "quiet m \<Longrightarrow> Q (result m d) [] (final m d) \<Longrightarrow> runs decisive m d Q"
  unfolding runs_def yields_def by (metis (mono_tags))

lemma runs_quietly: "quiet m \<Longrightarrow> (\<And>x d'. Q x [] d') \<Longrightarrow> runs decisive m d Q"
  by (erule runs_yields) auto

lemma quiet_world [quietly]:
  "quiet (PQstatus_ok env conn)" "quiet (PQexec env conn)" "quiet (on_session env conn m)" "quiet (ask env)"
  "quiet (gettimeofday env)" "quiet (sleep secs)" "quiet (system_command env cmd)"
  "quiet (is_server_available env s)" "quiet (close_connection conn)"
  unfolding PQstatus_ok_def PQexec_def on_session_def ask_def gettimeofday_def sleep_def
    system_command_def is_server_available_def close_connection_def
  by (intro quietly; simp)+

lemma quiet_connect [quietly]:
  "quiet (connection_ping env conn)" "quiet (set_config env conn)"
  "quiet (establish_db_connection_exit env s b)" "quiet (establish_db_connection env s)"
  "quiet (establish_db_connection_by_params env pl)"
  unfolding establish_db_connection_def establish_db_connection_exit_def connection_ping_def set_config_def
    establish_db_connection_by_params_def
  by (intro quietly; simp)+

lemma quiet_find_primary [quietly]: "quiet (find_primary env rs)"
  unfolding get_recovery_type_def
  by (induction rs) (auto intro!: quietly simp: get_recovery_type_def)

lemma quiet_queries [quietly]:
  "quiet (get_recovery_type env conn)" "quiet (get_primary_connection env conn)"
  "quiet (query_int env conn)" "quiet (get_current_term env conn)"
  "quiet (repmgrd_get_local_node_id env conn)" "quiet (repmgrd_get_pid env conn)"
  "quiet (get_wal_receiver_pid_sql env conn)" "quiet (repmgrd_set_local_node_id env conn n)"
  "quiet (repmgrd_set_pid env conn n file)" "quiet (get_new_primary_sql env conn)"
  "quiet (reset_voting_status_sql env conn)" "quiet (resume_wal_replay env conn)"
  "quiet (get_node_current_lsn env conn)" "quiet (get_replication_info env conn t ri)"
  "quiet (identify_system env conn)" "quiet (get_timeline_history env conn tli)"
  unfolding get_recovery_type_def get_primary_connection_def query_int_def get_current_term_def
    repmgrd_get_local_node_id_def repmgrd_get_pid_def get_wal_receiver_pid_sql_def
    repmgrd_set_local_node_id_def repmgrd_set_pid_def get_new_primary_sql_def reset_voting_status_sql_def
    resume_wal_replay_def get_node_current_lsn_def get_replication_info_def identify_system_def
    get_timeline_history_def
  by (intro quietly; simp)+

lemma quiet_events [quietly]:
  "quiet (create_event env conn n event successful details info send)"
  "quiet (create_event_notification env conn n event successful text)"
  unfolding create_event_notification_def create_event_def by (intro quietly; simp)+

lemma quiet_connections [quietly]:
  "(\<And>c d. trace (set_conn c d) = trace d) \<Longrightarrow> quiet (check_connection env info conn_of set_conn)"
  "quiet (reset_node_voting_status env)" "quiet (enter_degraded env)" "quiet (terminate env code)"
  unfolding check_connection_def reset_node_voting_status_def enter_degraded_def terminate_def
  by (intro quietly; simp)+

lemma quiet_await_exit [quietly]: "quiet (await_exit env n)"
  by (induction n) (auto intro!: quietly)

lemma quiet_kill_rounds [quietly]: "quiet (kill_rounds env conn n pid)"
  by (induction n arbitrary: pid) (auto intro!: quietly)

lemma quiet_await_wal_receiver [quietly]: "quiet (await_wal_receiver env conn n pid)"
  by (induction n arbitrary: pid) (auto intro!: quietly)

lemma quiet_wal_receiver [quietly]:
  "quiet (disable_wal_receiver env conn)" "quiet (enable_wal_receiver env conn wait)"
  unfolding disable_wal_receiver_def enable_wal_receiver_def is_superuser_connection_def
    get_pg_setting_def alter_system_int_def pg_reload_conf_def
  by (intro quietly; simp)+

lemma quiet_visit_sibling [quietly]: "quiet (visit_sibling env cell st)"
  unfolding visit_sibling_def check_node_can_follow_def by (intro quietly; simp)

lemma quiet_election_loop [quietly]: "quiet (election_loop env cells st)"
  by (induction cells arbitrary: st) (auto intro!: quietly)

lemma quiet_do_election [quietly]: "quiet (do_election env)"
  unfolding do_election_def election_local_lsn_def election_count_def election_verdict_def
    execute_failover_validation_command_def
  by (intro quietly; simp)

section \<open>Rules for runs\<close>

text \<open>One rule for each call that is quiet and leaves the variables alone, and for each assignment.\<close>

lemmas runs_leaves [running] =
  quiet_world(1) [THEN runs_quiet, OF keeps_PQstatus] quiet_world(2) [THEN runs_quiet, OF keeps_PQexec]
  quiet_world(3) [THEN runs_quiet, OF keeps_on_session] quiet_world(4) [THEN runs_quiet, OF keeps_system_calls(3)]
  quiet_world(5) [THEN runs_quiet, OF keeps_system_calls(4)] quiet_world(6) [THEN runs_quiet, OF keeps_system_calls(1)]
  quiet_world(7) [THEN runs_quiet, OF keeps_system_calls(2)] quiet_world(8) [THEN runs_quiet, OF keeps_system_calls(5)]
  quiet_world(9) [THEN runs_quiet, OF keeps_system_calls(7)]
  quiet_connect(3) [THEN runs_quiet, OF keeps_establish_exit] quiet_connect(4) [THEN runs_quiet, OF keeps_establish]
  quiet_queries(1) [THEN runs_quiet, OF keeps_get_recovery_type]
  quiet_queries(2) [THEN runs_quiet, OF keeps_get_primary_connection]
  quiet_queries(5) [THEN runs_quiet, OF keeps_queries(3)] quiet_queries(8) [THEN runs_quiet, OF keeps_queries(6)]
  quiet_queries(4) [THEN runs_quiet, OF keeps_queries(1)] quiet_queries(9) [THEN runs_quiet, OF keeps_queries(7)]
  quiet_queries(11) [THEN runs_quiet, OF keeps_queries(10)] quiet_queries(14) [THEN runs_quiet, OF keeps_queries(13)]
  quiet_queries(12) [THEN runs_quiet, OF keeps_queries(11)]
  quiet_events(2) [THEN runs_quiet, OF keeps_events(2)]
  quiet_wal_receiver(1) [THEN runs_quiet, OF keeps_wal_receiver(1)]
  quiet_wal_receiver(2) [THEN runs_quiet, OF keeps_wal_receiver(2)]

lemma runs_call [running]: "(\<And>x d'. vars d' = vars d \<Longrightarrow> Q x [] d') \<Longrightarrow> runs P (call f) d Q"
  unfolding runs_def by (intro exI [of _ "[]"]) (simp add: vars_def)

lemma runs_updates [running]:
  "Q () [] (d\<lparr>local_conn := g d\<rparr>) \<Longrightarrow> runs P (modify (\<lambda>d. d\<lparr>local_conn := g d\<rparr>)) d Q"
  "Q () [] (d\<lparr>upstream_conn := g d\<rparr>) \<Longrightarrow> runs P (modify (\<lambda>d. d\<lparr>upstream_conn := g d\<rparr>)) d Q"
  "Q () [] (d\<lparr>primary_conn := g d\<rparr>) \<Longrightarrow> runs P (modify (\<lambda>d. d\<lparr>primary_conn := g d\<rparr>)) d Q"
  "Q () [] (d\<lparr>local_node_info := h d\<rparr>) \<Longrightarrow> runs P (modify (\<lambda>d. d\<lparr>local_node_info := h d\<rparr>)) d Q"
  "Q () [] (d\<lparr>upstream_node_info := h d\<rparr>) \<Longrightarrow> runs P (modify (\<lambda>d. d\<lparr>upstream_node_info := h d\<rparr>)) d Q"
  "Q () [] (d\<lparr>failover_state := s d\<rparr>) \<Longrightarrow> runs P (modify (\<lambda>d. d\<lparr>failover_state := s d\<rparr>)) d Q"
  "Q () [] (d\<lparr>monitoring_state := m d\<rparr>) \<Longrightarrow> runs P (modify (\<lambda>d. d\<lparr>monitoring_state := m d\<rparr>)) d Q"
  "Q () [] (d\<lparr>degraded_monitoring_start := t d\<rparr>) \<Longrightarrow> runs P (modify (\<lambda>d. d\<lparr>degraded_monitoring_start := t d\<rparr>)) d Q"
  by (rule runs_modify; simp)+

text \<open>A part of the daemon's state that a computation leaves as it is.\<close>

definition preserves :: "(daemon \<Rightarrow> 'b) \<Rightarrow> (daemon, 'a) state \<Rightarrow> bool" where
  "preserves f m \<longleftrightarrow> (\<forall>d. f (final m d) = f d)"

named_theorems preserving \<open>rules for parts of the state that are left alone\<close>

lemma preservesD: "preserves f m \<Longrightarrow> f (final m d) = f d"
  by (simp add: preserves_def)

lemma preserves_bind [preserving]:
  "preserves f m \<Longrightarrow> (\<And>x. preserves f (g x)) \<Longrightarrow> preserves f (State_Monad.bind m g)"
  by (simp add: preserves_def case_prod_unfold)

lemma preserves_cases [preserving]:
  "(b \<Longrightarrow> preserves f m) \<Longrightarrow> (\<not> b \<Longrightarrow> preserves f n) \<Longrightarrow> preserves f (if b then m else n)"
  "(z = None \<Longrightarrow> preserves f m) \<Longrightarrow> (\<And>y. preserves f (g y)) \<Longrightarrow>
     preserves f (case z of None \<Rightarrow> m | Some y \<Rightarrow> g y)"
  "(\<And>x y. preserves f (h x y)) \<Longrightarrow> preserves f (case p of (x, y) \<Rightarrow> h x y)"
  "preserves f (g v) \<Longrightarrow> preserves f (let y = v in g y)"
  by (simp_all split: option.splits prod.splits)

lemma preserves_modify [preserving]: "(\<And>d. f (g d) = f d) \<Longrightarrow> preserves f (modify g)"
  by (simp add: preserves_def)

lemma preserves_upstream: "keeps_vars m \<Longrightarrow> preserves upstream_node_info m"
  by (simp add: preserves_def keeps_vars_fields)

lemmas preserves_upstream_leaves [preserving] =
  keeps_ret [THEN preserves_upstream] keeps_gets [THEN preserves_upstream] keeps_call [THEN preserves_upstream]
  keeps_emit [THEN preserves_upstream] keeps_PQstatus [THEN preserves_upstream]
  keeps_PQexec [THEN preserves_upstream] keeps_on_session [THEN preserves_upstream]
  keeps_system_calls [THEN preserves_upstream] keeps_establish [THEN preserves_upstream]
  keeps_establish_exit [THEN preserves_upstream] keeps_queries [THEN preserves_upstream]
  keeps_get_recovery_type [THEN preserves_upstream] keeps_events [THEN preserves_upstream]
  keeps_visit_sibling [THEN preserves_upstream] keeps_election_loop [THEN preserves_upstream]
  keeps_wal_receiver [THEN preserves_upstream]

text \<open>An effect that is recorded, decisive or not.\<close>

lemma runs_emit [running]:
  assumes "\<And>d'. vars d' = vars d \<Longrightarrow> Q () (if P e then [e] else []) d'"
  shows "runs P (emit e) d Q"
  using assms [of "d\<lparr>trace := trace d @ [e]\<rparr>"]
  unfolding runs_def by (intro exI [of _ "[e]"]) (auto simp: vars_def split: if_splits)

end
