(* ===== verification/Daemon_Properties.thy ===== *)
theory Daemon_Properties
  imports Traces
begin

text \<open>
  Properties of the daemon's tools: the interval that keeps a WAL receiver away, the expansion of the
  notification command, and the attempts to reconnect to a node.
\<close>

section \<open>The retry interval of the WAL receiver\<close>

definition is_altered :: "effect \<Rightarrow> bool" where
  "is_altered e \<longleftrightarrow> (\<exists>c s v. e = Altered_System c s v)"

lemma is_altered_simps [simp]:
  "is_altered (Altered_System c s v)" "\<not> is_altered (Reloaded_Config c)" "\<not> is_altered (Slept n)"
  "\<not> is_altered (Signalled p n)"
  by (simp_all add: is_altered_def)

lemma int_string_short:
  assumes "\<bar>n\<bar> < 2 ^ 31"
  shows "length (int_string n) < MAXLEN"
proof -
  have "nat \<bar>n\<bar> < 10 ^ Suc 9" using assms by simp
  from nat_digits_length [OF this] show ?thesis by (auto simp: int_string_def)
qed

lemma altered_parts [yielding]:
  "(\<And>x. Q1 x []) \<Longrightarrow> yields is_altered (PQexec env conn) Q1"
  "(\<And>x. Q2 x []) \<Longrightarrow> yields is_altered (get_recovery_type env conn) Q2"
  "(\<And>x. Q3 x []) \<Longrightarrow> yields is_altered (get_wal_receiver_pid_sql env conn) Q3"
  "(\<And>x. Q4 x []) \<Longrightarrow> yields is_altered (ask env) Q4"
  "(\<And>x. Q5 x []) \<Longrightarrow> yields is_altered (sleep n) Q5"
  "(\<And>x. Q6 x []) \<Longrightarrow> yields is_altered (get_pg_setting env conn s out) Q6"
  unfolding PQexec_def get_recovery_type_def get_wal_receiver_pid_sql_def query_int_def ask_def sleep_def
    get_pg_setting_def
  by (intro yielding; simp)+

lemma altered_waiting:
  "yields is_altered (await_exit env n) (\<lambda>_ es. es = [])"
  "yields is_altered (await_wal_receiver env conn n pid) (\<lambda>_ es. es = [])"
proof -
  show "yields is_altered (await_exit env n) (\<lambda>_ es. es = [])"
    by (induction n) (auto intro!: yielding)
  show "yields is_altered (await_wal_receiver env conn n pid) (\<lambda>_ es. es = [])"
    by (induction n arbitrary: pid) (auto intro!: yielding)
qed

lemma altered_kill: "yields is_altered (kill_rounds env conn n pid) (\<lambda>_ es. es = [])"
  by (induction n arbitrary: pid) (auto intro!: yielding yields_mono [OF altered_waiting(1)])

text \<open>
  The retry interval is written at most once by each function. \<open>disable_wal_receiver\<close> only writes
  a value that is a day more than one below a day, \<open>enable_wal_receiver\<close> only writes a positive value.
\<close>

theorem wal_retry_interval_bounds:
  "let down = filter is_altered (added (disable_wal_receiver env conn) d);
       up = filter is_altered (added (enable_wal_receiver env conn wait) d)
   in (down = [] \<or> (\<exists>x < 86400000. down = [Altered_System conn wal_retry_setting (x + 86400000)])) \<and>
      (up = [] \<or> (\<exists>x > 0. up = [Altered_System conn wal_retry_setting x]))"
proof -
  have "yields is_altered (disable_wal_receiver env conn)
      (\<lambda>_ es. es = [] \<or> (\<exists>x < 86400000. es = [Altered_System conn wal_retry_setting (x + 86400000)]))"
    unfolding disable_wal_receiver_def is_superuser_connection_def alter_system_int_def pg_reload_conf_def
    by (intro yielding yields_mono [OF altered_kill]; auto)
  moreover have "yields is_altered (enable_wal_receiver env conn wait)
      (\<lambda>_ es. es = [] \<or> (\<exists>x > 0. es = [Altered_System conn wal_retry_setting x]))"
    unfolding enable_wal_receiver_def is_superuser_connection_def alter_system_int_def pg_reload_conf_def
    by (intro yielding yields_mono [OF altered_waiting(2)]; auto)
  ultimately show ?thesis unfolding Let_def by (blast dest: yieldsD)
qed

text \<open>Servers whose answer to every query is the setting's value.\<close>

definition answers_setting :: "env \<Rightarrow> int \<Rightarrow> bool" where
  "answers_setting env v \<longleftrightarrow>
     (\<forall>k. e_flag env k) \<and> (\<forall>k. e_result env k = Some [[Some wal_retry_setting, Some (int_string v)]])"



section \<open>The notification command\<close>

definition is_run :: "effect \<Rightarrow> bool" where
  "is_run e \<longleftrightarrow> (\<exists>s. e = Ran s)"

lemma is_run_simps [simp]: "is_run (Ran s)" "\<not> is_run (Recorded_Event c n t b u)" "\<not> is_run (Closed c)" "\<not> is_run (Slept n)"
  by (simp_all add: is_run_def)

text \<open>Nothing is run, or one command that is as long as it may be and, if that fits, the expansion.\<close>

definition one_command :: "(string \<Rightarrow> string) \<Rightarrow> effect list \<Rightarrow> bool" where
  "one_command expansion cmds \<longleftrightarrow>
     cmds = [] \<or>
     (\<exists>cmd t. cmds = [Ran cmd] \<and> length cmd \<le> MAXPGPATH - 1 \<and>
        (length (expansion t) < MAXPGPATH - 1 \<longrightarrow> cmd = expansion t))"

lemma one_command_Nil [simp]: "one_command expansion []"
  by (simp add: one_command_def)

lemma one_command_loop:
  "one_command (\<lambda>t. expand_event (f t) template) [Ran (event_loop 1023 (f t) template [])]"
proof -
  have "length (event_loop 1023 (f t) template []) \<le> 1023 \<and>
      (length (expand_event (f t) template) < 1023 \<longrightarrow> event_loop 1023 (f t) template [] = expand_event (f t) template)"
    using event_loop_bound [of "[]" 1023 "f t" template] event_loop_fits [of "[]" "f t" template 1023] by simp
  then show ?thesis unfolding one_command_def by (intro disjI2 exI [of _ "event_loop 1023 (f t) template []"] exI [of _ t]) simp
qed

text \<open>
  An event runs at most one command, whose text never overflows its buffer and is the expansion of
  the configured command whenever that fits; without a configured command, or for an event that is
  not among the ones to report, nothing is run.
\<close>

theorem event_runs_one_command:
  "let opts = config d;
       cmds = filter is_run (added (create_event_notification env conn n event ok details) d);
       expansion = (\<lambda>t. expand_event (event_sub n event ok (Some details) t event_info_init)
         (opt_event_notification_command opts))
   in (cmds = [] \<or>
       (\<exists>cmd t. cmds = [Ran cmd] \<and> length cmd \<le> MAXPGPATH - 1 \<and>
          (length (expansion t) < MAXPGPATH - 1 \<longrightarrow> cmd = expansion t))) \<and>
      (opt_event_notification_command opts = [] \<or>
       opt_event_notifications opts \<noteq> [] \<and> event \<notin> set (opt_event_notifications opts) \<longrightarrow> cmds = [])"
proof -
  have "runs is_run (create_event_notification env conn n event ok details) d (\<lambda>_ cmds d'.
      one_command (\<lambda>t. expand_event (event_sub n event ok (Some details) t event_info_init)
        (opt_event_notification_command (config d))) cmds \<and>
      (opt_event_notification_command (config d) = [] \<or>
       opt_event_notifications (config d) \<noteq> [] \<and> event \<notin> set (opt_event_notifications (config d)) \<longrightarrow> cmds = []))"
    unfolding create_event_notification_def create_event_def PQstatus_ok_def get_recovery_type_def PQexec_def
      system_command_def
    by (intro running; auto dest!: vars_fields simp del: event_loop.simps
        simp: one_command_loop [of "\<lambda>t. event_sub n event ok (Some details) t event_info_init"])
  from runsD [OF this] show ?thesis by (simp add: Let_def one_command_def)
qed

lemma event_runs_one_command_witness:
  "filter is_run (added (create_event_notification (example_env ''0/3'' ''0/2'') NULL_CONN 2 ''repmgrd_start'' True [])
     (example_daemon 2)) = []"
proof -
  have "opt_event_notification_command (config (example_daemon 2)) = []"
    by (simp add: example_daemon_def example_config_def)
  with event_runs_one_command [where d = "example_daemon 2" and env = "example_env ''0/3'' ''0/2''" and
      conn = NULL_CONN and n = 2 and event = "''repmgrd_start''" and ok = True and details = "[]"]
  show ?thesis by (simp add: Let_def)
qed

section \<open>Reconnecting\<close>

definition is_sleep :: "effect \<Rightarrow> bool" where
  "is_sleep e \<longleftrightarrow> (\<exists>n. e = Slept n)"

lemma is_sleep_simps [simp]: "is_sleep (Slept n)" "\<not> is_sleep (Closed c)"
  by (simp_all add: is_sleep_def)

lemma sleep_parts [running]:
  "(\<And>d'. vars d' = vars d \<Longrightarrow> Q () [Slept n] d') \<Longrightarrow> runs is_sleep (sleep n) d Q"
  "(\<And>d'. vars d' = vars d \<Longrightarrow> R () [] d') \<Longrightarrow> runs is_sleep (close_connection conn) d R"
  "(\<And>x d'. vars d' = vars d \<Longrightarrow> S x [] d') \<Longrightarrow> runs is_sleep (PQstatus_ok env conn) d S"
  "(\<And>x d'. vars d' = vars d \<Longrightarrow> S x [] d') \<Longrightarrow> runs is_sleep (connection_ping env conn) d S"
  "(\<And>x d'. vars d' = vars d \<Longrightarrow> T x [] d') \<Longrightarrow> runs is_sleep (establish_db_connection_by_params env pl) d T"
  unfolding sleep_def close_connection_def PQstatus_ok_def connection_ping_def PQexec_def
    establish_db_connection_by_params_def set_config_def
  by (intro running; simp)+

text \<open>The waiting of the loop, by the answer and the number of attempts.\<close>

definition waited :: "nat \<Rightarrow> int \<Rightarrow> node_status \<Rightarrow> effect list \<Rightarrow> bool" where
  "waited n interval status es \<longleftrightarrow>
     (status = NODE_STATUS_UP \<and> (\<exists>k < n. es = replicate k (Slept interval)) \<or>
      status = NODE_STATUS_DOWN \<and> es = replicate (n - 1) (Slept interval))"

lemma waited_simps [simp]:
  "waited 0 i NODE_STATUS_DOWN []" "waited (Suc n) i NODE_STATUS_UP []"
  by (auto simp: waited_def)

lemma waited_step: "waited n i s es \<Longrightarrow> 0 < n \<Longrightarrow> waited (Suc n) i s (Slept i # es)"
proof -
  assume w: "waited n i s es" and n: "0 < n"
  have "Slept i # replicate k (Slept i) = replicate (Suc k) (Slept i)" for k by simp
  with w n show ?thesis unfolding waited_def by (metis Suc_diff_1 Suc_less_eq diff_Suc_1)
qed

lemma waited_last: "waited 0 i s es \<Longrightarrow> waited (Suc 0) i s es"
  by (auto simp: waited_def)

lemma vars_interval:
  "vars d' = vars d \<Longrightarrow> opt_reconnect_interval (config d) = i \<Longrightarrow> opt_reconnect_interval (config d') = i"
  by (metis vars_simps(1))

lemma reconnect_loop_run:
  "opt_reconnect_interval (config d) = i \<Longrightarrow>
   runs is_sleep (reconnect_loop env local_conn (\<lambda>c d. d\<lparr>local_conn := c\<rparr>) pl n) d (\<lambda>status es d'.
     waited n i status es \<and> (status = NODE_STATUS_DOWN \<longrightarrow> vars d' = vars d))"
proof (induction n arbitrary: d)
  case 0
  show ?case unfolding reconnect_loop.simps by (intro running) simp
next
  case (Suc n)
  show ?case
    using Suc.prems unfolding reconnect_loop.simps Let_def
    by (intro running runs_mono [OF Suc.IH]; auto intro: waited_step waited_last elim: vars_interval)
qed

text \<open>
  \<open>try_reconnect\<close> ends after \<open>reconnect_attempts\<close> attempts: it marks the node as up, having slept
  before each attempt but the first, or as down, having slept between all of them; in the second
  case it leaves the connection alone.
\<close>

theorem try_reconnect_bounded:
  "let n = nat (opt_reconnect_attempts (config d)); i = opt_reconnect_interval (config d);
       m = try_reconnect env local_conn (\<lambda>c d. d\<lparr>local_conn := c\<rparr>) info;
       sleeps = filter is_sleep (added m d); status = node_status (result m d)
   in status = NODE_STATUS_UP \<and> (\<exists>k < n. sleeps = replicate k (Slept i)) \<or>
      status = NODE_STATUS_DOWN \<and> sleeps = replicate (n - 1) (Slept i) \<and> local_conn (final m d) = local_conn d"
proof -
  have "runs is_sleep (try_reconnect env local_conn (\<lambda>c d. d\<lparr>local_conn := c\<rparr>) info) d (\<lambda>r es d'.
      waited (nat (opt_reconnect_attempts (config d))) (opt_reconnect_interval (config d)) (node_status r) es \<and>
      (node_status r = NODE_STATUS_DOWN \<longrightarrow> vars d' = vars d))"
    unfolding try_reconnect_def Let_def
    by (intro running runs_mono [OF reconnect_loop_run [OF refl]]) auto
  from runsD [OF this] show ?thesis by (auto simp: Let_def waited_def dest!: vars_fields)
qed

end
