(* ===== verification/Failover.thy ===== *)
theory Failover
  imports Daemon_Properties "HOL-Library.Sublist"
begin

text \<open>
  What a standby or a witness does once its primary is lost (\<open>repmgrd-physical.c\<close>): promote itself,
  notify the other nodes, wait for a notification, follow another node. A function that can leave the
  program answers \<open>Inl\<close> with the exit code.
\<close>

section \<open>Promotion\<close>

abbreviation (input) set_local_conn :: "pgconn \<Rightarrow> daemon \<Rightarrow> daemon" where
  "set_local_conn conn \<equiv> (\<lambda>d. d\<lparr>local_conn := conn\<rparr>)"
abbreviation (input) set_upstream_conn :: "pgconn \<Rightarrow> daemon \<Rightarrow> daemon" where
  "set_upstream_conn conn \<equiv> (\<lambda>d. d\<lparr>upstream_conn := conn\<rparr>)"
abbreviation (input) set_primary_conn :: "pgconn \<Rightarrow> daemon \<Rightarrow> daemon" where
  "set_primary_conn conn \<equiv> (\<lambda>d. d\<lparr>primary_conn := conn\<rparr>)"

text \<open>The local connection is re-established when it was lost; this exits when it fails.\<close>

definition reopen_local_conn :: "env \<Rightarrow> (daemon, int + bool) state" where
  "reopen_local_conn env = do {
     conn \<leftarrow> gets local_conn;
     ok \<leftarrow> PQstatus_ok env conn;
     if ok then ret (Inr True)
     else do {
       info \<leftarrow> gets local_node_info;
       or_exit (establish_db_connection_exit env (conninfo info) True) (\<lambda>conn. do {
         _ \<leftarrow> modify (set_local_conn conn);
         ok \<leftarrow> PQstatus_ok env conn;
         ret (Inr ok)
       })
     }
   }"

text \<open>What follows a failed promotion command.\<close>

definition promotion_failed :: "env \<Rightarrow> node_info \<Rightarrow> (daemon, failover_state) state" where
  "promotion_failed env failed_primary = do {
     conn \<leftarrow> gets local_conn;
     (uconn, primary_node_id) \<leftarrow> get_primary_connection env conn;
     _ \<leftarrow> modify (set_upstream_conn uconn);
     local \<leftarrow> gets local_node_info;
     ok \<leftarrow> PQstatus_ok env uconn;
     if ok \<and> primary_node_id = node_id failed_primary then do {
       _ \<leftarrow> create_event_notification env uconn (node_id local) ''repmgrd_failover_abort'' True
         (''original primary \"'' @ node_name failed_primary @ ''\" (node ID: '' @
            int_string (node_id failed_primary) @ '') reappeared'');
       ret FAILOVER_STATE_PRIMARY_REAPPEARED
     }
     else do {
       _ \<leftarrow> create_event_notification env NULL_CONN (node_id local) ''repmgrd_promote_error'' True [];
       ret FAILOVER_STATE_PROMOTION_FAILED
     }
   }"

definition promotion_done :: "env \<Rightarrow> node_info \<Rightarrow> (daemon, failover_state) state" where
  "promotion_done env failed_primary = do {
     conn \<leftarrow> gets local_conn;
     _ \<leftarrow> increment_current_term env conn;
     local \<leftarrow> gets local_node_info;
     (_, local) \<leftarrow> on_session env conn (get_node_record (node_id local) local);
     _ \<leftarrow> modify (\<lambda>d. d\<lparr>local_node_info := local\<rparr>);
     _ \<leftarrow> create_event_notification env conn (node_id local) ''repmgrd_failover_promote'' True
       (''node '' @ int_string (node_id local) @ '' promoted to primary; old primary '' @
          int_string (node_id failed_primary) @ '' marked as failed'');
     ret FAILOVER_STATE_PROMOTED
   }"

definition promote_self :: "env \<Rightarrow> (daemon, int + failover_state) state" where
  "promote_self env = do {
     opts \<leftarrow> gets config;
     _ \<leftarrow> (if opt_promote_delay opts > 0 then sleep (opt_promote_delay opts) else ret ());
     conn \<leftarrow> gets local_conn;
     local \<leftarrow> gets local_node_info;
     (record_status, failed_primary) \<leftarrow>
       on_session env conn (get_node_record (upstream_node_id local) node_info_init);
     if record_status \<noteq> RECORD_FOUND then ret (Inr FAILOVER_STATE_PROMOTION_FAILED)
     else do {
       r \<leftarrow> system_command env (opt_promote_command opts);
       or_exit (reopen_local_conn env) (\<lambda>ok.
         if \<not> ok then ret (Inr FAILOVER_STATE_LOCAL_NODE_FAILURE)
         else do {
           s \<leftarrow> (if r \<noteq> 0 then promotion_failed env failed_primary
                else promotion_done env failed_primary);
           ret (Inr s)
         })
     }
   }"

section \<open>Notifications\<close>

text \<open>The node records come back with the connections the function has opened.\<close>

fun notify_followers :: "env \<Rightarrow> node_info list \<Rightarrow> int \<Rightarrow> (daemon, node_info list) state" where
  "notify_followers env [] follow_node_id = ret []"
| "notify_followers env (cell # cells) follow_node_id = do {
     ok \<leftarrow> PQstatus_ok env (node_conn cell);
     cell \<leftarrow> (if ok then ret cell
       else do { conn \<leftarrow> establish_db_connection env (conninfo cell); ret (cell\<lparr>node_conn := conn\<rparr>) });
     ok \<leftarrow> PQstatus_ok env (node_conn cell);
     _ \<leftarrow> (if ok then notify_follow_primary_sql env (node_conn cell) follow_node_id else ret ());
     cells \<leftarrow> notify_followers env cells follow_node_id;
     ret (cell # cells)
   }"

text \<open>\<open>None\<close> when the timeout is over; \<open>n\<close> is the number of attempts that are left.\<close>

fun notification_loop :: "env \<Rightarrow> nat \<Rightarrow> (daemon, int option) state" where
  "notification_loop env 0 = ret None"
| "notification_loop env (Suc n) = do {
     conn \<leftarrow> gets local_conn;
     (found, new_primary_id) \<leftarrow> get_new_primary_sql env conn;
     if found then ret (Some new_primary_id)
     else do { _ \<leftarrow> sleep 1; notification_loop env n }
   }"

definition wait_primary_notification :: "env \<Rightarrow> (daemon, int option) state" where
  "wait_primary_notification env = do {
     opts \<leftarrow> gets config;
     r \<leftarrow> notification_loop env (nat (opt_primary_notification_timeout opts));
     (case r of
        Some n \<Rightarrow> ret (Some n)
      | None \<Rightarrow> do { _ \<leftarrow> enter_degraded env; ret None })
   }"

section \<open>Following another node\<close>

text \<open>The writing functions of \<open>Node_Records\<close> on a server's session, with their effect.\<close>

definition set_upstream_on :: "env \<Rightarrow> pgconn \<Rightarrow> int \<Rightarrow> int \<Rightarrow> (daemon, bool) state" where
  "set_upstream_on env conn n upstream = do {
     _ \<leftarrow> emit (Set_Upstream conn n upstream);
     on_session env conn (update_node_record_set_upstream n upstream)
   }"

definition set_active_on :: "env \<Rightarrow> pgconn \<Rightarrow> int \<Rightarrow> bool \<Rightarrow> (daemon, bool) state" where
  "set_active_on env conn n act = do {
     _ \<leftarrow> emit (Set_Active conn n act);
     on_session env conn (update_node_record_set_active n act)
   }"

definition set_standby_on :: "env \<Rightarrow> pgconn \<Rightarrow> int \<Rightarrow> (daemon, bool) state" where
  "set_standby_on env conn n = do {
     _ \<leftarrow> emit (Set_Standby conn n);
     on_session env conn (update_node_record_set_active_standby n)
   }"

definition set_primary_on :: "env \<Rightarrow> pgconn \<Rightarrow> int \<Rightarrow> (daemon, bool) state" where
  "set_primary_on env conn n = do {
     _ \<leftarrow> emit (Set_Primary conn n);
     on_session env conn (update_node_record_set_primary n)
   }"

definition copy_records_to :: "env \<Rightarrow> pgconn \<Rightarrow> pgconn \<Rightarrow> (daemon, bool) state" where
  "copy_records_to env primary witness = do {
     _ \<leftarrow> emit (Copied_Records primary witness);
     call (\<lambda>k. result (witness_copy_node_records (e_session env k primary)) (e_session env k witness))
   }"

text \<open>Waiting for the local server after a follow command; the last connection stays in \<open>local_conn\<close>.\<close>

fun startup_loop :: "env \<Rightarrow> nat \<Rightarrow> (daemon, unit) state" where
  "startup_loop env 0 = ret ()"
| "startup_loop env (Suc n) = do {
     info \<leftarrow> gets local_node_info;
     conn \<leftarrow> establish_db_connection env (conninfo info);
     _ \<leftarrow> modify (set_local_conn conn);
     ok \<leftarrow> PQstatus_ok env conn;
     if ok then ret () else do { _ \<leftarrow> sleep 1; startup_loop env n }
   }"

definition await_local_server :: "env \<Rightarrow> (daemon, bool) state" where
  "await_local_server env = do {
     opts \<leftarrow> gets config;
     _ \<leftarrow> startup_loop env (nat (opt_repmgrd_standby_startup_timeout opts));
     conn \<leftarrow> gets local_conn;
     PQstatus_ok env conn
   }"

definition refresh_shared_memory :: "env \<Rightarrow> (daemon, unit) state" where
  "refresh_shared_memory env = do {
     conn \<leftarrow> gets local_conn;
     opts \<leftarrow> gets config;
     pid \<leftarrow> gets own_pid;
     file \<leftarrow> gets pid_file;
     _ \<leftarrow> repmgrd_set_local_node_id env conn (opt_node_id opts);
     repmgrd_set_pid env conn pid (Some file)
   }"

definition close_local_conn :: "(daemon, unit) state" where
  "close_local_conn = do {
     conn \<leftarrow> gets local_conn;
     _ \<leftarrow> close_connection conn;
     modify (set_local_conn NULL_CONN)
   }"

definition close_upstream_conn :: "(daemon, unit) state" where
  "close_upstream_conn = do {
     conn \<leftarrow> gets upstream_conn;
     _ \<leftarrow> close_connection conn;
     modify (set_upstream_conn NULL_CONN)
   }"

definition close_primary_conn :: "(daemon, unit) state" where
  "close_primary_conn = do {
     conn \<leftarrow> gets primary_conn;
     _ \<leftarrow> close_connection conn;
     modify (set_primary_conn NULL_CONN)
   }"

text \<open>After a follow command that failed: did the original primary come back?\<close>

definition follow_command_failed :: "env \<Rightarrow> node_info \<Rightarrow> (daemon, failover_state) state" where
  "follow_command_failed env failed_primary = do {
     local \<leftarrow> gets local_node_info;
     old \<leftarrow> establish_db_connection env (conninfo failed_primary);
     ok \<leftarrow> PQstatus_ok env old;
     if \<not> ok then ret FAILOVER_STATE_FOLLOW_FAIL
     else do {
       rectype \<leftarrow> get_recovery_type env old;
       if rectype = RECTYPE_PRIMARY then do {
         _ \<leftarrow> create_event_notification env old (node_id local) ''repmgrd_failover_aborted'' True
           ''original primary reappeared - no action taken'';
         _ \<leftarrow> close_connection old;
         ret FAILOVER_STATE_PRIMARY_REAPPEARED
       }
       else do { _ \<leftarrow> close_connection old; ret FAILOVER_STATE_FOLLOW_FAIL }
     }
   }"

text \<open>
  The two node records are read again from the new primary. A record that is not found leaves the
  variable it was to be read into as \<open>get_node_record\<close> leaves it.
\<close>

definition refresh_records :: "env \<Rightarrow> int \<Rightarrow> (daemon, bool) state" where
  "refresh_records env new_primary_id = do {
     uconn \<leftarrow> gets upstream_conn;
     upstream \<leftarrow> gets upstream_node_info;
     (status, upstream) \<leftarrow> on_session env uconn (get_node_record new_primary_id upstream);
     _ \<leftarrow> modify (\<lambda>d. d\<lparr>upstream_node_info := upstream\<rparr>);
     if status \<noteq> RECORD_FOUND then ret False
     else do {
       local \<leftarrow> gets local_node_info;
       (status, local) \<leftarrow> on_session env uconn (get_node_record (node_id local) local);
       _ \<leftarrow> modify (\<lambda>d. d\<lparr>local_node_info := local\<rparr>);
       ret (status = RECORD_FOUND)
     }
   }"

definition followed_event :: "env \<Rightarrow> string \<Rightarrow> string \<Rightarrow> (daemon, unit) state" where
  "followed_event env before between = do {
     local \<leftarrow> gets local_node_info;
     upstream \<leftarrow> gets upstream_node_info;
     uconn \<leftarrow> gets upstream_conn;
     _ \<leftarrow> create_event_notification env uconn (node_id local) ''repmgrd_failover_follow'' True
       (before @ int_string (node_id local) @ between @ int_string (node_id upstream));
     ret ()
   }"

definition follow_command_done :: "env \<Rightarrow> int \<Rightarrow> (daemon, failover_state) state" where
  "follow_command_done env new_primary_id = do {
     ok \<leftarrow> refresh_records env new_primary_id;
     if \<not> ok then ret FAILOVER_STATE_FOLLOW_FAIL
     else do {
       ok \<leftarrow> await_local_server env;
       if \<not> ok then ret FAILOVER_STATE_FOLLOW_FAIL
       else do {
         _ \<leftarrow> refresh_shared_memory env;
         _ \<leftarrow> followed_event env ''node '' '' now following new upstream node '';
         ret FAILOVER_STATE_FOLLOWED_NEW_PRIMARY
       }
     }
   }"

text \<open>Connecting to the node that is said to be the new primary: is it up, and is it a primary?\<close>

definition connect_new_primary :: "env \<Rightarrow> node_info \<Rightarrow> (daemon, bool \<times> bool) state" where
  "connect_new_primary env new_primary = do {
     uconn \<leftarrow> establish_db_connection env (conninfo new_primary);
     _ \<leftarrow> modify (set_upstream_conn uconn);
     ok \<leftarrow> PQstatus_ok env uconn;
     if \<not> ok then ret (False, False)
     else do {
       rectype \<leftarrow> get_recovery_type env uconn;
       ret (True, rectype = RECTYPE_PRIMARY)
     }
   }"

definition follow_new_primary :: "env \<Rightarrow> int \<Rightarrow> (daemon, failover_state) state" where
  "follow_new_primary env new_primary_id = do {
     conn \<leftarrow> gets local_conn;
     (status, new_primary) \<leftarrow> on_session env conn (get_node_record new_primary_id node_info_init);
     if status \<noteq> RECORD_FOUND then ret FAILOVER_STATE_FOLLOW_FAIL
     else do {
       local \<leftarrow> gets local_node_info;
       (status, failed_primary) \<leftarrow> on_session env conn (get_node_record (upstream_node_id local) node_info_init);
       if status \<noteq> RECORD_FOUND then ret FAILOVER_STATE_FOLLOW_FAIL
       else do {
         (connected, is_primary) \<leftarrow> connect_new_primary env new_primary;
         if \<not> is_primary then do {
           _ \<leftarrow> (if connected then close_upstream_conn else ret ());
           ret FAILOVER_STATE_FOLLOW_FAIL
         }
         else do {
           _ \<leftarrow> close_local_conn;
           opts \<leftarrow> gets config;
           r \<leftarrow> system_command env (parse_follow_command (opt_follow_command opts) new_primary_id);
           if r \<noteq> 0 then follow_command_failed env failed_primary
           else follow_command_done env new_primary_id
         }
       }
     }
   }"

text \<open>A witness does not restart its server: it copies the node records of the new primary.\<close>

definition witness_follow_new_primary :: "env \<Rightarrow> int \<Rightarrow> (daemon, failover_state) state" where
  "witness_follow_new_primary env new_primary_id = do {
     conn \<leftarrow> gets local_conn;
     (status, new_primary) \<leftarrow> on_session env conn (get_node_record new_primary_id node_info_init);
     if status \<noteq> RECORD_FOUND then ret FAILOVER_STATE_FOLLOW_FAIL
     else do {
       (_, is_primary) \<leftarrow> connect_new_primary env new_primary;
       if \<not> is_primary then do { _ \<leftarrow> close_upstream_conn; ret FAILOVER_STATE_FOLLOW_FAIL }
       else do {
         uconn \<leftarrow> gets upstream_conn;
         local \<leftarrow> gets local_node_info;
         _ \<leftarrow> set_upstream_on env uconn (node_id local) new_primary_id;
         _ \<leftarrow> copy_records_to env uconn conn;
         ok \<leftarrow> refresh_records env new_primary_id;
         if \<not> ok then ret FAILOVER_STATE_FOLLOW_FAIL
         else do {
           _ \<leftarrow> followed_event env ''witness node '' '' now following new primary node '';
           ret FAILOVER_STATE_FOLLOWED_NEW_PRIMARY
         }
       }
     }
   }"

section \<open>Failover of the primary\<close>

text \<open>The siblings' WAL receivers: one round over the list, and the rounds; \<open>connected\<close> is never reset.\<close>

fun receiver_round :: "env \<Rightarrow> node_info list \<Rightarrow> bool \<Rightarrow> (daemon, node_info list \<times> bool) state" where
  "receiver_round env [] connected = ret ([], connected)"
| "receiver_round env (cell # cells) connected = do {
     cell \<leftarrow> (if node_conn cell = NULL_CONN
       then do { conn \<leftarrow> establish_db_connection env (conninfo cell); ret (cell\<lparr>node_conn := conn\<rparr>) }
       else ret cell);
     pid \<leftarrow> get_wal_receiver_pid_sql env (node_conn cell);
     (cells, connected) \<leftarrow> receiver_round env cells (connected \<or> pid > 0);
     ret (cell # cells, connected)
   }"

fun receiver_rounds :: "env \<Rightarrow> nat \<Rightarrow> node_info list \<Rightarrow> bool \<Rightarrow> (daemon, node_info list) state" where
  "receiver_rounds env 0 cells connected = ret cells"
| "receiver_rounds env (Suc n) cells connected = do {
     (cells, connected) \<leftarrow> receiver_round env cells connected;
     if \<not> connected then ret cells
     else do { _ \<leftarrow> sleep 1; receiver_rounds env n cells connected }
   }"

fun clear_node_info_list :: "env \<Rightarrow> node_info list \<Rightarrow> (daemon, unit) state" where
  "clear_node_info_list env [] = ret ()"
| "clear_node_info_list env (cell # cells) = do {
     ok \<leftarrow> PQstatus_ok env (node_conn cell);
     _ \<leftarrow> (if ok then close_connection (node_conn cell) else ret ());
     clear_node_info_list env cells
   }"

definition disconnect_wal_receivers :: "env \<Rightarrow> (daemon, unit) state" where
  "disconnect_wal_receivers env = do {
     conn \<leftarrow> gets local_conn;
     opts \<leftarrow> gets config;
     if e_version env conn < 90500 then ret ()
     else do {
       _ \<leftarrow> disable_wal_receiver env conn;
       local \<leftarrow> gets local_node_info;
       cells \<leftarrow> on_session env conn
         (get_active_sibling_node_records (node_id local) (upstream_node_id local));
       cells \<leftarrow> receiver_rounds env (nat (opt_sibling_nodes_disconnect_timeout opts)) cells False;
       clear_node_info_list env cells
     }
   }"

text \<open>What precedes the election.\<close>

definition failover_prologue :: "env \<Rightarrow> (daemon, unit) state" where
  "failover_prologue env = do {
     local \<leftarrow> gets local_node_info;
     _ \<leftarrow> check_connection env local local_conn (\<lambda>conn d. d\<lparr>local_conn := conn\<rparr>);
     opts \<leftarrow> gets config;
     if opt_standby_disconnect_on_failover opts then disconnect_wal_receivers env else ret ()
   }"

definition set_failover_state :: "failover_state \<Rightarrow> (daemon, unit) state" where
  "set_failover_state s = modify (\<lambda>d. d\<lparr>failover_state := s\<rparr>)"

text \<open>The virtual IP address of the primary (\<open>dbutils.c\<close>).\<close>

definition check_vip_conf :: "string \<Rightarrow> string \<Rightarrow> bool" where
  "check_vip_conf vip nic \<longleftrightarrow> vip \<noteq> [] \<and> nic \<noteq> []"

definition bind_virtual_ip :: "env \<Rightarrow> string \<Rightarrow> string \<Rightarrow> (daemon, bool) state" where
  "bind_virtual_ip env vip nic = do {
     root \<leftarrow> ask env;
     r \<leftarrow> system_command env ((if root then [] else ''sudo '') @ ''ip addr add '' @ vip @ '' dev '' @ nic);
     ret (r = 0)
   }"

definition unbind_virtual_ip :: "env \<Rightarrow> string \<Rightarrow> string \<Rightarrow> (daemon, bool) state" where
  "unbind_virtual_ip env vip nic = do {
     root \<leftarrow> ask env;
     r \<leftarrow> system_command env ((if root then [] else ''sudo '') @ ''ip addr del '' @ vip @ '' dev '' @ nic);
     ret (r = 0)
   }"

text \<open>
  What each result of the election leads to; the siblings come back with their connections.
\<close>

definition after_election ::
  "env \<Rightarrow> election_result \<Rightarrow> node_info list \<Rightarrow> (daemon, int + node_info list) state" where
  "after_election env election_result siblings =
     (case election_result of
        ELECTION_CANCELLED \<Rightarrow> do {
          _ \<leftarrow> set_failover_state FAILOVER_STATE_FOLLOW_NEW_PRIMARY;
          ret (Inr siblings)
        }
      | ELECTION_RERUN \<Rightarrow> do {
          siblings \<leftarrow> notify_followers env siblings ELECTION_RERUN_NOTIFICATION;
          _ \<leftarrow> set_failover_state FAILOVER_STATE_ELECTION_RERUN;
          ret (Inr siblings)
        }
      | ELECTION_WON \<Rightarrow>
          or_exit (promote_self env) (\<lambda>s. do {
            _ \<leftarrow> set_failover_state s;
            opts \<leftarrow> gets config;
            _ \<leftarrow> (if s = FAILOVER_STATE_PROMOTED \<and> check_vip_conf (opt_virtual_ip opts) (opt_network_card opts)
                 then bind_virtual_ip env (opt_virtual_ip opts) (opt_network_card opts) else ret False);
            ret (Inr siblings)
          })
      | _ \<Rightarrow> do {
          _ \<leftarrow> set_failover_state FAILOVER_STATE_WAITING_NEW_PRIMARY;
          ret (Inr siblings)
        })"

text \<open>The manual failover mode: the event is recorded with the new primary.\<close>

definition manual_disconnect :: "env \<Rightarrow> int \<Rightarrow> (daemon, unit) state" where
  "manual_disconnect env new_primary_id = do {
     conn \<leftarrow> gets local_conn;
     local \<leftarrow> gets local_node_info;
     (status, new_primary) \<leftarrow> on_session env conn (get_node_record new_primary_id node_info_init);
     if status \<noteq> RECORD_FOUND then ret ()
     else do {
       new_conn \<leftarrow> establish_db_connection env (conninfo new_primary);
       _ \<leftarrow> create_event_notification env new_conn (node_id local) ''standby_disconnect_manual'' True
         (''node '' @ int_string (node_id local) @
          '' is in manual failover mode and is now disconnected from streaming replication'');
       close_connection new_conn
     }
   }"

text \<open>A notification has arrived.\<close>

definition obey_notification ::
  "env \<Rightarrow> node_info list \<Rightarrow> int \<Rightarrow> (daemon, int + node_info list) state" where
  "obey_notification env siblings new_primary_id = do {
     upstream \<leftarrow> gets upstream_node_info;
     local \<leftarrow> gets local_node_info;
     opts \<leftarrow> gets config;
     if new_primary_id = node_id upstream then do {
       _ \<leftarrow> set_failover_state FAILOVER_STATE_FOLLOWING_ORIGINAL_PRIMARY;
       ret (Inr siblings)
     }
     else if new_primary_id = node_id local then
       or_exit (promote_self env) (\<lambda>s. do {
         _ \<leftarrow> set_failover_state s;
         conn \<leftarrow> gets local_conn;
         local \<leftarrow> gets local_node_info;
         upstream \<leftarrow> gets upstream_node_info;
         siblings \<leftarrow> on_session env conn (get_active_sibling_node_records (node_id local) (node_id upstream));
         ret (Inr siblings)
       })
     else if new_primary_id = ELECTION_RERUN_NOTIFICATION then do {
       _ \<leftarrow> set_failover_state FAILOVER_STATE_ELECTION_RERUN;
       ret (Inr siblings)
     }
     else if opt_failover opts = FAILOVER_MANUAL then do {
       _ \<leftarrow> manual_disconnect env new_primary_id;
       _ \<leftarrow> set_failover_state FAILOVER_STATE_REQUIRES_MANUAL_FAILOVER;
       ret (Inr siblings)
     }
     else do {
       s \<leftarrow> follow_new_primary env new_primary_id;
       _ \<leftarrow> set_failover_state s;
       ret (Inr siblings)
     }
   }"

text \<open>A node that knows its new primary follows it, a waiting node waits.\<close>

definition follow_or_wait ::
  "env \<Rightarrow> node_info list \<Rightarrow> int \<Rightarrow> (daemon, int + node_info list) state" where
  "follow_or_wait env siblings new_primary_id = do {
     s \<leftarrow> gets failover_state;
     if s = FAILOVER_STATE_FOLLOW_NEW_PRIMARY then do {
       s \<leftarrow> follow_new_primary env new_primary_id;
       _ \<leftarrow> set_failover_state s;
       ret (Inr siblings)
     }
     else if s = FAILOVER_STATE_WAITING_NEW_PRIMARY then do {
       r \<leftarrow> wait_primary_notification env;
       (case r of
          Some n \<Rightarrow> obey_notification env siblings n
        | None \<Rightarrow> do {
            _ \<leftarrow> set_failover_state FAILOVER_STATE_NO_NEW_PRIMARY;
            ret (Inr siblings)
          })
     }
     else ret (Inr siblings)
   }"

text \<open>The switch at the end of \<open>do_primary_failover\<close>: what the function answers.\<close>

definition conclude_failover :: "env \<Rightarrow> node_info list \<Rightarrow> (daemon, bool) state" where
  "conclude_failover env siblings = do {
     s \<leftarrow> gets failover_state;
     opts \<leftarrow> gets config;
     local \<leftarrow> gets local_node_info;
     upstream \<leftarrow> gets upstream_node_info;
     (siblings, final_result) \<leftarrow>
       (if s = FAILOVER_STATE_PROMOTED then do {
          siblings \<leftarrow> notify_followers env siblings (node_id local);
          _ \<leftarrow> set_failover_state FAILOVER_STATE_NONE;
          ret (siblings, True)
        }
        else if s = FAILOVER_STATE_ELECTION_RERUN then do {
          _ \<leftarrow> clear_node_info_list env siblings;
          _ \<leftarrow> sleep (opt_election_rerun_interval opts);
          _ \<leftarrow> modify (\<lambda>d. d\<lparr>upstream_node_info := (upstream_node_info d)\<lparr>node_status := NODE_STATUS_UP\<rparr>\<rparr>);
          _ \<leftarrow> set_failover_state FAILOVER_STATE_NONE;
          ret ([], False)
        }
        else if s = FAILOVER_STATE_PRIMARY_REAPPEARED then do {
          siblings \<leftarrow> notify_followers env siblings (node_id upstream);
          _ \<leftarrow> set_failover_state FAILOVER_STATE_NONE;
          ret (siblings, True)
        }
        else if s = FAILOVER_STATE_FOLLOWED_NEW_PRIMARY \<or> s = FAILOVER_STATE_FOLLOWING_ORIGINAL_PRIMARY then do {
          _ \<leftarrow> set_failover_state FAILOVER_STATE_NONE;
          ret (siblings, True)
        }
        else if s = FAILOVER_STATE_PROMOTION_FAILED \<or> s = FAILOVER_STATE_FOLLOW_FAIL
            \<or> s = FAILOVER_STATE_REQUIRES_MANUAL_FAILOVER then do {
          _ \<leftarrow> enter_degraded env;
          ret (siblings, False)
        }
        else ret (siblings, False));
     _ \<leftarrow> clear_node_info_list env siblings;
     ret final_result
   }"

text \<open>What \<open>do_primary_failover\<close> does after the election.\<close>

definition act_on_election ::
  "env \<Rightarrow> election_result \<Rightarrow> node_info list \<Rightarrow> int \<Rightarrow> (daemon, int + bool) state" where
  "act_on_election env election_result siblings new_primary_id = do {
     _ \<leftarrow> set_failover_state FAILOVER_STATE_UNKNOWN;
     opts \<leftarrow> gets config;
     conn \<leftarrow> gets local_conn;
     _ \<leftarrow> (if opt_standby_disconnect_on_failover opts then enable_wal_receiver env conn False else ret UNKNOWN_PID);
     if election_result = ELECTION_CANCELLED \<and> new_primary_id = UNKNOWN_NODE_ID then do {
       _ \<leftarrow> clear_node_info_list env siblings;
       ret (Inr False)
     }
     else
       or_exit (after_election env election_result siblings) (\<lambda>siblings.
         or_exit (follow_or_wait env siblings new_primary_id) (\<lambda>siblings. do {
           final_result \<leftarrow> conclude_failover env siblings;
           ret (Inr final_result)
         }))
   }"

definition do_primary_failover :: "env \<Rightarrow> (daemon, int + bool) state" where
  "do_primary_failover env = do {
     _ \<leftarrow> failover_prologue env;
     (election_result, siblings, new_primary_id) \<leftarrow> do_election env;
     act_on_election env election_result siblings new_primary_id
   }"

section \<open>Failover of an upstream standby\<close>

text \<open>
  After the follow command and the restart: the new upstream is recorded on the primary and the own
  record is read again. The exit is that of \<open>terminate(ERR_BAD_CONFIG)\<close>.
\<close>

definition attach_to_primary :: "env \<Rightarrow> node_info \<Rightarrow> (daemon, int + bool) state" where
  "attach_to_primary env primary = do {
     pconn \<leftarrow> gets primary_conn;
     local \<leftarrow> gets local_node_info;
     updated \<leftarrow> set_upstream_on env pconn (node_id local) (node_id primary);
     if \<not> updated then do {
       _ \<leftarrow> create_event_notification env NULL_CONN (node_id local) ''repmgrd_failover_follow'' False
         (''unable to set node '' @ int_string (node_id local) @ (CHR 0x27 # ''s new upstream ID to '') @
            int_string (node_id primary));
       code \<leftarrow> terminate env ERR_BAD_CONFIG;
       ret (Inl code)
     }
     else do {
       (status, local) \<leftarrow> on_session env pconn (get_node_record (node_id local) local);
       let local = (if status \<noteq> RECORD_FOUND then local\<lparr>upstream_node_id := node_id primary\<rparr> else local);
       _ \<leftarrow> modify (\<lambda>d. d\<lparr>local_node_info := local\<rparr>);
       _ \<leftarrow> create_event_notification env pconn (node_id local) ''repmgrd_failover_follow'' True
         (''node '' @ int_string (node_id local) @ '' is now following primary node '' @
            int_string (node_id primary));
       ret (Inr True)
     }
   }"

text \<open>
  The function's type is \<open>bool\<close>, so its \<open>return FAILOVER_STATE_FOLLOW_FAIL\<close> (a number that is not zero)
  answers \<open>true\<close>.
\<close>

definition follow_primary :: "env \<Rightarrow> node_info \<Rightarrow> (daemon, int + bool) state" where
  "follow_primary env primary = do {
     _ \<leftarrow> close_local_conn;
     opts \<leftarrow> gets config;
     r \<leftarrow> system_command env (parse_follow_command (opt_follow_command opts) (node_id primary));
     pconn \<leftarrow> gets primary_conn;
     local \<leftarrow> gets local_node_info;
     _ \<leftarrow> (if r \<noteq> 0 then
            create_event_notification env pconn (node_id local) ''repmgrd_failover_follow'' False
              (''unable to execute follow command:'' @ [CHR 0x0A, CHR 0x20] @ opt_follow_command opts)
          else ret False);
     ok \<leftarrow> await_local_server env;
     if \<not> ok then ret (Inr True)
     else do {
       _ \<leftarrow> refresh_shared_memory env;
       if r \<noteq> 0 then do { _ \<leftarrow> enter_degraded env; ret (Inr True) }
       else attach_to_primary env primary
     }
   }"

definition do_upstream_standby_failover :: "env \<Rightarrow> (daemon, int + bool) state" where
  "do_upstream_standby_failover env = do {
     _ \<leftarrow> close_upstream_conn;
     opts \<leftarrow> gets config;
     if opt_failover opts = FAILOVER_MANUAL then ret (Inr False)
     else do {
       conn \<leftarrow> gets local_conn;
       (found, primary) \<leftarrow> on_session env conn (get_primary_node_record node_info_init);
       if \<not> found then ret (Inr False)
       else do {
         _ \<leftarrow> check_connection env primary primary_conn (\<lambda>conn d. d\<lparr>primary_conn := conn\<rparr>);
         pconn \<leftarrow> gets primary_conn;
         ok \<leftarrow> PQstatus_ok env pconn;
         if \<not> ok then do {
           _ \<leftarrow> close_primary_conn;
           _ \<leftarrow> enter_degraded env;
           ret (Inr False)
         }
         else do {
           primary_type \<leftarrow> get_recovery_type env pconn;
           if primary_type \<noteq> RECTYPE_PRIMARY then do {
             _ \<leftarrow> close_primary_conn;
             _ \<leftarrow> enter_degraded env;
             ret (Inr False)
           }
           else follow_primary env primary
         }
       }
     }
   }"

section \<open>Failover seen from a witness\<close>

definition do_witness_failover :: "env \<Rightarrow> (daemon, bool) state" where
  "do_witness_failover env = do {
     _ \<leftarrow> set_failover_state FAILOVER_STATE_UNKNOWN;
     r \<leftarrow> wait_primary_notification env;
     upstream \<leftarrow> gets upstream_node_info;
     s \<leftarrow> (case r of
            None \<Rightarrow> ret FAILOVER_STATE_NO_NEW_PRIMARY
          | Some n \<Rightarrow>
              if n = node_id upstream then ret FAILOVER_STATE_FOLLOWING_ORIGINAL_PRIMARY
              else witness_follow_new_primary env n);
     _ \<leftarrow> set_failover_state s;
     if s = FAILOVER_STATE_PRIMARY_REAPPEARED \<or> s = FAILOVER_STATE_FOLLOWED_NEW_PRIMARY
        \<or> s = FAILOVER_STATE_FOLLOWING_ORIGINAL_PRIMARY then do {
       _ \<leftarrow> set_failover_state FAILOVER_STATE_NONE;
       ret True
     }
     else do { _ \<leftarrow> enter_degraded env; ret False }
   }"

section \<open>Names\<close>

definition print_election_result :: "election_result \<Rightarrow> string" where
  "print_election_result r =
     (case r of
        ELECTION_NOT_CANDIDATE \<Rightarrow> ''NOT CANDIDATE''
      | ELECTION_WON \<Rightarrow> ''WON''
      | ELECTION_LOST \<Rightarrow> ''LOST''
      | ELECTION_CANCELLED \<Rightarrow> ''CANCELLED''
      | ELECTION_RERUN \<Rightarrow> ''RERUN'')"

definition format_failover_state :: "failover_state \<Rightarrow> string" where
  "format_failover_state s =
     (case s of
        FAILOVER_STATE_UNKNOWN \<Rightarrow> ''UNKNOWN''
      | FAILOVER_STATE_NONE \<Rightarrow> ''NONE''
      | FAILOVER_STATE_PROMOTED \<Rightarrow> ''PROMOTED''
      | FAILOVER_STATE_PROMOTION_FAILED \<Rightarrow> ''PROMOTION_FAILED''
      | FAILOVER_STATE_PRIMARY_REAPPEARED \<Rightarrow> ''PRIMARY_REAPPEARED''
      | FAILOVER_STATE_LOCAL_NODE_FAILURE \<Rightarrow> ''LOCAL_NODE_FAILURE''
      | FAILOVER_STATE_WAITING_NEW_PRIMARY \<Rightarrow> ''WAITING_NEW_PRIMARY''
      | FAILOVER_STATE_FOLLOW_NEW_PRIMARY \<Rightarrow> ''FOLLOW_NEW_PRIMARY''
      | FAILOVER_STATE_REQUIRES_MANUAL_FAILOVER \<Rightarrow> ''REQUIRES_MANUAL_FAILOVER''
      | FAILOVER_STATE_FOLLOWED_NEW_PRIMARY \<Rightarrow> ''FOLLOWED_NEW_PRIMARY''
      | FAILOVER_STATE_FOLLOWING_ORIGINAL_PRIMARY \<Rightarrow> ''FOLLOWING_ORIGINAL_PRIMARY''
      | FAILOVER_STATE_NO_NEW_PRIMARY \<Rightarrow> ''NO_NEW_PRIMARY''
      | FAILOVER_STATE_FOLLOW_FAIL \<Rightarrow> ''FOLLOW_FAIL''
      | FAILOVER_STATE_NODE_NOTIFICATION_ERROR \<Rightarrow> ''NODE_NOTIFICATION_ERROR''
      | FAILOVER_STATE_ELECTION_RERUN \<Rightarrow> ''ELECTION_RERUN'')"

definition print_node_status :: "node_status \<Rightarrow> string" where
  "print_node_status s =
     (case s of
        NODE_STATUS_UNKNOWN \<Rightarrow> ''UNKNOWN''
      | NODE_STATUS_UP \<Rightarrow> ''UP''
      | NODE_STATUS_SHUTTING_DOWN \<Rightarrow> ''SHUTTING_DOWN''
      | NODE_STATUS_DOWN \<Rightarrow> ''SHUTDOWN''
      | NODE_STATUS_UNCLEAN_SHUTDOWN \<Rightarrow> ''UNCLEAN_SHUTDOWN''
      | NODE_STATUS_REJECTED \<Rightarrow> ''REJECTED'')"

section \<open>What the parts decide\<close>

lemma keeps_notify_followers [keeps]: "keeps_vars (notify_followers env cells n)"
  by (induction cells) (auto intro!: keeps)

lemma keeps_notification_loop [keeps]: "keeps_vars (notification_loop env n)"
  by (induction n) (auto intro!: keeps)

lemma keeps_receivers [keeps]:
  "keeps_vars (receiver_round env cells b)" "keeps_vars (clear_node_info_list env cells)"
  "keeps_vars (receiver_rounds env n cells b)"
proof -
  show round: "keeps_vars (receiver_round env cells b)" for cells b
    by (induction cells arbitrary: b) (auto intro!: keeps)
  show "keeps_vars (clear_node_info_list env cells)" by (induction cells) (auto intro!: keeps)
  show "keeps_vars (receiver_rounds env n cells b)"
    by (induction n arbitrary: cells b) (auto intro!: keeps round)
qed

lemma keeps_follow_parts [keeps]:
  "keeps_vars (follow_command_failed env info)" "keeps_vars (followed_event env s t)"
  "keeps_vars (refresh_shared_memory env)" "keeps_vars (set_upstream_on env conn n u)"
  "keeps_vars (copy_records_to env conn conn')" "keeps_vars (bind_virtual_ip env vip nic)"
  "keeps_vars (manual_disconnect env n)" "keeps_vars (disconnect_wal_receivers env)"
  unfolding follow_command_failed_def followed_event_def refresh_shared_memory_def set_upstream_on_def
    copy_records_to_def bind_virtual_ip_def manual_disconnect_def disconnect_wal_receivers_def
  by (intro keeps)+

lemma quiet_loops [quietly]:
  "quiet (notification_loop env n)" "quiet (startup_loop env n)" "quiet (clear_node_info_list env cells)"
proof -
  show "quiet (notification_loop env n)" by (induction n) (auto intro!: quietly)
  show "quiet (startup_loop env n)" by (induction n) (auto intro!: quietly)
  show "quiet (clear_node_info_list env cells)" by (induction cells) (auto intro!: quietly)
qed

lemma quiet_receiver_round [quietly]: "quiet (receiver_round env cells b)"
  by (induction cells arbitrary: b) (auto intro!: quietly)

lemma quiet_receiver_rounds [quietly]: "quiet (receiver_rounds env n cells b)"
  by (induction n arbitrary: cells b) (auto intro!: quietly)

lemma quiet_small_parts [quietly]:
  "quiet (reopen_local_conn env)" "quiet (promotion_failed env info)"
  "quiet (wait_primary_notification env)" "quiet (await_local_server env)"
  "quiet (refresh_shared_memory env)" "quiet close_local_conn" "quiet close_upstream_conn"
  "quiet close_primary_conn" "quiet (refresh_records env n)" "quiet (followed_event env s t)"
  "quiet (connect_new_primary env info)" "quiet (set_failover_state fs)"
  "quiet (bind_virtual_ip env vip nic)" "quiet (manual_disconnect env n)"
  "quiet (follow_command_failed env info)" "quiet (disconnect_wal_receivers env)"
  unfolding reopen_local_conn_def promotion_failed_def wait_primary_notification_def await_local_server_def
    refresh_shared_memory_def close_local_conn_def close_upstream_conn_def close_primary_conn_def
    refresh_records_def followed_event_def connect_new_primary_def set_failover_state_def
    bind_virtual_ip_def manual_disconnect_def follow_command_failed_def disconnect_wal_receivers_def
  by (intro quietly; simp)+

lemma quiet_follow [quietly]:
  "quiet (follow_command_done env n)" "quiet (follow_new_primary env n)" "quiet (failover_prologue env)"
  unfolding follow_command_done_def follow_new_primary_def failover_prologue_def
  by (intro quietly; simp)+

end
