(* ===== verification/Failover_Safety.thy ===== *)
theory Failover_Safety
  imports Failover
begin

text \<open>
  What a failover does to the cluster, whatever the servers answer: which notifications it sends, when
  it increments the electoral term, how long it waits, and what it answers its caller.
\<close>

section \<open>Runs of the parts\<close>


lemma promotion_failed_not_promoted:
  "runs decisive (promotion_failed env info) d (\<lambda>s es d'. es = [] \<and>
     (s = FAILOVER_STATE_PRIMARY_REAPPEARED \<or> s = FAILOVER_STATE_PROMOTION_FAILED) \<and>
     upstream_node_info d' = upstream_node_info d \<and> failover_state d' = failover_state d)"
  unfolding promotion_failed_def by (intro running; auto dest!: vars_fields)

lemma promotion_done_increments:
  "runs decisive (promotion_done env info) d (\<lambda>s es d'. es = [Incremented_Term (local_conn d)] \<and>
     s = FAILOVER_STATE_PROMOTED \<and>
     upstream_node_info d' = upstream_node_info d \<and> failover_state d' = failover_state d)"
  unfolding promotion_done_def increment_current_term_def by (intro running; auto dest!: vars_fields)

lemma reopen_local:
  "runs decisive (reopen_local_conn env) d (\<lambda>r es d'. es = [] \<and>
     upstream_node_info d' = upstream_node_info d \<and> failover_state d' = failover_state d)"
  unfolding reopen_local_conn_def by (intro running; auto dest!: vars_fields)

lemma promote_self_run:
  "runs decisive (promote_self env) d (\<lambda>r es d'.
     (if r = Inr FAILOVER_STATE_PROMOTED then \<exists>c. es = [Incremented_Term c] else es = []) \<and>
     (\<forall>s. r = Inr s \<longrightarrow> s = FAILOVER_STATE_PROMOTED \<or> s = FAILOVER_STATE_PROMOTION_FAILED \<or>
        s = FAILOVER_STATE_PRIMARY_REAPPEARED \<or> s = FAILOVER_STATE_LOCAL_NODE_FAILURE) \<and>
     upstream_node_info d' = upstream_node_info d \<and> failover_state d' = failover_state d)"
  unfolding promote_self_def
  by (intro running runs_mono [OF reopen_local] runs_mono [OF promotion_failed_not_promoted]
      runs_mono [OF promotion_done_increments]; auto dest!: vars_fields)

lemma follow_command_failed_run:
  "runs decisive (follow_command_failed env info) d (\<lambda>s es d'. es = [] \<and>
     (s = FAILOVER_STATE_FOLLOW_FAIL \<or> s = FAILOVER_STATE_PRIMARY_REAPPEARED) \<and> vars d' = vars d)"
  unfolding follow_command_failed_def by (intro running; auto)

lemma follow_command_done_run:
  "runs decisive (follow_command_done env n) d (\<lambda>s es d'. es = [] \<and>
     (s = FAILOVER_STATE_FOLLOW_FAIL \<or> s = FAILOVER_STATE_FOLLOWED_NEW_PRIMARY))"
proof -
  have "returns (follow_command_done env n) (\<lambda>s. s = FAILOVER_STATE_FOLLOW_FAIL \<or> s = FAILOVER_STATE_FOLLOWED_NEW_PRIMARY)"
    unfolding follow_command_done_def by (intro rets) auto
  then show ?thesis
    using quiet_follow(1) [of env n] by (auto simp: runs_def yields_def returns_def)
qed

lemma follow_new_primary_run:
  "runs decisive (follow_new_primary env n) d (\<lambda>s es d'. es = [] \<and>
     (s = FAILOVER_STATE_FOLLOW_FAIL \<or> s = FAILOVER_STATE_FOLLOWED_NEW_PRIMARY \<or>
      s = FAILOVER_STATE_PRIMARY_REAPPEARED \<and> upstream_node_info d' = upstream_node_info d))"
  unfolding follow_new_primary_def connect_new_primary_def close_upstream_conn_def close_local_conn_def
  by (intro running runs_mono [OF follow_command_failed_run] runs_mono [OF follow_command_done_run];
      auto dest!: vars_fields)

text \<open>Every effect is a notification with the id \<open>n\<close>.\<close>

definition told :: "int \<Rightarrow> effect list \<Rightarrow> bool" where
  "told n es \<longleftrightarrow> (\<forall>e \<in> set es. \<exists>c. e = Notified c n)"

lemma told_simps [simp]: "told n []" "told n (e # es) \<longleftrightarrow> (\<exists>c. e = Notified c n) \<and> told n es"
  "told n (es @ es') \<longleftrightarrow> told n es \<and> told n es'"
  by (auto simp: told_def)

lemma notify_followers_run:
  "runs decisive (notify_followers env cells n) d (\<lambda>cells' es d'.
     subseq es (map (\<lambda>c. Notified (node_conn c) n) cells') \<and> map conninfo cells' = map conninfo cells \<and>
     told n es \<and> vars d' = vars d)"
proof (induction cells arbitrary: d)
  case Nil
  show ?case unfolding notify_followers.simps by (intro running) auto
next
  case (Cons cell cells)
  show ?case
    unfolding notify_followers.simps notify_follow_primary_sql_def
    by (intro running runs_mono [OF Cons.IH]; auto)
qed

lemmas runs_parts [running] =
  quiet_loops(3) [THEN runs_quiet, OF keeps_receivers(2)]
  quiet_small_parts(13) [THEN runs_quiet, OF keeps_follow_parts(6)]
  quiet_small_parts(14) [THEN runs_quiet, OF keeps_follow_parts(7)]

lemma conclude_failover_run:
  "runs decisive (conclude_failover env siblings) d (\<lambda>r es d'.
     (if failover_state d = FAILOVER_STATE_PROMOTED then told (node_id (local_node_info d)) es
      else if failover_state d = FAILOVER_STATE_PRIMARY_REAPPEARED
      then told (node_id (upstream_node_info d)) es
      else es = []) \<and> local_node_info d' = local_node_info d)"
  unfolding conclude_failover_def enter_degraded_def gettimeofday_def set_failover_state_def
  by (intro running runs_mono [OF notify_followers_run]; auto dest!: vars_fields)

lemma wait_primary_notification_run:
  "runs decisive (wait_primary_notification env) d (\<lambda>r es d'. es = [] \<and>
     upstream_node_info d' = upstream_node_info d \<and> failover_state d' = failover_state d)"
  unfolding wait_primary_notification_def enter_degraded_def gettimeofday_def
  by (intro running runs_quiet [OF quiet_loops(1) keeps_notification_loop]; auto dest!: vars_fields)

text \<open>
  \<open>shape r up es d\<close>: after an election that ended with \<open>r\<close>, the effects \<open>es\<close> and the state \<open>d\<close> before
  the conclusion.
\<close>

definition shape :: "election_result \<Rightarrow> node_info \<Rightarrow> effect list \<Rightarrow> daemon \<Rightarrow> bool" where
  "shape r up es d \<longleftrightarrow>
     (if failover_state d = FAILOVER_STATE_PROMOTED then
        (\<exists>c. es = [Incremented_Term c]) \<and> r \<noteq> ELECTION_CANCELLED \<and> r \<noteq> ELECTION_RERUN
      else if failover_state d = FAILOVER_STATE_ELECTION_RERUN then
        es = [] \<or> r = ELECTION_RERUN \<and> told ELECTION_RERUN_NOTIFICATION es
      else es = [] \<and> (failover_state d = FAILOVER_STATE_PRIMARY_REAPPEARED \<longrightarrow> upstream_node_info d = up))"

lemma after_election_run:
  "runs decisive (after_election env r siblings) d (\<lambda>res es d'. case res of
       Inl code \<Rightarrow> es = []
     | Inr sibs \<Rightarrow> shape r (upstream_node_info d) es d' \<and> upstream_node_info d' = upstream_node_info d \<and>
        (failover_state d' = FAILOVER_STATE_WAITING_NEW_PRIMARY \<longrightarrow>
           r = ELECTION_LOST \<or> r = ELECTION_NOT_CANDIDATE))"
proof (cases r)
  case ELECTION_WON
  then show ?thesis
    unfolding after_election_def set_failover_state_def
    by (simp, intro running runs_mono [OF promote_self_run]; auto simp: shape_def dest!: vars_fields split: if_splits)
next
  case ELECTION_RERUN
  then show ?thesis
    unfolding after_election_def set_failover_state_def
    by (simp, intro running runs_mono [OF notify_followers_run]; auto simp: shape_def dest!: vars_fields)
qed (unfold after_election_def set_failover_state_def, simp_all, (intro running; simp add: shape_def)+)

lemma obey_notification_run:
  "r = ELECTION_LOST \<or> r = ELECTION_NOT_CANDIDATE \<Longrightarrow>
   runs decisive (obey_notification env siblings n) d (\<lambda>res es d'. case res of
       Inl code \<Rightarrow> es = []
     | Inr sibs \<Rightarrow> shape r (upstream_node_info d) es d')"
  unfolding obey_notification_def set_failover_state_def
  by (intro running runs_mono [OF promote_self_run] runs_mono [OF follow_new_primary_run];
      auto simp: shape_def dest!: vars_fields split: if_splits)

lemma follow_or_wait_run:
  assumes "shape r up es d" and "upstream_node_info d = up"
    and "failover_state d = FAILOVER_STATE_WAITING_NEW_PRIMARY \<longrightarrow> r = ELECTION_LOST \<or> r = ELECTION_NOT_CANDIDATE"
  shows "runs decisive (follow_or_wait env siblings n) d (\<lambda>res es' d'. case res of
       Inl code \<Rightarrow> es @ es' = []
     | Inr sibs \<Rightarrow> shape r up (es @ es') d')"
proof (cases "failover_state d = FAILOVER_STATE_WAITING_NEW_PRIMARY")
  case True
  then show ?thesis
    using assms unfolding follow_or_wait_def set_failover_state_def
    by (intro running runs_mono [OF wait_primary_notification_run] runs_mono [OF obey_notification_run [of r]])
       (auto simp: shape_def dest!: vars_fields split: sum.splits)
next
  case False
  with assms show ?thesis
    unfolding follow_or_wait_def set_failover_state_def
    by (intro running runs_mono [OF follow_new_primary_run])
       (auto simp: shape_def dest!: vars_fields split: sum.splits)
qed

lemma prologue_keeps_upstream:
  "upstream_node_info (final (failover_prologue env) d) = upstream_node_info d"
  unfolding failover_prologue_def check_connection_def
  by (rule preservesD) (intro preserving preserves_upstream [OF keeps_follow_parts(8)]; simp)

lemma do_election_keeps_upstream:
  "upstream_node_info (final (do_election env) d) = upstream_node_info d"
  unfolding do_election_def election_local_lsn_def election_count_def election_verdict_def
    execute_failover_validation_command_def enter_degraded_def reset_node_voting_status_def
  by (rule preservesD) (intro preserving; simp)

text \<open>What a failover tells the cluster, by the result of the election.\<close>

definition one_voice :: "election_result \<Rightarrow> node_info \<Rightarrow> node_info \<Rightarrow> effect list \<Rightarrow> bool" where
  "one_voice r up own es \<longleftrightarrow>
     (\<exists>c es'. es = Incremented_Term c # es' \<and> told (node_id own) es' \<and>
        r \<noteq> ELECTION_CANCELLED \<and> r \<noteq> ELECTION_RERUN) \<or>
     r = ELECTION_RERUN \<and> told ELECTION_RERUN_NOTIFICATION es \<or>
     told (node_id up) es"

lemma one_voice_Nil [simp]: "one_voice r up own []"
  by (simp add: one_voice_def)

lemma vars_upstream: "vars d' = vars d \<Longrightarrow> upstream_node_info d' = upstream_node_info d"
  by (metis vars_simps(3))

lemma conclude_shape:
  assumes "shape r up es d"
  shows "runs decisive (conclude_failover env siblings) d
     (\<lambda>res es' d'. one_voice r up (local_node_info d') (es @ es'))"
  by (rule runs_mono [OF conclude_failover_run])
     (use assms in \<open>auto simp: shape_def one_voice_def split: if_splits\<close>)

text \<open>
  What holds of a failover when it holds of an exit without an effect, of a failover that is given up,
  and of the conclusion after every state that an election with the result \<open>r\<close> can lead to.
\<close>

definition concluding :: "env \<Rightarrow> election_result \<Rightarrow> node_info \<Rightarrow> (int + bool \<Rightarrow> effect list \<Rightarrow> daemon \<Rightarrow> bool) \<Rightarrow> bool" where
  "concluding env r up R \<longleftrightarrow>
     (\<forall>c d. R (Inl c) [] d) \<and> (\<forall>d. R (Inr False) [] d) \<and>
     (\<forall>siblings es d. shape r up es d \<longrightarrow>
        runs decisive (conclude_failover env siblings) d (\<lambda>res es' d'. R (Inr res) (es @ es') d'))"

lemma follow_then_conclude_run:
  assumes R: "concluding env r up R"
    and "shape r up es d" and "upstream_node_info d = up"
    and "failover_state d = FAILOVER_STATE_WAITING_NEW_PRIMARY \<longrightarrow> r = ELECTION_LOST \<or> r = ELECTION_NOT_CANDIDATE"
  shows "runs decisive (or_exit (follow_or_wait env siblings n) (\<lambda>siblings. do {
      final_result \<leftarrow> conclude_failover env siblings; ret (Inr final_result) })) d
     (\<lambda>res es' d'. R res (es @ es') d')"
proof (rule runs_or_exit, rule runs_mono [OF follow_or_wait_run [OF assms(2-4)]], rule sum_cases)
  fix x :: "int + node_info list" and es' d' sibs
  assume "case x of Inl code \<Rightarrow> es @ es' = [] | Inr sibs \<Rightarrow> shape r up (es @ es') d'" and "x = Inr sibs"
  then have "shape r up (es @ es') d'" by simp
  note conclude = R [unfolded concluding_def, THEN conjunct2, THEN conjunct2, rule_format, OF this]
  show "runs decisive (do { final_result \<leftarrow> conclude_failover env sibs; ret (Inr final_result) }) d'
      (\<lambda>y es'' d''. R y (es @ es' @ es'') d'')"
    by (intro runs_bind runs_mono [OF conclude] runs_ret) simp
qed (use R in \<open>simp add: concluding_def\<close>)

lemma act_then_follow_run:
  assumes R: "concluding env r (upstream_node_info d) R"
  shows "runs decisive (or_exit (after_election env r siblings) (\<lambda>siblings.
      or_exit (follow_or_wait env siblings n) (\<lambda>siblings. do {
        final_result \<leftarrow> conclude_failover env siblings; ret (Inr final_result) }))) d R"
proof (rule runs_or_exit, rule runs_mono [OF after_election_run], rule sum_cases)
  fix x :: "int + node_info list" and es d' sibs
  assume "case x of Inl code \<Rightarrow> es = []
     | Inr sibs \<Rightarrow> shape r (upstream_node_info d) es d' \<and> upstream_node_info d' = upstream_node_info d \<and>
        (failover_state d' = FAILOVER_STATE_WAITING_NEW_PRIMARY \<longrightarrow>
           r = ELECTION_LOST \<or> r = ELECTION_NOT_CANDIDATE)" and "x = Inr sibs"
  then show "runs decisive (or_exit (follow_or_wait env sibs n) (\<lambda>siblings. do {
        final_result \<leftarrow> conclude_failover env siblings; ret (Inr final_result) })) d'
      (\<lambda>res es' d''. R res (es @ es') d'')"
    by (intro follow_then_conclude_run [OF R]) simp_all
qed (use R in \<open>simp add: concluding_def\<close>)

lemma act_on_election_run:
  assumes R: "concluding env r (upstream_node_info d) R"
  shows "runs decisive (act_on_election env r siblings n) d R"
proof -
  have "concluding env r (upstream_node_info d') R" if "upstream_node_info d' = upstream_node_info d" for d'
    using R that by simp
  note act = act_then_follow_run [OF this]
  show ?thesis
    unfolding act_on_election_def set_failover_state_def
    by (intro runs_bind runs_updates(6) runs_gets runs_if runs_ret runs_leaves runs_parts runs_mono [OF act])
       (use R in \<open>auto simp: concluding_def dest!: vars_upstream\<close>)
qed

lemma do_primary_failover_run:
  assumes R: "\<And>r. r = fst (result (do_election env) (final (failover_prologue env) d)) \<Longrightarrow>
    concluding env r (upstream_node_info d) R"
  shows "runs decisive (do_primary_failover env) d R"
proof -
  let ?d1 = "final (failover_prologue env) d"
  obtain r siblings n where e: "result (do_election env) ?d1 = (r, siblings, n)"
    by (metis prod_cases3)
  with R [of r] have "concluding env r (upstream_node_info (final (do_election env) ?d1)) R"
    by (simp add: prologue_keeps_upstream do_election_keeps_upstream)
  note act = act_on_election_run [OF this]
  show ?thesis
    unfolding do_primary_failover_def
    by (rule runs_bind, rule runs_quiet_final [OF quiet_follow(3)],
        rule runs_bind, rule runs_quiet_final [OF quiet_do_election], unfold e prod.case,
        rule runs_mono [OF act]) simp
qed

lemma concluding_one_voice:
  "concluding env r up (\<lambda>res es d'. one_voice r up (local_node_info d') es)"
  by (simp add: concluding_def conclude_shape)

section \<open>Properties\<close>

text \<open>
  C3: a failover of the primary tells the cluster one thing. Either it increments the electoral term
  once, before it sends any notification, and every notification names the local node, and then
  the election was neither cancelled nor to be rerun; or the election is to be rerun and every
  notification says so; or every notification names the old primary.
\<close>

theorem failover_one_voice:
  "let (r, siblings, n) = result (do_election env) (final (failover_prologue env) d);
       d' = final (do_primary_failover env) d;
       es = filter decisive (added (do_primary_failover env) d)
   in (\<exists>c es'. es = Incremented_Term c # es' \<and> told (node_id (local_node_info d')) es' \<and>
         r \<noteq> ELECTION_CANCELLED \<and> r \<noteq> ELECTION_RERUN) \<or>
      r = ELECTION_RERUN \<and> told ELECTION_RERUN_NOTIFICATION es \<or>
      told (node_id (upstream_node_info d)) es"
proof -
  let ?e = "result (do_election env) (final (failover_prologue env) d)"
  have "runs decisive (do_primary_failover env) d
      (\<lambda>res es d'. one_voice (fst ?e) (upstream_node_info d) (local_node_info d') es)"
    by (intro do_primary_failover_run) (simp add: concluding_one_voice)
  from runsD [OF this] show ?thesis by (simp add: case_prod_unfold one_voice_def)
qed

lemma connects:
  assumes "\<forall>k c. e_status env k c" and "\<forall>s. e_parse env s \<noteq> None"
  shows "result (establish_db_connection env s) d \<noteq> NULL_CONN"
  using assms
  by (auto simp: establish_db_connection_def establish_db_connection_exit_def PQstatus_ok_def
      case_prod_unfold Let_def split: option.splits)

lemma notify_followers_all:
  assumes "\<forall>k c. e_status env k c" and "\<forall>s. e_parse env s \<noteq> None"
  shows "runs decisive (notify_followers env cells n) d (\<lambda>cells' es d'.
     es = map (\<lambda>c. Notified (node_conn c) n) cells')"
proof (induction cells arbitrary: d)
  case Nil
  show ?case unfolding notify_followers.simps by (intro running) simp
next
  case (Cons cell cells)
  have status: "runs decisive (PQstatus_ok env conn) d Q" if "Q (conn \<noteq> NULL_CONN) [] d" for conn d Q
    unfolding PQstatus_ok_def by (intro running) (use assms(1) that in simp)
  have connect: "runs decisive (establish_db_connection env s) d Q"
    if "\<And>c d'. c \<noteq> NULL_CONN \<Longrightarrow> Q c [] d'" for s d Q
    by (rule runs_quiet_final [OF quiet_connect(4)]) (use that connects [OF assms] in blast)
  show ?case
    unfolding notify_followers.simps notify_follow_primary_sql_def
    by (intro runs_bind status runs_if connect runs_ret runs_emit runs_leaves runs_mono [OF Cons.IH]) auto
qed

text \<open>
  \<open>notify_followers\<close> sends its notification to every node of the list, once and in the order of
  the list, when every server can be connected to; otherwise it leaves nodes out and changes nothing
  else.
\<close>

theorem notify_followers_complete:
  assumes "\<forall>k c. e_status env k c" and "\<forall>s. e_parse env s \<noteq> None"
  shows "let es = filter decisive (added (notify_followers env cells n) d);
             cells' = result (notify_followers env cells n) d;
             es2 = filter decisive (added (notify_followers env2 cells n) d);
             cells2 = result (notify_followers env2 cells n) d
         in es = map (\<lambda>c. Notified (node_conn c) n) cells' \<and> map conninfo cells' = map conninfo cells \<and>
            subseq es2 (map (\<lambda>c. Notified (node_conn c) n) cells2)"
  using runsD [OF notify_followers_all [OF assms]] runsD [OF notify_followers_run]
  by (auto simp: Let_def)


lemma notify_followers_complete_witness:
  "\<exists>c c'. filter decisive (added (notify_followers (example_env ''0/1'' ''0/1'')
       [node_info_init\<lparr>node_id := 3\<rparr>, node_info_init\<lparr>node_id := 4\<rparr>] 2) (example_daemon 2)) =
     [Notified c 2, Notified c' 2]"
proof -
  have env: "\<forall>k c. e_status (example_env ''0/1'' ''0/1'') k c"
    "\<forall>s. e_parse (example_env ''0/1'' ''0/1'') s \<noteq> None"
    by (simp_all add: example_env_def)
  have two: "\<exists>a b. result (notify_followers (example_env ''0/1'' ''0/1'')
      [node_info_init\<lparr>node_id := 3\<rparr>, node_info_init\<lparr>node_id := 4\<rparr>] 2) (example_daemon 2) = [a, b]"
    by (simp add: case_prod_unfold)
  show ?thesis
    using notify_followers_complete [OF env,
        of "[node_info_init\<lparr>node_id := 3\<rparr>, node_info_init\<lparr>node_id := 4\<rparr>]" 2 "example_daemon 2" "example_env ''0/1'' ''0/1''"] two
    by (auto simp: Let_def)
qed

lemma notification_loop_run:
  "runs is_sleep (notification_loop env n) d (\<lambda>r es d'. vars d' = vars d \<and>
     (case r of None \<Rightarrow> es = replicate n (Slept 1)
      | Some m \<Rightarrow> m \<noteq> UNKNOWN_NODE_ID \<and> (\<exists>k < n. es = replicate k (Slept 1))))"
proof (induction n arbitrary: d)
  case 0
  show ?case unfolding notification_loop.simps by (intro running) simp
next
  case (Suc n)
  show ?case
    unfolding notification_loop.simps get_new_primary_sql_def query_int_def PQexec_def sleep_def
    by (intro running runs_mono [OF Suc.IH]; auto split: option.splits)
qed

text \<open>
  Waiting for a notification ends: it sleeps at most \<open>primary_notification_timeout\<close> seconds, exactly
  that long when nothing arrives, and then monitoring is degraded; a notification is never the
  unknown node and leaves the monitoring state alone.
\<close>

theorem wait_primary_notification_bounded:
  "let timeout = nat (opt_primary_notification_timeout (config d));
       d' = final (wait_primary_notification env) d;
       sleeps = filter is_sleep (added (wait_primary_notification env) d)
   in (case result (wait_primary_notification env) d of
         None \<Rightarrow> sleeps = replicate timeout (Slept 1) \<and> monitoring_state d' = MS_DEGRADED
       | Some n \<Rightarrow> n \<noteq> UNKNOWN_NODE_ID \<and> (\<exists>k < timeout. sleeps = replicate k (Slept 1)) \<and>
           monitoring_state d' = monitoring_state d)"
proof -
  have "runs is_sleep (wait_primary_notification env) d (\<lambda>r es d'.
     let timeout = nat (opt_primary_notification_timeout (config d))
     in (case r of
         None \<Rightarrow> es = replicate timeout (Slept 1) \<and> monitoring_state d' = MS_DEGRADED
       | Some n \<Rightarrow> n \<noteq> UNKNOWN_NODE_ID \<and> (\<exists>k < timeout. es = replicate k (Slept 1)) \<and>
           monitoring_state d' = monitoring_state d))"
    unfolding wait_primary_notification_def enter_degraded_def gettimeofday_def
    by (intro running runs_mono [OF notification_loop_run]; auto simp: Let_def dest!: vars_fields)
  from runsD [OF this] show ?thesis by (simp add: Let_def)
qed

lemma returns_exit_code:
  "returns m (\<lambda>r. \<forall>c. r = Inl c \<longrightarrow> Q (Inl c)) \<Longrightarrow> (\<And>x. returns (f x) Q) \<Longrightarrow> returns (or_exit m f) Q"
  unfolding or_exit_def
  by (erule returns_bind) (auto simp: returns_def split: sum.splits)

lemma establish_exit_code:
  "returns (establish_db_connection_exit env s b) (\<lambda>r. \<forall>c. r = Inl c \<longrightarrow> c = ERR_DB_CONN)"
  unfolding establish_db_connection_exit_def by (intro rets) auto

lemma promote_self_exit: "returns (promote_self env) (\<lambda>r. \<forall>c. r = Inl c \<longrightarrow> c = ERR_DB_CONN)"
  unfolding promote_self_def reopen_local_conn_def
  by (intro rets returns_exit_code returns_bind [OF establish_exit_code]; simp add: establish_exit_code)

text \<open>
  \<open>promote_self\<close> increments the electoral term exactly when it answers that the node was promoted,
  and it decides nothing else about the cluster; the monitoring code's states are kept.
\<close>

theorem promote_self_increments:
  "let r = result (promote_self env) d; es = filter decisive (added (promote_self env) d)
   in (r = Inr FAILOVER_STATE_PROMOTED \<longleftrightarrow> (\<exists>c. es = [Incremented_Term c])) \<and>
      (r \<noteq> Inr FAILOVER_STATE_PROMOTED \<longleftrightarrow> es = []) \<and>
      (case r of Inl code \<Rightarrow> code = ERR_DB_CONN
       | Inr s \<Rightarrow> s \<in> {FAILOVER_STATE_PROMOTED, FAILOVER_STATE_PROMOTION_FAILED,
           FAILOVER_STATE_PRIMARY_REAPPEARED, FAILOVER_STATE_LOCAL_NODE_FAILURE})"
proof -
  from returnsD [OF promote_self_exit, of env d] runsD [OF promote_self_run, of env d] show ?thesis
    by (auto simp: Let_def split: sum.splits if_splits)
qed


lemma await_local_server_quiet_result:
  "runs decisive (await_local_server env) d (\<lambda>_ es d'. es = [])"
  by (rule runs_quietly [OF quiet_small_parts(4)]) simp



lemma get_node_record_unknown:
  assumes "n \<notin> row_node_id ` set (db_rows db)"
  shows "fst (result (get_node_record n info) db) \<noteq> RECORD_FOUND"
proof -
  have "filter (\<lambda>r. row_node_id r = n) (db_rows db) = []"
    using assms by (auto simp: filter_empty_conv)
  then show ?thesis
    by (simp add: get_node_record_def get_node_record_where_def rows_with_id_def sql_query_def)
qed

lemma runs_unknown_node:
  assumes "\<forall>k c. n \<notin> row_node_id ` set (db_rows (e_session env k c))"
    and "\<And>status info d'. status \<noteq> RECORD_FOUND \<Longrightarrow> Q (status, info) [] d'"
  shows "runs decisive (on_session env conn (get_node_record n info)) d Q"
proof (rule runs_quiet_final [OF quiet_world(3)])
  let ?r = "result (on_session env conn (get_node_record n info)) d"
  have "fst ?r \<noteq> RECORD_FOUND"
    using get_node_record_unknown assms(1) by (simp add: on_session_def)
  from assms(2) [OF this, of "snd ?r"]
  show "Q ?r [] (final (on_session env conn (get_node_record n info)) d)" by (simp only: prod.collapse)
qed

lemma witness_follow_unknown:
  assumes "\<forall>k c. n \<notin> row_node_id ` set (db_rows (e_session env k c))"
  shows "runs decisive (witness_follow_new_primary env n) d (\<lambda>s es d'. s = FAILOVER_STATE_FOLLOW_FAIL)"
  unfolding witness_follow_new_primary_def
  by (intro runs_bind runs_gets runs_unknown_node [OF assms] runs_prod runs_if runs_ret; simp)

text \<open>
  C9: a witness takes the notification to rerun an election, which a candidate sends to every sibling,
  for the id of a node: it fails to find it, and goes on in degraded monitoring.
\<close>

theorem witness_misreads_rerun:
  assumes "result (wait_primary_notification env) (d\<lparr>failover_state := FAILOVER_STATE_UNKNOWN\<rparr>) =
      Some ELECTION_RERUN_NOTIFICATION"
    and "\<forall>k c. ELECTION_RERUN_NOTIFICATION \<notin> row_node_id ` set (db_rows (e_session env k c))"
    and "node_id (upstream_node_info d) \<noteq> ELECTION_RERUN_NOTIFICATION"
  shows "result (do_witness_failover env) d = False \<and>
    monitoring_state (final (do_witness_failover env) d) = MS_DEGRADED \<and>
    failover_state (final (do_witness_failover env) d) = FAILOVER_STATE_FOLLOW_FAIL"
proof -
  let ?d0 = "d\<lparr>failover_state := FAILOVER_STATE_UNKNOWN\<rparr>"
  have wait: "runs decisive (wait_primary_notification env) ?d0
      (\<lambda>r es d'. r = Some ELECTION_RERUN_NOTIFICATION \<and> upstream_node_info d' = upstream_node_info d)"
    using wait_primary_notification_run [of env ?d0] assms(1) unfolding runs_def by auto
  have "runs decisive (do_witness_failover env) d (\<lambda>r es d'. r = False \<and>
      monitoring_state d' = MS_DEGRADED \<and> failover_state d' = FAILOVER_STATE_FOLLOW_FAIL)"
    unfolding do_witness_failover_def set_failover_state_def enter_degraded_def gettimeofday_def
    by (intro runs_bind runs_updates(6) runs_mono [OF wait] runs_gets)
       (use assms(3) in \<open>auto intro!: running runs_mono [OF witness_follow_unknown [OF assms(2)]] dest!: vars_fields\<close>)
  from runsD [OF this] show ?thesis by simp
qed

text \<open>A witness whose server reports the notification to rerun, and the table of the example.\<close>

lemma witness_misreads_rerun_witness:
  "let env = (example_env ''0/1'' ''0/1'')\<lparr>e_result := \<lambda>_. Some [[Some ''-2'']]\<rparr>; d = example_daemon 2 in
   result (do_witness_failover env) d = False \<and>
   failover_state (final (do_witness_failover env) d) = FAILOVER_STATE_FOLLOW_FAIL"
proof -
  let ?env = "(example_env ''0/1'' ''0/1'')\<lparr>e_result := \<lambda>_. Some [[Some ''-2'']]\<rparr>"
  have wait: "result (wait_primary_notification ?env) ((example_daemon 2)\<lparr>failover_state := FAILOVER_STATE_UNKNOWN\<rparr>)
      = Some ELECTION_RERUN_NOTIFICATION"
    by code_simp
  have table: "\<forall>k c. ELECTION_RERUN_NOTIFICATION \<notin> row_node_id ` set (db_rows (e_session ?env k c))"
    by (simp add: example_env_def example_db_def example_row_def)
  have up: "node_id (upstream_node_info (example_daemon 2)) \<noteq> ELECTION_RERUN_NOTIFICATION"
    by (simp add: example_daemon_def)
  show ?thesis using witness_misreads_rerun [OF wait table up] by (simp add: Let_def)
qed


text \<open>
  The switch that ends a failover: what it answers, and the states it leaves. The answer is true
  exactly when the node is promoted or follows a primary; an election that is to be rerun marks the
  upstream as up again, so that the next check of it starts another election.
\<close>

theorem conclude_failover_table:
  "let s = failover_state d; d' = final (conclude_failover env siblings) d;
       r = result (conclude_failover env siblings) d
   in r = (s \<in> {FAILOVER_STATE_PROMOTED, FAILOVER_STATE_PRIMARY_REAPPEARED,
             FAILOVER_STATE_FOLLOWED_NEW_PRIMARY, FAILOVER_STATE_FOLLOWING_ORIGINAL_PRIMARY}) \<and>
      failover_state d' = (if r \<or> s = FAILOVER_STATE_ELECTION_RERUN then FAILOVER_STATE_NONE else s) \<and>
      monitoring_state d' =
        (if s \<in> {FAILOVER_STATE_PROMOTION_FAILED, FAILOVER_STATE_FOLLOW_FAIL,
            FAILOVER_STATE_REQUIRES_MANUAL_FAILOVER} then MS_DEGRADED else monitoring_state d) \<and>
      upstream_node_info d' =
        (if s = FAILOVER_STATE_ELECTION_RERUN then (upstream_node_info d)\<lparr>node_status := NODE_STATUS_UP\<rparr>
         else upstream_node_info d)"
proof -
  have "runs decisive (conclude_failover env siblings) d (\<lambda>r es d'.
     r = (failover_state d \<in> {FAILOVER_STATE_PROMOTED, FAILOVER_STATE_PRIMARY_REAPPEARED,
             FAILOVER_STATE_FOLLOWED_NEW_PRIMARY, FAILOVER_STATE_FOLLOWING_ORIGINAL_PRIMARY}) \<and>
      failover_state d' = (if r \<or> failover_state d = FAILOVER_STATE_ELECTION_RERUN then FAILOVER_STATE_NONE
        else failover_state d) \<and>
      monitoring_state d' =
        (if failover_state d \<in> {FAILOVER_STATE_PROMOTION_FAILED, FAILOVER_STATE_FOLLOW_FAIL,
            FAILOVER_STATE_REQUIRES_MANUAL_FAILOVER} then MS_DEGRADED else monitoring_state d) \<and>
      upstream_node_info d' =
        (if failover_state d = FAILOVER_STATE_ELECTION_RERUN then (upstream_node_info d)\<lparr>node_status := NODE_STATUS_UP\<rparr>
         else upstream_node_info d))"
    unfolding conclude_failover_def enter_degraded_def gettimeofday_def set_failover_state_def
    by (intro running runs_mono [OF notify_followers_run]; auto dest!: vars_fields)
  from runsD [OF this] show ?thesis by (simp add: Let_def)
qed

end
