(* ===== verification/Failover_Progress.thy ===== *)
theory Failover_Progress
  imports Failover_Safety
begin

text \<open>
  A failover that succeeds: the only standby of a primary, on servers that answer, promotes itself.
\<close>

section \<open>Servers that answer\<close>

text \<open>
  Every connection stays up, every command succeeds, every query has a row whose first column is not
  the unset electoral term, and the node table is \<open>db\<close>.
\<close>


definition cooperative :: "env \<Rightarrow> database \<Rightarrow> bool" where
  "cooperative env db \<longleftrightarrow>
     (\<forall>k c. e_status env k c) \<and> (\<forall>k. e_ping env k = PQPING_OK) \<and> (\<forall>k. e_exit env k = 0) \<and>
     (\<forall>k. \<exists>row rows. e_result env k = Some (row # rows) \<and> atoi (PQgetvalue (row # rows) 0 0) \<noteq> VOTING_TERM_NOT_SET) \<and>
     (\<forall>k c. e_session env k c = db) \<and> answered db \<and> \<not> db_aborted db"

lemma check_local: 
  assumes "cooperative env db" and "local_conn d \<noteq> NULL_CONN"
  shows "run_state (check_connection env info local_conn (\<lambda>c d. d\<lparr>local_conn := c\<rparr>)) d = ((), d\<lparr>clock := clock d + 1\<rparr>)"
  using assms by (simp add: check_connection_def is_server_available_def PQstatus_ok_def cooperative_def)

lemma prologue_cooperative:
  assumes "cooperative env db" and "local_conn d \<noteq> NULL_CONN" and "\<not> opt_standby_disconnect_on_failover (config d)"
  shows "run_state (failover_prologue env) d = ((), d\<lparr>clock := clock d + 1\<rparr>)"
  using assms by (simp add: failover_prologue_def check_local [OF assms(1)])

text \<open>
  The daemon of a standby that may be promoted and has no active sibling, in the location of its
  upstream.
\<close>

definition lone_standby :: "database \<Rightarrow> daemon \<Rightarrow> bool" where
  "lone_standby db d \<longleftrightarrow>
     local_conn d \<noteq> NULL_CONN \<and> opt_failover (config d) = FAILOVER_AUTOMATIC \<and>
     opt_failover_validation_command (config d) = [] \<and> \<not> opt_standby_disconnect_on_failover (config d) \<and>
     priority (local_node_info d) > 0 \<and>
     strncmp_eq MAXLEN (location (upstream_node_info d)) (location (local_node_info d)) \<and>
     (\<forall>r \<in> set (db_rows db). row_upstream_node_id r = Some (node_id (upstream_node_info d)) \<longrightarrow>
        row_node_id r = node_id (local_node_info d) \<or> \<not> row_active r) \<and>
     upstream_node_id (local_node_info d) \<in> row_node_id ` set (db_rows db)"

lemma no_siblings:
  assumes "cooperative env db" and "lone_standby db d"
  shows "result (get_active_sibling_node_records (node_id (local_node_info d)) (node_id (upstream_node_info d)))
    (e_session env k conn) = []"
proof -
  have "filter (\<lambda>r. row_upstream_node_id r = Some (node_id (upstream_node_info d)) \<and>
      row_node_id r \<noteq> node_id (local_node_info d) \<and> row_active r) (db_rows db) = []"
    using assms(2) by (auto simp: lone_standby_def filter_empty_conv)
  then show ?thesis
    using assms(1) by (simp add: get_active_sibling_node_records_def sql_query_def cooperative_def populate_node_records_def)
qed

lemma election_cooperative:
  assumes "cooperative env db" and "lone_standby db d"
  shows "result (do_election env) d = (ELECTION_WON, [], UNKNOWN_NODE_ID)"
    and "\<exists>n. final (do_election env) d = d\<lparr>clock := n, local_node_info := (local_node_info d)\<lparr>last_wal_receive_lsn := InvalidXLogRecPtr\<rparr>\<rparr>"
proof -
  obtain row rows where "e_result env (clock d) = Some (row # rows)" "atoi (PQgetvalue (row # rows) 0 0) \<noteq> - 1"
    using assms(1) unfolding cooperative_def by blast
  then have "run_state (get_current_term env (local_conn d)) d = (atoi (PQgetvalue (row # rows) 0 0), d\<lparr>clock := clock d + 1\<rparr>)"
    using assms(2) by (simp add: get_current_term_def PQexec_def lone_standby_def)
  then show "result (do_election env) d = (ELECTION_WON, [], UNKNOWN_NODE_ID)"
    and "\<exists>n. final (do_election env) d = d\<lparr>clock := n, local_node_info := (local_node_info d)\<lparr>last_wal_receive_lsn := InvalidXLogRecPtr\<rparr>\<rparr>"
    using assms(2) no_siblings [OF assms] \<open>atoi _ \<noteq> _\<close>
    by (auto simp: do_election_def lone_standby_def on_session_def)
qed

lemma record_found:
  assumes "n \<in> row_node_id ` set (db_rows db)" and "answered db" and "\<not> db_aborted db"
  shows "fst (result (get_node_record n info) db) = RECORD_FOUND"
proof -
  obtain r rs where "filter (\<lambda>r. row_node_id r = n) (db_rows db) = r # rs"
    using assms(1) by (cases "filter (\<lambda>r. row_node_id r = n) (db_rows db)") (auto simp: filter_empty_conv)
  with assms show ?thesis
    by (simp add: get_node_record_def get_node_record_where_def rows_with_id_def sql_query_def)
qed

section \<open>Promotion\<close>

text \<open>The commands that are run, and the increments of the electoral term.\<close>

definition commands :: "effect \<Rightarrow> bool" where
  "commands e \<longleftrightarrow> (\<exists>s. e = Ran s) \<or> (\<exists>c. e = Incremented_Term c)"

lemma command_simps [simp]: "commands (Ran s)" "commands (Incremented_Term c)" "\<not> commands (Slept n)"
  by (simp_all add: commands_def)

text \<open>A quiet computation in a run whose later effects do not matter.\<close>

lemma runs_any: "quiet m \<Longrightarrow> (\<And>x es d'. Q x es d') \<Longrightarrow> runs P m d Q"
  unfolding runs_def yields_def by blast

lemma runs_call_answer:
  "(\<And>k d'. vars d' = vars d \<Longrightarrow> Q (f k) [] d') \<Longrightarrow> runs P (call f) d Q"
  unfolding runs_def by (intro exI [of _ "[]"]) (simp add: vars_def)

lemma runs_status_ok:
  assumes "\<forall>k c. e_status env k c" and "conn \<noteq> NULL_CONN" and "Q True [] d"
  shows "runs P (PQstatus_ok env conn) d Q"
  unfolding PQstatus_ok_def by (rule runs_gets) (use assms in simp)

lemma promotion_done_cooperative:
  "runs commands (promotion_done env info) d (\<lambda>s es d'. s = FAILOVER_STATE_PROMOTED \<and>
     (\<exists>es'. es = Incremented_Term (local_conn d) # es'))"
  unfolding promotion_done_def increment_current_term_def PQexec_def on_session_def
  by (intro runs_bind runs_gets runs_emit runs_call_answer runs_ret runs_prod runs_modify runs_any [OF quiet_events(2)]) auto

lemma promote_self_cooperative:
  assumes "cooperative env db" and "local_conn d \<noteq> NULL_CONN"
    and "upstream_node_id (local_node_info d) \<in> row_node_id ` set (db_rows db)"
  shows "runs commands (promote_self env) d (\<lambda>r es d'. r = Inr FAILOVER_STATE_PROMOTED \<and>
    (\<exists>es'. es = Ran (opt_promote_command (config d)) # Incremented_Term (local_conn d) # es'))"
proof -
  have env: "\<forall>k c. e_status env k c" "\<And>k. e_exit env k = 0" "\<And>k c. e_session env k c = db"
    using assms(1) unfolding cooperative_def by blast+
  have found: "st = RECORD_FOUND"
    if "result (get_node_record (upstream_node_id (local_node_info d)) i) db = (st, info)" for i st info
    using assms(1,3) record_found that by (metis cooperative_def fst_conv)
  show ?thesis
    unfolding promote_self_def reopen_local_conn_def on_session_def system_command_def sleep_def
    by (intro runs_bind runs_gets runs_if runs_emit runs_call_answer runs_ret runs_prod runs_or_exit sum_cases
        runs_status_ok [OF env(1)] runs_mono [OF promotion_done_cooperative];
        use assms(2) in \<open>auto simp: env dest!: vars_fields dest: found\<close>)
qed

lemma runs_keeps_any:
  "quiet m \<Longrightarrow> keeps_vars m \<Longrightarrow> (\<And>x es d'. vars d' = vars d \<Longrightarrow> Q x es d') \<Longrightarrow> runs P m d Q"
  unfolding runs_def yields_def keeps_vars_def by blast

lemma conclude_promoted:
  "failover_state d = FAILOVER_STATE_PROMOTED \<Longrightarrow> 
   runs commands (conclude_failover env []) d (\<lambda>r es d'. r = True \<and> es = [] \<and> failover_state d' = FAILOVER_STATE_NONE)"
  unfolding conclude_failover_def set_failover_state_def
  by (intro runs_bind runs_gets runs_if runs_updates runs_ret runs_prod; auto intro!: running)


text \<open>The table of the example with node 3 inactive.\<close>

definition lone_db :: database where
  "lone_db = example_db\<lparr>db_rows := [example_row 1 ''primary'' None True, example_row 2 ''standby'' (Some 1) True,
     example_row 3 ''standby'' (Some 1) False]\<rparr>"


end
