(* ===== verification/Control_Data.thy ===== *)
theory Control_Data
  imports World
begin

text \<open>
  The control file of a data directory (\<open>controldata.c\<close>), read when the server may be down: the version in
  \<open>PG_VERSION\<close> chooses the layout of \<open>pg_control\<close>; and whether a directory is a data directory whose server
  runs (\<open>dirutil.c\<close>).
\<close>

section \<open>The version\<close>

abbreviation (input) UNKNOWN_SERVER_VERSION_NUM :: int where "UNKNOWN_SERVER_VERSION_NUM \<equiv> - 1"
abbreviation (input) MIN_SUPPORTED_VERSION_NUM :: int where "MIN_SUPPORTED_VERSION_NUM \<equiv> 90300"

text \<open>\<open>fscanf\<close> with \<open>%23s\<close>: the first word of the file, at most 23 bytes of it.\<close>

definition scan_word :: "string \<Rightarrow> string option" where
  "scan_word content =
     (let w = take 23 (takeWhile (\<lambda>c. \<not> isspace c) (dropWhile isspace content))
      in if w = [] then None else Some w)"

definition version_number :: "string \<Rightarrow> int" where
  "version_number w =
     (let (file_major, _, rest) = strtol w;
          file_minor = (if rest \<noteq> [] \<and> hd rest = CHR ''.'' then fst (strtol (tl rest)) else 0)
      in to_int32 (to_int32 file_major * 10000 + to_int32 file_minor * 100))"

definition get_pg_version :: "string option \<Rightarrow> int" where
  "get_pg_version content =
     (case content of
        None \<Rightarrow> UNKNOWN_SERVER_VERSION_NUM
      | Some content \<Rightarrow>
          (case scan_word content of
             None \<Rightarrow> UNKNOWN_SERVER_VERSION_NUM
           | Some w \<Rightarrow> version_number w))"

section \<open>The control file\<close>

text \<open>
  What \<open>get_controlfile\<close> answers when the file cannot be read: a server that was shut down, at no position,
  on timeline \<open>(uint32) -1\<close>. A control file of a supported version has one of five layouts; \<open>e_control\<close> is
  the content in the one that is chosen.
\<close>

definition no_control_data :: control_data where
  "no_control_data =
     \<lparr>cd_system_identifier = 0, cd_state = DB_SHUTDOWNED, cd_checkPoint = InvalidXLogRecPtr,
      cd_data_checksum_version = - 1, cd_timeline = - 1, cd_minRecoveryPointTLI = - 1,
      cd_minRecoveryPoint = InvalidXLogRecPtr\<rparr>"

definition get_controlfile :: "env \<Rightarrow> (daemon, control_data) state" where
  "get_controlfile env = do {
     content \<leftarrow> call (e_pg_version env);
     let version_num = get_pg_version content;
     if version_num = UNKNOWN_SERVER_VERSION_NUM then ret no_control_data
     else if version_num < MIN_SUPPORTED_VERSION_NUM then ret no_control_data
     else do {
       control \<leftarrow> call (e_control env);
       ret (case control of None \<Rightarrow> no_control_data | Some control \<Rightarrow> control)
     }
   }"

definition get_system_identifier :: "env \<Rightarrow> (daemon, 64 word) state" where
  "get_system_identifier env = do { control \<leftarrow> get_controlfile env; ret (cd_system_identifier control) }"

definition get_db_state :: "env \<Rightarrow> (daemon, db_state) state" where
  "get_db_state env = do { control \<leftarrow> get_controlfile env; ret (cd_state control) }"

definition get_latest_checkpoint_location :: "env \<Rightarrow> (daemon, 64 word) state" where
  "get_latest_checkpoint_location env = do { control \<leftarrow> get_controlfile env; ret (cd_checkPoint control) }"

text \<open>The cast of the unsigned version to \<open>int\<close> gives \<open>-1\<close> back.\<close>

definition get_data_checksum_version :: "env \<Rightarrow> (daemon, int) state" where
  "get_data_checksum_version env = do {
     control \<leftarrow> get_controlfile env;
     ret (sint (cd_data_checksum_version control))
   }"

definition get_timeline :: "env \<Rightarrow> (daemon, 32 word) state" where
  "get_timeline env = do { control \<leftarrow> get_controlfile env; ret (cd_timeline control) }"

definition get_min_recovery_end_timeline :: "env \<Rightarrow> (daemon, 32 word) state" where
  "get_min_recovery_end_timeline env = do { control \<leftarrow> get_controlfile env; ret (cd_minRecoveryPointTLI control) }"

definition get_min_recovery_location :: "env \<Rightarrow> (daemon, 64 word) state" where
  "get_min_recovery_location env = do { control \<leftarrow> get_controlfile env; ret (cd_minRecoveryPoint control) }"

lemma keeps_get_controlfile [keeps]: "keeps_vars (get_controlfile env)"
  unfolding get_controlfile_def by (intro keeps)

lemma keeps_control_data [keeps]:
  "keeps_vars (get_system_identifier env)" "keeps_vars (get_db_state env)"
  "keeps_vars (get_latest_checkpoint_location env)" "keeps_vars (get_data_checksum_version env)"
  "keeps_vars (get_timeline env)" "keeps_vars (get_min_recovery_end_timeline env)"
  "keeps_vars (get_min_recovery_location env)"
  unfolding get_system_identifier_def get_db_state_def get_latest_checkpoint_location_def
    get_data_checksum_version_def get_timeline_def get_min_recovery_end_timeline_def
    get_min_recovery_location_def
  by (intro keeps)+

text \<open>
  A control file that cannot be read has the highest timeline there is, not an unknown one.
\<close>

lemma unreadable_timeline: "t \<le> cd_timeline no_control_data"
  by (simp add: no_control_data_def)

section \<open>Data directories\<close>

datatype pg_dir_state = PG_DIR_NOT_RUNNING | PG_DIR_RUNNING

text \<open>\<open>is_pg_dir\<close>: \<open>stat\<close> of \<open>PG_VERSION\<close> succeeds.\<close>

definition is_pg_dir :: "env \<Rightarrow> (daemon, bool) state" where
  "is_pg_dir env = ask env"

text \<open>
  \<open>is_pg_running\<close>: the PID file may be missing, or not to be opened for another reason. \<open>fscanf\<close> with \<open>%ld\<close>
  reads a number after white space; the process itself and its parent do not count.
\<close>

definition scan_ld :: "string \<Rightarrow> int option" where
  "scan_ld content = (let (v, _, rest) = strtol content in if length rest = length content then None else Some v)"

definition is_pg_running :: "env \<Rightarrow> int \<Rightarrow> int \<Rightarrow> (daemon, int + pg_dir_state) state" where
  "is_pg_running env pid_self pid_parent = do {
     content \<leftarrow> call (e_file env);
     (case content of
        None \<Rightarrow> do {
          missing \<leftarrow> ask env;
          ret (if missing then Inr PG_DIR_NOT_RUNNING else Inl ERR_BAD_CONFIG)
        }
      | Some content \<Rightarrow>
          (case scan_ld content of
             None \<Rightarrow> ret (Inr PG_DIR_NOT_RUNNING)
           | Some pid \<Rightarrow>
               if pid = pid_self \<or> pid = pid_parent then ret (Inr PG_DIR_NOT_RUNNING)
               else do {
                 alive \<leftarrow> ask env;
                 ret (Inr (if alive then PG_DIR_RUNNING else PG_DIR_NOT_RUNNING))
               }))
   }"

end
