(* ===== verification/Brain_Split.thy ===== *)
theory Brain_Split
  imports Failover Control_Data
begin

text \<open>
  Two servers that both run as primary (\<open>repmgrd-physical.c\<close>): how a primary finds out about another
  one, which of the two gives way, and how a node rejoins the cluster.
\<close>

section \<open>Timelines\<close>

datatype tl_ret = TL_LOW | TL_HIGH | TL_SAME | TL_UNKNOWN
datatype bs_action = DO_NOTHING | DO_REJOIN | DO_STOP

definition compare_timelines :: "32 word \<Rightarrow> 32 word \<Rightarrow> tl_ret" where
  "compare_timelines local remote =
     (if local < remote then TL_LOW else if local > remote then TL_HIGH else TL_SAME)"

lemma quiet_get_timeline [quietly]: "quiet (get_timeline env)"
  unfolding get_timeline_def get_controlfile_def by (intro quietly)

definition check_timeline :: "env \<Rightarrow> pgconn \<Rightarrow> node_info \<Rightarrow> (daemon, tl_ret) state" where
  "check_timeline env remote_conn peer = do {
     conn \<leftarrow> establish_db_connection_by_params env (target_replication_params env remote_conn (repluser peer));
     ok \<leftarrow> PQstatus_ok env conn;
     if \<not> ok then do { _ \<leftarrow> close_connection conn; ret TL_UNKNOWN }
     else do {
       local_tli \<leftarrow> get_timeline env;
       remote \<leftarrow> identify_system env conn;
       _ \<leftarrow> close_connection conn;
       ret (case remote of
              None \<Rightarrow> TL_UNKNOWN
            | Some remote \<Rightarrow> compare_timelines local_tli (timeline remote))
     }
   }"

section \<open>Another primary\<close>

text \<open>The local node and witnesses are not asked.\<close>

definition not_asked :: "node_info \<Rightarrow> node_info \<Rightarrow> bool" where
  "not_asked local cell \<longleftrightarrow> node_id cell = node_id local \<or> node_type cell = WITNESS"

text \<open>The first loop: the list with its connections, and the number of other primaries.\<close>

fun count_primaries :: "env \<Rightarrow> node_info list \<Rightarrow> (daemon, node_info list \<times> nat) state" where
  "count_primaries env [] = ret ([], 0)"
| "count_primaries env (cell # cells) = do {
     conn \<leftarrow> establish_db_connection env (conninfo cell);
     ok \<leftarrow> PQstatus_ok env conn;
     local \<leftarrow> gets local_node_info;
     (cell, found) \<leftarrow>
       (if \<not> ok then do { _ \<leftarrow> close_connection conn; ret (cell\<lparr>node_conn := NULL_CONN\<rparr>, 0) }
        else if not_asked local cell then ret (cell\<lparr>node_conn := conn\<rparr>, 0)
        else do {
          rectype \<leftarrow> get_recovery_type env conn;
          ret (cell\<lparr>node_conn := conn\<rparr>, if rectype = RECTYPE_PRIMARY then 1 else 0)
        });
     (cells, n) \<leftarrow> count_primaries env cells;
     ret (cell # cells, found + n)
   }"

text \<open>
  The second loop looks for the other primary again: \<open>None\<close> when there is none any more or its record
  cannot be read.
\<close>

fun find_peer :: "env \<Rightarrow> node_info list \<Rightarrow> (daemon, (node_info \<times> node_info) option) state" where
  "find_peer env [] = ret None"
| "find_peer env (cell # cells) = do {
     local \<leftarrow> gets local_node_info;
     if not_asked local cell then find_peer env cells
     else do {
       rectype \<leftarrow> get_recovery_type env (node_conn cell);
       if rectype \<noteq> RECTYPE_PRIMARY then find_peer env cells
       else do {
         (status, peer) \<leftarrow> on_session env (node_conn cell) (get_node_record (node_id cell) node_info_init);
         ret (if status = RECORD_FOUND then Some (cell, peer) else None)
       }
     }
   }"

text \<open>Which of two primaries gives way: the lower timeline, then the lower priority, then the higher id.\<close>

definition give_way :: "tl_ret \<Rightarrow> int \<Rightarrow> int \<Rightarrow> int \<Rightarrow> int \<Rightarrow> bs_action" where
  "give_way tli local_priority remote_priority local_id remote_id =
     (case tli of
        TL_LOW \<Rightarrow> DO_REJOIN
      | TL_HIGH \<Rightarrow> DO_NOTHING
      | TL_UNKNOWN \<Rightarrow> DO_NOTHING
      | TL_SAME \<Rightarrow>
          if local_priority < remote_priority then DO_REJOIN
          else if local_priority > remote_priority then DO_NOTHING
          else if local_id < remote_id then DO_NOTHING
          else DO_REJOIN)"

definition check_BS :: "env \<Rightarrow> node_info list \<Rightarrow> (daemon, bs_action \<times> node_info list) state" where
  "check_BS env nodes = do {
     (nodes, found_other_primary) \<leftarrow> count_primaries env nodes;
     if found_other_primary = 0 then ret (DO_NOTHING, nodes)
     else if found_other_primary > 1 then ret (DO_STOP, nodes)
     else do {
       peer \<leftarrow> find_peer env nodes;
       (case peer of
          None \<Rightarrow> ret (DO_NOTHING, nodes)
        | Some (cell, peer) \<Rightarrow> do {
            tli \<leftarrow> check_timeline env (node_conn cell) peer;
            local \<leftarrow> gets local_node_info;
            ret (give_way tli (priority local) (priority cell) (node_id local) (node_id cell), nodes)
          })
     }
   }"

section \<open>Commands and their output\<close>

definition WEXITSTATUS :: "int \<Rightarrow> int" where
  "WEXITSTATUS status = status div 256 mod 256"

text \<open>
  \<open>local_command\<close> with a buffer: \<open>popen\<close>, the output (only its first line, or the first \<open>MAXLEN - 1\<close>
  bytes of it, unless \<open>simple\<close>), \<open>pclose\<close>. 141 is the status of a process that got \<open>SIGPIPE\<close>.
\<close>

definition first_line :: "string \<Rightarrow> string" where
  "first_line s =
     take (MAXLEN - 1) (takeWhile (\<lambda>c. c \<noteq> CHR 0x0A) s @ (if CHR 0x0A \<in> set s then [CHR 0x0A] else []))"

definition local_command_output :: "env \<Rightarrow> string \<Rightarrow> bool \<Rightarrow> (daemon, bool \<times> string \<times> int) state" where
  "local_command_output env command simple = do {
     _ \<leftarrow> emit (Ran command);
     opened \<leftarrow> ask env;
     if \<not> opened then ret (False, [], 0)
     else do {
       output \<leftarrow> call (e_output env);
       retval \<leftarrow> call (e_exit env);
       ret (WEXITSTATUS retval = 0 \<or> WEXITSTATUS retval = 141,
            if simple then output else first_line output, WEXITSTATUS retval)
     }
   }"

text \<open>\<open>check_service_status_command\<close> is the same function again, without \<open>simple\<close>.\<close>

definition check_service_status_command :: "env \<Rightarrow> string \<Rightarrow> (daemon, bool \<times> string) state" where
  "check_service_status_command env command = do {
     (success, output, _) \<leftarrow> local_command_output env command False;
     ret (success, output)
   }"

text \<open>
  \<open>getopt_long\<close> for options that all have an argument: \<open>longs\<close> are the long names with their letters,
  \<open>shorts\<close> the letters in the option string. Long names may be abbreviated unless that is ambiguous; other
  options, errors and further arguments are skipped.
\<close>

definition long_option :: "(string \<times> char) list \<Rightarrow> string \<Rightarrow> char option" where
  "long_option longs name =
     (case map_of longs name of
        Some c \<Rightarrow> Some c
      | None \<Rightarrow>
          (case filter (\<lambda>(n, c). take (length name) n = name) longs of
             [(n, c)] \<Rightarrow> Some c
           | _ \<Rightarrow> None))"

function getopt :: "(string \<times> char) list \<Rightarrow> char list \<Rightarrow> string list \<Rightarrow> (char \<times> string) list" where
  "getopt longs shorts [] = []"
| "getopt longs shorts (a # args) =
     (if a = ''--'' then []
      else if take 2 a = ''--'' then
        (let name = takeWhile (\<lambda>c. c \<noteq> CHR ''='') (drop 2 a);
             val = drop (length name) (drop 2 a)
         in case long_option longs name of
              None \<Rightarrow> getopt longs shorts args
            | Some c \<Rightarrow>
                if val \<noteq> [] then (c, tl val) # getopt longs shorts args
                else (case args of [] \<Rightarrow> [] | v # args' \<Rightarrow> (c, v) # getopt longs shorts args'))
      else if take 1 a = ''-'' \<and> length a > 1 then
        (if a ! 1 \<in> set shorts then
           (if length a > 2 then (a ! 1, drop 2 a) # getopt longs shorts args
            else (case args of [] \<Rightarrow> [] | v # args' \<Rightarrow> (a ! 1, v) # getopt longs shorts args'))
         else getopt longs shorts ((CHR ''-'' # drop 2 a) # args))
      else getopt longs shorts args)"
  by pat_completeness auto
termination
  by (relation "measure (\<lambda>(longs, shorts, args). length args + sum_list (map length args))") auto

declare getopt.simps [simp del]

definition status_options :: "(string \<times> char) list" where
  "status_options = [(''last-checkpoint-lsn'', CHR ''L''), (''state'', CHR ''S'')]"

definition state_status :: "string \<Rightarrow> node_status \<Rightarrow> node_status" where
  "state_status text old =
     (if text = ''RUNNING'' then NODE_STATUS_UP
      else if text = ''SHUTDOWN'' then NODE_STATUS_DOWN
      else if text = ''UNCLEAN_SHUTDOWN'' then NODE_STATUS_UNCLEAN_SHUTDOWN
      else if text = ''UNKNOWN'' then NODE_STATUS_UNKNOWN
      else old)"

text \<open>The node's status and the checkpoint position (\<open>lsn\<close> before the call).\<close>

definition check_service_status_is_shutdown_cleanly ::
  "string \<Rightarrow> 64 word \<Rightarrow> int + node_status \<times> 64 word" where
  "check_service_status_is_shutdown_cleanly output lsn =
     (if output = [] then Inr (NODE_STATUS_UNKNOWN, InvalidXLogRecPtr)
      else
        (case parse_output_to_argv output of
           Inl code \<Rightarrow> Inl code
         | Inr (argc, argv) \<Rightarrow>
             Inr (fold (\<lambda>(c, v) (status, lsn).
                    if c = CHR ''L'' then (status, parse_lsn v) else (state_status v status, lsn))
                  (getopt status_options ''LS'' (tl argv)) (NODE_STATUS_UNKNOWN, lsn))))"

section \<open>Rejoining\<close>

definition rejoin_command :: "string \<Rightarrow> string" where
  "rejoin_command conninfo_string =
     ''repmgr -d '' @ (CHR 0x27 # conninfo_string) @ (CHR 0x27 # '' node rejoin --force-rewind'')"

fun rejoin_loop :: "env \<Rightarrow> node_info list \<Rightarrow> (daemon, unit) state" where
  "rejoin_loop env [] = ret ()"
| "rejoin_loop env (cell # cells) = do {
     r \<leftarrow> system_command env (rejoin_command (conninfo cell));
     if r \<noteq> 0 then rejoin_loop env cells else ret ()
   }"

text \<open>A server that has not been shut down cleanly is started and stopped once.\<close>

definition clean_up_server :: "env \<Rightarrow> (daemon, int + unit) state" where
  "clean_up_server env = do {
     opts \<leftarrow> gets config;
     (success, output) \<leftarrow> check_service_status_command env
       (opt_pg_bindir opts @ ''/repmgr node status --is-shutdown-cleanly;'');
     (case (if success then check_service_status_is_shutdown_cleanly output InvalidXLogRecPtr
            else Inr (NODE_STATUS_UNKNOWN, InvalidXLogRecPtr)) of
        Inl code \<Rightarrow> ret (Inl code)
      | Inr (status, _) \<Rightarrow> do {
          _ \<leftarrow> (if success \<and> status = NODE_STATUS_UNCLEAN_SHUTDOWN then
                 system_command env
                   (opt_pg_bindir opts @ ''/pg_ctl -D '' @ opt_data_directory opts @ '' start;'' @
                    opt_pg_bindir opts @ ''/pg_ctl -D '' @ opt_data_directory opts @ '' stop'')
               else ret 0);
          ret (Inr ())
        })
   }"

definition exec_node_rejoin_primary :: "env \<Rightarrow> node_info list \<Rightarrow> (daemon, int + unit) state" where
  "exec_node_rejoin_primary env nodes =
     or_exit (clean_up_server env) (\<lambda>_. do {
       _ \<leftarrow> rejoin_loop env nodes;
       ret (Inr ())
     })"

end
