(* ===== verification/Client_Queries.thy ===== *)
theory Client_Queries
  imports Wal_Receiver Control_Data
begin

text \<open>
  The functions of \<open>dbutils.c\<close> that the client \<open>repmgr\<close> uses beside those of the daemon: settings and
  versions, the state of the extension and of \<open>repmgrd\<close>, replication slots, attached standbys, promotion.
  The client has the same record \<open>daemon\<close> around its calls: the clock, the trace, and in \<open>config\<close> the part of
  the configuration that the shared functions read.
\<close>

section \<open>Settings and versions\<close>

definition query_bool :: "env \<Rightarrow> pgconn \<Rightarrow> (daemon, bool) state" where
  "query_bool env conn = do {
     res \<leftarrow> PQexec env conn;
     ret (case res of None \<Rightarrow> False | Some rows \<Rightarrow> atobool (PQgetvalue rows 0 0))
   }"

definition connection_has_pg_settings :: "env \<Rightarrow> pgconn \<Rightarrow> (daemon, bool) state" where
  "connection_has_pg_settings env conn = do {
     superuser \<leftarrow> is_superuser_connection env conn;
     if superuser then ret True
     else if e_version env conn \<ge> 100000 then query_bool env conn
     else ret False
   }"

text \<open>\<open>guc_set\<close> and \<open>guc_set_typed\<close>: 1 when the setting compares as asked, 0 when not, -1 after an error.\<close>

definition guc_set :: "env \<Rightarrow> pgconn \<Rightarrow> (daemon, int) state" where
  "guc_set env conn = do {
     res \<leftarrow> PQexec env conn;
     ret (case res of None \<Rightarrow> - 1 | Some rows \<Rightarrow> if rows = [] then 0 else 1)
   }"

definition guc_set_typed :: "env \<Rightarrow> pgconn \<Rightarrow> (daemon, int) state" where
  "guc_set_typed env conn = do {
     res \<leftarrow> PQexec env conn;
     ret (case res of None \<Rightarrow> - 1 | Some rows \<Rightarrow> if rows = [] then 0 else 1)
   }"

text \<open>
  The number and the bytes written to the version buffer, whose text is the version up to the first
  space; \<open>None\<close> for no buffer or nothing written.
\<close>

abbreviation (input) MAXVERSIONSTR :: nat where "MAXVERSIONSTR \<equiv> 16"

definition get_server_version :: "env \<Rightarrow> pgconn \<Rightarrow> (daemon, int \<times> string option) state" where
  "get_server_version env conn = do {
     res \<leftarrow> PQexec env conn;
     ret (case res of
            None \<Rightarrow> (UNKNOWN_SERVER_VERSION_NUM, None)
          | Some rows \<Rightarrow>
              (atoi (PQgetvalue rows 0 0),
               Some (takeWhile (\<lambda>c. c \<noteq> CHR '' '') (take (MAXVERSIONSTR - 1) (PQgetvalue rows 0 1)))))
   }"

section \<open>The extension and the daemon\<close>

datatype extension_status =
  REPMGR_INSTALLED | REPMGR_OLD_VERSION_INSTALLED | REPMGR_AVAILABLE | REPMGR_UNAVAILABLE | REPMGR_UNKNOWN

record extension_versions =
  default_version :: string
  default_version_num :: int
  installed_version :: string
  installed_version_num :: int

definition get_repmgr_extension_status ::
  "env \<Rightarrow> pgconn \<Rightarrow> extension_versions \<Rightarrow> (daemon, extension_status \<times> extension_versions) state" where
  "get_repmgr_extension_status env conn versions = do {
     res \<leftarrow> PQexec env conn;
     ret (case res of
            None \<Rightarrow> (REPMGR_UNKNOWN, versions)
          | Some rows \<Rightarrow>
              if rows = [] then (REPMGR_UNAVAILABLE, versions)
              else if PQcell rows 0 1 \<noteq> None then
                (let available = atoi (PQgetvalue rows 0 3); installed = atoi (PQgetvalue rows 0 5)
                 in (if available > installed then REPMGR_OLD_VERSION_INSTALLED else REPMGR_INSTALLED,
                     \<lparr>default_version = take 7 (PQgetvalue rows 0 2), default_version_num = available,
                      installed_version = take 7 (PQgetvalue rows 0 4), installed_version_num = installed\<rparr>))
              else (REPMGR_AVAILABLE, versions))
   }"

text \<open>A failed query leaves the result without a field, whose value is \<open>NULL\<close>.\<close>

definition repmgrd_check_local_node_id :: "env \<Rightarrow> pgconn \<Rightarrow> (daemon, bool) state" where
  "repmgrd_check_local_node_id env conn = do {
     res \<leftarrow> PQexec env conn;
     ret (case res of None \<Rightarrow> False | Some rows \<Rightarrow> PQcell rows 0 0 \<noteq> None)
   }"

definition repmgrd_is_running_sql :: "env \<Rightarrow> pgconn \<Rightarrow> (daemon, bool) state" where
  "repmgrd_is_running_sql env conn = do {
     res \<leftarrow> PQexec env conn;
     ret (case res of
            None \<Rightarrow> False
          | Some rows \<Rightarrow> (case PQcell rows 0 0 of None \<Rightarrow> False | Some t \<Rightarrow> atobool t))
   }"

definition repmgrd_pause_sql :: "env \<Rightarrow> pgconn \<Rightarrow> bool \<Rightarrow> (daemon, bool) state" where
  "repmgrd_pause_sql env conn pause = do {
     _ \<leftarrow> emit (Paused_Repmgrd conn pause);
     res \<leftarrow> PQexec env conn;
     ret (res \<noteq> None)
   }"

definition initialize_voting_term :: "env \<Rightarrow> pgconn \<Rightarrow> (daemon, unit) state" where
  "initialize_voting_term env conn = do {
     _ \<leftarrow> get_current_term env conn;
     _ \<leftarrow> emit (Reset_Term conn);
     _ \<leftarrow> PQexec env conn;
     ret ()
   }"

text \<open>\<open>PGRES_COMMAND_OK\<close> is never the status of a \<open>SELECT\<close>.\<close>

definition announce_candidature :: "env \<Rightarrow> pgconn \<Rightarrow> (daemon, bool) state" where
  "announce_candidature env conn = do { _ \<leftarrow> PQexec env conn; ret False }"

section \<open>Server operations\<close>

datatype backup_state = BACKUP_STATE_UNKNOWN | BACKUP_STATE_IN_BACKUP | BACKUP_STATE_NO_BACKUP

definition server_in_exclusive_backup_mode :: "env \<Rightarrow> pgconn \<Rightarrow> (daemon, backup_state) state" where
  "server_in_exclusive_backup_mode env conn = do {
     res \<leftarrow> PQexec env conn;
     ret (case res of
            None \<Rightarrow> BACKUP_STATE_UNKNOWN
          | Some rows \<Rightarrow>
              if atobool (PQgetvalue rows 0 0) then BACKUP_STATE_IN_BACKUP else BACKUP_STATE_NO_BACKUP)
   }"

definition checkpoint :: "env \<Rightarrow> pgconn \<Rightarrow> (daemon, unit) state" where
  "checkpoint env conn = do { _ \<leftarrow> emit (Checkpointed conn); _ \<leftarrow> PQexec env conn; ret () }"

definition vacuum_table :: "env \<Rightarrow> pgconn \<Rightarrow> (daemon, bool) state" where
  "vacuum_table env conn = do { res \<leftarrow> PQexec env conn; ret (res \<noteq> None) }"

definition promote_standby :: "env \<Rightarrow> pgconn \<Rightarrow> (daemon, bool) state" where
  "promote_standby env conn = do { _ \<leftarrow> emit (Promoted conn); query_bool env conn }"

text \<open>With \<open>check_pending_wal\<close> the query asks in addition whether received WAL is still to be replayed.\<close>

definition is_wal_replay_paused :: "env \<Rightarrow> pgconn \<Rightarrow> bool \<Rightarrow> (daemon, bool) state" where
  "is_wal_replay_paused env conn check_pending_wal = query_bool env conn"

text \<open>\<open>None\<close> of a result's field is read as the empty text, whose number is 0.\<close>

definition get_replication_lag_seconds :: "env \<Rightarrow> pgconn \<Rightarrow> (daemon, int) state" where
  "get_replication_lag_seconds env conn = do {
     res \<leftarrow> PQexec env conn;
     ret (case res of
            None \<Rightarrow> - 1
          | Some rows \<Rightarrow> if rows = [] then - 1 else atoi (PQgetvalue rows 0 0))
   }"

definition get_node_replication_stats :: "env \<Rightarrow> pgconn \<Rightarrow> node_info \<Rightarrow> (daemon, node_info) state" where
  "get_node_replication_stats env conn info = do {
     res \<leftarrow> PQexec env conn;
     ret (case res of
            None \<Rightarrow> info
          | Some rows \<Rightarrow>
              info\<lparr>max_wal_senders := atoi (PQgetvalue rows 0 0),
                attached_wal_receivers := atoi (PQgetvalue rows 0 1),
                max_replication_slots := atoi (PQgetvalue rows 0 2),
                total_replication_slots := atoi (PQgetvalue rows 0 3),
                active_replication_slots := atoi (PQgetvalue rows 0 4),
                inactive_replication_slots := atoi (PQgetvalue rows 0 5),
                recovery_type := (if PQgetvalue rows 0 6 = ''f'' then RECTYPE_PRIMARY else RECTYPE_STANDBY)\<rparr>)
   }"

definition is_downstream_node_attached :: "env \<Rightarrow> pgconn \<Rightarrow> (daemon, bool) state" where
  "is_downstream_node_attached env conn = do {
     res \<leftarrow> PQexec env conn;
     ret (case res of
            None \<Rightarrow> False
          | Some rows \<Rightarrow> length rows = 1 \<and> atoi (PQgetvalue rows 0 0) \<noteq> 0)
   }"

section \<open>Replication slots\<close>

record replication_slot =
  rs_slot_name :: string
  rs_slot_type :: string
  rs_active :: bool

definition replication_slot_init :: replication_slot where
  "replication_slot_init = \<lparr>rs_slot_name = [], rs_slot_type = [], rs_active = False\<rparr>"

definition create_slot_name :: "int \<Rightarrow> int + string" where
  "create_slot_name n = maxlen_snprintf (''repmgr_slot_'' @ int_string n)"

definition get_slot_record :: "env \<Rightarrow> pgconn \<Rightarrow> (daemon, record_status \<times> replication_slot) state" where
  "get_slot_record env conn = do {
     res \<leftarrow> PQexec env conn;
     ret (case res of
            None \<Rightarrow> (RECORD_ERROR, replication_slot_init)
          | Some rows \<Rightarrow>
              if rows = [] then (RECORD_NOT_FOUND, replication_slot_init)
              else (RECORD_FOUND,
                \<lparr>rs_slot_name = take (MAXLEN - 1) (PQgetvalue rows 0 0),
                 rs_slot_type = take (MAXLEN - 1) (PQgetvalue rows 0 1),
                 rs_active = atobool (PQgetvalue rows 0 2)\<rparr>))
   }"

text \<open>With the message that is appended to the error buffer, without what libpq says.\<close>

definition create_replication_slot :: "env \<Rightarrow> pgconn \<Rightarrow> string \<Rightarrow> (daemon, bool \<times> string) state" where
  "create_replication_slot env conn slot = do {
     (record_status, slot_info) \<leftarrow> get_slot_record env conn;
     if record_status = RECORD_FOUND then
       (if rs_slot_type slot_info \<noteq> ''physical'' then
          ret (False, ''slot \"'' @ slot @ ''\" exists and is not a physical slot'' @ [CHR 0x0A])
        else if \<not> rs_active slot_info then ret (True, [])
        else ret (False, ''slot \"'' @ slot @ ''\" already exists as an active slot'' @ [CHR 0x0A]))
     else do {
       _ \<leftarrow> emit (Created_Slot conn slot);
       res \<leftarrow> PQexec env conn;
       ret (if res = None then (False, ''unable to create slot \"'' @ slot @ ''\" on the upstream node: '')
            else (True, []))
     }
   }"

definition drop_replication_slot :: "env \<Rightarrow> pgconn \<Rightarrow> string \<Rightarrow> (daemon, bool) state" where
  "drop_replication_slot env conn slot = do {
     _ \<leftarrow> emit (Dropped_Slot conn slot);
     res \<leftarrow> PQexec env conn;
     ret (res \<noteq> None)
   }"

definition get_free_replication_slot_count :: "env \<Rightarrow> pgconn \<Rightarrow> (daemon, int) state" where
  "get_free_replication_slot_count env conn = do {
     res \<leftarrow> PQexec env conn;
     ret (case res of
            None \<Rightarrow> - 1
          | Some rows \<Rightarrow> if rows = [] then - 1 else atoi (PQgetvalue rows 0 0))
   }"

text \<open>The names and types of the inactive slots, and their number.\<close>

definition get_inactive_replication_slots ::
  "env \<Rightarrow> pgconn \<Rightarrow> (daemon, int \<times> (string \<times> string) list) state" where
  "get_inactive_replication_slots env conn = do {
     res \<leftarrow> PQexec env conn;
     ret (case res of
            None \<Rightarrow> (- 1, [])
          | Some rows \<Rightarrow>
              (int (length rows), map (\<lambda>row. (PQgetvalue [row] 0 0, PQgetvalue [row] 0 1)) rows))
   }"

text \<open>The standbys of a node whose slot is not among \<open>slots\<close>, the slots of the server.\<close>

definition missing_slot_rows :: "string list \<Rightarrow> int \<Rightarrow> node_row list \<Rightarrow> node_row list" where
  "missing_slot_rows slots n rows =
     filter (\<lambda>r. (case row_slot_name r of None \<Rightarrow> False | Some s \<Rightarrow> s \<notin> set slots) \<and>
                 row_upstream_node_id r = Some n \<and> row_type r = ''standby'') rows"

definition get_downstream_nodes_with_missing_slot ::
  "env \<Rightarrow> pgconn \<Rightarrow> int \<Rightarrow> (daemon, bool \<times> node_info list) state" where
  "get_downstream_nodes_with_missing_slot env conn n = do {
     slots \<leftarrow> call (e_names env);
     res \<leftarrow> on_session env conn (sql_query (missing_slot_rows slots n));
     ret (res \<noteq> None, populate_node_records res)
   }"

section \<open>Archiving\<close>

text \<open>
  \<open>get_ready_archive_files\<close>: the entries of \<open>archive_status\<close>, each with whether it is known not to be a
  regular file. The comparison starts six bytes before the end of the name; for a shorter name it reads
  what precedes the name in memory, which is not \<open>.ready\<close> here.
\<close>

abbreviation (input) ARCHIVE_STATUS_DIR_ERROR :: int where "ARCHIVE_STATUS_DIR_ERROR \<equiv> - 1"

definition ends_with_ready :: "string \<Rightarrow> bool" where
  "ends_with_ready name \<longleftrightarrow> length name \<ge> 6 \<and> drop (length name - 6) name = ''.ready''"

fun count_ready :: "env \<Rightarrow> string list \<Rightarrow> int \<Rightarrow> (daemon, int) state" where
  "count_ready env [] ready_count = ret ready_count"
| "count_ready env (name # names) ready_count = do {
     not_regular \<leftarrow> ask env;
     count_ready env names
       (if not_regular then ready_count
        else if ends_with_ready name then ready_count + 1 else ready_count)
   }"

definition get_ready_archive_files :: "env \<Rightarrow> (daemon, int) state" where
  "get_ready_archive_files env = do {
     present \<leftarrow> ask env;
     if \<not> present then ret ARCHIVE_STATUS_DIR_ERROR
     else do {
       opened \<leftarrow> ask env;
       if \<not> opened then ret ARCHIVE_STATUS_DIR_ERROR
       else do {
         names \<leftarrow> call (e_names env);
         count_ready env names 0
       }
     }
   }"

section \<open>Monitoring history\<close>

definition get_number_of_monitoring_records_to_delete :: "env \<Rightarrow> pgconn \<Rightarrow> (daemon, int) state" where
  "get_number_of_monitoring_records_to_delete env conn = do {
     res \<leftarrow> PQexec env conn;
     ret (case res of None \<Rightarrow> - 1 | Some rows \<Rightarrow> atoi (PQgetvalue rows 0 0))
   }"

definition delete_monitoring_records :: "env \<Rightarrow> pgconn \<Rightarrow> (daemon, bool) state" where
  "delete_monitoring_records env conn = do { res \<leftarrow> PQexec env conn; ret (res \<noteq> None) }"

section \<open>Configuration files\<close>

record config_file_info =
  cf_filepath :: string
  cf_filename :: string
  cf_in_data_directory :: bool

text \<open>\<open>config_file_list_add\<close> to a list that has room for \<open>n\<close> entries.\<close>

definition config_file_list_add ::
  "(string \<Rightarrow> string) \<Rightarrow> nat \<Rightarrow> config_file_info list \<Rightarrow> string \<Rightarrow> string \<Rightarrow> bool \<Rightarrow> config_file_info list" where
  "config_file_list_add canonicalize n l path name in_data_dir =
     (if length l = n then l
      else l @ [\<lparr>cf_filepath = canonicalize (take (MAXPGPATH - 1) path), cf_filename = take (MAXPGPATH - 1) name,
                 cf_in_data_directory = in_data_dir\<rparr>])"

definition add_config_rows ::
  "(string \<Rightarrow> string) \<Rightarrow> nat \<Rightarrow> string option list list \<Rightarrow> config_file_info list \<Rightarrow> config_file_info list" where
  "add_config_rows canonicalize n rows l =
     fold (\<lambda>row l. config_file_list_add canonicalize n l (PQgetvalue [row] 0 0) (PQgetvalue [row] 0 1)
            (atobool (PQgetvalue [row] 0 2))) rows l"

definition get_configuration_file_locations ::
  "env \<Rightarrow> (string \<Rightarrow> string) \<Rightarrow> pgconn \<Rightarrow> (daemon, bool \<times> config_file_info list) state" where
  "get_configuration_file_locations env canonicalize conn = do {
     res \<leftarrow> PQexec env conn;
     (case res of
        None \<Rightarrow> ret (False, [])
      | Some rows \<Rightarrow> do {
          let n = length rows + 2;
          let l = add_config_rows canonicalize n rows [];
          res \<leftarrow> PQexec env conn;
          ret (case res of
                 None \<Rightarrow> (False, l)
               | Some rows \<Rightarrow> (True, add_config_rows canonicalize n rows l))
        })
   }"

section \<open>Queries leave the variables alone\<close>

lemma keeps_count_ready [keeps]: "keeps_vars (count_ready env names n)"
  by (induction names arbitrary: n) (auto intro!: keeps)

lemma keeps_client_queries [keeps]:
  "keeps_vars (query_bool env conn)" "keeps_vars (connection_has_pg_settings env conn)"
  "keeps_vars (guc_set env conn)" "keeps_vars (get_server_version env conn)"
  "keeps_vars (get_repmgr_extension_status env conn versions)"
  "keeps_vars (repmgrd_check_local_node_id env conn)" "keeps_vars (repmgrd_is_running_sql env conn)"
  "keeps_vars (repmgrd_pause_sql env conn pause)" "keeps_vars (initialize_voting_term env conn)"
  "keeps_vars (server_in_exclusive_backup_mode env conn)" "keeps_vars (checkpoint env conn)"
  "keeps_vars (promote_standby env conn)" "keeps_vars (is_wal_replay_paused env conn pending)"
  "keeps_vars (get_replication_lag_seconds env conn)" "keeps_vars (get_node_replication_stats env conn info)"
  "keeps_vars (is_downstream_node_attached env conn)" "keeps_vars (get_slot_record env conn)"
  "keeps_vars (create_replication_slot env conn slot)" "keeps_vars (drop_replication_slot env conn slot)"
  "keeps_vars (get_free_replication_slot_count env conn)"
  "keeps_vars (get_downstream_nodes_with_missing_slot env conn n)" "keeps_vars (get_ready_archive_files env)"
  unfolding query_bool_def connection_has_pg_settings_def guc_set_def get_server_version_def
    get_repmgr_extension_status_def repmgrd_check_local_node_id_def repmgrd_is_running_sql_def repmgrd_pause_sql_def
    initialize_voting_term_def server_in_exclusive_backup_mode_def checkpoint_def promote_standby_def
    is_wal_replay_paused_def get_replication_lag_seconds_def get_node_replication_stats_def
    is_downstream_node_attached_def get_slot_record_def create_replication_slot_def drop_replication_slot_def
    get_free_replication_slot_count_def get_downstream_nodes_with_missing_slot_def get_ready_archive_files_def
  by (intro keeps)+

end
