(* ===== verification/Client.thy ===== *)
theory Client
  imports Brain_Split Client_Queries Config_File Shell_Quote
begin

text \<open>
  The client \<open>repmgr\<close>: its global variables, and the functions its actions share (\<open>repmgr-client.c\<close>,
  \<open>sysutils.c\<close>): server control commands, directories, the node record of the local node, connections as
  superuser, replication slots, remote commands, and the check whether a node can attach to another one.
\<close>

section \<open>Global variables\<close>

text \<open>\<open>t_runtime_options\<close>: the options of the command line.\<close>

record runtime_options =
  rt_conninfo_provided :: bool
  rt_connection_param_provided :: bool
  rt_host_param_provided :: bool
  rt_limit_provided :: bool
  rt_wait_provided :: bool
  rt_config_file :: string
  rt_dry_run :: bool
  rt_force :: bool
  rt_pg_bindir :: string
  rt_wait :: int
  rt_no_wait :: bool
  rt_compact :: bool
  rt_log_level :: string
  rt_log_to_file :: bool
  rt_quiet :: bool
  rt_terse :: bool
  rt_verbose :: bool
  rt_csv :: bool
  rt_nagios :: bool
  rt_optformat :: bool
  rt_dbname :: string
  rt_host :: string
  rt_username :: string
  rt_port :: string
  rt_remote_user :: string
  rt_superuser :: string
  rt_node_id :: int
  rt_node_name :: string
  rt_data_dir :: string
  rt_remote_node_id :: int
  rt_copy_external_config_files :: bool
  rt_copy_external_config_files_destination :: int
  rt_fast_checkpoint :: bool
  rt_rsync_only :: bool
  rt_no_upstream_connection :: bool
  rt_recovery_min_apply_delay :: string
  rt_replication_user :: string
  rt_upstream_conninfo :: string
  rt_without_barman :: bool
  rt_recovery_conf_only :: bool
  rt_upstream_node_id :: int
  rt_wait_register_sync :: bool
  rt_wait_register_sync_seconds :: int
  rt_wait_start :: int
  rt_always_promote :: bool
  rt_force_rewind_used :: bool
  rt_force_rewind_path :: string
  rt_siblings_follow :: bool
  rt_repmgrd_no_pause :: bool
  rt_is_shutdown_cleanly :: bool
  rt_archive_ready :: bool
  rt_downstream :: bool
  rt_replication_lag :: bool
  rt_role :: bool
  rt_slots :: bool
  rt_missing_slots :: bool
  rt_has_passfile :: bool
  rt_replication_connection :: bool
  rt_data_directory_config :: bool
  rt_config_files :: string
  rt_action :: string
  rt_check :: bool
  rt_list_actions :: bool
  rt_checkpoint :: bool
  rt_all :: bool
  rt_event :: string
  rt_limit :: int
  rt_keep_history :: int
  rt_config_archive_dir :: string
  rt_output_mode :: output_mode
  rt_disable_wal_receiver :: bool
  rt_enable_wal_receiver :: bool

definition runtime_options_init :: runtime_options where
  "runtime_options_init =
     \<lparr>rt_conninfo_provided = False, rt_connection_param_provided = False,
      rt_host_param_provided = False, rt_limit_provided = False, rt_wait_provided = False, rt_config_file = [],
      rt_dry_run = False, rt_force = False, rt_pg_bindir = [], rt_wait = - 1, rt_no_wait = False,
      rt_compact = False, rt_log_level = [], rt_log_to_file = False, rt_quiet = False, rt_terse = False,
      rt_verbose = False, rt_csv = False, rt_nagios = False, rt_optformat = False, rt_dbname = [],
      rt_host = [], rt_username = [], rt_port = [], rt_remote_user = [], rt_superuser = [],
      rt_node_id = UNKNOWN_NODE_ID, rt_node_name = [], rt_data_dir = [], rt_remote_node_id = UNKNOWN_NODE_ID,
      rt_copy_external_config_files = False, rt_copy_external_config_files_destination = 1,
      rt_fast_checkpoint = False, rt_rsync_only = False, rt_no_upstream_connection = False,
      rt_recovery_min_apply_delay = [], rt_replication_user = [], rt_upstream_conninfo = [],
      rt_without_barman = False, rt_recovery_conf_only = False, rt_upstream_node_id = NO_UPSTREAM_NODE,
      rt_wait_register_sync = False, rt_wait_register_sync_seconds = - 1, rt_wait_start = 30,
      rt_always_promote = False, rt_force_rewind_used = False, rt_force_rewind_path = [],
      rt_siblings_follow = False, rt_repmgrd_no_pause = False, rt_is_shutdown_cleanly = False,
      rt_archive_ready = False, rt_downstream = False, rt_replication_lag = False, rt_role = False,
      rt_slots = False, rt_missing_slots = False, rt_has_passfile = False, rt_replication_connection = False,
      rt_data_directory_config = False, rt_config_files = [], rt_action = [], rt_check = False,
      rt_list_actions = False, rt_checkpoint = False, rt_all = False, rt_event = [], rt_limit = 20,
      rt_keep_history = 0, rt_config_archive_dir = ''/tmp'', rt_output_mode = OM_TEXT,
      rt_disable_wal_receiver = False, rt_enable_wal_receiver = False\<rparr>"

text \<open>
  \<open>config_file_options\<close>, \<open>runtime_options\<close>, \<open>pg_bindir\<close> (with a slash at its end unless empty), the
  connection parameters of the command line, the configuration file, \<open>progname()\<close> and the record of the node that
  an action is given (\<open>target_node_info\<close>).
\<close>

record client =
  settings :: options
  rt :: runtime_options
  cl_pg_bindir :: string
  source_conninfo :: conninfo_params
  config_file_path :: string
  progname :: string
  target_node_info :: node_info

abbreviation num :: "client \<Rightarrow> string \<Rightarrow> int" where "num g name \<equiv> numbers (settings g) name"
abbreviation str :: "client \<Rightarrow> string \<Rightarrow> string" where "str g name \<equiv> texts (settings g) name"
abbreviation flag :: "client \<Rightarrow> string \<Rightarrow> bool" where "flag g name \<equiv> flags (settings g) name"

abbreviation (input) ERR_DB_QUERY :: int where "ERR_DB_QUERY \<equiv> 7"
abbreviation (input) ERR_PROMOTION_FAIL :: int where "ERR_PROMOTION_FAIL \<equiv> 8"
abbreviation (input) ERR_INTERNAL :: int where "ERR_INTERNAL \<equiv> 15"

section \<open>Server control\<close>

datatype server_action = ACTION_UNKNOWN | ACTION_NONE | ACTION_START | ACTION_STOP | ACTION_STOP_WAIT
  | ACTION_RESTART | ACTION_RELOAD | ACTION_PROMOTE

definition make_pg_path :: "client \<Rightarrow> string \<Rightarrow> int + string" where
  "make_pg_path g program = maxlen_snprintf (cl_pg_bindir g @ program)"

text \<open>The name of the setting with the command for an action.\<close>

definition service_setting :: "server_action \<Rightarrow> string" where
  "service_setting action =
     (case action of
        ACTION_START \<Rightarrow> ''service_start_command''
      | ACTION_STOP \<Rightarrow> ''service_stop_command''
      | ACTION_STOP_WAIT \<Rightarrow> ''service_stop_command''
      | ACTION_RESTART \<Rightarrow> ''service_restart_command''
      | ACTION_RELOAD \<Rightarrow> ''service_reload_command''
      | ACTION_PROMOTE \<Rightarrow> ''service_promote_command''
      | _ \<Rightarrow> [])"

text \<open>What stands before and after the data directory in a command for \<open>pg_ctl\<close>.\<close>

definition pg_ctl_words :: "server_action \<Rightarrow> string \<times> string" where
  "pg_ctl_words action =
     (case action of
        ACTION_START \<Rightarrow> ('' -w -D '', '' start'')
      | ACTION_STOP \<Rightarrow> ('' -D '', '' -W -m fast stop'')
      | ACTION_STOP_WAIT \<Rightarrow> ('' -D '', '' -w -m fast stop'')
      | ACTION_RESTART \<Rightarrow> ('' -w -D '', '' restart'')
      | ACTION_RELOAD \<Rightarrow> ('' -w -D '', '' reload'')
      | ACTION_PROMOTE \<Rightarrow> ('' -w -D '', '' promote'')
      | _ \<Rightarrow> ([], []))"

definition pg_ctl_command :: "client \<Rightarrow> server_action \<Rightarrow> string \<Rightarrow> int + string" where
  "pg_ctl_command g action data_dir =
     (case make_pg_path g ''pg_ctl'' of
        Inl code \<Rightarrow> Inl code
      | Inr path \<Rightarrow>
          (case appendShellString (path @ '' '' @ str g ''pg_ctl_options'' @ fst (pg_ctl_words action)) data_dir of
             Inl code \<Rightarrow> Inl code
           | Inr command \<Rightarrow> Inr (take MAXLEN (command @ snd (pg_ctl_words action)))))"

text \<open>The script of an action; \<open>script\<close> is what the buffer holds before, \<open>[]\<close> a missing directory.\<close>

definition get_server_action :: "client \<Rightarrow> server_action \<Rightarrow> string \<Rightarrow> string \<Rightarrow> int + string" where
  "get_server_action g action script data_dir =
     (let data_dir = (if data_dir = [] then ''(none provided)'' else data_dir) in
      if action = ACTION_NONE then Inr []
      else if action = ACTION_UNKNOWN then Inr script
      else if str g (service_setting action) \<noteq> [] then maxlen_snprintf (str g (service_setting action))
      else pg_ctl_command g action data_dir)"

definition data_dir_required_for_action :: "client \<Rightarrow> server_action \<Rightarrow> bool" where
  "data_dir_required_for_action g action \<longleftrightarrow>
     action \<noteq> ACTION_NONE \<and> action \<noteq> ACTION_UNKNOWN \<and> str g (service_setting action) = []"

section \<open>Directories and paths\<close>

definition get_node_config_directory :: "client \<Rightarrow> string \<Rightarrow> string" where
  "get_node_config_directory g buf =
     (if str g ''config_directory'' \<noteq> [] then take MAXPGPATH (str g ''config_directory'')
      else if str g ''data_directory'' \<noteq> [] then take MAXPGPATH (str g ''data_directory'')
      else buf)"

definition get_node_data_directory :: "client \<Rightarrow> string \<Rightarrow> string" where
  "get_node_data_directory g buf =
     (if str g ''data_directory'' \<noteq> [] then take MAXPGPATH (str g ''data_directory'')
      else if rt_data_dir (rt g) \<noteq> [] then take MAXPGPATH (rt_data_dir (rt g))
      else buf)"

definition program_directory :: "client \<Rightarrow> string" where
  "program_directory g =
     (if str g ''repmgr_bindir'' \<noteq> [] then
        str g ''repmgr_bindir'' @ (if last (str g ''repmgr_bindir'') \<noteq> CHR ''/'' then ''/'' else [])
      else cl_pg_bindir g)"

definition make_remote_repmgr_path :: "client \<Rightarrow> string \<Rightarrow> node_info \<Rightarrow> string" where
  "make_remote_repmgr_path g buf remote =
     buf @ program_directory g @ progname g @ '' -f '' @ config_file remote @ '' ''"

definition make_repmgrd_path :: "client \<Rightarrow> string \<Rightarrow> string" where
  "make_repmgrd_path g buf = buf @ program_directory g @ ''repmgrd -f '' @ config_file_path g @ '' ''"

section \<open>Commands on other nodes\<close>

text \<open>
  \<open>remote_command\<close>: the command goes through \<open>ssh\<close>, whose exit status is not looked at; only a \<open>popen\<close> that
  fails makes it answer false. Without a buffer (\<open>capture\<close> false) the output is dropped.
\<close>

definition remote_command :: "env \<Rightarrow> client \<Rightarrow> string \<Rightarrow> string \<Rightarrow> bool \<Rightarrow> (daemon, bool \<times> string) state" where
  "remote_command env g host command capture = do {
     let user = (if rt_remote_user (rt g) \<noteq> [] then rt_remote_user (rt g) @ ''@'' else []);
     _ \<leftarrow> emit (Ran (''ssh -o Batchmode=yes '' @ str g ''ssh_options'' @ '' '' @ user @ host @ '' '' @ command));
     opened \<leftarrow> ask env;
     if \<not> opened then ret (False, [])
     else do {
       output \<leftarrow> call (e_output env);
       _ \<leftarrow> call (e_exit env);
       ret (True, if capture then output else [])
     }
   }"

text \<open>\<open>test_ssh_connection\<close> tries \<open>true\<close> in its two places and answers with the status of the last try.\<close>

fun ssh_tries :: "env \<Rightarrow> client \<Rightarrow> string \<Rightarrow> string \<Rightarrow> string list \<Rightarrow> int \<Rightarrow> (daemon, int + int) state" where
  "ssh_tries env g host remote_user [] r = ret (Inr r)"
| "ssh_tries env g host remote_user (path # paths) r =
     (if r = 0 then ret (Inr r)
      else
        (case maxlen_snprintf
                (''ssh -o Batchmode=yes '' @ str g ''ssh_options'' @ '' '' @ host @ '' '' @
                 (if remote_user = [] then [] else ''-l '' @ remote_user @ '' '') @ path @ '' 2>/dev/null'') of
           Inl code \<Rightarrow> ret (Inl code)
         | Inr script \<Rightarrow> do {
             r \<leftarrow> system_command env script;
             ssh_tries env g host remote_user paths r
           }))"

definition test_ssh_connection :: "env \<Rightarrow> client \<Rightarrow> string \<Rightarrow> string \<Rightarrow> (daemon, int + int) state" where
  "test_ssh_connection env g host remote_user =
     ssh_tries env g host remote_user [''/bin/true'', ''/usr/bin/true''] 1"

section \<open>The server of a connection\<close>

text \<open>\<open>_establish_db_connection_by_params\<close> that leaves the program when there is no connection.\<close>

definition establish_by_params_exit :: "env \<Rightarrow> conninfo_params \<Rightarrow> (daemon, int + pgconn) state" where
  "establish_by_params_exit env pl = do {
     let pl = param_set_ine (param_set_ine pl ''connect_timeout'' ''2'')
                ''fallback_application_name'' ''repmgr'';
     conn \<leftarrow> call (\<lambda>k. CONN_PARAMS (params_from pl 0) k);
     ok \<leftarrow> PQstatus_ok env conn;
     if \<not> ok then do { _ \<leftarrow> close_connection conn; ret (Inl ERR_DB_CONN) }
     else if (\<exists>kv \<in> set (params_from pl 0). fst kv = ''replication'') then ret (Inr conn)
     else do {
       ok \<leftarrow> set_config env conn;
       if \<not> ok then do { _ \<leftarrow> close_connection conn; ret (Inl ERR_DB_CONN) } else ret (Inr conn)
     }
   }"

definition check_server_version :: "env \<Rightarrow> pgconn \<Rightarrow> bool \<Rightarrow> (daemon, int + int \<times> string option) state" where
  "check_server_version env conn exit_on_error = do {
     (version, text) \<leftarrow> get_server_version env conn;
     if version < MIN_SUPPORTED_VERSION_NUM then
       (if exit_on_error then do { _ \<leftarrow> close_connection conn; ret (Inl ERR_BAD_CONFIG) }
        else ret (Inr (UNKNOWN_SERVER_VERSION_NUM, text)))
     else ret (Inr (version, text))
   }"

definition check_shared_library :: "env \<Rightarrow> pgconn \<Rightarrow> (daemon, int + unit) state" where
  "check_shared_library env conn = do {
     loaded \<leftarrow> repmgrd_check_local_node_id env conn;
     if loaded then ret (Inr ()) else do { _ \<leftarrow> close_connection conn; ret (Inl ERR_BAD_CONFIG) }
   }"

definition is_repmgrd_running :: "env \<Rightarrow> pgconn \<Rightarrow> (daemon, bool) state" where
  "is_repmgrd_running env conn = do {
     pid \<leftarrow> repmgrd_get_pid env conn;
     if pid \<noteq> UNKNOWN_PID then ask env else ret False
   }"

text \<open>The superuser connection (\<open>superuser_conn\<close> before the call when none is made) and the privileged one.\<close>

definition get_superuser_connection ::
  "env \<Rightarrow> client \<Rightarrow> pgconn \<Rightarrow> pgconn \<Rightarrow> (daemon, int + pgconn \<times> pgconn) state" where
  "get_superuser_connection env g conn superuser_conn = do {
     ok \<leftarrow> PQstatus_ok env conn;
     if \<not> ok then ret (Inl ERR_INTERNAL)
     else do {
       superuser \<leftarrow> is_superuser_connection env conn;
       if superuser then ret (Inr (superuser_conn, conn))
       else if rt_superuser (rt g) = [] then do { _ \<leftarrow> close_connection conn; ret (Inl ERR_BAD_CONFIG) }
       else do {
         superuser_conn \<leftarrow> establish_db_connection_by_params env
           (param_set (replication_params env conn) ''user'' (rt_superuser (rt g)));
         ok \<leftarrow> PQstatus_ok env superuser_conn;
         if \<not> ok then do { _ \<leftarrow> close_connection conn; ret (Inl ERR_BAD_CONFIG) }
         else do {
           superuser \<leftarrow> is_superuser_connection env superuser_conn;
           if \<not> superuser then do {
             _ \<leftarrow> close_connection superuser_conn;
             _ \<leftarrow> close_connection conn;
             ret (Inl ERR_BAD_CONFIG)
           }
           else ret (Inr (superuser_conn, superuser_conn))
         }
       }
     }
   }"

text \<open>Whether \<open>pg_rewind\<close> can be used, with the reason why not.\<close>

definition can_use_pg_rewind :: "env \<Rightarrow> pgconn \<Rightarrow> string \<Rightarrow> (daemon, bool \<times> string) state" where
  "can_use_pg_rewind env conn reason =
     (if e_version env conn < 90400 then do {
        version \<leftarrow> get_data_checksum_version env;
        ret (if version < 0 then (False, reason @ ''unable to determine data checksum version'')
             else if version = 0 then (False, reason @ ''this cluster was initialised without data checksums'')
             else (True, reason))
      }
      else do {
        off \<leftarrow> guc_set env conn;
        let (can_use, reason) =
          (if off \<noteq> 0 then (False, reason @ ''\"full_page_writes\" must be set to \"on\"'') else (True, reason));
        hints \<leftarrow> guc_set env conn;
        if hints \<noteq> 0 then ret (can_use, reason)
        else do {
          version \<leftarrow> get_data_checksum_version env;
          let separated = (if can_use then reason else reason @ ''; '');
          ret (if version < 0 then
                 (False, separated @ ''\"wal_log_hints\" is set to \"off\" but unable to determine data checksum version'')
               else if version = 0 then
                 (False, separated @ ''\"wal_log_hints\" is set to \"off\" and data checksums are disabled'')
               else (can_use, reason))
        }
      })"

definition drop_replication_slot_if_exists :: "env \<Rightarrow> pgconn \<Rightarrow> string \<Rightarrow> (daemon, unit) state" where
  "drop_replication_slot_if_exists env conn slot = do {
     (record_status, slot_info) \<leftarrow> get_slot_record env conn;
     if record_status \<noteq> RECORD_FOUND then ret ()
     else if \<not> rs_active slot_info then do { _ \<leftarrow> drop_replication_slot env conn slot; ret () }
     else ret ()
   }"

section \<open>Attaching to another node\<close>

text \<open>
  \<open>check_node_can_attach\<close>, for a standby that follows another node or a server that rejoins; the latter may
  have gone past the fork when it will be rewound.
\<close>

definition attach_check ::
  "env \<Rightarrow> client \<Rightarrow> 32 word \<Rightarrow> 64 word \<Rightarrow> pgconn \<Rightarrow> pgconn \<Rightarrow> bool \<Rightarrow> (daemon, bool) state" where
  "attach_check env g local_tli local_xlogpos target_conn repl_conn is_rejoin = do {
     target_id \<leftarrow> identify_system env repl_conn;
     (case target_id of
        None \<Rightarrow> ret False
      | Some target_id \<Rightarrow> do {
          local_system_identifier \<leftarrow> get_system_identifier env;
          if system_identifier target_id \<noteq> local_system_identifier then ret False
          else if timeline target_id < local_tli then ret False
          else if timeline target_id = local_tli then do {
            target_xlogpos \<leftarrow> get_node_current_lsn env target_conn;
            if local_xlogpos = InvalidXLogRecPtr \<or> target_xlogpos = InvalidXLogRecPtr then ret False
            else ret (local_xlogpos \<le> target_xlogpos)
          }
          else do {
            history \<leftarrow> get_timeline_history env repl_conn (local_tli + 1);
            ret (case history of
                   None \<Rightarrow> False
                 | Some switchpoint \<Rightarrow>
                     if local_xlogpos > switchpoint then is_rejoin \<and> rt_force_rewind_used (rt g) else True)
          }
        })
   }"

definition check_node_can_attach ::
  "env \<Rightarrow> client \<Rightarrow> 32 word \<Rightarrow> 64 word \<Rightarrow> pgconn \<Rightarrow> node_info \<Rightarrow> bool \<Rightarrow> (daemon, bool) state" where
  "check_node_can_attach env g local_tli local_xlogpos target_conn target is_rejoin = do {
     repl_conn \<leftarrow> establish_db_connection_by_params env
       (target_replication_params env target_conn (repluser target));
     ok \<leftarrow> PQstatus_ok env repl_conn;
     if \<not> ok then ret False
     else do {
       success \<leftarrow> attach_check env g local_tli local_xlogpos target_conn repl_conn is_rejoin;
       _ \<leftarrow> close_connection repl_conn;
       ret success
     }
   }"

section \<open>The local node\<close>

text \<open>
  \<open>init_node_record\<close>; \<open>strncpy\<close> of the user name and of the two fields of the virtual address with sizes of
  their own. Without a replication user it is the user of the connection string.
\<close>

definition init_node_record :: "env \<Rightarrow> client \<Rightarrow> node_info \<Rightarrow> int + node_info" where
  "init_node_record env g info =
     (let repl = (if str g ''replication_user'' \<noteq> [] then str g ''replication_user''
                  else snd (get_conninfo_value (e_parse env (str g ''conninfo'')) ''user'' []));
          info = info\<lparr>node_id := num g ''node_id'', upstream_node_id := rt_upstream_node_id (rt g),
            priority := num g ''priority'', active := True,
            location := (if str g ''location'' \<noteq> [] then take MAXLEN (str g ''location'') else ''default''),
            node_name := take 64 (str g ''node_name''), conninfo := take MAXLEN (str g ''conninfo''),
            config_file := take MAXPGPATH (config_file_path g), virtual_ip := take MAXPGPATH (str g ''virtual_ip''),
            network_card := take MAXPGPATH (str g ''network_card''), repluser := take NAMEDATALEN repl\<rparr>
      in if flag g ''use_replication_slots'' then
           (case create_slot_name (num g ''node_id'') of
              Inl code \<Rightarrow> Inl code
            | Inr slot \<Rightarrow> Inr (info\<lparr>slot_name := slot\<rparr>))
         else Inr info)"

section \<open>Silent computations\<close>

text \<open>
  A silent computation does nothing to its surroundings but close connections and sleep: the queries of
  \<open>dbutils.c\<close> that only read, and what is made of them. \<open>silently\<close> collects them; in a proof about other
  effects they add nothing, and their answer is one they can have.
\<close>

fun harmless :: "effect \<Rightarrow> bool" where
  "harmless (Closed conn) = True"
| "harmless (Slept secs) = True"
| "harmless e = False"

abbreviation silent :: "(daemon, 'a) state \<Rightarrow> bool" where
  "silent m \<equiv> yields (\<lambda>e. \<not> harmless e) m (\<lambda>_ es. es = [])"

named_theorems silently \<open>computations that only read\<close>

lemmas silent_basic [silently] =
  yields_ret [where P = "\<lambda>e. \<not> harmless e" and Q = "\<lambda>_ es. es = []", OF refl]
  yields_gets [where P = "\<lambda>e. \<not> harmless e" and Q = "\<lambda>_ es. es = []", OF refl]
  yields_call [where P = "\<lambda>e. \<not> harmless e" and Q = "\<lambda>_ es. es = []", OF refl]
  yields_if [where P = "\<lambda>e. \<not> harmless e" and Q = "\<lambda>_ es. es = []"]
  yields_option [where P = "\<lambda>e. \<not> harmless e" and Q = "\<lambda>_ es. es = []"]
  yields_sum [where P = "\<lambda>e. \<not> harmless e" and Q = "\<lambda>_ es. es = []"]
  yields_prod [where P = "\<lambda>e. \<not> harmless e" and Q = "\<lambda>_ es. es = []"]
  yields_let [where P = "\<lambda>e. \<not> harmless e" and Q = "\<lambda>_ es. es = []"]

lemma silent_bind [silently]: "silent m \<Longrightarrow> (\<And>x. silent (f x)) \<Longrightarrow> silent (State_Monad.bind m f)"
  by (rule yields_bind, erule yields_mono) simp

lemma silent_or_exit [silently]: "silent m \<Longrightarrow> (\<And>x. silent (f x)) \<Longrightarrow> silent (or_exit m f)"
  by (rule yields_or_exit, erule yields_mono) (auto split: sum.splits)

lemma silent_emit [silently]: "harmless e \<Longrightarrow> silent (emit e)"
  by (rule yields_emit) auto

lemma yields_silent_answer:
  assumes "silent m" and "\<And>e. P e \<Longrightarrow> \<not> harmless e" and "\<And>d. Q (result m d) []"
  shows "yields P m Q"
proof (unfold yields_def, rule allI)
  fix d
  obtain es where "trace (final m d) = trace d @ es" "filter (\<lambda>e. \<not> harmless e) es = []"
    using assms(1) unfolding yields_def by blast
  moreover from this(2) assms(2) have "filter P es = []" by (auto simp: filter_empty_conv)
  ultimately show "\<exists>es. trace (final m d) = trace d @ es \<and> Q (result m d) (filter P es)"
    using assms(3) by auto
qed

lemma yields_silent: "silent m \<Longrightarrow> (\<And>e. P e \<Longrightarrow> \<not> harmless e) \<Longrightarrow> (\<And>x. Q x []) \<Longrightarrow> yields P m Q"
  by (rule yields_silent_answer)

lemma silent_world [silently]:
  "silent (PQstatus_ok env conn)" "silent (PQexec env conn)" "silent (on_session env conn m)" "silent (ask env)"
  "silent (gettimeofday env)" "silent (sleep secs)" "silent (close_connection conn)"
  "silent (is_server_available env s)"
  unfolding PQstatus_ok_def PQexec_def on_session_def ask_def gettimeofday_def sleep_def close_connection_def
    is_server_available_def
  by (intro silently; simp)+

lemma silent_connect [silently]:
  "silent (connection_ping env conn)" "silent (set_config env conn)"
  "silent (establish_db_connection_exit env s b)" "silent (establish_db_connection env s)"
  "silent (establish_db_connection_by_params env pl)" "silent (establish_by_params_exit env pl)"
  unfolding establish_db_connection_def establish_db_connection_exit_def connection_ping_def set_config_def
    establish_db_connection_by_params_def establish_by_params_exit_def
  by (intro silently; simp)+

lemma silent_find_primary [silently]: "silent (find_primary env rs)"
  by (induction rs) (auto intro!: silently simp: get_recovery_type_def)

lemma silent_server_queries [silently]:
  "silent (get_recovery_type env conn)" "silent (get_primary_connection env conn)"
  "silent (query_int env conn)" "silent (get_current_term env conn)"
  "silent (repmgrd_get_local_node_id env conn)" "silent (repmgrd_get_pid env conn)"
  "silent (repmgrd_is_paused_sql env conn)"
  "silent (get_node_current_lsn env conn)" "silent (get_replication_info env conn t ri)"
  "silent (identify_system env conn)" "silent (get_timeline_history env conn tli)"
  "silent (is_superuser_connection env conn)" "silent (get_pg_setting env conn s out)"
  unfolding get_recovery_type_def get_primary_connection_def query_int_def get_current_term_def
    repmgrd_get_local_node_id_def repmgrd_get_pid_def repmgrd_is_paused_sql_def get_node_current_lsn_def get_replication_info_def
    identify_system_def get_timeline_history_def is_superuser_connection_def get_pg_setting_def
  by (intro silently; simp)+

lemma silent_control_file [silently]:
  "silent (get_controlfile env)" "silent (get_system_identifier env)" "silent (get_db_state env)"
  "silent (get_latest_checkpoint_location env)" "silent (get_data_checksum_version env)" "silent (get_timeline env)"
  "silent (get_min_recovery_end_timeline env)" "silent (get_min_recovery_location env)" "silent (is_pg_dir env)"
  unfolding get_system_identifier_def get_db_state_def get_latest_checkpoint_location_def is_pg_dir_def
    get_data_checksum_version_def get_timeline_def get_controlfile_def get_min_recovery_end_timeline_def
    get_min_recovery_location_def
  by (intro silently; simp)+

lemma silent_count_ready [silently]: "silent (count_ready env names n)"
  by (induction names arbitrary: n) (auto intro!: silently)

lemma silent_client_queries [silently]:
  "silent (query_bool env conn)" "silent (connection_has_pg_settings env conn)" "silent (guc_set env conn)"
  "silent (get_server_version env conn)" "silent (get_repmgr_extension_status env conn versions)"
  "silent (repmgrd_check_local_node_id env conn)" "silent (repmgrd_is_running_sql env conn)"
  "silent (server_in_exclusive_backup_mode env conn)" "silent (is_wal_replay_paused env conn pending)"
  "silent (get_replication_lag_seconds env conn)" "silent (get_node_replication_stats env conn info)"
  "silent (is_downstream_node_attached env conn)" "silent (get_slot_record env conn)"
  "silent (get_free_replication_slot_count env conn)" "silent (get_ready_archive_files env)"
  "silent (get_downstream_nodes_with_missing_slot env conn n)"
  unfolding query_bool_def connection_has_pg_settings_def guc_set_def get_server_version_def
    get_repmgr_extension_status_def repmgrd_check_local_node_id_def repmgrd_is_running_sql_def
    server_in_exclusive_backup_mode_def is_wal_replay_paused_def get_replication_lag_seconds_def
    get_node_replication_stats_def is_downstream_node_attached_def get_slot_record_def
    get_free_replication_slot_count_def get_ready_archive_files_def get_downstream_nodes_with_missing_slot_def
  by (intro silently; simp)+

lemma silent_client [silently]:
  "silent (check_server_version env conn b)" "silent (check_shared_library env conn)"
  "silent (is_repmgrd_running env conn)" "silent (get_superuser_connection env g conn sconn)"
  "silent (can_use_pg_rewind env conn reason)" "silent (attach_check env g tli lsn conn rconn rejoin)"
  "silent (check_node_can_attach env g tli lsn conn target rejoin)"
  unfolding check_server_version_def check_shared_library_def is_repmgrd_running_def
    get_superuser_connection_def can_use_pg_rewind_def check_node_can_attach_def attach_check_def
  by (intro silently; simp)+

text \<open>The rules of all of them for effects that are not harmless.\<close>

lemmas reading =
  silent_world [THEN yields_silent] silent_connect [THEN yields_silent] silent_server_queries [THEN yields_silent]
  silent_control_file [THEN yields_silent] silent_client_queries [THEN yields_silent]
  silent_client [THEN yields_silent]

section \<open>An example\<close>

abbreviation example_runtime :: runtime_options where
  "example_runtime \<equiv> runtime_options_init"

definition example_client :: client where
  "example_client =
     \<lparr>settings = initial_options, rt = example_runtime, cl_pg_bindir = [],
      source_conninfo = initialize_conninfo_params [] False, config_file_path = ''/etc/repmgr.conf'',
      progname = ''repmgr'', target_node_info = node_info_init\<rparr>"

end
