(* ===== verification/Remote_Output.thy ===== *)
theory Remote_Output
  imports Client
begin

text \<open>
  What a client prints when another client has asked it over \<open>ssh\<close>, and how that client reads it:
  \<open>node status --is-shutdown-cleanly\<close> (\<open>repmgr-action-node.c\<close>) and the parsers of
  \<open>repmgr-action-standby.c\<close>.
\<close>

section \<open>Whether the local server was shut down cleanly\<close>

text \<open>
  \<open>_do_node_status_is_shutdown_cleanly\<close>, from whether the directory is a data directory, the answer of
  \<open>PQping\<close>, the state and the last checkpoint in the control file.
\<close>

definition pinged_status :: "pg_ping \<Rightarrow> node_status" where
  "pinged_status ping =
     (case ping of
        PQPING_OK \<Rightarrow> NODE_STATUS_UP
      | PQPING_REJECT \<Rightarrow> NODE_STATUS_UP
      | _ \<Rightarrow> NODE_STATUS_UNKNOWN)"

definition shutdown_status :: "pg_ping \<Rightarrow> db_state \<Rightarrow> 64 word \<Rightarrow> node_status" where
  "shutdown_status ping state checkPoint =
     (let node_status = pinged_status ping;
          node_status =
            (if state \<noteq> DB_SHUTDOWNED \<and> state \<noteq> DB_SHUTDOWNED_IN_RECOVERY then
               (if node_status \<noteq> NODE_STATUS_UP then NODE_STATUS_UNCLEAN_SHUTDOWN
                else if state = DB_SHUTDOWNING then NODE_STATUS_SHUTTING_DOWN
                else node_status)
             else node_status)
      in if checkPoint = InvalidXLogRecPtr then NODE_STATUS_UNKNOWN
         else if node_status = NODE_STATUS_UNKNOWN then NODE_STATUS_DOWN
         else node_status)"

definition status_line :: "node_status \<Rightarrow> 64 word \<Rightarrow> string" where
  "status_line status checkPoint =
     ''--state='' @ print_node_status status @
     (if status = NODE_STATUS_DOWN then '' --last-checkpoint-lsn='' @ lsn_string checkPoint else [])"

definition do_node_status_is_shutdown_cleanly :: "env \<Rightarrow> (daemon, unit) state" where
  "do_node_status_is_shutdown_cleanly env = do {
     valid_dir \<leftarrow> is_pg_dir env;
     if \<not> valid_dir then emit (Printed (''--state=UNKNOWN'' @ [CHR 0x0A]))
     else do {
       ping_status \<leftarrow> call (e_ping env);
       state \<leftarrow> get_db_state env;
       checkPoint \<leftarrow> get_latest_checkpoint_location env;
       emit (Printed (status_line (shutdown_status ping_status state checkPoint) checkPoint @ [CHR 0x0A]))
     }
   }"

text \<open>
  \<open>parse_node_status_is_shutdown_cleanly\<close> is the function of the daemon again, up to the name of the
  parameter for the position.
\<close>

definition parse_node_status_is_shutdown_cleanly :: "string \<Rightarrow> 64 word \<Rightarrow> int + node_status \<times> 64 word" where
  "parse_node_status_is_shutdown_cleanly output checkPoint =
     check_service_status_is_shutdown_cleanly output checkPoint"

section \<open>Checks made on another node\<close>

datatype connection_status = CONN_UNKNOWN | CONN_OK | CONN_BAD | CONN_ERROR

text \<open>The option string of this parser names letters of another one, which it then ignores.\<close>

definition connection_answer :: "string \<Rightarrow> connection_status \<Rightarrow> connection_status" where
  "connection_answer text old =
     (if strncmp_eq MAXLEN text ''OK'' then CONN_OK
      else if strncmp_eq MAXLEN text ''BAD'' then CONN_BAD
      else if strncmp_eq MAXLEN text ''UNKNOWN'' then CONN_UNKNOWN
      else old)"

definition parse_remote_node_replication_connection :: "string \<Rightarrow> int + connection_status" where
  "parse_remote_node_replication_connection output =
     (if output = [] then Inr CONN_UNKNOWN
      else
        (case parse_output_to_argv output of
           Inl code \<Rightarrow> Inl code
         | Inr (argc, argv) \<Rightarrow>
             Inr (fold (\<lambda>(c, v) status. if c = CHR ''c'' then connection_answer v status else status)
                    (getopt [(''connection'', CHR ''c'')] ''LS'' (tl argv)) CONN_UNKNOWN)))"

definition check_answer :: "string \<Rightarrow> check_status" where
  "check_answer text =
     (if strncmp_eq MAXLEN text ''OK'' then CHECK_STATUS_OK
      else if strncmp_eq MAXLEN text ''WARNING'' then CHECK_STATUS_WARNING
      else if strncmp_eq MAXLEN text ''CRITICAL'' then CHECK_STATUS_CRITICAL
      else CHECK_STATUS_UNKNOWN)"

definition archiver_options :: "(string \<times> char) list" where
  "archiver_options = [(''status'', CHR ''S''), (''files'', CHR ''f''), (''threshold'', CHR ''t'')]"

text \<open>The status, the number of files and the threshold.\<close>

definition archiver_option :: "char \<times> string \<Rightarrow> check_status \<times> int \<times> int \<Rightarrow> check_status \<times> int \<times> int" where
  "archiver_option opt answer =
     (case (opt, answer) of
        ((c, v), status, files, threshold) \<Rightarrow>
          if c = CHR ''f'' then (status, atoi v, threshold)
          else if c = CHR ''t'' then (status, files, atoi v)
          else if c = CHR ''S'' then (check_answer v, files, threshold)
          else (status, files, threshold))"

definition parse_node_check_archiver :: "string \<Rightarrow> int + check_status \<times> int \<times> int" where
  "parse_node_check_archiver output =
     (if output = [] then Inr (CHECK_STATUS_UNKNOWN, 0, 0)
      else
        (case parse_output_to_argv output of
           Inl code \<Rightarrow> Inl code
         | Inr (argc, argv) \<Rightarrow>
             Inr (fold archiver_option (getopt archiver_options ''fSt'' (tl argv)) (CHECK_STATUS_UNKNOWN, 0, 0))))"

definition parse_data_directory_config :: "string \<Rightarrow> int + bool" where
  "parse_data_directory_config output =
     (if output = [] then Inr False
      else
        (case parse_output_to_argv output of
           Inl code \<Rightarrow> Inl code
         | Inr (argc, argv) \<Rightarrow>
             Inr (fold (\<lambda>(c, v) ok. if c = CHR ''C'' \<and> \<not> strncmp_eq 2 v ''OK'' then False else ok)
                    (getopt [(''configured-data-directory'', CHR ''C'')] ''C'' (tl argv)) True)))"

section \<open>Words of an answer\<close>

text \<open>An answer is words without white space, separated by spaces, with a newline at the end.\<close>

definition clean_word :: "string \<Rightarrow> bool" where
  "clean_word w \<longleftrightarrow> w \<noteq> [] \<and> list_all (\<lambda>c. \<not> isspace c) w \<and> length w < MAXLEN"

lemma strip_clean: "list_all (\<lambda>c. \<not> isspace c) w \<Longrightarrow> strip (w @ [CHR 0x0A]) = w \<and> strip w = w"
proof -
  assume clean: "list_all (\<lambda>c. \<not> isspace c) w"
  then have "dropWhile isspace w = w" and "dropWhile isspace (rev w) = rev w"
    using last_in_set [of w] by (auto simp: list_all_iff dropWhile_eq_self_iff hd_rev)
  moreover have "isspace CHR 0x0A" by (simp add: isspace_def)
  ultimately show ?thesis by (simp add: strip_def)
qed

lemma strtok_all_word: "CHR '' '' \<notin> set w \<Longrightarrow> strtok_all (w @ cs) tok = strtok_all cs (tok @ w)"
  by (induction w arbitrary: tok) auto

lemma clean_word_space: "clean_word w \<Longrightarrow> CHR '' '' \<notin> set w"
  by (auto simp: clean_word_def list_all_iff isspace_def)

lemma argv_last:
  assumes "clean_word w"
  shows "append_items l (strtok_all (w @ [CHR 0x0A]) []) = Inr (l @ [w])"
  using assms clean_word_space [OF assms] strip_clean [of w]
  by (simp add: strtok_all_word clean_word_def item_list_append_def item_list_append_format_def xvsnprintf_def
      trim_eq_strip)

lemma argv_word:
  assumes "clean_word w"
  shows "append_items l (strtok_all (w @ CHR '' '' # cs) []) = append_items (l @ [w]) (strtok_all cs [])"
  using assms clean_word_space [OF assms] strip_clean [of w]
  by (simp add: strtok_all_word clean_word_def item_list_append_def item_list_append_format_def xvsnprintf_def
      trim_eq_strip)

lemma argv_end:
  "append_items l (strtok_all [CHR 0x0A] []) = Inr (l @ [[]])"
  "item_list_append (Some l) (trim [CHR 0x0A]) = Inr (Some (l @ [[]]))"
  by (simp_all add: item_list_append_def item_list_append_format_def xvsnprintf_def trim_eq_strip strip_def isspace_def)

text \<open>An option with its value.\<close>

definition option_word :: "string \<Rightarrow> string \<Rightarrow> string" where
  "option_word name val = ''--'' @ name @ ''='' @ val"

lemma getopt_word:
  assumes "map_of longs name = Some c" and "CHR ''='' \<notin> set name"
  shows "getopt longs shorts (option_word name val # args) = (c, val) # getopt longs shorts args"
proof -
  have "takeWhile (\<lambda>c. c \<noteq> CHR ''='') (name @ CHR ''='' # val) = name"
    using assms(2) by (auto simp: takeWhile_append)
  with assms show ?thesis
    by (subst getopt.simps) (simp add: option_word_def long_option_def Let_def)
qed

lemma getopt_end: "getopt longs shorts [] = []" "getopt longs shorts [[]] = []"
  by (simp_all add: getopt.simps)

lemma clean_option:
  "list_all (\<lambda>c. \<not> isspace c) name \<Longrightarrow> list_all (\<lambda>c. \<not> isspace c) val \<Longrightarrow> length name + length val < 1000 \<Longrightarrow>
   clean_word (option_word name val)"
  by (simp add: clean_word_def option_word_def isspace_def)

lemma clean_digits: "list_all (\<lambda>c. \<not> isspace c) (int_string n)"
  using nat_digits_is_digit [of "nat n"] nat_digits_is_digit [of "nat (- n)"] isspace_not_digit
  by (auto simp: int_string_def list_all_iff isspace_def)

end
