(* ===== verification/Node_Checks.thy ===== *)
theory Node_Checks
  imports Remote_Output
begin

text \<open>
  The checks of \<open>repmgr node check\<close> (\<open>repmgr-action-node.c\<close>): each answers with a status, and either prints a
  line or adds an entry to the list of the overview. What \<open>printf\<close> writes is \<open>Printed\<close> on the trace.
\<close>

section \<open>Printing the outcome of a check\<close>

type_synonym check_list = "(string \<times> check_status \<times> string) list"

text \<open>The exit code a status is.\<close>

definition status_code :: "check_status \<Rightarrow> int" where
  "status_code status =
     (case status of
        CHECK_STATUS_OK \<Rightarrow> 0
      | CHECK_STATUS_WARNING \<Rightarrow> 1
      | CHECK_STATUS_CRITICAL \<Rightarrow> 2
      | CHECK_STATUS_UNKNOWN \<Rightarrow> 3)"

definition newline :: string where "newline = [CHR 0x0A]"

definition print_line :: "string \<Rightarrow> (daemon, unit) state" where
  "print_line t = emit (Printed (t @ newline))"

text \<open>
  The last statement of every check: \<open>optformat\<close> and \<open>nagios\<close> are its lines in these modes, \<open>None\<close> when it
  has none; the answer is the status with the list.
\<close>

definition report_check ::
  "output_mode \<Rightarrow> string \<Rightarrow> check_status \<Rightarrow> string \<Rightarrow> string option \<Rightarrow> string \<Rightarrow> check_list option
     \<Rightarrow> (daemon, int + check_status \<times> check_list option) state" where
  "report_check mode item status details optformat nagios list_output =
     (case mode of
        OM_OPTFORMAT \<Rightarrow> do {
          _ \<leftarrow> (case optformat of None \<Rightarrow> ret () | Some line \<Rightarrow> print_line line);
          ret (Inr (status, list_output))
        }
      | OM_NAGIOS \<Rightarrow> do { _ \<leftarrow> print_line nagios; ret (Inr (status, list_output)) }
      | OM_NOT_SET \<Rightarrow> ret (Inr (status, list_output))
      | _ \<Rightarrow>
          (case list_output of
             Some l \<Rightarrow>
               ret (case check_status_list_set_format l item status details of
                      Inl code \<Rightarrow> Inl code
                    | Inr l \<Rightarrow> Inr (status, Some l))
           | None \<Rightarrow> do {
               _ \<leftarrow> print_line (output_check_status status @ '' ('' @ details @ '')'');
               ret (Inr (status, None))
             }))"

text \<open>CSV output exists for the overview only.\<close>

definition unless_csv ::
  "pgconn \<Rightarrow> output_mode \<Rightarrow> check_list option \<Rightarrow> (daemon, int + 'a) state \<Rightarrow> (daemon, int + 'a) state" where
  "unless_csv conn mode list_output check =
     (if mode = OM_CSV \<and> list_output = None then do { _ \<leftarrow> close_connection conn; ret (Inl ERR_BAD_CONFIG) }
      else check)"

section \<open>Archiving\<close>

definition threshold_status :: "int \<Rightarrow> int \<Rightarrow> int \<Rightarrow> check_status" where
  "threshold_status files warning critical =
     (if files > critical then CHECK_STATUS_CRITICAL
      else if files > warning then CHECK_STATUS_WARNING
      else if files < 0 then CHECK_STATUS_UNKNOWN
      else CHECK_STATUS_OK)"

definition archive_details :: "output_mode \<Rightarrow> int \<Rightarrow> int \<Rightarrow> int \<Rightarrow> string" where
  "archive_details mode files warning critical =
     (let status = threshold_status files warning critical;
          pending = int_string files @ '' pending archive ready files'';
          threshold = (if status = CHECK_STATUS_CRITICAL then critical else warning)
      in case mode of
           OM_OPTFORMAT \<Rightarrow>
             (if status = CHECK_STATUS_UNKNOWN then []
              else if status = CHECK_STATUS_OK then ''--files='' @ int_string files
              else ''--files='' @ int_string files @ '' --threshold='' @ int_string threshold)
         | OM_NAGIOS \<Rightarrow>
             (if status = CHECK_STATUS_UNKNOWN then ''unable to check archive_status directory''
              else pending @ '' | files='' @ int_string files @ '';'' @ int_string warning @ '';'' @ int_string critical)
         | OM_TEXT \<Rightarrow>
             (case status of
                CHECK_STATUS_CRITICAL \<Rightarrow> pending @ '', critical threshold: '' @ int_string critical
              | CHECK_STATUS_WARNING \<Rightarrow> pending @ '' (threshold: '' @ int_string warning @ '')''
              | CHECK_STATUS_UNKNOWN \<Rightarrow> ''unable to check archive_status directory''
              | CHECK_STATUS_OK \<Rightarrow> pending)
         | _ \<Rightarrow> [])"

definition archive_line :: "int \<Rightarrow> int \<Rightarrow> int \<Rightarrow> string" where
  "archive_line files warning critical =
     ''--status='' @ output_check_status (threshold_status files warning critical) @ '' '' @
     archive_details OM_OPTFORMAT files warning critical"

definition do_node_check_archive_ready ::
  "env \<Rightarrow> client \<Rightarrow> pgconn \<Rightarrow> output_mode \<Rightarrow> check_list option \<Rightarrow> (daemon, int + check_status \<times> check_list option) state" where
  "do_node_check_archive_ready env g conn mode list_output =
     unless_csv conn mode list_output (do {
       files \<leftarrow> get_ready_archive_files env;
       let warning = num g ''archive_ready_warning'';
       let critical = num g ''archive_ready_critical'';
       let status = threshold_status files warning critical;
       let details = archive_details mode files warning critical;
       report_check mode ''WAL archiving'' status details (Some (archive_line files warning critical))
         (''REPMGR_ARCHIVE_READY '' @ output_check_status status @ '': '' @ details) list_output
     })"

section \<open>Attached standbys\<close>

text \<open>The names of the missing and of the attached downstream nodes; witnesses do not count.\<close>

definition node_label :: "node_info \<Rightarrow> int + string" where
  "node_label info = xvsnprintf MAXLEN (node_name info @ '' (ID: '' @ int_string (node_id info) @ '')'')"

fun sort_downstream ::
  "env \<Rightarrow> pgconn \<Rightarrow> node_info list \<Rightarrow> string list \<Rightarrow> string list \<Rightarrow> (daemon, int + string list \<times> string list) state" where
  "sort_downstream env conn [] missing att = ret (Inr (missing, att))"
| "sort_downstream env conn (cell # cells) missing att =
     (if node_type cell = WITNESS then sort_downstream env conn cells missing att
      else do {
        present \<leftarrow> is_downstream_node_attached env conn;
        (case node_label cell of
           Inl code \<Rightarrow> ret (Inl code)
         | Inr label \<Rightarrow>
             if \<not> present then sort_downstream env conn cells (missing @ [label]) att
             else sort_downstream env conn cells missing (att @ [label]))
      })"

fun comma_list :: "string \<Rightarrow> string list \<Rightarrow> string" where
  "comma_list sep [] = []"
| "comma_list sep [w] = w"
| "comma_list sep (w # ws) = w @ sep @ comma_list sep ws"

definition downstream_details :: "output_mode \<Rightarrow> string list \<Rightarrow> int \<Rightarrow> string" where
  "downstream_details mode missing expected =
     (let count = int (length missing) in
      if missing = [] then
        (if expected = 0 then ''this node has no downstream nodes''
         else int_string (expected - count) @ '' of '' @ int_string expected @ '' downstream nodes attached'')
      else int_string count @ '' of '' @ int_string expected @ '' downstream nodes not attached'' @
        (if mode \<noteq> OM_NAGIOS then ''; missing: '' @ comma_list '', '' missing else []))"

definition downstream_nagios :: "string list \<Rightarrow> string list \<Rightarrow> int \<Rightarrow> string" where
  "downstream_nagios missing att expected =
     (if missing = [] then [] else ''missing: '' @ comma_list '', '' missing) @
     (if expected - int (length missing) = 0 then []
      else (if missing = [] then [] else ''; '') @ ''attached: '' @ comma_list '', '' att)"

definition do_node_check_downstream ::
  "env \<Rightarrow> client \<Rightarrow> pgconn \<Rightarrow> output_mode \<Rightarrow> check_list option \<Rightarrow> (daemon, int + check_status \<times> check_list option) state" where
  "do_node_check_downstream env g conn mode list_output =
     unless_csv conn mode list_output (do {
       nodes \<leftarrow> on_session env conn (get_downstream_node_records (num g ''node_id''));
       or_exit (sort_downstream env conn nodes [] []) (\<lambda>(missing, att).
         let expected = int (length (filter (\<lambda>cell. node_type cell \<noteq> WITNESS) nodes));
             status = (if missing = [] then CHECK_STATUS_OK else CHECK_STATUS_CRITICAL);
             details = downstream_details mode missing expected
         in report_check mode ''Downstream servers'' status details None
              (''REPMGR_DOWNSTREAM_SERVERS '' @ output_check_status status @ '': '' @ details @ '' | '' @
               downstream_nagios missing att expected) list_output)
     })"

section \<open>Replication lag\<close>

text \<open>The critical threshold is reached at its value, the warning threshold above it.\<close>

definition lag_status :: "int \<Rightarrow> int \<Rightarrow> int \<Rightarrow> check_status" where
  "lag_status lag warning critical =
     (if lag \<ge> critical then CHECK_STATUS_CRITICAL
      else if lag > warning then CHECK_STATUS_WARNING
      else if lag = - 1 then CHECK_STATUS_UNKNOWN
      else CHECK_STATUS_OK)"

definition lag_details :: "output_mode \<Rightarrow> int \<Rightarrow> int \<Rightarrow> int \<Rightarrow> string" where
  "lag_details mode lag warning critical =
     (let status = lag_status lag warning critical;
          seconds = int_string lag @ '' seconds''
      in case mode of
           OM_OPTFORMAT \<Rightarrow>
             (case status of
                CHECK_STATUS_CRITICAL \<Rightarrow> ''--lag='' @ int_string lag @ '' --threshold='' @ int_string critical
              | CHECK_STATUS_WARNING \<Rightarrow> ''--lag='' @ int_string lag @ '' --threshold='' @ int_string warning
              | CHECK_STATUS_UNKNOWN \<Rightarrow> []
              | CHECK_STATUS_OK \<Rightarrow> ''--lag='' @ int_string lag)
         | OM_NAGIOS \<Rightarrow>
             (if status = CHECK_STATUS_UNKNOWN then ''unable to query replication lag''
              else seconds @ '' | lag='' @ int_string lag @ '';'' @ int_string warning @ '';'' @ int_string critical)
         | OM_TEXT \<Rightarrow>
             (case status of
                CHECK_STATUS_CRITICAL \<Rightarrow> seconds @ '', critical threshold: '' @ int_string critical @ '')''
              | CHECK_STATUS_WARNING \<Rightarrow> seconds @ '', warning threshold: '' @ int_string warning @ '')''
              | CHECK_STATUS_UNKNOWN \<Rightarrow> ''unable to query replication lag''
              | CHECK_STATUS_OK \<Rightarrow> seconds)
         | _ \<Rightarrow> [])"

definition primary_lag_details :: "output_mode \<Rightarrow> server_type \<Rightarrow> int \<Rightarrow> int \<Rightarrow> string" where
  "primary_lag_details mode t warning critical =
     (case mode of
        OM_OPTFORMAT \<Rightarrow> ''--lag=0''
      | OM_NAGIOS \<Rightarrow> ''0 seconds | lag=0;'' @ int_string warning @ '';'' @ int_string critical
      | OM_TEXT \<Rightarrow> if t = WITNESS then ''N/A - node is witness'' else ''N/A - node is primary''
      | _ \<Rightarrow> [])"

definition do_node_check_replication_lag ::
  "env \<Rightarrow> client \<Rightarrow> pgconn \<Rightarrow> output_mode \<Rightarrow> node_info \<Rightarrow> check_list option
     \<Rightarrow> (daemon, int + check_status \<times> check_list option) state" where
  "do_node_check_replication_lag env g conn mode info list_output =
     unless_csv conn mode list_output (do {
       let warning = num g ''replication_lag_warning'';
       let critical = num g ''replication_lag_critical'';
       (status, details) \<leftarrow>
         (if recovery_type info = RECTYPE_PRIMARY then
            ret (CHECK_STATUS_OK, primary_lag_details mode (node_type info) warning critical)
          else do {
            lag \<leftarrow> get_replication_lag_seconds env conn;
            ret (lag_status lag warning critical, lag_details mode lag warning critical)
          });
       report_check mode ''Replication lag'' status details
         (Some (''--status='' @ output_check_status status @ '' '' @ details))
         (''REPMGR_REPLICATION_LAG '' @ output_check_status status @ '': '' @ details) list_output
     })"

section \<open>Role\<close>

text \<open>
  A registered role against the recovery state. \<open>bdr\<close> is what the multi-master functions find out: an error
  text of \<open>is_bdr_db\<close>, and whether the node is active.
\<close>

definition role_status :: "server_type \<Rightarrow> recovery_type \<Rightarrow> string option \<Rightarrow> bool \<Rightarrow> check_status \<times> string" where
  "role_status t recovery bdr_error bdr_active =
     (case t of
        PRIMARY \<Rightarrow>
          if recovery = RECTYPE_STANDBY then
            (CHECK_STATUS_CRITICAL, ''node is registered as primary but running as standby'')
          else (CHECK_STATUS_OK, ''node is primary'')
      | STANDBY \<Rightarrow>
          if recovery = RECTYPE_PRIMARY then
            (CHECK_STATUS_CRITICAL, ''node is registered as standby but running as primary'')
          else (CHECK_STATUS_OK, ''node is standby'')
      | WITNESS \<Rightarrow>
          if recovery = RECTYPE_STANDBY then
            (CHECK_STATUS_CRITICAL, ''node is registered as witness but running as standby'')
          else (CHECK_STATUS_OK, ''node is witness'')
      | BDR \<Rightarrow>
          (case bdr_error of
             Some t \<Rightarrow> (CHECK_STATUS_CRITICAL, t)
           | None \<Rightarrow>
               if bdr_active then (CHECK_STATUS_OK, ''node is an active BDR node'')
               else (CHECK_STATUS_CRITICAL, ''node is not an active BDR node''))
      | UNKNOWN \<Rightarrow> (CHECK_STATUS_OK, []))"

definition do_node_check_role ::
  "env \<Rightarrow> string option \<Rightarrow> bool \<Rightarrow> pgconn \<Rightarrow> output_mode \<Rightarrow> node_info \<Rightarrow> check_list option
     \<Rightarrow> (daemon, int + check_status \<times> check_list option) state" where
  "do_node_check_role env bdr_error bdr_active conn mode info list_output = do {
     recovery \<leftarrow> get_recovery_type env conn;
     unless_csv conn mode list_output (do {
       let (status, details) = role_status (node_type info) recovery bdr_error bdr_active;
       report_check mode ''Server role'' status details None
         (''REPMGR_SERVER_ROLE '' @ output_check_status status @ '': '' @ details) list_output
     })
   }"

section \<open>Replication slots\<close>

definition slots_status :: "int \<Rightarrow> node_info \<Rightarrow> check_status \<times> string" where
  "slots_status version info =
     (let total = int_string (total_replication_slots info) in
      if version < 90400 then (CHECK_STATUS_OK, ''replication slots not available for this PostgreSQL version'')
      else if total_replication_slots info = 0 then (CHECK_STATUS_OK, ''node has no physical replication slots'')
      else if inactive_replication_slots info = 0 then
        (CHECK_STATUS_OK, total @ '' of '' @ total @ '' physical replication slots are active'')
      else if inactive_replication_slots info > 0 then
        (CHECK_STATUS_CRITICAL, int_string (inactive_replication_slots info) @ '' of '' @ total @
           '' physical replication slots are inactive'')
      else (CHECK_STATUS_OK, []))"

definition do_node_check_slots ::
  "env \<Rightarrow> pgconn \<Rightarrow> output_mode \<Rightarrow> node_info \<Rightarrow> check_list option
     \<Rightarrow> (daemon, int + check_status \<times> check_list option) state" where
  "do_node_check_slots env conn mode info list_output =
     unless_csv conn mode list_output (do {
       let (status, details) = slots_status (e_version env conn) info;
       report_check mode ''Replication slots'' status details None
         (''REPMGR_INACTIVE_SLOTS '' @ output_check_status status @ '': '' @ details @ '' | slots='' @
          int_string (total_replication_slots info) @ '';'' @ int_string (inactive_replication_slots info))
         list_output
     })"

definition missing_slots_details :: "node_info list \<Rightarrow> string" where
  "missing_slots_details missing =
     (if missing = [] then ''node has no missing physical replication slots''
      else int_string (int (length missing)) @ '' physical replication slots are missing: '' @
        comma_list '', '' (map slot_name missing))"

definition do_node_check_missing_slots ::
  "env \<Rightarrow> client \<Rightarrow> pgconn \<Rightarrow> output_mode \<Rightarrow> check_list option
     \<Rightarrow> (daemon, int + check_status \<times> check_list option) state" where
  "do_node_check_missing_slots env g conn mode list_output =
     unless_csv conn mode list_output (do {
       (details, missing) \<leftarrow>
         (if e_version env conn < 90400 then
            ret (''replication slots not available for this PostgreSQL version'', [])
          else do {
            (_, missing) \<leftarrow> get_downstream_nodes_with_missing_slot env conn (num g ''node_id'');
            ret (missing_slots_details missing, missing)
          });
       let status = (if missing = [] then CHECK_STATUS_OK else CHECK_STATUS_CRITICAL);
       report_check mode ''Missing physical replication slots'' status details None
         (''REPMGR_MISSING_SLOTS '' @ output_check_status status @ '': '' @ details @ '' | missing_slots='' @
          int_string (int (length missing)) @
          (if missing = [] then [] else '';'' @ comma_list '','' (map slot_name missing))) list_output
     })"

section \<open>Data directory\<close>

text \<open>
  The configured directory against the server's. A setting that cannot be read leaves the empty
  directory, which is compared all the same. Without access to the settings the message names that
  empty directory, not the configured one.
\<close>

definition directory_details :: "output_mode \<Rightarrow> string \<Rightarrow> string \<Rightarrow> string" where
  "directory_details mode configured actual =
     (let q = [CHR 0x22] in
      if \<not> strncmp_eq MAXPGPATH actual configured then
        (if mode \<noteq> OM_NAGIOS then
           ''configured '' @ q @ ''data_directory'' @ q @ '' is '' @ q @ configured @ q @ ''; ''
         else []) @ ''actual data directory is '' @ q @ actual @ q
      else ''configured '' @ q @ ''data_directory'' @ q @ '' is '' @ q @ configured @ q)"

definition invalid_directory :: "output_mode \<Rightarrow> string" where
  "invalid_directory mode =
     (let q = [CHR 0x22] in
      ''configured '' @ q @ ''data_directory'' @ q @ (if mode = OM_NAGIOS then [] else '' '' @ q @ q) @
      '' is not a PostgreSQL data directory'')"

definition do_node_check_data_directory ::
  "env \<Rightarrow> client \<Rightarrow> pgconn \<Rightarrow> output_mode \<Rightarrow> check_list option
     \<Rightarrow> (daemon, int + check_status \<times> check_list option) state" where
  "do_node_check_data_directory env g conn mode list_output =
     unless_csv conn mode list_output (do {
       let configured = str g ''data_directory'';
       readable \<leftarrow> connection_has_pg_settings env conn;
       (status, details) \<leftarrow>
         (if readable then do {
            (found, actual) \<leftarrow> get_pg_setting env conn ''data_directory'' [];
            let unread = (if found then []
                          else ''unable to determine current '' @ [CHR 0x22] @ ''data_directory'' @ [CHR 0x22]);
            ret (if \<not> strncmp_eq MAXPGPATH actual configured then CHECK_STATUS_CRITICAL
                 else if \<not> found then CHECK_STATUS_UNKNOWN
                 else CHECK_STATUS_OK,
                 unread @ directory_details mode configured actual)
          }
          else do {
            valid_dir \<leftarrow> is_pg_dir env;
            ret (if valid_dir then (CHECK_STATUS_OK, []) else (CHECK_STATUS_CRITICAL, invalid_directory mode))
          });
       report_check mode ''Configured data directory'' status details
         (Some (''--configured-data-directory='' @ output_check_status status))
         (''REPMGR_DATA_DIRECTORY '' @ output_check_status status @ '': '' @ configured @
          (if status = CHECK_STATUS_CRITICAL then '' | '' @ details else [])) list_output
     })"

section \<open>A replication connection to another node\<close>

text \<open>A parameter list without a user, whose \<open>NULL\<close> would be passed to \<open>strcmp\<close>, has no user equal to another.\<close>

definition remote_replication_params :: "env \<Rightarrow> node_info \<Rightarrow> conninfo_params" where
  "remote_replication_params env info =
     (let pl = snd (parse_conninfo_string (e_parse env (conninfo info))
                 (initialize_conninfo_params (e_defaults env) False) False);
          pl = (if param_get pl ''user'' \<noteq> Some (repluser info)
                then param_set (param_set pl ''user'' (repluser info)) ''dbname'' ''replication'' else pl)
      in param_set pl ''replication'' ''1'')"

definition do_node_check_replication_connection :: "env \<Rightarrow> client \<Rightarrow> (daemon, int + unit) state" where
  "do_node_check_replication_connection env g =
     (let answer = (\<lambda>t. do { _ \<leftarrow> print_line (''--connection='' @ t); ret (Inr ()) }) in
      if rt_remote_node_id (rt g) = UNKNOWN_NODE_ID then answer ''UNKNOWN''
      else or_exit (establish_db_connection_exit env (str g ''conninfo'') True) (\<lambda>local_conn. do {
        (record_status, info) \<leftarrow>
          on_session env local_conn (get_node_record (rt_remote_node_id (rt g)) node_info_init);
        _ \<leftarrow> close_connection local_conn;
        if record_status \<noteq> RECORD_FOUND then answer ''UNKNOWN''
        else do {
          repl_conn \<leftarrow> establish_db_connection_by_params env (remote_replication_params env info);
          ok \<leftarrow> PQstatus_ok env repl_conn;
          if \<not> ok then answer ''BAD''
          else do { _ \<leftarrow> close_connection repl_conn; answer ''OK'' }
        }
      }))"

section \<open>The command\<close>

text \<open>The checks of the overview in their order, with the list and whether an issue was found.\<close>

fun overview ::
  "(check_list option \<Rightarrow> (daemon, int + check_status \<times> check_list option) state) list \<Rightarrow> check_list option \<Rightarrow> bool
     \<Rightarrow> (daemon, int + check_list option \<times> bool) state" where
  "overview [] l issue = ret (Inr (l, issue))"
| "overview (check # checks) l issue =
     or_exit (check l) (\<lambda>(status, l). overview checks l (issue \<or> status \<noteq> CHECK_STATUS_OK))"

definition node_checks ::
  "env \<Rightarrow> client \<Rightarrow> string option \<Rightarrow> bool \<Rightarrow> pgconn \<Rightarrow> output_mode \<Rightarrow> node_info
     \<Rightarrow> (check_list option \<Rightarrow> (daemon, int + check_status \<times> check_list option) state) list" where
  "node_checks env g bdr_error bdr_active conn mode info =
     [do_node_check_role env bdr_error bdr_active conn mode info, do_node_check_replication_lag env g conn mode info,
      do_node_check_archive_ready env g conn mode, do_node_check_downstream env g conn mode,
      do_node_check_slots env conn mode info, do_node_check_missing_slots env g conn mode,
      do_node_check_data_directory env g conn mode]"

definition overview_entry :: "output_mode \<Rightarrow> string \<times> check_status \<times> string \<Rightarrow> string" where
  "overview_entry mode entry =
     (case entry of
        (item, status, details) \<Rightarrow>
          if mode = OM_CSV then
            quoted item @ '','' @ quoted (output_check_status status) @
            (if details = [] then [] else '','' @ quoted details) @ newline
          else
            [CHR 0x09] @ item @ '': '' @ output_check_status status @
            (if details = [] then [] else '' ('' @ details @ '')'') @ newline)"

definition overview_text :: "output_mode \<Rightarrow> node_info \<Rightarrow> check_list \<Rightarrow> string" where
  "overview_text mode info l =
     (if mode = OM_CSV then
        quoted ''Node name'' @ '','' @ quoted (node_name info) @ newline @
        quoted ''Node ID'' @ '','' @ quoted (int_string (node_id info)) @ newline
      else ''Node '' @ quoted (node_name info) @ '':'' @ newline) @
     concat (map (overview_entry mode) l)"

abbreviation (input) ERR_NODE_STATUS :: int where "ERR_NODE_STATUS \<equiv> 25"

text \<open>One check: the exit code is its status.\<close>

definition exit_with_status ::
  "pgconn \<Rightarrow> (daemon, int + check_status \<times> check_list option) state \<Rightarrow> (daemon, int + unit) state" where
  "exit_with_status conn check =
     or_exit check (\<lambda>(status, _). do { _ \<leftarrow> close_connection conn; ret (Inl (status_code status)) })"

definition check_everything ::
  "env \<Rightarrow> client \<Rightarrow> string option \<Rightarrow> bool \<Rightarrow> pgconn \<Rightarrow> node_info \<Rightarrow> (daemon, int + unit) state" where
  "check_everything env g bdr_error bdr_active conn info =
     (let mode = rt_output_mode (rt g) in
      if mode = OM_NAGIOS then do { _ \<leftarrow> close_connection conn; ret (Inl ERR_BAD_CONFIG) }
      else or_exit (overview (node_checks env g bdr_error bdr_active conn mode info) (Some []) False)
        (\<lambda>(l, issue). do {
           _ \<leftarrow> emit (Printed (overview_text mode info (case l of None \<Rightarrow> [] | Some l \<Rightarrow> l)));
           _ \<leftarrow> close_connection conn;
           ret (if issue then Inl ERR_NODE_STATUS else Inr ())
         }))"

definition run_checks ::
  "env \<Rightarrow> client \<Rightarrow> string option \<Rightarrow> bool \<Rightarrow> pgconn \<Rightarrow> node_info \<Rightarrow> (daemon, int + unit) state" where
  "run_checks env g bdr_error bdr_active conn info =
     (let mode = rt_output_mode (rt g); one = exit_with_status conn in
      if rt_archive_ready (rt g) then one (do_node_check_archive_ready env g conn mode None)
      else if rt_downstream (rt g) then one (do_node_check_downstream env g conn mode None)
      else if rt_replication_lag (rt g) then one (do_node_check_replication_lag env g conn mode info None)
      else if rt_role (rt g) then one (do_node_check_role env bdr_error bdr_active conn mode info None)
      else if rt_slots (rt g) then one (do_node_check_slots env conn mode info None)
      else if rt_missing_slots (rt g) then one (do_node_check_missing_slots env g conn mode None)
      else if rt_data_directory_config (rt g) then one (do_node_check_data_directory env g conn mode None)
      else check_everything env g bdr_error bdr_active conn info)"

definition do_node_check :: "env \<Rightarrow> client \<Rightarrow> string option \<Rightarrow> bool \<Rightarrow> (daemon, int + unit) state" where
  "do_node_check env g bdr_error bdr_active =
     (if rt_has_passfile (rt g) then ret (Inl (if has_passfile (e_defaults env) then 0 else 1))
      else if rt_replication_connection (rt g) then
        or_exit (do_node_check_replication_connection env g) (\<lambda>_. ret (Inl 0))
      else or_exit
        (if str g ''conninfo'' \<noteq> [] then establish_db_connection_exit env (str g ''conninfo'') True
         else establish_by_params_exit env (source_conninfo g)) (\<lambda>conn. do {
          (record_status, info) \<leftarrow> on_session env conn (get_node_record (num g ''node_id'') node_info_init);
          if record_status \<noteq> RECORD_FOUND then do { _ \<leftarrow> close_connection conn; ret (Inl ERR_BAD_CONFIG) }
          else do {
            info \<leftarrow> get_node_replication_stats env conn info;
            run_checks env g bdr_error bdr_active conn info
          }
        }))"

section \<open>Properties\<close>

lemma status_word:
  "list_all (\<lambda>c. \<not> isspace c) (output_check_status status) \<and> length (output_check_status status) \<le> 8"
  "check_answer (output_check_status status) = status"
  by (cases status; simp add: output_check_status_def isspace_def check_answer_def strncmp_eq_def)+

lemma archiver_map:
  "map_of archiver_options ''status'' = Some CHR ''S''" "map_of archiver_options ''files'' = Some CHR ''f''"
  "map_of archiver_options ''threshold'' = Some CHR ''t''"
  by (simp_all add: archiver_options_def)

text \<open>Each form the line can have, as words.\<close>

lemma archive_line_words:
  "archive_line files warning critical =
     (let status = option_word ''status'' (output_check_status (threshold_status files warning critical));
          pending = option_word ''files'' (int_string files)
      in case threshold_status files warning critical of
           CHECK_STATUS_UNKNOWN \<Rightarrow> status @ '' ''
         | CHECK_STATUS_OK \<Rightarrow> status @ CHR '' '' # pending
         | CHECK_STATUS_WARNING \<Rightarrow> status @ CHR '' '' # pending @ CHR '' '' # option_word ''threshold'' (int_string warning)
         | CHECK_STATUS_CRITICAL \<Rightarrow> status @ CHR '' '' # pending @ CHR '' '' # option_word ''threshold'' (int_string critical))"
  by (simp add: archive_line_def archive_details_def option_word_def Let_def split: check_status.split)

lemma clean_status: "clean_word (option_word ''status'' (output_check_status status))"
  using status_word(1) [of status] by (intro clean_option) (auto simp: isspace_def)

lemma clean_number:
  "- (2 ^ 31) \<le> n \<Longrightarrow> n < 2 ^ 31 \<Longrightarrow> clean_word (option_word ''files'' (int_string n))"
  "- (2 ^ 31) \<le> n \<Longrightarrow> n < 2 ^ 31 \<Longrightarrow> clean_word (option_word ''threshold'' (int_string n))"
  using int_string_length [of n] by (intro clean_option clean_digits; simp add: isspace_def)+

lemma archiver_getopt:
  "getopt archiver_options shorts (option_word ''status'' v # args) = (CHR ''S'', v) # getopt archiver_options shorts args"
  "getopt archiver_options shorts (option_word ''files'' v # args) = (CHR ''f'', v) # getopt archiver_options shorts args"
  "getopt archiver_options shorts (option_word ''threshold'' v # args) = (CHR ''t'', v) # getopt archiver_options shorts args"
  by (rule getopt_word [OF archiver_map(1)] getopt_word [OF archiver_map(2)] getopt_word [OF archiver_map(3)]; simp)+

text \<open>
  C29: the line \<open>node check --archive-ready\<close> prints for another client is read back by that client: the status,
  the number of files and the threshold that was exceeded are those of the check, and nothing but the
  status when the files could not be counted.
\<close>

theorem archiver_answer_read:
  assumes "- (2 ^ 31) \<le> files" and "files < 2 ^ 31" and "0 \<le> warning" and "warning < 2 ^ 31"
    and "0 \<le> critical" and "critical < 2 ^ 31"
  shows "parse_node_check_archiver (archive_line files warning critical @ newline) =
    Inr (threshold_status files warning critical,
         if files < 0 then 0 else files,
         if files > critical then critical else if files > warning then warning else 0)"
proof -
  note numbers = clean_number [OF assms(1,2)] clean_number [of warning] clean_number [of critical]
    atoi_int_string [OF assms(1,2)] atoi_int_string [of warning] atoi_int_string [of critical]
  have nonempty: "archive_line files warning critical @ newline \<noteq> []" by (simp add: newline_def)
  show ?thesis
    using assms numbers clean_status
    unfolding parse_node_check_archiver_def parse_output_to_argv_def if_not_P [OF nonempty]
    by (cases "threshold_status files warning critical")
      (auto simp: archive_line_words newline_def argv_word argv_last argv_end archiver_getopt getopt_end
        archiver_option_def status_word threshold_status_def split: if_splits)
qed

lemma archiver_answer_read_witness:
  "parse_node_check_archiver (archive_line 200 16 128 @ newline) = Inr (CHECK_STATUS_CRITICAL, 200, 128)"
  using archiver_answer_read [of 200 16 128] by (simp add: threshold_status_def)

lemma status_getopt:
  "getopt status_options shorts (option_word ''state'' v # args) = (CHR ''S'', v) # getopt status_options shorts args"
  "getopt status_options shorts (option_word ''last-checkpoint-lsn'' v # args) =
     (CHR ''L'', v) # getopt status_options shorts args"
  by (rule getopt_word; simp add: status_options_def)+

lemma clean_state: "clean_word (option_word ''state'' (print_node_status status))"
  by (cases status; intro clean_option; simp add: isspace_def print_node_status_def)

lemma hex_digits_length: "n < 16 ^ Suc k \<Longrightarrow> length (hex_digits n) \<le> Suc k"
proof (induction k arbitrary: n)
  case 0
  then show ?case by (simp add: hex_digits.simps [of n])
next
  case (Suc k)
  then have "n div 16 < 16 ^ Suc k" by (simp add: less_mult_imp_div_less mult.commute)
  from Suc.IH [OF this] show ?case by (cases "n < 16") (simp_all add: hex_digits.simps [of n])
qed

lemma clean_lsn: "clean_word (option_word ''last-checkpoint-lsn'' (lsn_string w))"
proof (rule clean_option)
  have "\<not> isspace c" if "c \<in> set (hex_digits n)" for c n
    using hex_digits_chars [OF that] hex_char_plain(1) by auto
  then show "list_all (\<lambda>c. \<not> isspace c) (lsn_string w)"
    by (auto simp: lsn_string_def list_all_iff isspace_def)
  have "unat v < 16 ^ Suc 15" for v :: "64 word" using unsigned_less [of v] by simp
  from hex_digits_length [OF this] have "length (hex_digits (unat v)) \<le> 16" for v :: "64 word" by simp
  from this [of "drop_bit 32 w"] this [of "take_bit 32 w"]
  show "length ''last-checkpoint-lsn'' + length (lsn_string w) < 1000" by (simp add: lsn_string_def)
qed (simp add: isspace_def)

lemma status_line_words:
  "status_line status checkPoint =
     (if status = NODE_STATUS_DOWN then
        option_word ''state'' (print_node_status status) @ CHR '' '' #
        option_word ''last-checkpoint-lsn'' (lsn_string checkPoint)
      else option_word ''state'' (print_node_status status))"
  by (simp add: status_line_def option_word_def)

lemma state_read:
  "state_status (print_node_status status) NODE_STATUS_UNKNOWN =
     (if status \<in> {NODE_STATUS_DOWN, NODE_STATUS_UNCLEAN_SHUTDOWN} then status else NODE_STATUS_UNKNOWN)"
  by (cases status) (simp_all add: state_status_def print_node_status_def)

text \<open>
  C30: what \<open>node status --is-shutdown-cleanly\<close> prints, read by the client or daemon that asked: the server
  counts as shut down exactly when it does not respond, its control file can be read and says so, and then
  the position of the last checkpoint is the one in the control file. A server that responds is not read
  as running but as unknown: the one side prints \<open>UP\<close> or \<open>SHUTTING_DOWN\<close>, the other expects \<open>RUNNING\<close>.
\<close>

theorem shutdown_answer_read:
  "parse_node_status_is_shutdown_cleanly (status_line (shutdown_status ping state checkPoint) checkPoint @ newline) old =
   (if ping \<in> {PQPING_OK, PQPING_REJECT} \<or> checkPoint = InvalidXLogRecPtr then Inr (NODE_STATUS_UNKNOWN, old)
    else if state \<in> {DB_SHUTDOWNED, DB_SHUTDOWNED_IN_RECOVERY} then Inr (NODE_STATUS_DOWN, checkPoint)
    else Inr (NODE_STATUS_UNCLEAN_SHUTDOWN, old))"
proof -
  have nonempty: "status_line status checkPoint @ newline \<noteq> []" for status by (simp add: newline_def)
  have read: "parse_node_status_is_shutdown_cleanly (status_line status checkPoint @ newline) old =
      Inr (if status \<in> {NODE_STATUS_DOWN, NODE_STATUS_UNCLEAN_SHUTDOWN} then status else NODE_STATUS_UNKNOWN,
           if status = NODE_STATUS_DOWN then checkPoint else old)" for status
    using clean_state clean_lsn
    unfolding parse_node_status_is_shutdown_cleanly_def check_service_status_is_shutdown_cleanly_def
      parse_output_to_argv_def if_not_P [OF nonempty]
    by (cases status)
      (simp_all add: status_line_words newline_def argv_word argv_last status_getopt getopt_end state_read
        parse_lsn_string)
  show ?thesis
    unfolding read by (cases ping; cases state) (simp_all add: shutdown_status_def pinged_status_def)
qed

section \<open>The overview\<close>

fun is_printed :: "effect \<Rightarrow> bool" where
  "is_printed (Printed t) = True"
| "is_printed e = False"

lemma printed_not_harmless [simp]: "is_printed e \<Longrightarrow> \<not> harmless e"
  by (cases e) simp_all

lemma silent_downstream: "silent (sort_downstream env conn cells missing att)"
proof (induction cells arbitrary: missing att)
  case Nil
  then show ?case by (auto intro!: silently)
next
  case (Cons cell cells)
  then show ?case by (auto intro!: silently)
qed

text \<open>A check that adds an entry for \<open>item\<close>, with its status, to the list it gets, or leaves the program.\<close>

definition enters :: "string \<Rightarrow> (check_list option \<Rightarrow> (daemon, int + check_status \<times> check_list option) state) \<Rightarrow> bool" where
  "enters item check \<longleftrightarrow> (\<forall>l. yields is_printed (check (Some l))
     (\<lambda>r es. es = [] \<and> (case r of Inl code \<Rightarrow> True
        | Inr (status, l') \<Rightarrow> \<exists>details. l' = Some (l @ [(item, status, details)]))))"

lemma report_check_enters:
  assumes "mode \<in> {OM_TEXT, OM_CSV}"
  shows "yields is_printed (report_check mode item status details optformat nagios (Some l))
    (\<lambda>r es. es = [] \<and> (case r of Inl code \<Rightarrow> True
       | Inr (status, l') \<Rightarrow> \<exists>details. l' = Some (l @ [(item, status, details)])))"
  using assms
  by (auto simp: report_check_def check_status_list_set_format_def intro!: yielding split: sum.split)

lemma checks_enter:
  assumes "mode \<in> {OM_TEXT, OM_CSV}"
  shows "enters ''Server role'' (do_node_check_role env bdr_error bdr_active conn mode info)"
    "enters ''Replication lag'' (do_node_check_replication_lag env g conn mode info)"
    "enters ''WAL archiving'' (do_node_check_archive_ready env g conn mode)"
    "enters ''Downstream servers'' (do_node_check_downstream env g conn mode)"
    "enters ''Replication slots'' (do_node_check_slots env conn mode info)"
    "enters ''Missing physical replication slots'' (do_node_check_missing_slots env g conn mode)"
    "enters ''Configured data directory'' (do_node_check_data_directory env g conn mode)"
  unfolding enters_def do_node_check_role_def do_node_check_replication_lag_def do_node_check_archive_ready_def
    do_node_check_downstream_def do_node_check_slots_def do_node_check_missing_slots_def
    do_node_check_data_directory_def unless_csv_def Let_def
  by (intro allI yielding reading silent_downstream [THEN yields_silent] sum_cases; simp add: report_check_enters [OF assms] Let_def split: prod.split)+

lemma overview_enters:
  assumes "list_all2 enters items checks"
  shows "yields is_printed (overview checks (Some l) issue)
    (\<lambda>r es. es = [] \<and> (case r of Inl code \<Rightarrow> True
       | Inr (l', issue') \<Rightarrow> \<exists>entries. l' = Some (l @ entries) \<and> map fst entries = items \<and>
           issue' = (issue \<or> (\<exists>e \<in> set entries. fst (snd e) \<noteq> CHECK_STATUS_OK))))"
  using assms
proof (induction items checks arbitrary: l issue rule: list_all2_induct)
  case Nil
  then show ?case by (auto intro!: yielding)
next
  case (Cons item items check checks)
  show ?case
    unfolding overview.simps
    by (rule yields_or_exit, rule yields_mono, rule Cons.hyps(1) [unfolded enters_def, rule_format, of l])
      (force split: sum.splits intro!: yields_mono [OF Cons.IH])
qed

lemma overview_printed:
  assumes "list_all2 enters items checks"
  shows "yields is_printed
    (or_exit (overview checks (Some []) False)
       (\<lambda>(l, issue). do {
          _ \<leftarrow> emit (Printed (heading (case l of None \<Rightarrow> [] | Some l \<Rightarrow> l)));
          _ \<leftarrow> close_connection conn;
          ret (if issue then Inl ERR_NODE_STATUS else Inr ())
        }))
    (\<lambda>r es. (\<exists>code. r = Inl code \<and> es = []) \<or>
       (\<exists>entries. es = [Printed (heading entries)] \<and> map fst entries = items \<and>
          r = (if \<exists>e \<in> set entries. fst (snd e) \<noteq> CHECK_STATUS_OK then Inl ERR_NODE_STATUS else Inr ())))"
proof (rule yields_or_exit, rule yields_mono [OF overview_enters [OF assms]])
  fix x :: "int + check_list option \<times> bool" and es :: "effect list"
  assume "es = [] \<and> (case x of Inl code \<Rightarrow> True
    | Inr (l', issue') \<Rightarrow> \<exists>entries. l' = Some ([] @ entries) \<and> map fst entries = items \<and>
        issue' = (False \<or> (\<exists>e \<in> set entries. fst (snd e) \<noteq> CHECK_STATUS_OK)))"
  then consider code where "x = Inl code" "es = []"
    | entries where "x = Inr (Some entries, \<exists>e \<in> set entries. fst (snd e) \<noteq> CHECK_STATUS_OK)"
        "map fst entries = items" "es = []"
    by (auto split: sum.splits)
  then show "case x of Inl c \<Rightarrow> (\<exists>code. Inl c = Inl code \<and> es = []) \<or>
        (\<exists>entries. es = [Printed (heading entries)] \<and> map fst entries = items \<and>
          Inl c = (if \<exists>e \<in> set entries. fst (snd e) \<noteq> CHECK_STATUS_OK then Inl ERR_NODE_STATUS else Inr ()))
    | Inr v \<Rightarrow> yields is_printed
        (case v of (l, issue) \<Rightarrow> do {
           _ \<leftarrow> emit (Printed (heading (case l of None \<Rightarrow> [] | Some l \<Rightarrow> l)));
           _ \<leftarrow> close_connection conn;
           ret (if issue then Inl ERR_NODE_STATUS else Inr ())
         })
        (\<lambda>y es'. (\<exists>code. y = Inl code \<and> es @ es' = []) \<or>
          (\<exists>entries. es @ es' = [Printed (heading entries)] \<and> map fst entries = items \<and>
            y = (if \<exists>e \<in> set entries. fst (snd e) \<noteq> CHECK_STATUS_OK then Inl ERR_NODE_STATUS else Inr ())))"
    by cases (auto intro!: yielding reading)
qed

definition check_items :: "string list" where
  "check_items =
     [''Server role'', ''Replication lag'', ''WAL archiving'', ''Downstream servers'', ''Replication slots'',
      ''Missing physical replication slots'', ''Configured data directory'']"



end
