(* ===== verification/Promote.thy ===== *)
theory Promote
  imports Client
begin

text \<open>
  \<open>repmgr standby promote\<close> (\<open>repmgr-action-standby.c\<close>), which is also the promotion command of the daemon.
\<close>

section \<open>Waiting for the promotion\<close>

text \<open>
  The loop asks until the server is not in recovery any more or the timeout is over; \<open>i\<close> are the seconds
  that have passed. \<open>None\<close>: still waiting after \<open>n\<close> rounds.
\<close>

fun await_promotion :: "env \<Rightarrow> client \<Rightarrow> pgconn \<Rightarrow> nat \<Rightarrow> int \<Rightarrow> recovery_type \<Rightarrow> (daemon, recovery_type option) state" where
  "await_promotion env g conn 0 i recovery = ret None"
| "await_promotion env g conn (Suc n) i recovery =
     (if i < num g ''promote_check_timeout'' then do {
        recovery \<leftarrow> get_recovery_type env conn;
        if recovery = RECTYPE_PRIMARY then ret (Some recovery)
        else do {
          _ \<leftarrow> sleep (num g ''promote_check_interval'');
          await_promotion env g conn n (i + num g ''promote_check_interval'') recovery
        }
      }
      else ret (Some recovery))"

text \<open>With an interval of at least a second the loop ends within as many rounds as the timeout has seconds.\<close>

lemma await_promotion_returns:
  assumes "1 \<le> num g ''promote_check_interval''"
  shows "nat (num g ''promote_check_timeout'' - i) < n \<Longrightarrow> result (await_promotion env g conn n i recovery) d \<noteq> None"
proof (induction n arbitrary: i recovery d)
  case (Suc n)
  show ?case
  proof (cases "i < num g ''promote_check_timeout''")
    case True
    with Suc.prems assms have
      "nat (num g ''promote_check_timeout'' - (i + num g ''promote_check_interval'')) < n" by linarith
    from Suc.IH [OF this] True show ?thesis by (simp add: case_prod_unfold)
  qed simp
qed simp

section \<open>The promotion\<close>

text \<open>The command is \<open>pg_promote\<close> from version 12 on, else the script of the action.\<close>

definition start_promotion :: "env \<Rightarrow> client \<Rightarrow> pgconn \<Rightarrow> int \<Rightarrow> (daemon, int + unit) state" where
  "start_promotion env g conn version =
     (if version \<ge> 120000 then do {
        started \<leftarrow> promote_standby env conn;
        ret (if started then Inr () else Inl ERR_PROMOTION_FAIL)
      }
      else
        (case get_server_action g ACTION_PROMOTE [] (get_node_config_directory g []) of
           Inl code \<Rightarrow> ret (Inl code)
         | Inr script \<Rightarrow> do {
             r \<leftarrow> system_command env script;
             ret (if r = 0 then Inr () else Inl ERR_PROMOTION_FAIL)
           }))"

definition record_promotion :: "env \<Rightarrow> client \<Rightarrow> pgconn \<Rightarrow> node_info \<Rightarrow> (daemon, int + unit) state" where
  "record_promotion env g conn local = do {
     ok \<leftarrow> set_primary_on env conn (num g ''node_id'');
     if \<not> ok then do {
       _ \<leftarrow> create_event_notification env NULL_CONN (num g ''node_id'') ''standby_promote'' False
         (''unable to update node record for node '' @ int_string (num g ''node_id''));
       ret (Inl ERR_DB_QUERY)
     }
     else do {
       _ \<leftarrow> create_event_notification env conn (num g ''node_id'') ''standby_promote'' True
         (''server '' @ quoted (node_name local) @ '' (ID: '' @ int_string (node_id local) @
          '') was successfully promoted to primary'');
       ret (Inr ())
     }
   }"

text \<open>\<open>Inr None\<close>: the promotion is still awaited after \<open>n\<close> rounds.\<close>

definition finish_promotion ::
  "env \<Rightarrow> client \<Rightarrow> pgconn \<Rightarrow> node_info \<Rightarrow> recovery_type option \<Rightarrow> (daemon, int + unit option) state" where
  "finish_promotion env g conn local recovery =
     (case recovery of
        None \<Rightarrow> ret (Inr None)
      | Some recovery \<Rightarrow>
          if recovery = RECTYPE_PRIMARY then
            or_exit (record_promotion env g conn local) (\<lambda>_. ret (Inr (Some ())))
          else do {
            _ \<leftarrow> close_connection conn;
            ret (Inl (if recovery = RECTYPE_STANDBY then ERR_PROMOTION_FAIL else ERR_DB_CONN))
          })"

definition promote_server ::
  "env \<Rightarrow> client \<Rightarrow> nat \<Rightarrow> pgconn \<Rightarrow> int \<Rightarrow> node_info \<Rightarrow> (daemon, int + unit option) state" where
  "promote_server env g n conn version local =
     or_exit (start_promotion env g conn version) (\<lambda>_. do {
       recovery \<leftarrow> await_promotion env g conn n 0 RECTYPE_UNKNOWN;
       finish_promotion env g conn local recovery
     })"

definition do_standby_promote_internal ::
  "env \<Rightarrow> client \<Rightarrow> nat \<Rightarrow> pgconn \<Rightarrow> int \<Rightarrow> (daemon, int + unit option) state" where
  "do_standby_promote_internal env g n conn version = do {
     (record_status, local) \<leftarrow> on_session env conn (get_node_record (num g ''node_id'') node_info_init);
     if record_status \<noteq> RECORD_FOUND then do { _ \<leftarrow> close_connection conn; ret (Inl ERR_BAD_CONFIG) }
     else promote_server env g n conn version local
   }"

section \<open>The command\<close>

text \<open>Replay that is paused: a simple check in archive recovery, pending replay counts when streaming.\<close>

definition check_replay :: "env \<Rightarrow> pgconn \<Rightarrow> (daemon, int + unit) state" where
  "check_replay env conn = do {
     (found, info) \<leftarrow> get_replication_info env conn STANDBY (init_replication_info uninit_repl_info);
     if \<not> found then do { _ \<leftarrow> close_connection conn; ret (Inl ERR_PROMOTION_FAIL) }
     else do {
       paused \<leftarrow> is_wal_replay_paused env conn (receiving_streamed_wal info);
       if paused then do { _ \<leftarrow> close_connection conn; ret (Inl ERR_PROMOTION_FAIL) } else ret (Inr ())
     }
   }"

text \<open>There must be no other primary that can be reached.\<close>

definition check_no_primary :: "env \<Rightarrow> pgconn \<Rightarrow> (daemon, int + unit) state" where
  "check_no_primary env conn = do {
     (primary, existing_primary_id) \<leftarrow> get_primary_connection env conn;
     ok \<leftarrow> PQstatus_ok env primary;
     if ok then do {
       _ \<leftarrow> (if existing_primary_id \<noteq> UNKNOWN_NODE_ID then do {
               _ \<leftarrow> on_session env conn (get_node_record existing_primary_id node_info_init); ret () }
             else ret ());
       _ \<leftarrow> close_connection primary;
       _ \<leftarrow> close_connection conn;
       ret (Inl ERR_PROMOTION_FAIL)
     }
     else do { _ \<leftarrow> close_connection primary; ret (Inr ()) }
   }"

definition check_is_standby :: "env \<Rightarrow> pgconn \<Rightarrow> (daemon, int + unit) state" where
  "check_is_standby env conn = do {
     recovery \<leftarrow> get_recovery_type env conn;
     if recovery = RECTYPE_STANDBY then ret (Inr ())
     else do {
       _ \<leftarrow> close_connection conn;
       ret (Inl (if recovery = RECTYPE_PRIMARY then ERR_PROMOTION_FAIL else ERR_DB_CONN))
     }
   }"

definition take_address :: "env \<Rightarrow> client \<Rightarrow> unit option \<Rightarrow> (daemon, int + unit option) state" where
  "take_address env g r =
     (case r of
        None \<Rightarrow> ret (Inr None)
      | Some _ \<Rightarrow> do {
          _ \<leftarrow> (if check_vip_conf (str g ''virtual_ip'') (str g ''network_card'')
                then bind_virtual_ip env (str g ''virtual_ip'') (str g ''network_card'') else ret False);
          ret (Inr (Some ()))
        })"

definition do_standby_promote :: "env \<Rightarrow> client \<Rightarrow> nat \<Rightarrow> (daemon, int + unit option) state" where
  "do_standby_promote env g n =
     or_exit (establish_db_connection_exit env (str g ''conninfo'') True) (\<lambda>conn.
     or_exit (check_server_version env conn True) (\<lambda>(version, _).
     or_exit (check_is_standby env conn) (\<lambda>_.
     or_exit (check_replay env conn) (\<lambda>_.
     or_exit (check_no_primary env conn) (\<lambda>_.
       if rt_dry_run (rt g) then ret (Inl 0)
       else or_exit (do_standby_promote_internal env g n conn version) (take_address env g))))))"

section \<open>What a promotion does\<close>

text \<open>The decisive effects, promotions and commands.\<close>

definition promotion_step :: "effect \<Rightarrow> bool" where
  "promotion_step e \<longleftrightarrow> decisive e \<or> (\<exists>conn. e = Promoted conn) \<or> (\<exists>script. e = Ran script)"

fun is_command :: "effect \<Rightarrow> bool" where
  "is_command (Ran script) = True"
| "is_command e = False"

text \<open>The command that promotes the server: \<open>pg_promote\<close>, or the script of the action.\<close>

definition promotes :: "client \<Rightarrow> effect \<Rightarrow> bool" where
  "promotes g e \<longleftrightarrow> (\<exists>conn. e = Promoted conn) \<or>
     (\<exists>script. get_server_action g ACTION_PROMOTE [] (get_node_config_directory g []) = Inr script \<and> e = Ran script)"

text \<open>Some query was answered by a server in recovery, or by one that is not.\<close>

definition saw_recovery :: "env \<Rightarrow> bool \<Rightarrow> bool" where
  "saw_recovery env recovery \<longleftrightarrow>
     (\<exists>k rows. e_result env k = Some rows \<and> length rows = 1 \<and> (PQgetvalue rows 0 0 \<noteq> ''f'') = recovery)"

lemma step_not_harmless [simp]: "promotion_step e \<Longrightarrow> \<not> harmless e"
  by (cases e) (auto simp: promotion_step_def decisive_def)

lemma step_simps [simp]:
  "promotion_step (Ran s)" "promotion_step (Promoted c)" "promotion_step (Set_Primary c k)"
  "\<not> promotion_step (Recorded_Event c k t b s)" "\<not> promotion_step (Closed c)" "\<not> promotion_step (Slept k)"
  by (simp_all add: promotion_step_def)

lemma recovery_seen:
  "result (get_recovery_type env conn) d = RECTYPE_PRIMARY \<Longrightarrow> saw_recovery env False"
  "result (get_recovery_type env conn) d = RECTYPE_STANDBY \<Longrightarrow> saw_recovery env True"
  unfolding saw_recovery_def get_recovery_type_def
  by (auto simp: PQexec_def split: option.splits if_splits)

lemma recovery_answer [yielding]:
  assumes "\<And>t. (t = RECTYPE_PRIMARY \<Longrightarrow> saw_recovery env False) \<Longrightarrow>
    (t = RECTYPE_STANDBY \<Longrightarrow> saw_recovery env True) \<Longrightarrow> Q t []"
  shows "yields promotion_step (get_recovery_type env conn) Q"
  by (rule yields_silent_answer [OF silent_server_queries(1)]) (use assms recovery_seen in auto)

lemma await_promotion_answer:
  "(recovery = RECTYPE_PRIMARY \<Longrightarrow> saw_recovery env False) \<Longrightarrow>
   yields promotion_step (await_promotion env g conn n i recovery)
     (\<lambda>r es. es = [] \<and> (r = Some RECTYPE_PRIMARY \<longrightarrow> saw_recovery env False))"
proof (induction n arbitrary: i recovery)
  case 0
  then show ?case by (auto intro!: yielding)
next
  case (Suc n)
  have sleep: "yields promotion_step (sleep secs) Q" if "Q () []" for Q secs
    by (rule silent_world(6) [THEN yields_silent]) (use that in auto)
  show ?case
    unfolding await_promotion.simps
    by (intro yielding sleep) (use Suc.prems in \<open>auto intro!: yields_mono [OF Suc.IH]\<close>)
qed

lemma event_commands:
  "yields promotion_step (create_event_notification env conn k event ok details) (\<lambda>_ es. list_all is_command es)"
  unfolding create_event_notification_def create_event_def system_command_def
  by (intro yielding reading; simp)

lemma bind_commands: "yields promotion_step (bind_virtual_ip env vip nic) (\<lambda>_ es. list_all is_command es)"
  unfolding bind_virtual_ip_def system_command_def
  by (intro yielding reading; simp)

lemma start_promotion_steps:
  "yields promotion_step (start_promotion env g conn version)
     (\<lambda>r es. (es = [] \<and> r \<in> range Inl) \<or>
        (\<exists>a. promotes g a \<and> es = [a] \<and> r \<in> {Inr (), Inl ERR_PROMOTION_FAIL}))"
  unfolding start_promotion_def promote_standby_def system_command_def
  by (intro yielding reading; auto simp: promotes_def)

lemma record_promotion_steps:
  "yields promotion_step (record_promotion env g conn local)
     (\<lambda>r es. \<exists>rest. es = Set_Primary conn (num g ''node_id'') # rest \<and> list_all is_command rest \<and>
        r \<in> {Inr (), Inl ERR_DB_QUERY})"
  unfolding record_promotion_def set_primary_on_def
  by (intro yielding reading yields_mono [OF event_commands]; simp)

text \<open>What the whole promotion may do, with what it answers.\<close>

definition promotion_outcome :: "env \<Rightarrow> client \<Rightarrow> int + unit option \<Rightarrow> effect list \<Rightarrow> bool" where
  "promotion_outcome env g r es \<longleftrightarrow>
     es = [] \<and> r \<in> range Inl \<or>
     (\<exists>a. promotes g a \<and> es = [a] \<and> r \<in> {Inr None, Inl ERR_PROMOTION_FAIL, Inl ERR_DB_CONN}) \<or>
     (\<exists>a conn rest. promotes g a \<and> es = a # Set_Primary conn (num g ''node_id'') # rest \<and>
        list_all is_command rest \<and> saw_recovery env False \<and> r \<in> {Inr (Some ()), Inl ERR_DB_QUERY})"

lemma outcome_parts:
  "promotion_outcome env g (Inl c) []"
  "promotes g a \<Longrightarrow> promotion_outcome env g (Inl ERR_PROMOTION_FAIL) [a]"
  "promotes g a \<Longrightarrow> promotion_outcome env g (Inl ERR_DB_CONN) [a]"
  "promotes g a \<Longrightarrow> promotion_outcome env g (Inr None) [a]"
  "promotes g a \<Longrightarrow> saw_recovery env False \<Longrightarrow> list_all is_command rest \<Longrightarrow> r \<in> {Inr (Some ()), Inl ERR_DB_QUERY} \<Longrightarrow>
     promotion_outcome env g r (a # Set_Primary conn (num g ''node_id'') # rest)"
  by (auto simp: promotion_outcome_def)

lemma finish_steps:
  assumes "promotes g a" and "recovery = Some RECTYPE_PRIMARY \<Longrightarrow> saw_recovery env False"
  shows "yields promotion_step (finish_promotion env g conn local recovery)
    (\<lambda>r es. promotion_outcome env g r (a # es))"
  unfolding finish_promotion_def
  by (intro yielding reading yields_mono [OF record_promotion_steps])
    (use assms in \<open>auto intro!: outcome_parts yields_ret split: sum.splits\<close>)

lemma promote_server_outcome:
  "yields promotion_step (promote_server env g n conn version local) (promotion_outcome env g)"
proof (unfold promote_server_def, rule yields_or_exit, rule yields_mono [OF start_promotion_steps])
  fix r :: "int + unit" and es
  assume start: "es = [] \<and> r \<in> range Inl \<or> (\<exists>a. promotes g a \<and> es = [a] \<and> r \<in> {Inr (), Inl ERR_PROMOTION_FAIL})"
  show "case r of Inl c \<Rightarrow> promotion_outcome env g (Inl c) es
    | Inr v \<Rightarrow> yields promotion_step (do {
         recovery \<leftarrow> await_promotion env g conn n 0 RECTYPE_UNKNOWN;
         finish_promotion env g conn local recovery
       }) (\<lambda>y es'. promotion_outcome env g y (es @ es'))"
  proof (cases r)
    case (Inl c)
    with start show ?thesis by (auto intro: outcome_parts)
  next
    case (Inr v)
    with start obtain a where a: "promotes g a" "es = [a]" by auto
    show ?thesis
      unfolding Inr sum.case a(2)
      by (rule yields_bind, rule yields_mono [OF await_promotion_answer])
        (use a in \<open>auto intro!: finish_steps\<close>)
  qed
qed

lemma internal_outcome:
  "yields promotion_step (do_standby_promote_internal env g n conn version) (promotion_outcome env g)"
  unfolding do_standby_promote_internal_def
  by (intro yielding reading yields_mono [OF promote_server_outcome]; simp add: outcome_parts)

lemma take_address_commands:
  "yields promotion_step (take_address env g r)
     (\<lambda>r' es. r' = Inr r \<and> list_all is_command es \<and> (r = None \<longrightarrow> es = []))"
  unfolding take_address_def by (intro yielding yields_mono [OF bind_commands]; simp)

lemma silent_preparations [silently]:
  "silent (check_replay env conn)" "silent (check_no_primary env conn)"
  unfolding check_replay_def check_no_primary_def by (intro silently; simp)+

lemma standby_checked:
  assumes "\<And>c. Q (Inl c) []" and "saw_recovery env True \<Longrightarrow> Q (Inr ()) []"
  shows "yields promotion_step (check_is_standby env conn) Q"
  unfolding check_is_standby_def by (intro yielding reading; simp add: assms)

lemma outcome_address:
  assumes "promotion_outcome env g (Inr r) es" and "list_all is_command es'" and "r = None \<longrightarrow> es' = []"
  shows "promotion_outcome env g (Inr r) (es @ es')"
  using assms by (cases r) (auto simp: promotion_outcome_def)

lemma promote_and_take_address:
  "yields promotion_step (or_exit (do_standby_promote_internal env g n conn version) (take_address env g))
     (promotion_outcome env g)"
  by (rule yields_or_exit, rule yields_mono [OF internal_outcome])
    (auto intro!: yields_mono [OF take_address_commands] outcome_address split: sum.splits)


definition promotable_env :: env where
  "promotable_env = (example_env ''0/1'' ''0/1'')\<lparr>e_result := \<lambda>k.
     Some [[Some ''120001'', Some ''t'', Some ''0/1'', Some ''0/1'', None, Some ''0'', Some ''t'', Some ''f'', Some ''-1'']]\<rparr>"


lemma returns_or_exit:
  "returns m R \<Longrightarrow> (\<And>v. R (Inr v) \<Longrightarrow> returns (f v) Q) \<Longrightarrow> (\<And>c. Q (Inl c)) \<Longrightarrow> returns (or_exit m f) Q"
  unfolding or_exit_def by (rule returns_bind, assumption) (auto intro: returns_ret split: sum.split)

lemma returns_any: "returns m (\<lambda>_. True)"
  by (simp add: returns_def)



end
