(* ===== verification/Registration.thy ===== *)
theory Registration
  imports Client
begin

text \<open>
  Registering and unregistering a node: \<open>repmgr-action-primary.c\<close>, \<open>repmgr-action-witness.c\<close>, \<open>do_standby_register\<close>
  and \<open>do_standby_unregister\<close> of \<open>repmgr-action-standby.c\<close>, \<open>create_repmgr_extension\<close> of \<open>repmgr-client.c\<close>. The
  transaction in which the primary is registered is one computation on the session of its connection, so
  that the rows before and after it can be compared.
\<close>

section \<open>The extension\<close>

text \<open>A statement that returns no rows.\<close>

definition execute :: "env \<Rightarrow> pgconn \<Rightarrow> string \<Rightarrow> (daemon, bool) state" where
  "execute env conn statement = do {
     _ \<leftarrow> emit (Ran_Statement conn statement);
     res \<leftarrow> PQexec env conn;
     ret (res \<noteq> None)
   }"

definition no_versions :: extension_versions where
  "no_versions =
     \<lparr>default_version = [], default_version_num = UNKNOWN_SERVER_VERSION_NUM, installed_version = [],
      installed_version_num = UNKNOWN_SERVER_VERSION_NUM\<rparr>"

text \<open>The rights of a user who is no superuser; the name of the user is left out.\<close>

definition grant_usage :: "env \<Rightarrow> pgconn \<Rightarrow> (daemon, bool) state" where
  "grant_usage env conn = do {
     ok \<leftarrow> execute env conn ''GRANT USAGE ON SCHEMA repmgr'';
     if ok then execute env conn ''GRANT ALL ON ALL TABLES IN SCHEMA repmgr'' else ret False
   }"

definition install_extension :: "env \<Rightarrow> client \<Rightarrow> pgconn \<Rightarrow> bool \<Rightarrow> pgconn \<Rightarrow> pgconn \<Rightarrow> (daemon, bool) state" where
  "install_extension env g conn is_superuser superuser_conn create_conn = do {
     ok \<leftarrow> execute env create_conn ''CREATE EXTENSION repmgr'';
     ok \<leftarrow> (if ok \<and> \<not> is_superuser then grant_usage env create_conn else ret ok);
     _ \<leftarrow> close_connection superuser_conn;
     if \<not> ok then ret False
     else do {
       _ \<leftarrow> create_event env conn (num g ''node_id'') ''cluster_created'' True None event_info_init True;
       ret True
     }
   }"

definition create_repmgr_extension :: "env \<Rightarrow> client \<Rightarrow> pgconn \<Rightarrow> (daemon, int + bool) state" where
  "create_repmgr_extension env g conn = do {
     (status, _) \<leftarrow> get_repmgr_extension_status env conn no_versions;
     if status = REPMGR_INSTALLED then ret (Inr True)
     else if status \<noteq> REPMGR_AVAILABLE then ret (Inr False)
     else do {
       is_superuser \<leftarrow> is_superuser_connection env conn;
       or_exit (get_superuser_connection env g conn NULL_CONN) (\<lambda>(superuser_conn, create_conn).
         if rt_dry_run (rt g) then ret (Inr True)
         else do {
           ok \<leftarrow> install_extension env g conn is_superuser superuser_conn create_conn;
           ret (Inr ok)
         })
     }
   }"

section \<open>Registering the primary\<close>

text \<open>\<open>get_virtual_ip\<close> and \<open>get_network_card\<close> on a session.\<close>

definition column_text :: "(node_row \<Rightarrow> string option) \<Rightarrow> int \<Rightarrow> (database, string option) state" where
  "column_text column n = do {
     res \<leftarrow> sql_query (\<lambda>rows. map column (filter (\<lambda>r. row_node_id r = n) rows));
     ret (case res of
            Some (Some t # _) \<Rightarrow> if t = [] then None else Some (take MAXLEN t)
          | _ \<Rightarrow> None)
   }"

definition old_address :: "int \<Rightarrow> (database, (string \<times> string) option) state" where
  "old_address n = do {
     vip \<leftarrow> column_text row_virtual_ip n;
     (case vip of
        None \<Rightarrow> ret None
      | Some vip \<Rightarrow> do {
          nic \<leftarrow> column_text row_network_card n;
          ret (case nic of None \<Rightarrow> None | Some nic \<Rightarrow> Some (vip, nic))
        })
   }"

text \<open>What the transaction leaves behind: the record, whether it was written, whether it was there, the old address.\<close>

record registered =
  reg_record :: node_info
  reg_created :: bool
  reg_existed :: bool
  reg_address :: "(string \<times> string) option"

definition refuse :: "(database, int + registered) state" where
  "refuse = do { _ \<leftarrow> rollback_transaction; ret (Inl ERR_BAD_CONFIG) }"

text \<open>The answer of \<open>commit_transaction\<close> is ignored.\<close>

definition save_primary :: "node_info \<Rightarrow> bool \<Rightarrow> (string \<times> string) option \<Rightarrow> (database, int + registered) state" where
  "save_primary info existed address = do {
     created \<leftarrow> (if existed then update_node_record info else create_node_record info);
     _ \<leftarrow> (if created then commit_transaction else rollback_transaction);
     ret (Inr \<lparr>reg_record = info, reg_created = created, reg_existed = existed, reg_address = address\<rparr>)
   }"

definition primary_register_transaction :: "env \<Rightarrow> client \<Rightarrow> (database, int + registered) state" where
  "primary_register_transaction env g = do {
     _ \<leftarrow> begin_transaction;
     current_primary_id \<leftarrow> get_primary_node_id;
     if current_primary_id \<noteq> NODE_NOT_FOUND \<and> current_primary_id \<noteq> num g ''node_id'' then refuse
     else do {
       (record_status, info) \<leftarrow> get_node_record (num g ''node_id'') node_info_init;
       address \<leftarrow> (if record_status = RECORD_FOUND then old_address (num g ''node_id'') else ret None);
       if record_status = RECORD_FOUND \<and> \<not> rt_force (rt g) then refuse
       else
         (case init_node_record env g info of
            Inl code \<Rightarrow> ret (Inl code)
          | Inr info \<Rightarrow>
              save_primary (info\<lparr>node_type := PRIMARY, upstream_node_id := NO_UPSTREAM_NODE\<rparr>)
                (record_status = RECORD_FOUND) address)
     }
   }"

definition check_is_primary :: "env \<Rightarrow> pgconn \<Rightarrow> (daemon, int + unit) state" where
  "check_is_primary env conn = do {
     recovery \<leftarrow> get_recovery_type env conn;
     if recovery = RECTYPE_PRIMARY then ret (Inr ())
     else do {
       _ \<leftarrow> close_connection conn;
       ret (Inl (if recovery = RECTYPE_STANDBY then ERR_BAD_CONFIG else ERR_DB_CONN))
     }
   }"

definition require_extension :: "env \<Rightarrow> client \<Rightarrow> pgconn \<Rightarrow> (daemon, int + unit) state" where
  "require_extension env g conn =
     or_exit (create_repmgr_extension env g conn) (\<lambda>ok.
       if ok then ret (Inr ()) else do { _ \<leftarrow> close_connection conn; ret (Inl ERR_BAD_CONFIG) })"

text \<open>There must be no primary but this node.\<close>

definition check_other_primary :: "env \<Rightarrow> client \<Rightarrow> pgconn \<Rightarrow> (daemon, int + unit) state" where
  "check_other_primary env g conn = do {
     (primary, current_primary_id) \<leftarrow> get_primary_connection env conn;
     if primary = NULL_CONN then ret (Inr ())
     else if current_primary_id \<noteq> num g ''node_id'' then do {
       _ \<leftarrow> close_connection primary;
       _ \<leftarrow> close_connection conn;
       ret (Inl ERR_BAD_CONFIG)
     }
     else do { _ \<leftarrow> close_connection primary; ret (Inr ()) }
   }"

text \<open>The virtual address of the record before is released, the one of the configuration is taken.\<close>

definition move_address :: "env \<Rightarrow> client \<Rightarrow> registered \<Rightarrow> (daemon, unit) state" where
  "move_address env g r = do {
     _ \<leftarrow> (case reg_address r of
             None \<Rightarrow> ret False
           | Some (vip, nic) \<Rightarrow> if reg_existed r then unbind_virtual_ip env vip nic else ret False);
     _ \<leftarrow> (if check_vip_conf (str g ''virtual_ip'') (str g ''network_card'')
           then bind_virtual_ip env (str g ''virtual_ip'') (str g ''network_card'') else ret False);
     ret ()
   }"

definition saved_effect :: "pgconn \<Rightarrow> registered \<Rightarrow> effect" where
  "saved_effect conn r =
     (if reg_existed r then Updated_Record conn (reg_record r) else Created_Record conn (reg_record r))"

definition finish_primary :: "env \<Rightarrow> client \<Rightarrow> pgconn \<Rightarrow> registered \<Rightarrow> (daemon, int + unit) state" where
  "finish_primary env g conn r = do {
     _ \<leftarrow> emit (saved_effect conn r);
     _ \<leftarrow> create_event_notification env conn (num g ''node_id'') ''primary_register'' (reg_created r)
       (if reg_created r then (if reg_existed r then ''existing primary record updated'' else [])
        else if reg_existed r then ''error encountered while updating primary record:'' @ [CHR 0x0A]
        else ''error encountered while creating primary record:'' @ [CHR 0x0A]);
     _ \<leftarrow> close_connection conn;
     if \<not> reg_created r then ret (Inl ERR_DB_QUERY)
     else do { _ \<leftarrow> move_address env g r; ret (Inr ()) }
   }"

definition store_primary :: "env \<Rightarrow> client \<Rightarrow> pgconn \<Rightarrow> (daemon, int + unit) state" where
  "store_primary env g conn = do {
     r \<leftarrow> on_session env conn (primary_register_transaction env g);
     (case r of
        Inl code \<Rightarrow> do { _ \<leftarrow> close_connection conn; ret (Inl code) }
      | Inr r \<Rightarrow> finish_primary env g conn r)
   }"

definition register_primary :: "env \<Rightarrow> client \<Rightarrow> pgconn \<Rightarrow> (daemon, int + unit) state" where
  "register_primary env g conn = do {
     _ \<leftarrow> initialize_voting_term env conn;
     or_exit (check_other_primary env g conn) (\<lambda>_. store_primary env g conn)
   }"

definition do_primary_register :: "env \<Rightarrow> client \<Rightarrow> (daemon, int + unit) state" where
  "do_primary_register env g =
     or_exit (establish_db_connection_exit env (str g ''conninfo'') True) (\<lambda>conn.
     or_exit (check_server_version env conn True) (\<lambda>_.
     or_exit (check_is_primary env conn) (\<lambda>_.
     or_exit (require_extension env g conn) (\<lambda>_.
       if rt_dry_run (rt g) then do { _ \<leftarrow> close_connection conn; ret (Inr ()) }
       else register_primary env g conn))))"

section \<open>Unregistering a primary\<close>

text \<open>The node to unregister: the primary, the local node, or the one of the command line.\<close>

definition unregister_target :: "client \<Rightarrow> node_info \<Rightarrow> node_info \<Rightarrow> node_info" where
  "unregister_target g local primary =
     (if node_id (target_node_info g) = UNKNOWN_NODE_ID then primary
      else if node_id (target_node_info g) = num g ''node_id'' then local
      else target_node_info g)"

text \<open>What is checked on the node itself when it can be reached.\<close>

definition check_running_target ::
  "env \<Rightarrow> client \<Rightarrow> pgconn \<Rightarrow> node_info \<Rightarrow> pgconn \<Rightarrow> (daemon, int + unit) state" where
  "check_running_target env g primary target conn = do {
     let refused = do { _ \<leftarrow> close_connection conn; _ \<leftarrow> close_connection primary; ret (Inl ERR_BAD_CONFIG) };
     recovery \<leftarrow> get_recovery_type env conn;
     if recovery = RECTYPE_STANDBY then
       (if node_type target \<noteq> PRIMARY \<or> \<not> rt_force (rt g) then refused
        else do { _ \<leftarrow> close_connection conn; ret (Inr ()) })
     else if recovery = RECTYPE_PRIMARY then do {
       (found, primary_info) \<leftarrow> on_session env primary (get_primary_node_record node_info_init);
       if \<not> found \<or> node_id primary_info = node_id target then refused
       else do { _ \<leftarrow> close_connection conn; ret (Inr ()) }
     }
     else do { _ \<leftarrow> close_connection conn; ret (Inr ()) }
   }"

definition check_target :: "env \<Rightarrow> client \<Rightarrow> pgconn \<Rightarrow> node_info \<Rightarrow> (daemon, int + unit) state" where
  "check_target env g primary target = do {
     conn \<leftarrow> establish_db_connection env (conninfo target);
     ok \<leftarrow> PQstatus_ok env conn;
     if ok then check_running_target env g primary target conn
     else if node_type target \<noteq> PRIMARY then do { _ \<leftarrow> close_connection primary; ret (Inl ERR_BAD_CONFIG) }
     else ret (Inr ())
   }"

definition delete_target ::
  "env \<Rightarrow> client \<Rightarrow> pgconn \<Rightarrow> node_info \<Rightarrow> (daemon, int + unit) state" where
  "delete_target env g primary target = do {
     _ \<leftarrow> emit (Deleted_Record primary (node_id target));
     ok \<leftarrow> on_session env primary (delete_node_record (node_id target));
     if \<not> ok then do { _ \<leftarrow> close_connection primary; ret (Inl ERR_DB_QUERY) }
     else do {
       _ \<leftarrow> create_event_notification env primary (num g ''node_id'') ''primary_unregister'' True
         (''node '' @ node_name target @ '' (ID: '' @ int_string (node_id target) @ '') unregistered'' @
          (if node_id target \<noteq> num g ''node_id'' then
             '' from node '' @ str g ''node_name'' @ '' (ID: '' @ int_string (num g ''node_id'') @ '')''
           else []));
       ret (Inr ())
     }
   }"

definition unregister_primary :: "env \<Rightarrow> client \<Rightarrow> pgconn \<Rightarrow> node_info \<Rightarrow> (daemon, int + unit) state" where
  "unregister_primary env g primary target =
     (let refused = do { _ \<leftarrow> close_connection primary; ret (Inl ERR_BAD_CONFIG) } in
      if node_type target = WITNESS then refused
      else do {
        downstream \<leftarrow> on_session env primary (get_downstream_node_records (node_id target));
        if downstream \<noteq> [] then refused
        else or_exit (check_target env g primary target) (\<lambda>_.
          if active target \<and> \<not> rt_force (rt g) then refused
          else or_exit (if rt_dry_run (rt g) then ret (Inr ()) else delete_target env g primary target) (\<lambda>_. do {
            _ \<leftarrow> close_connection primary;
            ret (Inr ())
          }))
      })"

definition do_primary_unregister :: "env \<Rightarrow> client \<Rightarrow> (daemon, int + unit) state" where
  "do_primary_unregister env g =
     or_exit (establish_db_connection_exit env (str g ''conninfo'') True) (\<lambda>conn.
     or_exit (on_session env conn (get_local_node_record (num g ''node_id'') node_info_init)) (\<lambda>(_, local).
     or_exit (establish_primary_db_connection env conn False) (\<lambda>primary. do {
       ok \<leftarrow> PQstatus_ok env primary;
       if \<not> ok then do {
         _ \<leftarrow> on_session env conn (get_primary_node_record node_info_init);
         _ \<leftarrow> close_connection conn;
         ret (Inl ERR_DB_CONN)
       }
       else do {
         _ \<leftarrow> close_connection conn;
         (found, primary_info) \<leftarrow> on_session env primary (get_primary_node_record node_info_init);
         if \<not> found then do { _ \<leftarrow> close_connection primary; ret (Inl ERR_BAD_CONFIG) }
         else unregister_primary env g primary (unregister_target g local primary_info)
       }
     })))"

section \<open>Standbys\<close>

definition check_recovery_type :: "env \<Rightarrow> pgconn \<Rightarrow> (daemon, int + unit) state" where
  "check_recovery_type env conn = do {
     recovery \<leftarrow> get_recovery_type env conn;
     if recovery = RECTYPE_STANDBY then ret (Inr ())
     else do {
       _ \<leftarrow> close_connection conn;
       ret (Inl (if recovery = RECTYPE_PRIMARY then ERR_BAD_CONFIG else ERR_DB_CONN))
     }
   }"

text \<open>Both versions are asked of the standby, as in the source.\<close>

definition check_primary_standby_version_match :: "env \<Rightarrow> pgconn \<Rightarrow> pgconn \<Rightarrow> (daemon, int + unit) state" where
  "check_primary_standby_version_match env conn primary =
     or_exit (check_server_version env conn True) (\<lambda>(standby_version, _).
     or_exit (check_server_version env conn False) (\<lambda>(primary_version, _).
       if primary_version < 0 \<or> primary_version div 100 \<noteq> standby_version div 100 then do {
         _ \<leftarrow> close_connection conn;
         _ \<leftarrow> close_connection primary;
         ret (Inl ERR_BAD_CONFIG)
       }
       else ret (Inr ())))"

text \<open>Waiting for the local server; \<open>n\<close> bounds the rounds, \<open>wait_start\<close> of which are enough when it is not negative.\<close>

fun await_local :: "env \<Rightarrow> client \<Rightarrow> pgconn \<Rightarrow> nat \<Rightarrow> int \<Rightarrow> (daemon, pgconn option) state" where
  "await_local env g conn 0 timer = ret None"
| "await_local env g conn (Suc n) timer =
     (if timer = rt_wait_start (rt g) then ret (Some conn)
      else do {
        _ \<leftarrow> sleep 1;
        conn \<leftarrow> establish_db_connection env (str g ''conninfo'');
        ok \<leftarrow> PQstatus_ok env conn;
        if ok then ret (Some conn) else await_local env g conn n (timer + 1)
      })"

text \<open>The connections to the local node and to the primary, with the id of the latter.\<close>

definition connect_to_primary :: "env \<Rightarrow> client \<Rightarrow> pgconn \<Rightarrow> (daemon, int + pgconn \<times> int) state" where
  "connect_to_primary env g conn = do {
     ok \<leftarrow> PQstatus_ok env conn;
     (primary, primary_id) \<leftarrow>
       (if ok then get_primary_connection env conn
        else do {
          primary \<leftarrow> establish_db_connection_by_params env (source_conninfo g);
          ret (primary, UNKNOWN_NODE_ID)
        });
     ok \<leftarrow> PQstatus_ok env primary;
     ret (if ok then Inr (primary, primary_id) else Inl ERR_BAD_CONFIG)
   }"

definition check_local_server :: "env \<Rightarrow> client \<Rightarrow> pgconn \<Rightarrow> (daemon, int + unit) state" where
  "check_local_server env g conn = do {
     ok \<leftarrow> PQstatus_ok env conn;
     if ok then check_recovery_type env conn
     else ret (if rt_force (rt g) \<and> rt_connection_param_provided (rt g) then Inr () else Inl ERR_BAD_CONFIG)
   }"

text \<open>\<open>close_both\<close>: the connection to the local node is closed when it is good.\<close>

definition close_both :: "env \<Rightarrow> pgconn \<Rightarrow> pgconn \<Rightarrow> int \<Rightarrow> (daemon, int + 'a) state" where
  "close_both env primary conn code = do {
     _ \<leftarrow> close_connection primary;
     ok \<leftarrow> PQstatus_ok env conn;
     _ \<leftarrow> (if ok then close_connection conn else ret ());
     ret (Inl code)
   }"

text \<open>No other active node may have the name; the record of the local node may exist only with \<open>--force\<close>.\<close>

definition check_standby_record ::
  "env \<Rightarrow> client \<Rightarrow> pgconn \<Rightarrow> pgconn \<Rightarrow> (daemon, int + record_status \<times> node_info) state" where
  "check_standby_record env g primary conn = do {
     (by_name, info) \<leftarrow> on_session env primary (get_node_record_by_name (str g ''node_name'') node_info_init);
     if by_name = RECORD_FOUND \<and> active info \<and> node_id info \<noteq> num g ''node_id'' then
       close_both env primary conn ERR_BAD_CONFIG
     else do {
       (record_status, info) \<leftarrow> on_session env primary (get_node_record (num g ''node_id'') info);
       if record_status = RECORD_FOUND \<and> \<not> rt_force (rt g) then close_both env primary conn ERR_BAD_CONFIG
       else ret (Inr (record_status, info))
     }
   }"

definition placeholder :: "client \<Rightarrow> node_info" where
  "placeholder g = node_info_init\<lparr>node_id := rt_upstream_node_id (rt g), node_type := STANDBY,
     upstream_node_id := NO_UPSTREAM_NODE, conninfo := take MAXLEN (rt_upstream_conninfo (rt g)), active := False\<rparr>"

definition create_placeholder ::
  "env \<Rightarrow> client \<Rightarrow> pgconn \<Rightarrow> pgconn \<Rightarrow> (daemon, int + unit) state" where
  "create_placeholder env g primary conn =
     (if \<not> rt_force (rt g) then close_both env primary conn ERR_BAD_CONFIG
      else do {
        _ \<leftarrow> emit (Created_Record primary (placeholder g));
        created \<leftarrow> on_session env primary (create_node_record (placeholder g));
        if created then ret (Inr ())
        else do {
          (record_status, _) \<leftarrow> on_session env primary (get_node_record (rt_upstream_node_id (rt g)) (placeholder g));
          if record_status \<noteq> RECORD_FOUND then close_both env primary conn ERR_BAD_CONFIG else ret (Inr ())
        }
      })"

definition check_upstream_attached ::
  "env \<Rightarrow> client \<Rightarrow> pgconn \<Rightarrow> pgconn \<Rightarrow> node_info \<Rightarrow> (daemon, int + unit) state" where
  "check_upstream_attached env g primary conn upstream = do {
     upstream_conn \<leftarrow> establish_db_connection env (conninfo upstream);
     ok \<leftarrow> PQstatus_ok env upstream_conn;
     if \<not> ok then
       (if rt_force (rt g) then ret (Inr ()) else close_both env primary conn ERR_BAD_CONFIG)
     else do {
       attached \<leftarrow> is_downstream_node_attached env upstream_conn;
       if \<not> attached \<and> \<not> rt_force (rt g) then close_both env primary conn ERR_BAD_CONFIG
       else do { _ \<leftarrow> close_connection upstream_conn; ret (Inr ()) }
     }
   }"

text \<open>The activity that is looked at is that of \<open>info\<close>, the node's own record, as in the source.\<close>

definition check_upstream_record ::
  "env \<Rightarrow> client \<Rightarrow> pgconn \<Rightarrow> pgconn \<Rightarrow> node_info \<Rightarrow> (daemon, int + unit) state" where
  "check_upstream_record env g primary conn info =
     (let upstream_id = rt_upstream_node_id (rt g) in
      if upstream_id = NO_UPSTREAM_NODE then ret (Inr ())
      else if upstream_id = num g ''node_id'' then close_both env primary conn ERR_BAD_CONFIG
      else do {
        (record_status, upstream) \<leftarrow> on_session env primary (get_node_record upstream_id node_info_init);
        if record_status \<noteq> RECORD_FOUND then create_placeholder env g primary conn
        else if \<not> active info then
          (if rt_force (rt g) then ret (Inr ()) else close_both env primary conn ERR_BAD_CONFIG)
        else check_upstream_attached env g primary conn upstream
      })"

text \<open>Without \<open>--upstream-node-id\<close> a new node must be attached to the primary; \<open>False\<close> fails a dry run only.\<close>

definition check_attached_to_primary ::
  "env \<Rightarrow> client \<Rightarrow> pgconn \<Rightarrow> pgconn \<Rightarrow> record_status \<Rightarrow> (daemon, int + bool) state" where
  "check_attached_to_primary env g primary conn record_status = do {
     ok \<leftarrow> PQstatus_ok env conn;
     if rt_upstream_node_id (rt g) = NO_UPSTREAM_NODE \<and> ok \<and> record_status \<noteq> RECORD_FOUND then do {
       attached \<leftarrow> is_downstream_node_attached env primary;
       if attached \<or> rt_force (rt g) then ret (Inr True)
       else if rt_dry_run (rt g) then ret (Inr False)
       else do { _ \<leftarrow> close_connection primary; _ \<leftarrow> close_connection conn; ret (Inl ERR_BAD_CONFIG) }
     }
     else ret (Inr True)
   }"

definition standby_event ::
  "env \<Rightarrow> client \<Rightarrow> pgconn \<Rightarrow> string \<Rightarrow> bool \<Rightarrow> string \<Rightarrow> event_info \<Rightarrow> (daemon, unit) state" where
  "standby_event env g primary event successful details info = do {
     _ \<leftarrow> create_event env primary (num g ''node_id'') event successful (Some details) info True;
     ret ()
   }"

definition with_force :: "client \<Rightarrow> string \<Rightarrow> string" where
  "with_force g details = details @ (if rt_force (rt g) then '' (-F/--force option was used)'' else [])"

definition save_standby ::
  "env \<Rightarrow> client \<Rightarrow> pgconn \<Rightarrow> pgconn \<Rightarrow> record_status \<Rightarrow> node_info \<Rightarrow> event_info \<Rightarrow> (daemon, int + unit) state" where
  "save_standby env g primary conn record_status info ev = do {
     let found = (record_status = RECORD_FOUND);
     _ \<leftarrow> emit (if found then Updated_Record primary info else Created_Record primary info);
     created \<leftarrow> on_session env primary (if found then update_node_record info else create_node_record info);
     if \<not> created then do {
       _ \<leftarrow> standby_event env g primary ''standby_register'' False (with_force g ''standby registration failed'') ev;
       close_both env primary conn ERR_BAD_CONFIG
     }
     else do {
       _ \<leftarrow> standby_event env g primary ''standby_register'' True (with_force g ''standby registration succeeded'') ev;
       ret (Inr ())
     }
   }"

text \<open>The fields of the record that must have arrived on the standby.\<close>

definition records_match :: "node_info \<Rightarrow> node_info \<Rightarrow> bool" where
  "records_match a b \<longleftrightarrow>
     upstream_node_id a = upstream_node_id b \<and> node_type a = node_type b \<and> priority a = priority b \<and>
     active a = active b \<and> node_name a = node_name b \<and> conninfo a = conninfo b \<and> slot_name a = slot_name b"

text \<open>
  Waiting for the record to arrive: whether it did and after how many rounds; a negative number of seconds waits
  for ever, \<open>n\<close> bounds the rounds.
\<close>

fun await_sync :: "env \<Rightarrow> client \<Rightarrow> pgconn \<Rightarrow> node_info \<Rightarrow> nat \<Rightarrow> int \<Rightarrow> node_info \<Rightarrow> (daemon, (bool \<times> int) option) state" where
  "await_sync env g conn on_primary 0 timer on_standby = ret None"
| "await_sync env g conn on_primary (Suc n) timer on_standby =
     (let secs = rt_wait_register_sync_seconds (rt g) in
      if 0 < secs \<and> secs = timer then ret (Some (False, timer))
      else do {
        (record_status, on_standby) \<leftarrow> on_session env conn (get_node_record (num g ''node_id'') on_standby);
        if record_status = RECORD_FOUND \<and> records_match on_standby on_primary then ret (Some (True, timer))
        else do {
          _ \<leftarrow> sleep 1;
          await_sync env g conn on_primary n (timer + 1) on_standby
        }
      })"

abbreviation (input) ERR_REGISTRATION_SYNC :: int where "ERR_REGISTRATION_SYNC \<equiv> 20"

definition close_conns :: "pgconn \<Rightarrow> pgconn \<Rightarrow> int \<Rightarrow> (daemon, int + 'a) state" where
  "close_conns a b code = do { _ \<leftarrow> close_connection a; _ \<leftarrow> close_connection b; ret (Inl code) }"

text \<open>\<open>Inr None\<close>: the record is still awaited after \<open>n\<close> rounds.\<close>

definition wait_for_sync ::
  "env \<Rightarrow> client \<Rightarrow> nat \<Rightarrow> pgconn \<Rightarrow> pgconn \<Rightarrow> event_info \<Rightarrow> (daemon, int + unit option) state" where
  "wait_for_sync env g n primary conn ev = do {
     ok \<leftarrow> PQstatus_ok env conn;
     if ok \<and> rt_wait_register_sync (rt g) \<and> rt_wait_register_sync_seconds (rt g) \<noteq> 0 then do {
       (record_status, on_primary) \<leftarrow> on_session env primary (get_node_record (num g ''node_id'') node_info_init);
       if record_status \<noteq> RECORD_FOUND then close_conns primary conn ERR_REGISTRATION_SYNC
       else do {
         synced \<leftarrow> await_sync env g conn on_primary n 0 node_info_init;
         (case synced of
            None \<Rightarrow> ret (Inr None)
          | Some (sync_ok, timer) \<Rightarrow> do {
              _ \<leftarrow> standby_event env g primary ''standby_register_sync'' sync_ok
                (if sync_ok then ''node record synchronised after '' @ int_string timer @ '' seconds''
                 else ''node record was not synchronised after '' @
                   int_string (rt_wait_register_sync_seconds (rt g)) @ '' seconds'') ev;
              if sync_ok then ret (Inr (Some ())) else close_conns primary conn ERR_REGISTRATION_SYNC
            })
       }
     }
     else ret (Inr (Some ()))
   }"

text \<open>The record to save: without an upstream of its own it follows the primary.\<close>

definition standby_record :: "env \<Rightarrow> client \<Rightarrow> node_info \<Rightarrow> int \<Rightarrow> int + node_info" where
  "standby_record env g info primary_id =
     (case init_node_record env g info of
        Inl code \<Rightarrow> Inl code
      | Inr info \<Rightarrow>
          Inr (info\<lparr>node_type := STANDBY,
            upstream_node_id := (if upstream_node_id info = UNKNOWN_NODE_ID then primary_id else upstream_node_id info)\<rparr>))"

definition finish_standby ::
  "env \<Rightarrow> client \<Rightarrow> nat \<Rightarrow> pgconn \<Rightarrow> pgconn \<Rightarrow> int \<Rightarrow> event_info \<Rightarrow> record_status \<times> node_info
     \<Rightarrow> (daemon, int + unit option) state" where
  "finish_standby env g n primary conn primary_id ev found =
     (case standby_record env g (snd found) primary_id of
        Inl code \<Rightarrow> ret (Inl code)
      | Inr info \<Rightarrow>
          or_exit (check_attached_to_primary env g primary conn (fst found)) (\<lambda>dry_run_ok.
            if rt_dry_run (rt g) then close_both env primary conn (if dry_run_ok then 0 else ERR_BAD_CONFIG)
            else
              or_exit (save_standby env g primary conn (fst found) info ev) (\<lambda>_.
              or_exit (wait_for_sync env g n primary conn ev) (\<lambda>r. do {
                _ \<leftarrow> (if r = None then ret () else do {
                        _ \<leftarrow> close_connection primary;
                        ok \<leftarrow> PQstatus_ok env conn;
                        if ok then close_connection conn else ret () });
                ret (Inr r)
              }))))"

text \<open>The checks on the primary and what follows them.\<close>

definition register_checked ::
  "env \<Rightarrow> client \<Rightarrow> nat \<Rightarrow> pgconn \<Rightarrow> pgconn \<Rightarrow> int \<Rightarrow> event_info \<Rightarrow> (daemon, int + unit option) state" where
  "register_checked env g n primary conn primary_id ev =
     or_exit (check_standby_record env g primary conn) (\<lambda>found.
     or_exit (check_upstream_record env g primary conn (snd found)) (\<lambda>_.
       finish_standby env g n primary conn primary_id ev found))"

definition register_standby ::
  "env \<Rightarrow> client \<Rightarrow> nat \<Rightarrow> pgconn \<Rightarrow> pgconn \<Rightarrow> int \<Rightarrow> (daemon, int + unit option) state" where
  "register_standby env g n conn primary primary_id = do {
     (_, primary_info) \<leftarrow> on_session env primary (get_node_record primary_id node_info_init);
     let ev = \<lparr>ev_node_name = Some (node_name primary_info), ev_conninfo_str = Some (conninfo primary_info),
               ev_node_id = primary_id\<rparr>;
     ok \<leftarrow> PQstatus_ok env conn;
     or_exit (if ok then check_primary_standby_version_match env conn primary else ret (Inr ())) (\<lambda>_.
       register_checked env g n primary conn primary_id ev)
   }"

definition do_standby_register :: "env \<Rightarrow> client \<Rightarrow> nat \<Rightarrow> (daemon, int + unit option) state" where
  "do_standby_register env g n = do {
     conn \<leftarrow> establish_db_connection env (str g ''conninfo'');
     ok \<leftarrow> PQstatus_ok env conn;
     waited \<leftarrow> (if ok \<or> rt_force (rt g) then ret (Some conn) else await_local env g conn n 0);
     (case waited of
        None \<Rightarrow> ret (Inr None)
      | Some conn \<Rightarrow>
          or_exit (check_local_server env g conn) (\<lambda>_.
          or_exit (connect_to_primary env g conn) (\<lambda>(primary, primary_id).
            register_standby env g n conn primary primary_id)))
   }"

text \<open>The node of \<open>--node-id\<close>, or the local one.\<close>

definition target_node_id :: "client \<Rightarrow> int" where
  "target_node_id g = (if rt_node_id (rt g) \<noteq> UNKNOWN_NODE_ID then rt_node_id (rt g) else num g ''node_id'')"

definition unregister_standby :: "env \<Rightarrow> client \<Rightarrow> pgconn \<Rightarrow> pgconn \<Rightarrow> (daemon, int + unit) state" where
  "unregister_standby env g conn primary = do {
     (record_status, info) \<leftarrow> on_session env primary (get_node_record (target_node_id g) node_info_init);
     if record_status \<noteq> RECORD_FOUND \<or> node_type info \<noteq> STANDBY then close_conns primary conn ERR_BAD_CONFIG
     else do {
       _ \<leftarrow> emit (Deleted_Record primary (target_node_id g));
       deleted \<leftarrow> on_session env primary (delete_node_record (target_node_id g));
       if \<not> deleted then close_conns primary conn ERR_BAD_CONFIG
       else do {
         _ \<leftarrow> create_event env primary (target_node_id g) ''standby_unregister'' True None event_info_init True;
         _ \<leftarrow> close_connection primary;
         _ \<leftarrow> close_connection conn;
         ret (Inr ())
       }
     }
   }"

definition do_standby_unregister :: "env \<Rightarrow> client \<Rightarrow> (daemon, int + unit) state" where
  "do_standby_unregister env g =
     or_exit (establish_db_connection_exit env (str g ''conninfo'') True) (\<lambda>conn. do {
       (primary, _) \<leftarrow> get_primary_connection env conn;
       ok \<leftarrow> PQstatus_ok env primary;
       if ok then unregister_standby env g conn primary else ret (Inl ERR_BAD_CONFIG)
     })"

section \<open>Witnesses\<close>

text \<open>\<open>is_bdr_db\<close>; from version 3 of that extension on its presence is enough.\<close>

definition is_bdr_db :: "env \<Rightarrow> pgconn \<Rightarrow> (daemon, bool) state" where
  "is_bdr_db env conn = do {
     res \<leftarrow> PQexec env conn;
     (case res of
        None \<Rightarrow> ret False
      | Some rows \<Rightarrow>
          if rows = [] then ret False
          else if atoi (PQgetvalue rows 0 0) \<ge> 3 then ret True
          else do {
            res \<leftarrow> PQexec env conn;
            ret (case res of None \<Rightarrow> False | Some rows \<Rightarrow> atobool (PQgetvalue rows 0 0))
          })
   }"

text \<open>A server that is neither a standby nor a node of a multi-master cluster.\<close>

definition check_plain_primary :: "env \<Rightarrow> pgconn \<Rightarrow> (daemon, bool) state" where
  "check_plain_primary env conn = do {
     recovery \<leftarrow> get_recovery_type env conn;
     if recovery = RECTYPE_STANDBY then ret False
     else do { bdr \<leftarrow> is_bdr_db env conn; ret (\<not> bdr) }
   }"

text \<open>The parameters of the connection to the primary: user and database of the witness unless given.\<close>

definition primary_params :: "env \<Rightarrow> client \<Rightarrow> conninfo_params" where
  "primary_params env g =
     (let value = (\<lambda>k. snd (get_conninfo_value (e_parse env (str g ''conninfo'')) k [])) in
      param_set_ine (param_set_ine (source_conninfo g) ''user'' (value ''user'')) ''dbname'' (value ''dbname''))"

text \<open>The primary is asked where it is, and connected to again by its own connection string.\<close>

definition find_witness_primary :: "env \<Rightarrow> client \<Rightarrow> pgconn \<Rightarrow> (daemon, int + pgconn \<times> int) state" where
  "find_witness_primary env g witness = do {
     primary \<leftarrow> establish_db_connection_by_params env (primary_params env g);
     ok \<leftarrow> PQstatus_ok env primary;
     if \<not> ok then do { _ \<leftarrow> close_connection witness; ret (Inl ERR_BAD_CONFIG) }
     else do {
       recovery \<leftarrow> get_recovery_type env primary;
       if recovery = RECTYPE_STANDBY then close_conns witness primary ERR_BAD_CONFIG
       else do {
         primary_id \<leftarrow> on_session env primary get_primary_node_id;
         if primary_id = UNKNOWN_NODE_ID then close_conns witness primary ERR_BAD_CONFIG
         else do {
           (record_status, info) \<leftarrow> on_session env primary (get_node_record primary_id node_info_init);
           _ \<leftarrow> close_connection primary;
           if record_status \<noteq> RECORD_FOUND then do { _ \<leftarrow> close_connection witness; ret (Inl ERR_BAD_CONFIG) }
           else do {
             primary \<leftarrow> establish_db_connection env (conninfo info);
             ok \<leftarrow> PQstatus_ok env primary;
             if \<not> ok then do { _ \<leftarrow> close_connection witness; ret (Inl ERR_BAD_CONFIG) }
             else do {
               bdr \<leftarrow> is_bdr_db env primary;
               if bdr then close_conns witness primary ERR_BAD_CONFIG else ret (Inr (primary, primary_id))
             }
           }
         }
       }
     }
   }"

text \<open>
  The record of the node must be missing, or be a witness and \<open>--force\<close> be given. The answer is the status of the
  second search, by the name, as in the source: it decides later between an update and an insertion.
\<close>

definition check_witness_record ::
  "env \<Rightarrow> client \<Rightarrow> pgconn \<Rightarrow> pgconn \<Rightarrow> (daemon, int + record_status \<times> node_info) state" where
  "check_witness_record env g primary witness = do {
     (by_id, info) \<leftarrow> on_session env primary (get_node_record (num g ''node_id'') node_info_init);
     if by_id = RECORD_FOUND \<and> (node_type info \<noteq> WITNESS \<or> \<not> rt_force (rt g)) then
       close_conns witness primary ERR_BAD_CONFIG
     else do {
       (by_name, info) \<leftarrow> on_session env primary (get_node_record_by_name (str g ''node_name'') info);
       if by_name = RECORD_FOUND \<and> active info \<and> node_id info \<noteq> num g ''node_id'' then do {
         _ \<leftarrow> close_connection primary;
         ret (Inl ERR_BAD_CONFIG)
       }
       else ret (Inr (by_name, info))
     }
   }"

text \<open>Records on the witness itself are overwritten with \<open>--force\<close> only.\<close>

definition check_witness_empty :: "env \<Rightarrow> client \<Rightarrow> pgconn \<Rightarrow> pgconn \<Rightarrow> (daemon, int + unit) state" where
  "check_witness_empty env g primary witness = do {
     (status, _) \<leftarrow> get_repmgr_extension_status env witness no_versions;
     if status \<noteq> REPMGR_INSTALLED \<and> status \<noteq> REPMGR_OLD_VERSION_INSTALLED then ret (Inr ())
     else do {
       (ok, nodes) \<leftarrow> on_session env witness get_all_node_records;
       if \<not> ok \<or> nodes \<noteq> [] \<and> \<not> rt_force (rt g) then close_conns witness primary ERR_BAD_CONFIG
       else ret (Inr ())
     }
   }"

definition witness_record :: "env \<Rightarrow> client \<Rightarrow> node_info \<Rightarrow> int \<Rightarrow> int + node_info" where
  "witness_record env g info primary_id =
     (case init_node_record env g info of
        Inl code \<Rightarrow> Inl code
      | Inr info \<Rightarrow> Inr (info\<lparr>node_type := WITNESS, priority := 0, upstream_node_id := primary_id\<rparr>))"

definition save_witness :: "record_status \<Rightarrow> node_info \<Rightarrow> (database, bool) state" where
  "save_witness record_status info =
     (if record_status = RECORD_FOUND then update_node_record info else create_node_record info)"

definition register_witness ::
  "env \<Rightarrow> client \<Rightarrow> pgconn \<Rightarrow> pgconn \<Rightarrow> record_status \<Rightarrow> node_info \<Rightarrow> (daemon, int + unit) state" where
  "register_witness env g primary witness record_status info = do {
     _ \<leftarrow> emit (if record_status = RECORD_FOUND then Updated_Record primary info else Created_Record primary info);
     created \<leftarrow> on_session env primary (save_witness record_status info);
     if \<not> created then close_conns primary witness ERR_BAD_CONFIG
     else do {
       copied \<leftarrow> copy_records_to env primary witness;
       if \<not> copied then close_conns primary witness ERR_BAD_CONFIG
       else do {
         _ \<leftarrow> create_event env primary (num g ''node_id'') ''witness_register'' True None event_info_init False;
         _ \<leftarrow> close_connection primary;
         _ \<leftarrow> close_connection witness;
         ret (Inr ())
       }
     }
   }"

definition install_on_witness :: "env \<Rightarrow> client \<Rightarrow> pgconn \<Rightarrow> pgconn \<Rightarrow> (daemon, int + unit) state" where
  "install_on_witness env g primary witness =
     (if rt_dry_run (rt g) then ret (Inr ())
      else or_exit (create_repmgr_extension env g witness) (\<lambda>ok.
        if ok then ret (Inr ()) else close_conns witness primary ERR_BAD_CONFIG))"

definition do_witness_register :: "env \<Rightarrow> client \<Rightarrow> (daemon, int + unit) state" where
  "do_witness_register env g = do {
     witness \<leftarrow> establish_db_connection env (str g ''conninfo'');
     ok \<leftarrow> PQstatus_ok env witness;
     if \<not> ok then ret (Inl ERR_BAD_CONFIG)
     else do {
       plain \<leftarrow> check_plain_primary env witness;
       if \<not> plain then do { _ \<leftarrow> close_connection witness; ret (Inl ERR_BAD_CONFIG) }
       else
         or_exit (find_witness_primary env g witness) (\<lambda>(primary, primary_id).
         or_exit (install_on_witness env g primary witness) (\<lambda>_.
         or_exit (check_witness_record env g primary witness) (\<lambda>(record_status, info).
         or_exit (check_witness_empty env g primary witness) (\<lambda>_.
           if rt_dry_run (rt g) then close_conns primary witness 0
           else
             (case witness_record env g info primary_id of
                Inl code \<Rightarrow> ret (Inl code)
              | Inr info \<Rightarrow> register_witness env g primary witness record_status info)))))
     }
   }"

text \<open>A witness that cannot be reached is unregistered with \<open>--force\<close>, on the primary of the command line.\<close>

definition witness_primary :: "env \<Rightarrow> client \<Rightarrow> pgconn \<Rightarrow> bool \<Rightarrow> (daemon, pgconn) state" where
  "witness_primary env g conn available =
     (if available then do { (primary, _) \<leftarrow> get_primary_connection env conn; ret primary }
      else establish_db_connection_by_params env (source_conninfo g))"

definition close_available :: "bool \<Rightarrow> pgconn \<Rightarrow> (daemon, unit) state" where
  "close_available available conn = (if available then close_connection conn else ret ())"

definition unregister_witness :: "env \<Rightarrow> client \<Rightarrow> pgconn \<Rightarrow> bool \<Rightarrow> pgconn \<Rightarrow> (daemon, int + unit) state" where
  "unregister_witness env g conn available primary = do {
     (record_status, info) \<leftarrow> on_session env primary (get_node_record (target_node_id g) node_info_init);
     if record_status \<noteq> RECORD_FOUND \<or> node_type info \<noteq> WITNESS \<or> rt_dry_run (rt g) then do {
       _ \<leftarrow> close_available available conn;
       _ \<leftarrow> close_connection primary;
       ret (Inl (if record_status = RECORD_FOUND \<and> node_type info = WITNESS then 0 else ERR_BAD_CONFIG))
     }
     else do {
       _ \<leftarrow> emit (Deleted_Record primary (target_node_id g));
       deleted \<leftarrow> on_session env primary (delete_node_record (target_node_id g));
       if \<not> deleted then do {
         _ \<leftarrow> close_connection primary;
         _ \<leftarrow> close_available available conn;
         _ \<leftarrow> close_connection conn;
         ret (Inl ERR_BAD_CONFIG)
       }
       else do {
         _ \<leftarrow> create_event env primary (target_node_id g) ''witness_unregister'' True None event_info_init False;
         _ \<leftarrow> close_connection primary;
         _ \<leftarrow> close_available available conn;
         ret (Inr ())
       }
     }
   }"

definition do_witness_unregister :: "env \<Rightarrow> client \<Rightarrow> (daemon, int + unit) state" where
  "do_witness_unregister env g = do {
     conn \<leftarrow> establish_db_connection env (str g ''conninfo'');
     available \<leftarrow> PQstatus_ok env conn;
     if \<not> available \<and> \<not> rt_force (rt g) then ret (Inl ERR_BAD_CONFIG)
     else do {
       primary \<leftarrow> witness_primary env g conn available;
       ok \<leftarrow> PQstatus_ok env primary;
       if \<not> ok then do { _ \<leftarrow> close_available available conn; ret (Inl ERR_BAD_CONFIG) }
       else unregister_witness env g conn available primary
     }
   }"

end
