(* ===== verification/Registration_Safety.thy ===== *)
theory Registration_Safety
  imports Registration
begin

text \<open>
  Properties of the registration: what the transaction of \<open>primary register\<close> does to the rows, and which statements
  the actions of \<open>Registration\<close> run that change the node table or the electoral term.
\<close>

section \<open>The transaction\<close>

text \<open>
  Inside the transaction the rows are those at its start until the record is saved, or it is aborted; what
  was learned of the rows holds unless it is aborted.
\<close>

definition in_tx :: "node_row list \<Rightarrow> bool \<Rightarrow> database \<Rightarrow> bool" where
  "in_tx rows learned db \<longleftrightarrow>
     db_saved db = Some rows \<and> (db_aborted db \<or> db_rows db = rows \<and> learned)"

lemma begin_in_tx:
  "valid (\<lambda>db. db_saved db = None \<and> \<not> db_aborted db \<and> db_rows db = rows \<and> answered db) begin_transaction
     (\<lambda>_. in_tx rows True)"
  by (rule validI) (auto simp: begin_transaction_def in_tx_def tick_def)

lemma query_in_tx: "valid (in_tx rows A) (sql_query f) (\<lambda>x. in_tx rows (A \<and> x = Some (f rows)))"
  by (rule validI) (auto simp: sql_query_def in_tx_def tick_def)

lemma return_in_tx: "(A \<Longrightarrow> B x) \<Longrightarrow> valid (in_tx rows A) (ret x) (\<lambda>x. in_tx rows (B x))"
  by (rule valid_return_inv) (auto simp: in_tx_def)

lemma primary_id_in_tx:
  "valid (in_tx rows A) get_primary_node_id
     (\<lambda>n. in_tx rows (A \<and> n = (case active_primaries rows of [] \<Rightarrow> NODE_NOT_FOUND | m # _ \<Rightarrow> m)))"
  unfolding get_primary_node_id_def active_primaries_def
  by (rule valid_bind [OF _ query_in_tx], rule return_in_tx) auto

lemma node_record_in_tx:
  "valid (in_tx rows A) (get_node_record n info)
     (\<lambda>r. in_tx rows (A \<and> (fst r = RECORD_FOUND \<longleftrightarrow> n \<in> set (map row_node_id rows))))"
  unfolding get_node_record_def get_node_record_where_def
  by (rule valid_bind [OF _ query_in_tx], rule return_in_tx)
    (auto simp: rows_with_id_def filter_empty_conv image_iff split: list.splits dest!: filter_eq_ConsD)

lemma column_text_in_tx: "valid (in_tx rows A) (column_text column n) (\<lambda>_. in_tx rows A)"
  unfolding column_text_def by (rule valid_bind [OF _ query_in_tx], rule return_in_tx) auto

lemma old_address_in_tx: "valid (in_tx rows A) (old_address n) (\<lambda>_. in_tx rows A)"
  unfolding old_address_def
  by (intro wp_inv column_text_in_tx return_in_tx)

text \<open>What the transaction ends with.\<close>

definition saved_rows :: "registered \<Rightarrow> node_row list \<Rightarrow> node_row list" where
  "saved_rows r rows =
     (let row = node_row_params (reg_record r) None
      in if reg_existed r then map (\<lambda>x. if row_node_id x = node_id (reg_record r) then row else x) rows
         else rows @ [row])"

definition tx_outcome :: "node_row list \<Rightarrow> (registered \<Rightarrow> bool) \<Rightarrow> int + registered \<Rightarrow> database \<Rightarrow> bool" where
  "tx_outcome rows learned answer db \<longleftrightarrow>
     rows_before db = rows \<or>
     (\<exists>r. answer = Inr r \<and> reg_created r \<and> learned r \<and> db_rows db = saved_rows r rows \<and> db_saved db = None)"

lemma refuse_outcome: "valid (in_tx rows A) refuse (tx_outcome rows B)"
  by (rule validI) (auto simp: refuse_def in_tx_def tx_outcome_def rows_before_def end_transaction_def tick_def)

lemma save_outcome:
  assumes "node_type info = PRIMARY" and "upstream_node_id info = NO_UPSTREAM_NODE"
  shows "valid (in_tx rows A) (save_primary info existed address)
    (tx_outcome rows (\<lambda>r. A \<and> reg_existed r = existed \<and> reg_record r = info))"
  by (rule validI)
    (use assms in \<open>auto simp: save_primary_def in_tx_def tx_outcome_def saved_rows_def rows_before_def tick_def
      update_node_record_def create_node_record_def create_update_node_record_def sql_command_def
      commit_transaction_def rollback_transaction_def end_transaction_def Let_def split: if_splits\<close>)

text \<open>What is known of the rows when the record is saved.\<close>

definition may_register :: "client \<Rightarrow> node_row list \<Rightarrow> registered \<Rightarrow> bool" where
  "may_register g rows r \<longleftrightarrow>
     (active_primaries rows = [] \<or> hd (active_primaries rows) = num g ''node_id'' \<or>
      hd (active_primaries rows) = NODE_NOT_FOUND) \<and>
     (reg_existed r \<longleftrightarrow> num g ''node_id'' \<in> set (map row_node_id rows)) \<and> (reg_existed r \<longrightarrow> rt_force (rt g)) \<and>
     node_type (reg_record r) = PRIMARY \<and> node_id (reg_record r) = num g ''node_id'' \<and> active (reg_record r)"

lemma init_node_record_fields:
  "init_node_record env g info = Inr info' \<Longrightarrow> node_id info' = num g ''node_id'' \<and> active info'"
  by (auto simp: init_node_record_def Let_def split: if_splits sum.splits)

lemma register_in_tx:
  "valid (\<lambda>db. db_saved db = None \<and> \<not> db_aborted db \<and> db_rows db = rows \<and> answered db)
     (primary_register_transaction env g) (tx_outcome rows (may_register g rows))"
  unfolding primary_register_transaction_def
proof (rule valid_bind [OF _ begin_in_tx], rule valid_bind [OF _ primary_id_in_tx], rule valid_if_inv)
  fix n
  let ?A = "True \<and> n = (case active_primaries rows of [] \<Rightarrow> NODE_NOT_FOUND | m # _ \<Rightarrow> m)"
  show "valid (in_tx rows ?A) refuse (tx_outcome rows (may_register g rows))" by (rule refuse_outcome)
  assume n: "\<not> (n \<noteq> NODE_NOT_FOUND \<and> n \<noteq> num g ''node_id'')"
  let ?rest = "\<lambda>status info address.
     if status = RECORD_FOUND \<and> \<not> rt_force (rt g) then refuse
     else (case init_node_record env g info of
            Inl code \<Rightarrow> ret (Inl code)
          | Inr info \<Rightarrow> save_primary (info\<lparr>node_type := PRIMARY, upstream_node_id := NO_UPSTREAM_NODE\<rparr>)
              (status = RECORD_FOUND) address)"
  have rest: "valid (in_tx rows (?A \<and> (status = RECORD_FOUND \<longleftrightarrow> num g ''node_id'' \<in> set (map row_node_id rows))))
      (?rest status info address) (tx_outcome rows (may_register g rows))" for status info address
  proof (rule valid_if_inv [OF refuse_outcome], rule valid_case_sum_inv)
    fix code
    show "valid (in_tx rows (?A \<and> (status = RECORD_FOUND \<longleftrightarrow> num g ''node_id'' \<in> set (map row_node_id rows))))
        (ret (Inl code)) (tx_outcome rows (may_register g rows))"
      by (rule valid_return_inv) (simp add: in_tx_def tx_outcome_def rows_before_def)
  next
    fix info'
    assume "\<not> (status = RECORD_FOUND \<and> \<not> rt_force (rt g))" and "init_node_record env g info = Inr info'"
    then show "valid (in_tx rows (?A \<and> (status = RECORD_FOUND \<longleftrightarrow> num g ''node_id'' \<in> set (map row_node_id rows))))
        (save_primary (info'\<lparr>node_type := PRIMARY, upstream_node_id := NO_UPSTREAM_NODE\<rparr>) (status = RECORD_FOUND)
           address) (tx_outcome rows (may_register g rows))"
      using n init_node_record_fields [of env g info info']
      by (intro valid_conseq [OF save_outcome]) (auto simp: tx_outcome_def may_register_def split: list.splits)
  qed
  show "valid (in_tx rows ?A) (do {
       (status, info) \<leftarrow> get_node_record (num g ''node_id'') node_info_init;
       address \<leftarrow> (if status = RECORD_FOUND then old_address (num g ''node_id'') else ret None);
       ?rest status info address }) (tx_outcome rows (may_register g rows))"
    by (rule valid_bind [OF _ node_record_in_tx], rule valid_case_prod_inv, rule valid_bind [OF rest])
      (intro valid_if_inv old_address_in_tx return_in_tx; simp)+
qed

text \<open>The active primaries after the record was saved.\<close>

lemma active_primaries_append: "active_primaries (xs @ ys) = active_primaries xs @ active_primaries ys"
  by (simp add: active_primaries_def)

lemma active_primaries_row:
  "node_type info = PRIMARY \<Longrightarrow> active info \<Longrightarrow> active_primaries [node_row_params info u] = [node_id info]"
  by (simp add: active_primaries_def node_row_params_def get_node_type_string_def)

lemma primaries_replaced:
  assumes "node_type info = PRIMARY" and "active info"
  shows "set (active_primaries rows) \<subseteq> {node_id info} \<Longrightarrow>
    active_primaries (map (\<lambda>x. if row_node_id x = node_id info then node_row_params info None else x) rows) =
    map row_node_id (filter (\<lambda>x. row_node_id x = node_id info) rows)"
proof (induction rows)
  case (Cons r rows)
  have "row_node_id (node_row_params info None) = node_id info" "row_active (node_row_params info None)"
    "row_type (node_row_params info None) = ''primary''"
    using assms by (simp_all add: node_row_params_def get_node_type_string_def)
  with Cons show ?case
    by (cases "row_node_id r = node_id info") (auto simp: active_primaries_def split: if_splits)
qed (simp add: active_primaries_def)

lemma registered_primary:
  assumes "may_register g rows r" and "length (active_primaries rows) \<le> 1" and "distinct (map row_node_id rows)"
    and "NODE_NOT_FOUND \<notin> set (map row_node_id rows)"
  shows "active_primaries (saved_rows r rows) = [num g ''node_id'']"
proof -
  let ?info = "reg_record r"
  have info: "node_type ?info = PRIMARY" "active ?info" and id: "node_id ?info = num g ''node_id''"
    using assms(1) by (auto simp: may_register_def)
  have "NODE_NOT_FOUND \<notin> set (active_primaries rows)" using assms(4) by (auto simp: active_primaries_def)
  with assms(1,2) have only: "set (active_primaries rows) \<subseteq> {node_id ?info}"
    by (cases "active_primaries rows") (auto simp: may_register_def id image_iff)
  show ?thesis
  proof (cases "reg_existed r")
    case True
    with assms(1,3) show ?thesis
      by (simp add: saved_rows_def primaries_replaced [OF info only, unfolded id] distinct_select id may_register_def)
  next
    case False
    have "set (active_primaries rows) \<subseteq> set (map row_node_id rows)" by (auto simp: active_primaries_def)
    moreover have "num g ''node_id'' \<notin> set (map row_node_id rows)" using False assms(1) by (auto simp: may_register_def)
    ultimately have "active_primaries rows = []" using only unfolding id by (cases "active_primaries rows") auto
    with False show ?thesis
      by (simp add: saved_rows_def active_primaries_append active_primaries_row [OF info] id)
  qed
qed


definition primary_client :: client where
  "primary_client = example_client\<lparr>settings := set_defaults initial_options
     \<lparr>numbers := (numbers (set_defaults initial_options))(''node_id'' := 1)\<rparr>, rt := runtime_options_init\<lparr>rt_force := True\<rparr>\<rparr>"


section \<open>What the actions do\<close>

definition metadata_step :: "effect \<Rightarrow> bool" where
  "metadata_step e \<longleftrightarrow> (\<exists>conn. e = Reset_Term conn) \<or> (\<exists>conn info. e = Created_Record conn info) \<or>
     (\<exists>conn info. e = Updated_Record conn info) \<or> (\<exists>conn n. e = Deleted_Record conn n)"

lemma metadata_simps [simp]:
  "metadata_step (Reset_Term c)" "metadata_step (Created_Record c r)" "metadata_step (Updated_Record c r)"
  "metadata_step (Deleted_Record c n)" "\<not> metadata_step (Recorded_Event c n t b s)" "\<not> metadata_step (Closed c)"
  "\<not> metadata_step (Slept n)" "\<not> metadata_step (Ran s)" "\<not> metadata_step (Ran_Statement c s)"
  "\<not> metadata_step (Copied_Records c d)"
  by (simp_all add: metadata_step_def)

lemma metadata_not_harmless [simp]: "metadata_step e \<Longrightarrow> \<not> harmless e"
  by (cases e) (auto simp: metadata_step_def)

abbreviation no_metadata :: "(daemon, 'a) state \<Rightarrow> bool" where
  "no_metadata m \<equiv> yields metadata_step m (\<lambda>_ es. es = [])"

text \<open>Events, the extension and addresses.\<close>

lemma yields_no_metadata: "no_metadata m \<Longrightarrow> (\<And>x. Q x []) \<Longrightarrow> yields metadata_step m Q"
  by (erule yields_mono) simp

lemma no_metadata_event: "no_metadata (create_event env conn n event successful details info send)"
  unfolding create_event_def system_command_def by (intro yielding reading; simp)

lemma no_metadata_notification: "no_metadata (create_event_notification env conn n event successful details)"
  unfolding create_event_notification_def by (rule no_metadata_event)

lemma no_metadata_address: "no_metadata (move_address env g r)"
  unfolding move_address_def unbind_virtual_ip_def bind_virtual_ip_def system_command_def
  by (intro yielding reading; simp)

lemma no_metadata_extension: "no_metadata (create_repmgr_extension env g conn)"
  unfolding create_repmgr_extension_def install_extension_def grant_usage_def execute_def
  by (intro yielding reading yields_no_metadata [OF no_metadata_event]; simp)

lemma no_metadata_copy: "no_metadata (copy_records_to env primary witness)"
  unfolding copy_records_to_def by (intro yielding; simp)

lemma no_metadata_standby_event: "no_metadata (standby_event env g primary event successful details info)"
  unfolding standby_event_def by (intro yielding yields_no_metadata [OF no_metadata_event]; simp)

lemmas metadata_free =
  no_metadata_event [THEN yields_no_metadata] no_metadata_notification [THEN yields_no_metadata]
  no_metadata_address [THEN yields_no_metadata] no_metadata_extension [THEN yields_no_metadata]
  no_metadata_copy [THEN yields_no_metadata] no_metadata_standby_event [THEN yields_no_metadata]

text \<open>The record of the transaction.\<close>

lemma transaction_record:
  "returns (primary_register_transaction env g)
     (\<lambda>x. \<forall>r. x = Inr r \<longrightarrow> node_type (reg_record r) = PRIMARY \<and> node_id (reg_record r) = num g ''node_id'' \<and>
        (reg_existed r \<longrightarrow> rt_force (rt g)))"
  unfolding primary_register_transaction_def refuse_def save_primary_def
  by (intro rets) (auto intro!: rets dest!: init_node_record_fields split: sum.splits)

definition register_outcome :: "client \<Rightarrow> int + unit \<Rightarrow> effect list \<Rightarrow> bool" where
  "register_outcome g r es \<longleftrightarrow>
     es = [] \<and> (r \<in> range Inl \<or> rt_dry_run (rt g)) \<or>
     \<not> rt_dry_run (rt g) \<and>
       ((\<exists>conn. es = [Reset_Term conn]) \<and> r \<in> range Inl \<or>
        (\<exists>conn info. node_id info = num g ''node_id'' \<and> node_type info = PRIMARY \<and> r \<in> {Inr (), Inl ERR_DB_QUERY} \<and>
           (es = [Reset_Term conn, Created_Record conn info] \<or>
            es = [Reset_Term conn, Updated_Record conn info] \<and> rt_force (rt g))))"

lemma metadata_saved [simp]: "metadata_step (saved_effect conn r)"
  by (simp add: saved_effect_def)

lemma finish_primary_steps:
  "yields metadata_step (finish_primary env g conn r) (\<lambda>x es. x \<in> {Inr (), Inl ERR_DB_QUERY} \<and> es = [saved_effect conn r])"
  unfolding finish_primary_def by (intro yielding reading metadata_free; simp)

lemma transaction_steps:
  "yields P (on_session env conn (primary_register_transaction env g))
     (\<lambda>x es. es = [] \<and> (\<forall>r. x = Inr r \<longrightarrow> node_type (reg_record r) = PRIMARY \<and>
        node_id (reg_record r) = num g ''node_id'' \<and> (reg_existed r \<longrightarrow> rt_force (rt g))))"
  using returnsD [OF transaction_record] by (intro yields_session) blast

lemma register_outcome_parts [simp]:
  "register_outcome g (Inl c) []" "rt_dry_run (rt g) \<Longrightarrow> register_outcome g r []"
  "\<not> rt_dry_run (rt g) \<Longrightarrow> register_outcome g (Inl c) [Reset_Term conn]"
  by (auto simp: register_outcome_def)

lemma silent_checks [silently]:
  "silent (check_is_primary env conn)" "silent (check_other_primary env g conn)"
  unfolding check_is_primary_def check_other_primary_def by (intro silently; simp)+

lemma no_metadata_require: "no_metadata (require_extension env g conn)"
  unfolding require_extension_def by (intro yielding reading metadata_free; simp)

lemma register_primary_steps:
  assumes "\<not> rt_dry_run (rt g)"
  shows "yields metadata_step (register_primary env g conn) (register_outcome g)"
proof -
  have stored: "yields metadata_step (store_primary env g conn) (\<lambda>y es. register_outcome g y (Reset_Term conn # es))"
    unfolding store_primary_def
    by (rule yields_bind, rule yields_mono [OF transaction_steps])
      (auto intro!: yielding reading yields_mono [OF finish_primary_steps] simp: register_outcome_def saved_effect_def assms
        split: sum.splits)
  then show ?thesis
    unfolding register_primary_def initialize_voting_term_def
    by (intro yielding reading silent_checks [THEN yields_silent]; simp add: assms)
qed


text \<open>The type of a row that was found.\<close>

lemma found_row:
  assumes "result (get_node_record n info) db = (RECORD_FOUND, info')"
  shows "\<exists>r \<in> set (db_rows db). row_node_id r = n \<and> node_type info' = parse_node_type (row_type r) \<and>
    active info' = row_active r"
proof -
  from assms obtain r rs where rows: "filter (\<lambda>r. row_node_id r = n) (db_rows db) = r # rs"
    and info': "info' = populate_node_record r [] True info"
    by (auto simp: get_node_record_def get_node_record_where_def sql_query_def rows_with_id_def
        split: if_splits list.splits)
  from rows have "r \<in> set (db_rows db)" "row_node_id r = n" by (auto dest!: filter_eq_ConsD)
  then show ?thesis unfolding info' by (intro bexI [of _ r]) (simp_all add: populate_node_record_def Let_def)
qed

definition holds_row :: "env \<Rightarrow> pgconn \<Rightarrow> int \<Rightarrow> (node_row \<Rightarrow> bool) \<Rightarrow> bool" where
  "holds_row env conn n P \<longleftrightarrow> (\<exists>k r. r \<in> set (db_rows (e_session env k conn)) \<and> row_node_id r = n \<and> P r)"

lemma record_seen:
  "yields P (on_session env conn (get_node_record n info))
     (\<lambda>r es. es = [] \<and> (fst r = RECORD_FOUND \<longrightarrow> holds_row env conn n (\<lambda>x. node_type (snd r) = parse_node_type (row_type x))))"
proof (rule yields_session, intro conjI impI refl)
  fix k assume "fst (result (get_node_record n info) (e_session env k conn)) = RECORD_FOUND"
  then have "result (get_node_record n info) (e_session env k conn) =
      (RECORD_FOUND, snd (result (get_node_record n info) (e_session env k conn)))"
    by (metis prod.collapse)
  from found_row [OF this]
  show "holds_row env conn n (\<lambda>x. node_type (snd (result (get_node_record n info) (e_session env k conn))) =
      parse_node_type (row_type x))"
    by (auto simp: holds_row_def)
qed

lemma parse_node_type_iff:
  "parse_node_type t = STANDBY \<longleftrightarrow> t = ''standby''" "parse_node_type t = WITNESS \<longleftrightarrow> t = ''witness''"
  "parse_node_type t = PRIMARY \<longleftrightarrow> t = ''primary''"
  by (auto simp: parse_node_type_def)

text \<open>A deletion of the asked node, which has a row of the given type.\<close>

definition deletion :: "env \<Rightarrow> client \<Rightarrow> string \<Rightarrow> effect list \<Rightarrow> bool" where
  "deletion env g t es \<longleftrightarrow>
     es = [] \<or>
     (\<exists>conn. es = [Deleted_Record conn (target_node_id g)] \<and>
        holds_row env conn (target_node_id g) (\<lambda>r. row_type r = t))"

lemma deletion_parts:
  "deletion env g t []"
  "holds_row env conn (target_node_id g) (\<lambda>r. row_type r = t) \<Longrightarrow> deletion env g t [Deleted_Record conn (target_node_id g)]"
  by (auto simp: deletion_def)

lemma witness_deletion:
  "yields metadata_step (unregister_witness env g conn available primary)
     (\<lambda>_ es. deletion env g ''witness'' es \<and> (rt_dry_run (rt g) \<longrightarrow> es = []))"
  unfolding unregister_witness_def close_available_def
  by (rule yields_bind, rule yields_mono [OF record_seen])
    (auto intro!: yielding reading yields_session metadata_free deletion_parts
      simp: parse_node_type_iff [symmetric] eq_commute [of WITNESS])

lemma standby_deletion:
  "yields metadata_step (unregister_standby env g conn primary) (\<lambda>_ es. deletion env g ''standby'' es)"
  unfolding unregister_standby_def close_conns_def
  by (rule yields_bind, rule yields_mono [OF record_seen])
    (auto intro!: yielding reading yields_session metadata_free deletion_parts
      simp: parse_node_type_iff [symmetric] eq_commute [of STANDBY])


section \<open>Registering a standby\<close>

lemma silent_await_local [silently]: "silent (await_local env g conn n timer)"
  by (induction n arbitrary: conn timer) (auto intro!: silently)

lemma silent_await_sync [silently]: "silent (await_sync env g conn on_primary n timer on_standby)"
  by (induction n arbitrary: timer on_standby) (auto intro!: silently)

lemma silent_standby_checks [silently]:
  "silent (check_recovery_type env conn)" "silent (check_primary_standby_version_match env conn primary)"
  "silent (connect_to_primary env g conn)" "silent (close_both env primary conn code)"
  "silent (close_conns conn primary code)" "silent (check_upstream_attached env g primary conn upstream)"
  "silent (check_attached_to_primary env g primary conn status)"
  unfolding check_recovery_type_def check_primary_standby_version_match_def connect_to_primary_def close_both_def
    close_conns_def check_upstream_attached_def check_attached_to_primary_def
  by (intro silently; simp)+

lemma silent_check_local [silently]: "silent (check_local_server env g conn)"
  unfolding check_local_server_def by (intro silently; simp)

text \<open>Leaving the program, with the code.\<close>

lemma yields_close [intro]:
  "(\<And>e. P e \<Longrightarrow> \<not> harmless e) \<Longrightarrow> Q (Inl code) [] \<Longrightarrow> yields P (close_both env primary conn code) Q"
  "(\<And>e. P e \<Longrightarrow> \<not> harmless e) \<Longrightarrow> Q (Inl code) [] \<Longrightarrow> yields P (close_conns a b code) Q"
  unfolding close_both_def close_conns_def by (intro yielding reading; simp)+

lemmas registering = silent_await_local [THEN yields_silent] silent_await_sync [THEN yields_silent]
  silent_standby_checks(1-3,6,7) [THEN yields_silent] silent_check_local [THEN yields_silent] yields_close

lemma check_standby_record_force:
  "yields metadata_step (check_standby_record env g primary conn)
     (\<lambda>x es. es = [] \<and> (\<forall>info. x = Inr (RECORD_FOUND, info) \<longrightarrow> rt_force (rt g)))"
  unfolding check_standby_record_def by (intro yielding reading registering; auto)

lemma check_upstream_steps:
  "yields metadata_step (check_upstream_record env g primary conn info)
     (\<lambda>_ es. es = [] \<or> es = [Created_Record primary (placeholder g)] \<and> rt_force (rt g))"
  unfolding check_upstream_record_def create_placeholder_def Let_def by (intro yielding reading registering; auto)

lemma no_metadata_sync: "no_metadata (wait_for_sync env g n primary conn ev)"
  unfolding wait_for_sync_def by (intro yielding reading registering metadata_free; simp)

definition standby_effect :: "pgconn \<Rightarrow> bool \<Rightarrow> node_info \<Rightarrow> effect" where
  "standby_effect primary found info = (if found then Updated_Record primary info else Created_Record primary info)"

lemma metadata_standby [simp]: "metadata_step (standby_effect primary found info)"
  by (simp add: standby_effect_def)

lemma save_standby_steps:
  "yields metadata_step (save_standby env g primary conn status info ev)
     (\<lambda>_ es. es = [standby_effect primary (status = RECORD_FOUND) info])"
  unfolding save_standby_def Let_def standby_effect_def [symmetric]
  by (intro yielding reading registering metadata_free; simp)

lemma standby_record_fields:
  "standby_record env g info primary_id = Inr info' \<Longrightarrow>
   node_id info' = num g ''node_id'' \<and> node_type info' = STANDBY"
  by (auto simp: standby_record_def dest: init_node_record_fields split: sum.splits)

text \<open>The record is written, over an existing one with \<open>--force\<close> only.\<close>

definition standby_saved :: "client \<Rightarrow> pgconn \<Rightarrow> effect list \<Rightarrow> bool" where
  "standby_saved g primary es \<longleftrightarrow>
     (\<exists>info found. es = [standby_effect primary found info] \<and> (found \<longrightarrow> rt_force (rt g)) \<and>
        node_id info = num g ''node_id'' \<and> node_type info = STANDBY)"

lemma standby_saved_intro:
  "(found \<Longrightarrow> rt_force (rt g)) \<Longrightarrow> standby_record env g old primary_id = Inr info \<Longrightarrow>
   standby_saved g primary [standby_effect primary found info]"
  by (auto simp: standby_saved_def dest: standby_record_fields)

lemma finish_standby_steps:
  assumes "fst found = RECORD_FOUND \<Longrightarrow> rt_force (rt g)"
  shows "yields metadata_step (finish_standby env g n primary conn primary_id ev found)
    (\<lambda>x es. es = [] \<and> x \<in> range Inl \<or> \<not> rt_dry_run (rt g) \<and> standby_saved g primary es)"
  unfolding finish_standby_def
  by (intro yielding reading registering yields_mono [OF save_standby_steps] yields_no_metadata [OF no_metadata_sync];
      simp add: assms standby_saved_intro [OF assms] split: sum.splits)

text \<open>
  The effects of a registration: nothing, or a placeholder for the upstream node (with \<open>--force\<close> only), or the
  record after the placeholder, if there is one.
\<close>

definition standby_outcome :: "client \<Rightarrow> int + unit option \<Rightarrow> effect list \<Rightarrow> bool" where
  "standby_outcome g r es \<longleftrightarrow>
     (\<exists>primary before saved. es = before @ saved \<and>
        (before = [] \<or> before = [Created_Record primary (placeholder g)] \<and> rt_force (rt g)) \<and>
        (saved = [] \<and> r \<noteq> Inr (Some ()) \<or> \<not> rt_dry_run (rt g) \<and> standby_saved g primary saved))"

lemma standby_outcome_exit: "r \<noteq> Inr (Some ()) \<Longrightarrow> standby_outcome g r []"
  by (auto simp: standby_outcome_def)

lemma upstream_then_record:
  assumes "fst found = RECORD_FOUND \<Longrightarrow> rt_force (rt g)"
  shows "yields metadata_step
    (or_exit (check_upstream_record env g primary conn (snd found)) (\<lambda>_. finish_standby env g n primary conn primary_id ev found))
    (standby_outcome g)"
  by (rule yields_or_exit, rule yields_mono [OF check_upstream_steps])
    (auto split: sum.split intro!: yields_mono [OF finish_standby_steps [OF assms]] simp: standby_outcome_def; blast)

lemma register_checked_steps: "yields metadata_step (register_checked env g n primary conn primary_id ev) (standby_outcome g)"
  unfolding register_checked_def
proof (rule yields_or_exit, rule yields_mono [OF check_standby_record_force])
  fix x :: "int + record_status \<times> node_info" and es :: "effect list"
  assume force: "es = [] \<and> (\<forall>info. x = Inr (RECORD_FOUND, info) \<longrightarrow> rt_force (rt g))"
  show "case x of Inl c \<Rightarrow> standby_outcome g (Inl c) es
    | Inr found \<Rightarrow> yields metadata_step
        (or_exit (check_upstream_record env g primary conn (snd found)) (\<lambda>_. finish_standby env g n primary conn primary_id ev found))
        (\<lambda>y es'. standby_outcome g y (es @ es'))"
    using force upstream_then_record [of "case x of Inr found \<Rightarrow> found"]
    by (cases x) (auto simp: standby_outcome_exit)
qed


section \<open>A witness that takes the name of another node\<close>


definition inactive_witness :: node_row where
  "inactive_witness = (example_row 7 ''witness'' (Some 1) False)\<lparr>row_node_name := ''observer''\<rparr>"

definition observed_db :: database where
  "observed_db = example_db\<lparr>db_rows := db_rows example_db @ [inactive_witness]\<rparr>"

definition witness_client :: client where
  "witness_client = example_client\<lparr>settings := initial_options\<lparr>numbers := (\<lambda>_. 0)(''node_id'' := 9)\<rparr>\<rparr>"


end
