(* ===== verification/Config_Scan.thy ===== *)
theory Config_Scan
  imports Config_File
begin

text \<open>
  The scanner for configuration files in the style of the server, \<open>configfile-scan.l\<close>: its rules (the longest match
  wins, the earlier rule between equal ones), the reading of quoted values (\<open>CONF_scanstr\<close>) and the loop over the lines
  of a file (\<open>ProcessConfigFile\<close>). \<open>contents\<close> collects the settings of \<open>postgresql.auto.conf\<close> as a list of pairs,
  what \<open>key_value_list_replace_or_set\<close> is shown to implement in \<open>Linked_Lists\<close>; \<open>options\<close> are those of \<open>repmgr.conf\<close>.
\<close>

section \<open>Patterns\<close>

datatype conf_token = CONF_EOF | CONF_ID | CONF_STRING | CONF_INTEGER | CONF_REAL | CONF_EQUALS
  | CONF_UNQUOTED_STRING | CONF_QUALIFIED_ID | CONF_EOL | CONF_ERROR

definition conf_digit :: "char \<Rightarrow> bool" where
  "conf_digit c \<longleftrightarrow> 48 \<le> (of_char c :: nat) \<and> (of_char c :: nat) \<le> 57"

definition hex_digit :: "char \<Rightarrow> bool" where
  "hex_digit c \<longleftrightarrow> conf_digit c \<or> 65 \<le> (of_char c :: nat) \<and> (of_char c :: nat) \<le> 70 \<or>
     97 \<le> (of_char c :: nat) \<and> (of_char c :: nat) \<le> 102"

definition unit_letter :: "char \<Rightarrow> bool" where
  "unit_letter c \<longleftrightarrow> 65 \<le> (of_char c :: nat) \<and> (of_char c :: nat) \<le> 90 \<or>
     97 \<le> (of_char c :: nat) \<and> (of_char c :: nat) \<le> 122"

definition conf_letter :: "char \<Rightarrow> bool" where
  "conf_letter c \<longleftrightarrow> unit_letter c \<or> c = CHR ''_'' \<or> 128 \<le> (of_char c :: nat)"

definition letter_or_digit :: "char \<Rightarrow> bool" where
  "letter_or_digit c \<longleftrightarrow> conf_letter c \<or> conf_digit c"

definition conf_blank :: "char \<Rightarrow> bool" where
  "conf_blank c \<longleftrightarrow> c = CHR '' '' \<or> c = CHR 0x09 \<or> c = CHR 0x0D"

text \<open>For each rule the length of its longest match at the start of a text, 0 if there is none.\<close>

definition run_length :: "(char \<Rightarrow> bool) \<Rightarrow> string \<Rightarrow> nat" where
  "run_length P s = length (takeWhile P s)"

definition match_newline :: "string \<Rightarrow> nat" where
  "match_newline s = (case s of [] \<Rightarrow> 0 | c # _ \<Rightarrow> if c = CHR 0x0A then 1 else 0)"

definition match_comment :: "string \<Rightarrow> nat" where
  "match_comment s =
     (case s of [] \<Rightarrow> 0 | c # cs \<Rightarrow> if c = CHR ''#'' then Suc (run_length (\<lambda>c. c \<noteq> CHR 0x0A) cs) else 0)"

definition match_id :: "string \<Rightarrow> nat" where
  "match_id s = (case s of [] \<Rightarrow> 0 | c # cs \<Rightarrow> if conf_letter c then Suc (run_length letter_or_digit cs) else 0)"

definition match_qualified_id :: "string \<Rightarrow> nat" where
  "match_qualified_id s =
     (let n = match_id s in
      case drop n s of
        [] \<Rightarrow> 0
      | c # cs \<Rightarrow> if n \<noteq> 0 \<and> c = CHR ''.'' \<and> match_id cs \<noteq> 0 then n + 1 + match_id cs else 0)"

definition match_unquoted :: "string \<Rightarrow> nat" where
  "match_unquoted s =
     (case s of
        [] \<Rightarrow> 0
      | c # cs \<Rightarrow>
          if conf_letter c then
            Suc (run_length (\<lambda>c. letter_or_digit c \<or> c \<in> {CHR ''-'', CHR ''.'', CHR ''_'', CHR '':'', CHR ''/''}) cs)
          else 0)"

text \<open>
  The text after an opening quote up to and with the closing one: a quote closes the string unless a longer match
  takes it and the one after it for a doubled quote.
\<close>

fun string_body :: "string \<Rightarrow> nat option" where
  "string_body [] = None"
| "string_body (c # cs) =
     (if c = CHR 0x27 then
        (case cs of
           d # ds \<Rightarrow> if d = CHR 0x27 then (case string_body ds of Some n \<Rightarrow> Some (n + 2) | None \<Rightarrow> Some 1) else Some 1
         | [] \<Rightarrow> Some 1)
      else if c = CHR 0x5C then
        (case cs of
           d # ds \<Rightarrow> if d = CHR 0x0A then None else map_option (\<lambda>n. n + 2) (string_body ds)
         | [] \<Rightarrow> None)
      else if c = CHR 0x0A then None
      else map_option Suc (string_body cs))"

definition match_string :: "string \<Rightarrow> nat" where
  "match_string s =
     (case s of
        [] \<Rightarrow> 0
      | c # cs \<Rightarrow> if c = CHR 0x27 then (case string_body cs of Some n \<Rightarrow> Suc n | None \<Rightarrow> 0) else 0)"

definition sign_length :: "string \<Rightarrow> nat" where
  "sign_length s = (case s of [] \<Rightarrow> 0 | c # _ \<Rightarrow> if c = CHR ''-'' \<or> c = CHR ''+'' then 1 else 0)"

text \<open>Decimal digits, or \<open>0x\<close> and hexadecimal ones, with letters after them; the longer of the two.\<close>

definition match_integer :: "string \<Rightarrow> nat" where
  "match_integer s =
     (let n = sign_length s; t = drop n s;
          units = (\<lambda>k. k + run_length unit_letter (drop k t));
          d = run_length conf_digit t;
          x = (if take 2 t = ''0x'' then run_length hex_digit (drop 2 t) else 0);
          decimal = (if d = 0 then 0 else units d);
          hexadecimal = (if x = 0 then 0 else units (2 + x))
      in if decimal = 0 \<and> hexadecimal = 0 then 0 else n + max decimal hexadecimal)"

definition exponent_length :: "string \<Rightarrow> nat" where
  "exponent_length s =
     (case s of
        [] \<Rightarrow> 0
      | c # cs \<Rightarrow>
          (let n = sign_length cs; d = run_length conf_digit (drop n cs) in
           if (c = CHR ''e'' \<or> c = CHR ''E'') \<and> d \<noteq> 0 then 1 + n + d else 0))"

definition match_real :: "string \<Rightarrow> nat" where
  "match_real s =
     (let n = sign_length s; a = n + run_length conf_digit (drop n s) in
      case drop a s of
        [] \<Rightarrow> 0
      | c # cs \<Rightarrow>
          if c = CHR ''.'' then
            (let d = run_length conf_digit cs in a + 1 + d + exponent_length (drop d cs))
          else 0)"

definition match_equals :: "string \<Rightarrow> nat" where
  "match_equals s = (case s of [] \<Rightarrow> 0 | c # _ \<Rightarrow> if c = CHR ''='' then 1 else 0)"

definition match_any :: "string \<Rightarrow> nat" where
  "match_any s = (case s of [] \<Rightarrow> 0 | c # _ \<Rightarrow> if c = CHR 0x0A then 0 else 1)"

text \<open>The rules in their order; \<open>None\<close> is a text that is skipped.\<close>

definition conf_rules :: "(conf_token option \<times> (string \<Rightarrow> nat)) list" where
  "conf_rules =
     [(Some CONF_EOL, match_newline), (None, run_length conf_blank), (None, match_comment), (Some CONF_ID, match_id),
      (Some CONF_QUALIFIED_ID, match_qualified_id), (Some CONF_STRING, match_string),
      (Some CONF_UNQUOTED_STRING, match_unquoted), (Some CONF_INTEGER, match_integer), (Some CONF_REAL, match_real),
      (Some CONF_EQUALS, match_equals), (Some CONF_ERROR, match_any)]"

fun longest_match :: "(conf_token option \<times> (string \<Rightarrow> nat)) list \<Rightarrow> string \<Rightarrow> conf_token option \<times> nat" where
  "longest_match [] s = (None, 0)"
| "longest_match ((t, m) # rules) s =
     (let (t', n') = longest_match rules s in if m s < n' then (t', n') else (t, m s))"

lemma longest_match_bound: "(t, m) \<in> set rules \<Longrightarrow> m s \<le> snd (longest_match rules s)"
  by (induction rules) (auto split: prod.splits)

lemma longest_match_rule: "fst (longest_match rules s) \<in> insert None (fst ` set rules)"
  by (induction rules) (auto split: prod.splits if_splits simp: image_iff, force+)

lemma some_match: "s \<noteq> [] \<Longrightarrow> 0 < snd (longest_match conf_rules s)"
proof -
  assume "s \<noteq> []"
  then have "0 < match_newline s \<or> 0 < match_any s"
    by (cases s) (auto simp: match_newline_def match_any_def)
  moreover have "match_newline s \<le> snd (longest_match conf_rules s)" "match_any s \<le> snd (longest_match conf_rules s)"
    using longest_match_bound [of "Some CONF_EOL" match_newline conf_rules s]
      longest_match_bound [of "Some CONF_ERROR" match_any conf_rules s]
    by (simp_all add: conf_rules_def del: longest_match.simps)
  ultimately show ?thesis by linarith
qed

section \<open>Tokens\<close>

text \<open>\<open>yylex\<close>: the token, its text and the rest of the file.\<close>

function yylex :: "string \<Rightarrow> conf_token \<times> string \<times> string" where
  "yylex s =
     (if s = [] then (CONF_EOF, [], [])
      else
        (case longest_match conf_rules s of
           (Some t, n) \<Rightarrow> (t, take n s, drop n s)
         | (None, n) \<Rightarrow> yylex (drop n s)))"
  by auto
termination
proof (relation "measure length")
  fix s :: string and t n
  assume "s \<noteq> []" "(t, n) = longest_match conf_rules s" "t = None"
  with some_match [of s] show "(drop n s, s) \<in> measure length"
    by (metis in_measure length_drop length_greater_0_conv diff_less snd_conv)
qed simp

declare yylex.simps [simp del]

text \<open>The position in the file: what is left of it, and \<open>ConfigFileLineno\<close>, which counts the lines.\<close>

definition next_token :: "string \<times> int \<Rightarrow> conf_token \<times> string \<times> string \<times> int" where
  "next_token pos =
     (let (token, yytext, rest) = yylex (fst pos)
      in (token, yytext, rest, if token = CONF_EOL then snd pos + 1 else snd pos))"

lemma yylex_shorter: "yylex s = (token, yytext, rest) \<Longrightarrow> token \<noteq> CONF_EOF \<Longrightarrow> length rest < length s"
proof (induction s rule: yylex.induct)
  case (1 s)
  show ?case
  proof (cases "s = []")
    case False
    obtain t n where m: "longest_match conf_rules s = (t, n)" by (cases "longest_match conf_rules s")
    with some_match [OF False] have n: "0 < n" by simp
    show ?thesis
    proof (cases t)
      case None
      with "1.prems" m False have "yylex (drop n s) = (token, yytext, rest)" by (simp add: yylex.simps [of s])
      from "1.IH" [OF False m [symmetric] None this "1.prems"(2)] n False show ?thesis by simp
    next
      case (Some k)
      with "1.prems" m False n show ?thesis by (auto simp: yylex.simps [of s])
    qed
  qed (use "1.prems" in \<open>simp add: yylex.simps\<close>)
qed

lemma yylex_end: "yylex s = (CONF_EOF, yytext, rest) \<Longrightarrow> rest = []"
proof (induction s rule: yylex.induct)
  case (1 s)
  show ?case
  proof (cases "s = []")
    case False
    obtain t n where m: "longest_match conf_rules s = (t, n)" by (cases "longest_match conf_rules s")
    show ?thesis
    proof (cases t)
      case None
      with "1.prems" m False have "yylex (drop n s) = (CONF_EOF, yytext, rest)" by (simp add: yylex.simps [of s])
      from "1.IH" [OF False m [symmetric] None this] show ?thesis .
    next
      case (Some k)
      have "Some CONF_EOF \<notin> insert None (fst ` set conf_rules)" by (simp add: conf_rules_def)
      with longest_match_rule [of conf_rules s] m have "t \<noteq> Some CONF_EOF" by force
      with "1.prems" m False Some show ?thesis by (auto simp: yylex.simps [of s])
    qed
  qed (use "1.prems" in \<open>simp add: yylex.simps\<close>)
qed

lemma next_token_shorter:
  "next_token pos = (token, yytext, pos') \<Longrightarrow> length (fst pos') \<le> length (fst pos) \<and>
     (token \<noteq> CONF_EOF \<longrightarrow> length (fst pos') < length (fst pos))"
  using yylex_shorter [of "fst pos" token yytext "fst pos'"] yylex_end [of "fst pos" yytext "fst pos'"]
  by (cases "token = CONF_EOF") (auto simp: next_token_def Let_def split: prod.splits)

section \<open>Quoted values\<close>

text \<open>
  The loop of \<open>CONF_scanstr\<close> over the text after the opening quote; at its end the C string has its NUL. The
  result loses its last character, the closing quote.
\<close>

definition octal_digit :: "char \<Rightarrow> bool" where
  "octal_digit c \<longleftrightarrow> 48 \<le> (of_char c :: nat) \<and> (of_char c :: nat) \<le> 55"

definition octal_char :: "string \<Rightarrow> char" where
  "octal_char ds = char_of (foldl (\<lambda>a c. 8 * a + (of_char c - 48)) (0 :: nat) ds)"

definition escape_char :: "char \<Rightarrow> char" where
  "escape_char c =
     (if c = CHR ''b'' then CHR 0x08 else if c = CHR ''f'' then CHR 0x0C else if c = CHR ''n'' then CHR 0x0A
      else if c = CHR ''r'' then CHR 0x0D else if c = CHR ''t'' then CHR 0x09 else c)"

function scan_chars :: "string \<Rightarrow> string" where
  "scan_chars [] = []"
| "scan_chars (c # cs) =
     (if c = CHR 0x5C then
        (case cs of
           [] \<Rightarrow> [CHR 0x00]
         | d # ds \<Rightarrow>
             if octal_digit d then
               (let oct = takeWhile octal_digit (take 3 cs) in octal_char oct # scan_chars (drop (length oct) cs))
             else escape_char d # scan_chars ds)
      else if c = CHR 0x27 \<and> cs \<noteq> [] \<and> hd cs = CHR 0x27 then CHR 0x27 # scan_chars (tl cs)
      else c # scan_chars cs)"
  by pat_completeness auto
termination by (relation "measure length") auto

definition CONF_scanstr :: "string \<Rightarrow> string" where
  "CONF_scanstr s = c_string (butlast (scan_chars (tl s)))"

section \<open>The lines of a file\<close>

text \<open>The list of settings and the options; the list of errors is that of the options, else \<open>NULL\<close>.\<close>

record scanning =
  contents :: "(string \<times> string) list option"
  scanned_options :: "parsed option"

definition replace_or_set :: "(string \<times> string) list \<Rightarrow> string \<Rightarrow> string \<Rightarrow> (string \<times> string) list" where
  "replace_or_set l name val = filter (\<lambda>(k, v). k \<noteq> name) l @ [(name, val)]"

definition scan_error :: "string \<Rightarrow> scanning \<Rightarrow> int + scanning" where
  "scan_error message sc =
     (case scanned_options sc of
        None \<Rightarrow> Inr sc
      | Some p \<Rightarrow>
          (case add_error message p of Inl code \<Rightarrow> Inl code | Inr p \<Rightarrow> Inr (sc\<lparr>scanned_options := Some p\<rparr>)))"

definition scan_setting :: "(string \<Rightarrow> string) \<Rightarrow> string \<Rightarrow> string \<Rightarrow> scanning \<Rightarrow> int + scanning" where
  "scan_setting canonicalize name val sc =
     (let sc = sc\<lparr>contents := map_option (\<lambda>l. replace_or_set l name val) (contents sc)\<rparr> in
      case scanned_options sc of
        None \<Rightarrow> Inr sc
      | Some p \<Rightarrow>
          (case parse_configuration_item canonicalize name val p of
             Inl code \<Rightarrow> Inl code
           | Inr p \<Rightarrow> Inr (sc\<lparr>scanned_options := Some p\<rparr>)))"

text \<open>A setting with the token after it, or the token at which a line could not be understood, and its text.\<close>

datatype conf_line = Setting string string conf_token | Bad_Line conf_token string

definition read_line :: "conf_token \<Rightarrow> string \<Rightarrow> string \<times> int \<Rightarrow> conf_line \<times> string \<times> int" where
  "read_line token yytext pos =
     (if token \<noteq> CONF_ID \<and> token \<noteq> CONF_QUALIFIED_ID then (Bad_Line token yytext, pos)
      else
        let name = c_string yytext;
            (token, yytext, pos) = next_token pos;
            (token, yytext, pos) = (if token = CONF_EQUALS then next_token pos else (token, yytext, pos))
        in if token \<notin> {CONF_ID, CONF_STRING, CONF_INTEGER, CONF_REAL, CONF_UNQUOTED_STRING}
           then (Bad_Line token yytext, pos)
           else
             let val = (if token = CONF_STRING then CONF_scanstr (c_string yytext) else c_string yytext);
                 (token, yytext, pos) = next_token pos
             in if token = CONF_EOL then (Setting name val token, pos)
                else if token \<noteq> CONF_EOF then (Bad_Line token yytext, pos)
                else (Setting name val token, fst pos, snd pos + 1))"

lemma read_line_shorter: "read_line token yytext pos = (l, pos') \<Longrightarrow> length (fst pos') \<le> length (fst pos)"
  unfolding read_line_def Let_def
  by (auto split: prod.splits if_splits dest!: next_token_shorter)

text \<open>The rest of a line that could not be understood is skipped.\<close>

function resync :: "conf_token \<Rightarrow> string \<times> int \<Rightarrow> conf_token \<times> string \<times> int" where
  "resync token pos =
     (if token = CONF_EOL \<or> token = CONF_EOF then (token, pos)
      else let (token', yytext, pos') = next_token pos in resync token' pos')"
  by auto
termination
proof (relation "measure (\<lambda>(token, pos). length (fst pos) + (if token = CONF_EOF then 0 else 1))")
  fix token :: conf_token and pos :: "string \<times> int" and x token' y yytext pos'
  assume "\<not> (token = CONF_EOL \<or> token = CONF_EOF)" "x = next_token pos" "(token', y) = x" "(yytext, pos') = y"
  then show "((token', pos'), token, pos) \<in> measure (\<lambda>(token, pos). length (fst pos) + (if token = CONF_EOF then 0 else 1))"
    using next_token_shorter [of pos token' yytext pos'] by auto
qed simp

declare resync.simps [simp del]

lemma resync_shorter: "resync token pos = (token', pos') \<Longrightarrow> length (fst pos') \<le> length (fst pos)"
proof (induction token pos rule: resync.induct)
  case (1 token pos)
  show ?case
  proof (cases "token = CONF_EOL \<or> token = CONF_EOF")
    case False
    obtain t y p where n: "next_token pos = (t, y, p)" by (cases "next_token pos")
    with "1.prems" False have "resync t p = (token', pos')" by (simp add: resync.simps [of token])
    from "1.IH" [OF False n [symmetric] refl refl this] next_token_shorter [OF n] show ?thesis by simp
  qed (use "1.prems" in \<open>auto simp: resync.simps\<close>)
qed

definition syntax_error :: "string \<Rightarrow> conf_token \<Rightarrow> string \<Rightarrow> int \<Rightarrow> string" where
  "syntax_error config_file token yytext line =
     ''syntax error in file '' @ quoted config_file @ '' line '' @
     (if token = CONF_EOL \<or> token = CONF_EOF then int_string (line - 1) @ '', near end of line''
      else int_string line @ '', near token '' @ quoted (c_string yytext))"

text \<open>
  The loop, with the number of errors. After the hundredth error a message is meant to be printed; \<open>fprintf\<close> is
  a macro that jumps to the handler of fatal errors of the scanner, with the name of the file as the message.
\<close>

function scan_lines ::
  "(string \<Rightarrow> string) \<Rightarrow> string \<Rightarrow> nat \<Rightarrow> string \<times> int \<Rightarrow> scanning \<Rightarrow> int + bool \<times> scanning" where
  "scan_lines canonicalize config_file errorcount pos sc =
     (let (token, yytext, pos) = next_token pos in
      if token = CONF_EOF then Inr (errorcount = 0, sc)
      else if token = CONF_EOL then scan_lines canonicalize config_file errorcount pos sc
      else
        (case read_line token yytext pos of
           (Setting name val token, pos) \<Rightarrow>
             (case scan_setting canonicalize name val sc of
                Inl code \<Rightarrow> Inl code
              | Inr sc \<Rightarrow>
                  if token = CONF_EOF then Inr (errorcount = 0, sc)
                  else scan_lines canonicalize config_file errorcount pos sc)
         | (Bad_Line token yytext, pos) \<Rightarrow>
             (case scan_error (syntax_error config_file token yytext (snd pos)) sc of
                Inl code \<Rightarrow> Inl code
              | Inr sc \<Rightarrow>
                  if errorcount + 1 \<ge> 100 then
                    (case scan_error (config_file @ '' at file '' @ quoted config_file @ '' line '' @ int_string (snd pos)) sc of
                       Inl code \<Rightarrow> Inl code
                     | Inr sc \<Rightarrow> Inr (False, sc))
                  else
                    let (token, pos) = resync token pos in
                    if token = CONF_EOF then Inr (False, sc)
                    else scan_lines canonicalize config_file (errorcount + 1) pos sc)))"
  by auto
termination
  by (relation "measure (\<lambda>(_, _, _, pos, _). length (fst pos))")
    (auto dest!: next_token_shorter read_line_shorter resync_shorter simp: eq_commute [of _ "next_token _"]
      eq_commute [of _ "read_line _ _ _"] eq_commute [of _ "resync _ _"])

declare scan_lines.simps [simp del]

definition ProcessConfigFile ::
  "(string \<Rightarrow> string) \<Rightarrow> string \<Rightarrow> string \<Rightarrow> scanning \<Rightarrow> int + bool \<times> scanning" where
  "ProcessConfigFile canonicalize file config_file sc = scan_lines canonicalize config_file 0 (file, 1) sc"

definition ProcessRepmgrConfigFile ::
  "(string \<Rightarrow> string) \<Rightarrow> string \<Rightarrow> string \<Rightarrow> parsed \<Rightarrow> int + bool \<times> parsed" where
  "ProcessRepmgrConfigFile canonicalize file config_file p =
     (case ProcessConfigFile canonicalize file config_file \<lparr>contents = None, scanned_options = Some p\<rparr> of
        Inl code \<Rightarrow> Inl code
      | Inr (ok, sc) \<Rightarrow> Inr (ok, the (scanned_options sc)))"

definition ProcessPostgresConfigFile :: "string \<Rightarrow> string \<Rightarrow> (string \<times> string) list \<Rightarrow> bool \<times> (string \<times> string) list" where
  "ProcessPostgresConfigFile file config_file l =
     (case ProcessConfigFile id file config_file \<lparr>contents = Some l, scanned_options = None\<rparr> of
        Inl code \<Rightarrow> (False, l)
      | Inr (ok, sc) \<Rightarrow> (ok, the (contents sc)))"

end
