(* ===== verification/Recovery_Conf.thy ===== *)
theory Recovery_Conf
  imports Client Config_Scan
begin

text \<open>
  The replication settings of a standby: \<open>create_recovery_file\<close>, \<open>write_primary_conninfo\<close> and \<open>write_standby_signal\<close> of
  \<open>repmgr-action-standby.c\<close>, \<open>modify_auto_conf\<close> of \<open>configfile.c\<close>. \<open>escape_single_quotes_ascii\<close> of the server's libraries
  is the parameter \<open>esc\<close>; it is documented to double single quotes and backslashes (\<open>doubles_quotes\<close>).
\<close>

section \<open>Connection to the upstream node\<close>

definition skipped_param :: "string \<times> string option \<Rightarrow> bool" where
  "skipped_param kv \<longleftrightarrow> fst kv = ''dbname'' \<or> fst kv = ''replication'' \<or> snd kv = None \<or> snd kv = Some []"

fun append_params :: "string \<Rightarrow> (string \<times> string option) list \<Rightarrow> string" where
  "append_params buf [] = buf"
| "append_params buf (kv # kvs) =
     (if skipped_param kv then append_params buf kvs
      else append_params
        (appendConnStrVal ((if buf \<noteq> [] then buf @ '' '' else buf) @ fst kv @ ''='') (the (snd kv))) kvs)"

definition param_provided :: "(string \<times> string option) list \<Rightarrow> string \<Rightarrow> bool" where
  "param_provided kvs name \<longleftrightarrow> (\<exists>kv \<in> set kvs. \<not> skipped_param kv \<and> fst kv = name)"

definition write_primary_conninfo :: "env \<Rightarrow> client \<Rightarrow> (string \<Rightarrow> string) \<Rightarrow> conninfo_params \<Rightarrow> string" where
  "write_primary_conninfo env g esc param_list =
     (let kvs = params_from param_list 0;
          buf = append_params [] kvs;
          buf = (if param_provided kvs ''application_name'' then buf
                 else if str g ''node_name'' \<noteq> [] then
                   appendConnStrVal (buf @ '' application_name='') (str g ''node_name'')
                 else buf @ '' application_name=repmgr'');
          buf = (if \<not> param_provided kvs ''password'' \<and> flag g ''use_primary_conninfo_password'' then
                   (case param_get (initialize_conninfo_params (e_defaults env) True) ''password'' of
                      None \<Rightarrow> buf
                    | Some password \<Rightarrow> appendConnStrVal (buf @ '' password='') password)
                 else buf);
          buf = (if str g ''passfile'' \<noteq> [] \<and> has_passfile (e_defaults env) then
                   appendConnStrVal (buf @ '' passfile='') (str g ''passfile'')
                 else buf)
      in esc buf)"

section \<open>The settings\<close>

definition optional_item :: "bool \<Rightarrow> string \<Rightarrow> string \<Rightarrow> (string \<times> string) list" where
  "optional_item wanted name val = (if wanted then [(name, val)] else [])"

definition recovery_config ::
  "env \<Rightarrow> client \<Rightarrow> (string \<Rightarrow> string) \<Rightarrow> node_info \<Rightarrow> conninfo_params \<Rightarrow> int \<Rightarrow> (string \<times> string) list" where
  "recovery_config env g esc node primary_conninfo version =
     optional_item (version < 120000) ''standby_mode'' ''on'' @
     [(''primary_conninfo'', write_primary_conninfo env g esc primary_conninfo),
      (''recovery_target_timeline'', ''latest'')] @
     optional_item (flag g ''recovery_min_apply_delay_provided'') ''recovery_min_apply_delay''
       (str g ''recovery_min_apply_delay'') @
     optional_item (flag g ''use_replication_slots'') ''primary_slot_name'' (slot_name node) @
     optional_item (str g ''restore_command'' \<noteq> []) ''restore_command'' (esc (str g ''restore_command'')) @
     optional_item (str g ''archive_cleanup_command'' \<noteq> []) ''archive_cleanup_command''
       (esc (str g ''archive_cleanup_command''))"

definition setting_text :: "string \<times> string \<Rightarrow> string" where
  "setting_text kv = fst kv @ '' = '' @ [CHR 0x27] @ snd kv @ [CHR 0x27, CHR 0x0A]"

section \<open>Writing files\<close>

text \<open>\<open>fputs\<close> line by line; what was written before one fails stays in the file.\<close>

fun put_lines :: "env \<Rightarrow> string list \<Rightarrow> string \<Rightarrow> (daemon, bool \<times> string) state" where
  "put_lines env [] written = ret (True, written)"
| "put_lines env (l # ls) written = do {
     ok \<leftarrow> ask env;
     if ok then put_lines env ls (written @ l) else ret (False, written)
   }"

definition write_file :: "env \<Rightarrow> string \<Rightarrow> string list \<Rightarrow> (daemon, bool) state" where
  "write_file env path ls = do {
     opened \<leftarrow> ask env;
     if \<not> opened then ret False
     else do {
       (ok, written) \<leftarrow> put_lines env ls [];
       _ \<leftarrow> emit (Wrote_File path written);
       ret ok
     }
   }"

definition write_standby_signal :: "env \<Rightarrow> client \<Rightarrow> (daemon, bool) state" where
  "write_standby_signal env g =
     write_file env (take (MAXPGPATH - 1) (str g ''data_directory'' @ ''/standby.signal''))
       [''# created by repmgr'' @ [CHR 0x0A]]"

definition auto_conf_text :: "(string \<times> string) list \<Rightarrow> string" where
  "auto_conf_text cfg =
     ''# Do not edit this file manually!'' @ [CHR 0x0A] @
     ''# It will be overwritten by the ALTER SYSTEM command.'' @ [CHR 0x0A] @ concat (map setting_text cfg)"

definition merge_items :: "(string \<times> string) list \<Rightarrow> (string \<times> string) list \<Rightarrow> (string \<times> string) list" where
  "merge_items cfg items = foldl (\<lambda>l (k, v). replace_or_set l k v) cfg items"

text \<open>
  The answer of reading the file is ignored, and so is a temporary file that cannot be opened or written, and
  the renaming (\<open>durable_rename\<close>, as built for version 10 and later).
\<close>

definition rewrite_auto_conf :: "env \<Rightarrow> string \<Rightarrow> string \<Rightarrow> (string \<times> string) list \<Rightarrow> (daemon, bool) state" where
  "rewrite_auto_conf env path text items = do {
     let cfg = merge_items (snd (ProcessPostgresConfigFile text path [])) items;
     written \<leftarrow> write_file env (path @ ''.tmp'') [auto_conf_text cfg];
     if \<not> written then ret True
     else do {
       renamed \<leftarrow> ask env;
       _ \<leftarrow> (if renamed then emit (Wrote_File path (auto_conf_text cfg)) else ret ());
       ret True
     }
   }"

definition modify_auto_conf :: "env \<Rightarrow> string \<Rightarrow> (string \<times> string) list \<Rightarrow> (daemon, bool) state" where
  "modify_auto_conf env data_dir items = do {
     file \<leftarrow> call (e_file env);
     (case file of
        None \<Rightarrow> ret False
      | Some text \<Rightarrow> rewrite_auto_conf env (data_dir @ ''/postgresql.auto.conf'') text items)
   }"

section \<open>The file of a standby\<close>

text \<open>\<open>dest\<close> is a buffer that gets the text, or the directory with the file; the answer is whether it worked, and \<open>dest\<close>.\<close>

definition create_recovery_file ::
  "env \<Rightarrow> client \<Rightarrow> (string \<Rightarrow> string) \<Rightarrow> node_info \<Rightarrow> conninfo_params \<Rightarrow> int \<Rightarrow> string \<Rightarrow> bool
     \<Rightarrow> (daemon, int + bool \<times> string) state" where
  "create_recovery_file env g esc node primary_conninfo version dest as_file =
     (let cfg = recovery_config env g esc node primary_conninfo version in
      if \<not> as_file then
        ret (case maxlen_snprintf (concat (map setting_text cfg)) of
               Inl code \<Rightarrow> Inl code
             | Inr text \<Rightarrow> Inr (True, text))
      else if version \<ge> 120000 then do {
        ok \<leftarrow> modify_auto_conf env dest cfg;
        if \<not> ok then ret (Inr (False, dest))
        else do { ok \<leftarrow> write_standby_signal env g; ret (Inr (ok, dest)) }
      }
      else
        (case maxpath_snprintf (dest @ ''/recovery.conf'') of
           Inl code \<Rightarrow> ret (Inl code)
         | Inr path \<Rightarrow> do { ok \<leftarrow> write_file env path (map setting_text cfg); ret (Inr (ok, dest)) }))"

end
