(* ===== verification/Scan_Properties.thy ===== *)
theory Scan_Properties
  imports Recovery_Conf
begin

text \<open>
  What \<open>modify_auto_conf\<close> writes is read back by the scanner: the settings that repmgr adds are, because their values are
  escaped; the ones that were in the file are exactly when they contain neither quotes nor backslashes.
\<close>

section \<open>Reading a setting\<close>

abbreviation (input) QUOTE :: char where "QUOTE \<equiv> CHR 0x27"
abbreviation (input) BACKSLASH :: char where "BACKSLASH \<equiv> CHR 0x5C"
abbreviation (input) NEWLINE :: char where "NEWLINE \<equiv> CHR 0x0A"

definition doubled :: "string \<Rightarrow> string" where
  "doubled s = concat (map (\<lambda>c. if c = QUOTE \<or> c = BACKSLASH then [c, c] else [c]) s)"

definition doubles_quotes :: "(string \<Rightarrow> string) \<Rightarrow> bool" where
  "doubles_quotes esc \<longleftrightarrow> (\<forall>s. esc s = doubled s)"

definition one_line :: "string \<Rightarrow> bool" where
  "one_line v \<longleftrightarrow> NEWLINE \<notin> set v \<and> CHR 0x00 \<notin> set v"

definition conf_id :: "string \<Rightarrow> bool" where
  "conf_id s \<longleftrightarrow> s \<noteq> [] \<and> conf_letter (hd s) \<and> list_all letter_or_digit (tl s)"

text \<open>The names a setting can have: an identifier, or two with a dot between them.\<close>

definition conf_name :: "string \<Rightarrow> bool" where
  "conf_name s \<longleftrightarrow> conf_id s \<or> (\<exists>a b. s = a @ CHR ''.'' # b \<and> conf_id a \<and> conf_id b)"

lemma doubled_simps [simp]:
  "doubled [] = []" "doubled (c # s) = (if c = QUOTE \<or> c = BACKSLASH then [c, c] else [c]) @ doubled s"
  by (simp_all add: doubled_def)

lemma doubled_plain: "QUOTE \<notin> set v \<Longrightarrow> BACKSLASH \<notin> set v \<Longrightarrow> doubled v = v"
  by (induction v) auto

lemma set_doubled [simp]: "set (doubled v) = set v"
  by (induction v) auto

lemma run_length_simps [simp]:
  "run_length P [] = 0" "run_length P (c # cs) = (if P c then Suc (run_length P cs) else 0)"
  by (simp_all add: run_length_def)

lemma run_length_stop: "list_all P xs \<Longrightarrow> \<not> P y \<Longrightarrow> run_length P (xs @ y # ys) = length xs"
  by (induction xs) auto

lemma letter_other:
  assumes "conf_letter c"
  shows "c \<noteq> NEWLINE" "c \<noteq> CHR ''#''" "c \<noteq> QUOTE" "c \<noteq> CHR ''=''" "c \<noteq> CHR ''.''" "c \<noteq> CHR ''-''" "c \<noteq> CHR ''+''" "c \<noteq> CHR ''0''"
    "\<not> conf_blank c" "\<not> conf_digit c" "c \<noteq> CHR 0x00"
  using assms by (auto simp: conf_letter_def unit_letter_def conf_blank_def conf_digit_def)

lemma name_stops [simp]:
  "\<not> letter_or_digit (CHR '' '')" "\<not> letter_or_digit (CHR ''.'')" "\<not> conf_letter (CHR '' '')"
  by (simp_all add: letter_or_digit_def conf_letter_def unit_letter_def conf_digit_def)

lemma yylex_token: "longest_match conf_rules s = (Some t, n) \<Longrightarrow> s \<noteq> [] \<Longrightarrow> yylex s = (t, take n s, drop n s)"
  by (simp add: yylex.simps [of s])

lemma yylex_skip: "longest_match conf_rules s = (None, n) \<Longrightarrow> s \<noteq> [] \<Longrightarrow> yylex s = yylex (drop n s)"
  by (simp add: yylex.simps [of s])

lemmas matchers = match_newline_def match_comment_def match_id_def match_qualified_id_def match_string_def match_unquoted_def
  match_integer_def match_real_def match_equals_def match_any_def sign_length_def

lemma no_number: "conf_letter c \<Longrightarrow> match_integer (c # cs) = 0" "conf_letter c \<Longrightarrow> match_real (c # cs) = 0"
  by (auto simp: match_integer_def match_real_def sign_length_def Let_def letter_other dest: letter_other)

lemma yylex_id:
  assumes "conf_id s"
  shows "yylex (s @ CHR '' '' # rest) = (CONF_ID, s, CHR '' '' # rest)"
proof -
  obtain c cs where s: "s = c # cs" and c: "conf_letter c" and cs: "list_all letter_or_digit cs"
    using assms by (cases s) (auto simp: conf_id_def)
  have un: "list_all (\<lambda>c. letter_or_digit c \<or> c \<in> {CHR ''-'', CHR ''.'', CHR ''_'', CHR '':'', CHR ''/''}) cs"
    using cs by (rule list.pred_mono_strong) simp
  have "longest_match conf_rules (s @ CHR '' '' # rest) = (Some CONF_ID, Suc (length cs))"
    using c letter_other [OF c] run_length_stop [OF cs] run_length_stop [OF un, of "CHR '' ''" rest] no_number [OF c]
    by (simp add: s conf_rules_def match_newline_def match_comment_def match_id_def match_qualified_id_def match_string_def
        match_unquoted_def match_equals_def match_any_def)
  from yylex_token [OF this] s show ?thesis by simp
qed

lemma yylex_qualified_id:
  assumes "conf_id a" and "conf_id b"
  shows "yylex (a @ CHR ''.'' # b @ CHR '' '' # rest) = (CONF_QUALIFIED_ID, a @ CHR ''.'' # b, CHR '' '' # rest)"
proof -
  obtain c cs where a: "a = c # cs" and c: "conf_letter c" and cs: "list_all letter_or_digit cs"
    using assms(1) by (cases a) (auto simp: conf_id_def)
  obtain d ds where b: "b = d # ds" and d: "conf_letter d" and ds: "list_all letter_or_digit ds"
    using assms(2) by (cases b) (auto simp: conf_id_def)
  let ?un = "\<lambda>c. letter_or_digit c \<or> c \<in> {CHR ''-'', CHR ''.'', CHR ''_'', CHR '':'', CHR ''/''}"
  have un: "list_all ?un (cs @ CHR ''.'' # d # ds)"
    using cs ds d by (auto simp: list_all_iff letter_or_digit_def)
  have "longest_match conf_rules (a @ CHR ''.'' # b @ CHR '' '' # rest) =
      (Some CONF_QUALIFIED_ID, Suc (length cs + Suc (Suc (length ds))))"
    using c letter_other [OF c] run_length_stop [OF cs, of "CHR ''.''"] run_length_stop [OF ds, of "CHR '' ''"] d
      run_length_stop [OF un, of "CHR '' ''" rest] no_number [OF c]
    by (simp add: a b conf_rules_def match_newline_def match_comment_def match_id_def match_qualified_id_def match_string_def
        match_unquoted_def match_equals_def match_any_def)
  from yylex_token [OF this] a b show ?thesis by simp
qed

lemma yylex_name:
  assumes "conf_name s"
  shows "\<exists>t. t \<in> {CONF_ID, CONF_QUALIFIED_ID} \<and> yylex (s @ CHR '' '' # rest) = (t, s, CHR '' '' # rest)"
proof (cases "conf_id s")
  case True
  with yylex_id [of s rest] show ?thesis by auto
next
  case False
  then obtain a b where "s = a @ CHR ''.'' # b" "conf_id a" "conf_id b"
    using assms by (auto simp: conf_name_def)
  with yylex_qualified_id [of a b rest] show ?thesis by auto
qed

lemma no_nul_name: "conf_name s \<Longrightarrow> c_string s = s"
proof -
  have id: "CHR 0x00 \<notin> set a" if "conf_id a" for a
    using that letter_other(11) [of "CHR 0x00"]
    by (cases a) (auto simp: conf_id_def list_all_iff letter_or_digit_def conf_digit_def)
  assume "conf_name s"
  then have "CHR 0x00 \<notin> set s" using id by (auto simp: conf_name_def)
  then show ?thesis by (auto simp: c_string_def takeWhile_eq_all_conv)
qed

lemma yylex_blank: "yylex (CHR '' '' # c # rest) = yylex (c # rest)" if "\<not> conf_blank c"
proof -
  have "longest_match conf_rules (CHR '' '' # c # rest) = (None, 1)"
    using that
    by (simp add: conf_rules_def match_newline_def match_comment_def match_id_def match_qualified_id_def match_string_def
        match_unquoted_def match_integer_def match_real_def match_equals_def match_any_def sign_length_def conf_blank_def
        conf_letter_def unit_letter_def conf_digit_def)
  from yylex_skip [OF this] show ?thesis by simp
qed

lemma yylex_equals: "yylex (CHR ''='' # rest) = (CONF_EQUALS, ''='', rest)"
proof -
  have "longest_match conf_rules (CHR ''='' # rest) = (Some CONF_EQUALS, 1)"
    by (simp add: conf_rules_def match_newline_def match_comment_def match_id_def match_qualified_id_def match_string_def
        match_unquoted_def match_integer_def match_real_def match_equals_def match_any_def sign_length_def conf_blank_def
        conf_letter_def unit_letter_def conf_digit_def)
  from yylex_token [OF this] show ?thesis by simp
qed

lemma yylex_newline: "yylex (NEWLINE # rest) = (CONF_EOL, [NEWLINE], rest)"
proof -
  have "longest_match conf_rules (NEWLINE # rest) = (Some CONF_EOL, 1)"
    by (simp add: conf_rules_def match_newline_def match_comment_def match_id_def match_qualified_id_def match_string_def
        match_unquoted_def match_integer_def match_real_def match_equals_def match_any_def sign_length_def conf_blank_def
        conf_letter_def unit_letter_def conf_digit_def)
  from yylex_token [OF this] show ?thesis by simp
qed

lemma yylex_comment:
  assumes "NEWLINE \<notin> set s"
  shows "yylex (CHR ''#'' # s @ NEWLINE # rest) = (CONF_EOL, [NEWLINE], rest)"
proof -
  have "run_length (\<lambda>c. c \<noteq> NEWLINE) (s @ NEWLINE # rest) = length s"
    using assms by (intro run_length_stop) (auto simp: list_all_iff)
  then have "longest_match conf_rules (CHR ''#'' # s @ NEWLINE # rest) = (None, Suc (length s))"
    by (simp add: conf_rules_def match_newline_def match_comment_def match_id_def match_qualified_id_def match_string_def
        match_unquoted_def match_integer_def match_real_def match_equals_def match_any_def sign_length_def conf_blank_def
        conf_letter_def unit_letter_def conf_digit_def)
  from yylex_skip [OF this] show ?thesis by (simp add: yylex_newline)
qed

lemma string_body_positive: "string_body s = Some n \<Longrightarrow> 0 < n"
  by (cases s) (auto split: if_splits list.splits option.splits)

lemma yylex_quote:
  "yylex (QUOTE # rest) =
     (case string_body rest of
        None \<Rightarrow> (CONF_ERROR, [QUOTE], rest)
      | Some n \<Rightarrow> (CONF_STRING, QUOTE # take n rest, drop n rest))"
proof -
  have "longest_match conf_rules (QUOTE # rest) =
      (case string_body rest of None \<Rightarrow> (Some CONF_ERROR, 1) | Some n \<Rightarrow> (Some CONF_STRING, Suc n))"
    using string_body_positive [of rest]
    by (auto simp: conf_rules_def match_newline_def match_comment_def match_id_def match_qualified_id_def match_string_def
        match_unquoted_def match_integer_def match_real_def match_equals_def match_any_def sign_length_def conf_blank_def
        conf_letter_def unit_letter_def conf_digit_def split: option.splits)
  then show ?thesis using yylex_token [of "QUOTE # rest"] by (auto split: option.splits)
qed

lemma string_body_doubled:
  "NEWLINE \<notin> set v \<Longrightarrow> rest = [] \<or> hd rest \<noteq> QUOTE \<Longrightarrow>
     string_body (doubled v @ QUOTE # rest) = Some (length (doubled v) + 1)"
  by (induction v) (auto split: list.splits)

lemma scan_chars_doubled: "scan_chars (doubled v @ [QUOTE]) = v @ [QUOTE]"
  by (induction v) (auto simp: octal_digit_def escape_char_def)

lemma scanstr_doubled: "CHR 0x00 \<notin> set v \<Longrightarrow> CONF_scanstr (QUOTE # doubled v @ [QUOTE]) = v"
  by (auto simp: CONF_scanstr_def scan_chars_doubled c_string_def takeWhile_eq_all_conv)

lemma next_token_yylex:
  "yylex s = (t, y, rest) \<Longrightarrow> next_token (s, n) = (t, y, rest, if t = CONF_EOL then n + 1 else n)"
  by (simp add: next_token_def)

text \<open>After the name and the equal sign of a setting its value is read.\<close>

lemma read_line_value:
  assumes "conf_name k" and "t \<in> {CONF_ID, CONF_QUALIFIED_ID}"
  shows "read_line t k (CHR '' '' # CHR ''='' # CHR '' '' # QUOTE # s, n) =
    (case string_body s of
       None \<Rightarrow> (Bad_Line CONF_ERROR [QUOTE], s, n)
     | Some m \<Rightarrow>
         (let (t, y, pos) = next_token (drop m s, n) in
          if t = CONF_EOL then (Setting k (CONF_scanstr (c_string (QUOTE # take m s))) t, pos)
          else if t \<noteq> CONF_EOF then (Bad_Line t y, pos)
          else (Setting k (CONF_scanstr (c_string (QUOTE # take m s))) t, fst pos, snd pos + 1)))"
proof -
  have "yylex (CHR '' '' # CHR ''='' # CHR '' '' # QUOTE # s) = (CONF_EQUALS, ''='', CHR '' '' # QUOTE # s)"
    by (simp add: yylex_blank yylex_equals conf_blank_def)
  moreover have "yylex (CHR '' '' # QUOTE # s) = yylex (QUOTE # s)" by (simp add: yylex_blank conf_blank_def)
  ultimately show ?thesis
    using assms no_nul_name [OF assms(1)]
    by (auto simp: read_line_def next_token_def yylex_quote Let_def split: option.splits prod.splits)
qed

lemma read_setting:
  assumes "conf_name k" and "t \<in> {CONF_ID, CONF_QUALIFIED_ID}" and "one_line v"
  shows "read_line t k (CHR '' '' # CHR ''='' # CHR '' '' # QUOTE # doubled v @ QUOTE # NEWLINE # rest, n) =
    (Setting k v CONF_EOL, rest, n + 1)"
proof -
  have c: "c_string (QUOTE # doubled v @ [QUOTE]) = QUOTE # doubled v @ [QUOTE]"
    using assms(3) by (auto simp: c_string_def takeWhile_eq_all_conv one_line_def)
  show ?thesis
    using assms string_body_doubled [of v "NEWLINE # rest"] scanstr_doubled [of v] c
    by (simp add: read_line_value one_line_def next_token_yylex [OF yylex_newline])
qed

section \<open>Reading the file\<close>

abbreviation collecting :: "(string \<times> string) list \<Rightarrow> scanning" where
  "collecting l \<equiv> \<lparr>contents = Some l, scanned_options = None\<rparr>"

lemma scan_eol:
  "yylex s = (CONF_EOL, y, rest) \<Longrightarrow> scan_lines f cf errs (s, n) sc = scan_lines f cf errs (rest, n + 1) sc"
  by (simp add: scan_lines.simps [where pos = "(s, n)"] next_token_yylex)

lemma scan_end: "scan_lines f cf errs ([], n) sc = Inr (errs = 0, sc)"
  by (simp add: scan_lines.simps [where pos = "([], n)"] next_token_yylex yylex.simps)

lemma scan_one:
  assumes "conf_name k" and "one_line v"
  shows "scan_lines f cf errs (setting_text (k, doubled v) @ rest, n) (collecting l) =
    scan_lines f cf errs (rest, n + 1) (collecting (replace_or_set l k v))"
proof -
  obtain t where t: "t \<in> {CONF_ID, CONF_QUALIFIED_ID}"
    and y: "yylex (setting_text (k, doubled v) @ rest) =
      (t, k, CHR '' '' # CHR ''='' # CHR '' '' # QUOTE # doubled v @ QUOTE # NEWLINE # rest)"
    using yylex_name [OF assms(1), of "CHR ''='' # CHR '' '' # QUOTE # doubled v @ QUOTE # NEWLINE # rest"]
    by (auto simp: setting_text_def)
  show ?thesis
    using t read_setting [OF assms(1) t assms(2), of rest n]
    by (auto simp: scan_lines.simps [where pos = "(setting_text (k, doubled v) @ rest, n)"] next_token_yylex [OF y]
        scan_setting_def)
qed

lemma scan_settings:
  assumes "\<forall>(k, v) \<in> set kvs. conf_name k \<and> one_line v"
  shows "scan_lines f cf errs (concat (map setting_text (map (\<lambda>(k, v). (k, doubled v)) kvs)), n) (collecting l) =
    Inr (errs = 0, collecting (merge_items l kvs))"
  using assms
proof (induction kvs arbitrary: n l)
  case Nil
  then show ?case by (simp add: scan_end merge_items_def)
next
  case (Cons kv kvs)
  obtain k v where kv: "kv = (k, v)" by (cases kv)
  with Cons.prems have "conf_name k" "one_line v" "\<forall>(k, v) \<in> set kvs. conf_name k \<and> one_line v" by auto
  with Cons.IH show ?case by (simp add: kv scan_one merge_items_def)
qed

lemma scan_header:
  "scan_lines f cf errs (auto_conf_text kvs, n) sc = scan_lines f cf errs (concat (map setting_text kvs), n + 2) sc"
proof -
  have 1: "yylex (auto_conf_text kvs) =
      (CONF_EOL, [NEWLINE], ''# It will be overwritten by the ALTER SYSTEM command.'' @ [NEWLINE] @ concat (map setting_text kvs))"
    unfolding auto_conf_text_def
    using yylex_comment [of "'' Do not edit this file manually!''"] by simp
  have 2: "yylex (''# It will be overwritten by the ALTER SYSTEM command.'' @ [NEWLINE] @ concat (map setting_text kvs)) =
      (CONF_EOL, [NEWLINE], concat (map setting_text kvs))"
    using yylex_comment [of "'' It will be overwritten by the ALTER SYSTEM command.''"] by simp
  show ?thesis by (simp add: scan_eol [OF 1] scan_eol [OF 2] add.commute del: append.simps append_Cons)
qed

lemma auto_conf_read:
  assumes "\<forall>(k, v) \<in> set kvs. conf_name k \<and> one_line v"
  shows "ProcessPostgresConfigFile (auto_conf_text (map (\<lambda>(k, v). (k, doubled v)) kvs)) file l = (True, merge_items l kvs)"
  using scan_settings [OF assms]
  by (simp add: ProcessPostgresConfigFile_def ProcessConfigFile_def scan_header)

section \<open>What the scanner collects\<close>

text \<open>The token of a match is that of a rule with a match of this length.\<close>

lemma longest_match_from:
  "longest_match rules s = (Some t, n) \<Longrightarrow> \<exists>m. (Some t, m) \<in> set rules \<and> m s = n"
  by (induction rules arbitrary: t n) (auto split: prod.splits if_splits)

lemma yylex_rule:
  "yylex s = (t, y, r) \<Longrightarrow> t \<noteq> CONF_EOF \<Longrightarrow>
     \<exists>x s' m. s = x @ s' \<and> 0 < m s' \<and> (Some t, m) \<in> set conf_rules \<and> y = take (m s') s' \<and> r = drop (m s') s'"
proof (induction s rule: yylex.induct)
  case (1 s)
  show ?case
  proof (cases "s = []")
    case False
    obtain o' n where m: "longest_match conf_rules s = (o', n)" by (cases "longest_match conf_rules s")
    show ?thesis
    proof (cases o')
      case None
      with "1.prems" m False have "yylex (drop n s) = (t, y, r)" by (simp add: yylex_skip)
      from "1.IH" [OF False m [symmetric] None this "1.prems"(2)] obtain x s' k where
        "drop n s = x @ s'" "0 < k s' \<and> (Some t, k) \<in> set conf_rules \<and> y = take (k s') s' \<and> r = drop (k s') s'" by blast
      moreover from this(1) have "s = (take n s @ x) @ s'" by (metis append.assoc append_take_drop_id)
      ultimately show ?thesis by blast
    next
      case (Some k)
      with "1.prems" m False have "k = t" "y = take n s" "r = drop n s" by (simp_all add: yylex_token)
      moreover from longest_match_from [OF m [unfolded Some]] obtain f where "(Some k, f) \<in> set conf_rules" "f s = n"
        by blast
      moreover have "0 < n" using some_match [OF False] m by simp
      ultimately show ?thesis by (intro exI [of _ "[]"] exI [of _ s] exI [of _ f]) simp
    qed
  qed (use "1.prems" in \<open>simp add: yylex.simps\<close>)
qed

lemma match_id_name: "match_id s \<noteq> 0 \<Longrightarrow> conf_id (take (match_id s) s)"
  by (cases s) (auto simp: match_id_def conf_id_def run_length_def takeWhile_eq_take [symmetric] list_all_iff
      dest: set_takeWhileD split: if_splits)

lemma match_qualified_id_name: "match_qualified_id s \<noteq> 0 \<Longrightarrow> conf_name (take (match_qualified_id s) s)"
proof -
  assume nonzero: "match_qualified_id s \<noteq> 0"
  then obtain cs where cs: "drop (match_id s) s = CHR ''.'' # cs" "match_id s \<noteq> 0" "match_id cs \<noteq> 0"
    and m: "match_qualified_id s = match_id s + (1 + match_id cs)"
    by (auto simp: match_qualified_id_def Let_def split: list.splits if_splits)
  have "take (match_qualified_id s) s = take (match_id s) s @ take (1 + match_id cs) (drop (match_id s) s)"
    by (simp only: m take_add)
  also have "\<dots> = take (match_id s) s @ CHR ''.'' # take (match_id cs) cs" by (simp add: cs(1))
  finally have "take (match_qualified_id s) s = take (match_id s) s @ CHR ''.'' # take (match_id cs) cs" .
  with match_id_name [OF cs(2)] match_id_name [OF cs(3)] show ?thesis by (auto simp: conf_name_def)
qed

lemma yylex_is_name:
  assumes "yylex s = (t, y, r)" and "t = CONF_ID \<or> t = CONF_QUALIFIED_ID"
  shows "conf_name y"
proof -
  from yylex_rule [OF assms(1)] assms(2) obtain s' m where
    "0 < m s'" "(Some t, m) \<in> set conf_rules" "y = take (m s') s'" by auto
  moreover from this(2) assms(2) have "t = CONF_ID \<and> m = match_id \<or> t = CONF_QUALIFIED_ID \<and> m = match_qualified_id"
    by (auto simp: conf_rules_def)
  ultimately show ?thesis
    using match_id_name [of s'] match_qualified_id_name [of s'] by (auto simp: conf_name_def)
qed

text \<open>The names in the list are valid, each of them occurs once.\<close>

definition sound_names :: "(string \<times> string) list \<Rightarrow> bool" where
  "sound_names l \<longleftrightarrow> distinct (map fst l) \<and> (\<forall>k \<in> fst ` set l. conf_name k)"

lemma sound_replace: "sound_names l \<Longrightarrow> conf_name k \<Longrightarrow> sound_names (replace_or_set l k v)"
  by (auto simp: sound_names_def replace_or_set_def distinct_map_filter)

lemma read_line_name:
  assumes "yylex s = (t, y, r)" and "read_line t y pos = (Setting k v t', pos')"
  shows "conf_name k"
proof -
  have t: "t = CONF_ID \<or> t = CONF_QUALIFIED_ID" and k: "k = c_string y"
    using assms(2) by (auto simp: read_line_def Let_def split: if_splits prod.splits)
  from yylex_is_name [OF assms(1) t] no_nul_name k show ?thesis by metis
qed

lemma scan_lines_names:
  "scan_lines f cf errs pos sc = Inr (ok, sc') \<Longrightarrow> scanned_options sc = None \<Longrightarrow> contents sc = Some l \<Longrightarrow>
     sound_names l \<Longrightarrow> (ok \<longrightarrow> errs = 0) \<and> (\<exists>l'. sc' = collecting l' \<and> sound_names l')"
proof (induction f cf errs pos sc arbitrary: l rule: scan_lines.induct)
  case (1 f cf errs pos sc)
  obtain t y p where n: "next_token pos = (t, y, p)" by (cases "next_token pos")
  have y: "yylex (fst pos) = (t, y, fst p)"
    using n by (auto simp: next_token_def Let_def split: prod.splits)
  have sc: "sc = collecting l" using "1.prems"(2,3) by (cases sc) simp
  have err: "scan_error message sc = Inr sc" for message by (simp add: sc scan_error_def)
  note step = "1.prems"(1) [unfolded scan_lines.simps [where pos = pos], simplified n prod.case Let_def]
  show ?case
  proof (cases "t = CONF_EOF \<or> t = CONF_EOL")
    case True
    with step "1.IH"(1) [OF n [symmetric] refl refl] "1.prems" sc show ?thesis by (auto split: if_splits)
  next
    case line: False
    obtain b p' where b: "read_line t y p = (b, p')" by (cases "read_line t y p")
    show ?thesis
    proof (cases b)
      case (Setting k v t')
      let ?l = "replace_or_set l k v"
      have set: "scan_setting f k v sc = Inr (collecting ?l)" by (simp add: sc scan_setting_def)
      have names: "sound_names ?l" using sound_replace [OF "1.prems"(4) read_line_name [OF y]] b Setting by simp
      show ?thesis
        using step line b Setting set names
          "1.IH"(2) [OF n [symmetric] refl refl _ _ b [symmetric] Setting set]
        by (auto split: if_splits)
    next
      case (Bad_Line t' y')
      obtain t'' p'' where r: "resync t' p' = (t'', p'')" by (cases "resync t' p'")
      show ?thesis
        using step line b Bad_Line err r sc "1.prems"(4)
          "1.IH"(3) [OF n [symmetric] refl refl _ _ b [symmetric] Bad_Line err _ r [symmetric] refl]
        by (auto split: if_splits)
    qed
  qed
qed

lemma collected_names: "sound_names (snd (ProcessPostgresConfigFile text path []))"
proof (cases "scan_lines id path 0 (text, 1) (collecting [])")
  case (Inr x)
  obtain ok sc where x: "x = (ok, sc)" by (cases x)
  with Inr scan_lines_names [of id path 0 "(text, 1)" "collecting []" ok sc "[]"] show ?thesis
    by (auto simp: ProcessPostgresConfigFile_def ProcessConfigFile_def sound_names_def)
qed (simp add: ProcessPostgresConfigFile_def ProcessConfigFile_def sound_names_def)

section \<open>The file of a standby\<close>

lemma replace_doubled:
  "map (\<lambda>(k, v). (k, doubled v)) (replace_or_set l k v) = replace_or_set (map (\<lambda>(k, v). (k, doubled v)) l) k (doubled v)"
  by (auto simp: replace_or_set_def filter_map o_def case_prod_unfold)

lemma merge_doubled:
  "map (\<lambda>(k, v). (k, doubled v)) (merge_items l kvs) =
     merge_items (map (\<lambda>(k, v). (k, doubled v)) l) (map (\<lambda>(k, v). (k, doubled v)) kvs)"
  unfolding merge_items_def
  by (induction kvs arbitrary: l) (simp_all add: replace_doubled [unfolded case_prod_unfold] case_prod_unfold)

lemma merge_sound:
  "sound_names l \<Longrightarrow> \<forall>(k, v) \<in> set l \<union> set kvs. conf_name k \<and> one_line v \<Longrightarrow>
     sound_names (merge_items l kvs) \<and> (\<forall>(k, v) \<in> set (merge_items l kvs). conf_name k \<and> one_line v)"
proof (induction kvs arbitrary: l)
  case (Cons kv kvs)
  obtain k v where kv: "kv = (k, v)" by (cases kv)
  with Cons.prems have "sound_names (replace_or_set l k v)" by (auto intro: sound_replace)
  moreover from Cons.prems kv have "\<forall>(k, v) \<in> set (replace_or_set l k v) \<union> set kvs. conf_name k \<and> one_line v"
    by (auto simp: replace_or_set_def)
  ultimately have "sound_names (merge_items (replace_or_set l k v) kvs) \<and>
      (\<forall>(k, v) \<in> set (merge_items (replace_or_set l k v) kvs). conf_name k \<and> one_line v)"
    by (rule Cons.IH)
  then show ?case by (simp add: merge_items_def kv)
qed (simp add: merge_items_def)

lemma merge_distinct: "distinct (map fst (l @ kvs)) \<Longrightarrow> merge_items l kvs = l @ kvs"
proof (induction kvs arbitrary: l)
  case (Cons kv kvs)
  obtain k v where kv: "kv = (k, v)" by (cases kv)
  from Cons.prems kv have "filter (\<lambda>(k', v). k' \<noteq> k) l = l" by (intro filter_True) force
  with Cons.IH [of "l @ [kv]"] Cons.prems kv show ?case by (simp add: merge_items_def replace_or_set_def)
qed (simp add: merge_items_def)

definition writes :: "string \<Rightarrow> effect \<Rightarrow> bool" where
  "writes path e \<longleftrightarrow> (\<exists>text. e = Wrote_File path text)"

lemma put_lines_writes: "yields (writes path) (put_lines env ls written) (\<lambda>_ es. es = [])"
  unfolding ask_def
  by (induction ls arbitrary: written) (auto intro!: yielding simp: ask_def)

lemma write_file_writes: "q \<noteq> path \<Longrightarrow> yields (writes path) (write_file env q ls) (\<lambda>_ es. es = [])"
  unfolding write_file_def ask_def
  by (intro yielding yields_mono [OF put_lines_writes]; auto simp: writes_def intro!: yielding)

lemma rewrite_writes:
  "yields (writes path) (rewrite_auto_conf env path text items)
     (\<lambda>_ es. set es \<subseteq> {Wrote_File path (auto_conf_text (merge_items (snd (ProcessPostgresConfigFile text path [])) items))})"
  unfolding rewrite_auto_conf_def Let_def ask_def
  by (intro yielding yields_mono [OF write_file_writes]; auto simp: writes_def)

text \<open>
  C37: the file that \<open>modify_auto_conf\<close> leaves is read without an error, and with the settings of before in which the
  wanted ones have replaced those of the same names, whatever the values to be written are, provided the file
  had no value with a quote or a backslash.
\<close>

theorem standby_settings_read_back:
  fixes dir :: string
  defines "path \<equiv> dir @ ''/postgresql.auto.conf''"
  assumes "doubles_quotes esc" and "e_file env (clock d) = Some old"
    and "\<forall>(k, v) \<in> set (snd (ProcessPostgresConfigFile old path [])). one_line v \<and> CHR 0x27 \<notin> set v \<and> CHR 0x5C \<notin> set v"
    and "\<forall>(k, v) \<in> set wanted. conf_name k \<and> one_line v"
    and "Wrote_File path new \<in> set (added (modify_auto_conf env dir (map (\<lambda>(k, v). (k, esc v)) wanted)) d)"
  shows "ProcessPostgresConfigFile new path [] =
    (True, merge_items (snd (ProcessPostgresConfigFile old path [])) wanted)"
proof -
  let ?old = "snd (ProcessPostgresConfigFile old path [])"
  let ?m = "rewrite_auto_conf env path old (map (\<lambda>(k, v). (k, esc v)) wanted)"
  have "added (modify_auto_conf env dir (map (\<lambda>(k, v). (k, esc v)) wanted)) d = added ?m (d\<lparr>clock := clock d + 1\<rparr>)"
    using assms(3) by (simp add: added_def modify_auto_conf_def path_def)
  with assms(6) have "Wrote_File path new \<in> set (filter (writes path) (added ?m (d\<lparr>clock := clock d + 1\<rparr>)))"
    by (simp add: writes_def)
  with yieldsD [OF rewrite_writes, of path env old "map (\<lambda>(k, v). (k, esc v)) wanted" "d\<lparr>clock := clock d + 1\<rparr>"]
  have new: "new = auto_conf_text (merge_items ?old (map (\<lambda>(k, v). (k, esc v)) wanted))" by auto
  have "map (\<lambda>(k, v). (k, doubled v)) ?old = ?old"
    using assms(4) by (intro map_idI) (auto simp: doubled_plain)
  then have written: "merge_items ?old (map (\<lambda>(k, v). (k, esc v)) wanted) =
      map (\<lambda>(k, v). (k, doubled v)) (merge_items ?old wanted)"
    using assms(2) by (simp add: merge_doubled doubles_quotes_def)
  have all: "\<forall>(k, v) \<in> set ?old \<union> set wanted. conf_name k \<and> one_line v"
    using assms(4,5) collected_names [of old path] by (force simp: sound_names_def)
  from merge_sound [OF collected_names all] have
    "\<forall>(k, v) \<in> set (merge_items ?old wanted). conf_name k \<and> one_line v" "distinct (map fst ([] @ merge_items ?old wanted))"
    by (simp_all add: sound_names_def)
  from auto_conf_read [OF this(1), of path "[]"] merge_distinct [OF this(2)] show ?thesis
    by (simp add: new written)
qed

lemma scan_chars_escape: "cs \<noteq> [] \<Longrightarrow> \<exists>k. 0 < k \<and> length (scan_chars (BACKSLASH # cs)) = Suc (length (scan_chars (drop k cs)))"
  by (cases cs)
    (auto simp: Let_def intro: exI [of _ 1] exI [of _ "length (takeWhile octal_digit (take 3 cs))"])

lemma scan_chars_shorter: "length (scan_chars s) \<le> length s"
proof (induction "length s" arbitrary: s rule: less_induct)
  case less
  show ?case
  proof (cases s)
    case (Cons c cs)
    have short: "length (scan_chars t) \<le> length cs" if "length t \<le> length cs" for t
    proof -
      from that Cons have "length t < length s" by simp
      from less [OF this] that show ?thesis by linarith
    qed
    consider "c = BACKSLASH" "cs \<noteq> []" | "c = BACKSLASH" "cs = []" | "c = QUOTE" "cs \<noteq> []" "hd cs = QUOTE"
      | "c \<noteq> BACKSLASH" "\<not> (c = QUOTE \<and> cs \<noteq> [] \<and> hd cs = QUOTE)" by blast
    then show ?thesis
    proof cases
      case 1
      with scan_chars_escape [OF 1(2)] obtain k where
        "0 < k" "length (scan_chars s) = Suc (length (scan_chars (drop k cs)))" using Cons by blast
      moreover have "length (scan_chars (drop k cs)) \<le> length cs" by (rule short) simp
      moreover have "length s = Suc (length cs)" by (simp add: Cons)
      ultimately show ?thesis by linarith
    qed (use short [of "tl cs"] short [of cs] Cons in simp_all)
  qed simp
qed

lemma scan_chars_Nil: "scan_chars s = [] \<longleftrightarrow> s = []"
  by (cases s) (auto simp: Let_def split: list.splits)

lemma untouched_plain:
  "string_body s = Some n \<Longrightarrow> length (scan_chars (take n s)) = n \<Longrightarrow>
     QUOTE \<notin> set (take (n - 1) s) \<and> BACKSLASH \<notin> set (take (n - 1) s)"
proof (induction s arbitrary: n rule: string_body.induct)
  case (2 c cs)
  consider d ds m where "c = QUOTE" "d = QUOTE" "cs = d # ds" "string_body ds = Some m" "n = m + 2"
    | "n = 1"
    | d ds m where "c = BACKSLASH" "cs = d # ds" "n = m + 2"
    | m where "c \<noteq> QUOTE" "c \<noteq> BACKSLASH" "c \<noteq> NEWLINE" "string_body cs = Some m" "n = Suc m"
    using "2.prems"(1) by (auto split: if_splits list.splits option.splits)
  then show ?case
  proof cases
    case (1 d ds m)
    with "2.prems"(2) scan_chars_shorter [of "take m ds"] show ?thesis by simp
  next
    case (3 d ds m)
    obtain k where "0 < k" "length (scan_chars (take n (c # cs))) = Suc (length (scan_chars (drop k (d # take m ds))))"
      using scan_chars_escape [of "d # take m ds"] 3 by auto
    with scan_chars_shorter [of "drop k (d # take m ds)"] "2.prems"(2) 3 show ?thesis by simp
  next
    case (4 m)
    with "2.prems"(2) have "length (scan_chars (take m cs)) = m" by simp
    with "2.IH"(3) 4 string_body_positive [OF 4(4)] show ?thesis by (cases m) auto
  qed simp
qed simp

lemma string_body_line: "string_body s = Some n \<Longrightarrow> NEWLINE \<notin> set (take n s) \<and> n \<le> length s"
proof (induction s arbitrary: n rule: string_body.induct)
  case (2 c cs)
  consider d ds m where "c = QUOTE" "d = QUOTE" "cs = d # ds" "string_body ds = Some m" "n = m + 2"
    | "c = QUOTE" "n = 1"
    | d ds m where "c = BACKSLASH" "cs = d # ds" "d \<noteq> NEWLINE" "string_body ds = Some m" "n = m + 2"
    | m where "c \<noteq> QUOTE" "c \<noteq> BACKSLASH" "c \<noteq> NEWLINE" "string_body cs = Some m" "n = Suc m"
    using "2.prems" by (auto split: if_splits list.splits option.splits)
  then show ?case
  proof cases
    case (1 d ds m)
    with "2.IH"(1) show ?thesis by simp
  next
    case (3 d ds m)
    with "2.IH"(2) show ?thesis by simp
  next
    case (4 m)
    with "2.IH"(3) show ?thesis by simp
  qed simp
qed simp

lemma kept_value:
  assumes "one_line v" and "string_body (v @ QUOTE # [NEWLINE]) = Some n"
    and "CONF_scanstr (c_string (QUOTE # take n (v @ QUOTE # [NEWLINE]))) = v"
  shows "QUOTE \<notin> set v \<and> BACKSLASH \<notin> set v"
proof -
  let ?t = "take n (v @ QUOTE # [NEWLINE])"
  have "n \<le> length v + 1"
  proof (rule ccontr)
    assume "\<not> n \<le> length v + 1"
    with string_body_line [OF assms(2)] show False by (auto simp: take_Cons')
  qed
  have "CHR 0x00 \<notin> set ?t" using assms(1) by (auto simp: one_line_def dest: in_set_takeD)
  then have "c_string (QUOTE # ?t) = QUOTE # ?t" by (auto simp: c_string_def takeWhile_eq_all_conv)
  with assms(3) have v: "v = c_string (butlast (scan_chars ?t))" by (simp add: CONF_scanstr_def)
  then have "length v \<le> length (butlast (scan_chars ?t))"
    by (metis c_string_def length_takeWhile_le)
  then have "length v \<le> length (scan_chars ?t) - 1" by (simp only: length_butlast)
  moreover have "length (scan_chars ?t) \<le> length ?t" by (rule scan_chars_shorter)
  moreover have "length ?t = n" using \<open>n \<le> length v + 1\<close> by simp
  moreover have "0 < length (scan_chars ?t)"
    using \<open>length ?t = n\<close> string_body_positive [OF assms(2)] scan_chars_Nil [of ?t] by auto
  ultimately have "n = length v + 1" "length (scan_chars ?t) = n"
    using \<open>n \<le> length v + 1\<close> string_body_positive [OF assms(2)] by linarith+
  with untouched_plain [OF assms(2)] show ?thesis by simp
qed

text \<open>Nothing is left after the line.\<close>

lemma eol_last:
  assumes "one_line v" and "yylex (drop n (v @ QUOTE # [NEWLINE])) = (CONF_EOL, y, r)"
  shows "r = []"
proof -
  from yylex_rule [OF assms(2)] obtain x s' m where
    s': "drop n (v @ QUOTE # [NEWLINE]) = x @ s'" "0 < m s'" "(Some CONF_EOL, m) \<in> set conf_rules" "r = drop (m s') s'"
    by auto
  from s'(3) have "m = match_newline" by (simp add: conf_rules_def)
  with s'(2,4) have "s' = NEWLINE # r" by (auto simp: match_newline_def split: list.splits if_splits)
  with s'(1) have "v @ [QUOTE] @ [NEWLINE] = (take n (v @ QUOTE # [NEWLINE]) @ x) @ NEWLINE # r"
    by (metis append_Cons append_Nil append_assoc append_take_drop_id)
  moreover have "NEWLINE \<notin> set (v @ [QUOTE])" using assms(1) by (auto simp: one_line_def)
  ultimately show ?thesis
  proof (rule_tac ccontr)
    assume eq: "v @ [QUOTE] @ [NEWLINE] = (take n (v @ QUOTE # [NEWLINE]) @ x) @ NEWLINE # r"
      and no: "NEWLINE \<notin> set (v @ [QUOTE])" and "r \<noteq> []"
    from arg_cong [OF eq, of butlast] \<open>r \<noteq> []\<close>
    have "v @ [QUOTE] = (take n (v @ QUOTE # [NEWLINE]) @ x) @ NEWLINE # butlast r" by (simp add: butlast_append)
    with no show False by (metis in_set_conv_decomp)
  qed
qed

text \<open>
  C38: a value that was in the file survives its rewriting exactly when it contains neither a quote nor a backslash:
  \<open>modify_auto_conf\<close> writes back what the scanner has unescaped.
\<close>

theorem old_value_kept_iff:
  assumes "conf_name k" and "one_line v"
  shows "ProcessPostgresConfigFile (auto_conf_text [(k, v)]) path [] = (True, [(k, v)]) \<longleftrightarrow>
    CHR 0x27 \<notin> set v \<and> CHR 0x5C \<notin> set v"
proof
  assume plain: "CHR 0x27 \<notin> set v \<and> CHR 0x5C \<notin> set v"
  with auto_conf_read [of "[(k, v)]" path "[]"] assms
  show "ProcessPostgresConfigFile (auto_conf_text [(k, v)]) path [] = (True, [(k, v)])"
    by (simp add: doubled_plain merge_items_def replace_or_set_def)
next
  assume read: "ProcessPostgresConfigFile (auto_conf_text [(k, v)]) path [] = (True, [(k, v)])"
  let ?s = "v @ QUOTE # [NEWLINE]"
  obtain t where t: "t \<in> {CONF_ID, CONF_QUALIFIED_ID}"
    and y: "yylex (setting_text (k, v)) = (t, k, CHR '' '' # CHR ''='' # CHR '' '' # QUOTE # ?s)"
    using yylex_name [OF assms(1), of "CHR ''='' # CHR '' '' # QUOTE # ?s"] by (auto simp: setting_text_def)
  obtain b pos where b: "read_line t k (CHR '' '' # CHR ''='' # CHR '' '' # QUOTE # ?s, 3) = (b, pos)"
    by (cases "read_line t k (CHR '' '' # CHR ''='' # CHR '' '' # QUOTE # ?s, 3)")
  have scan: "scan_lines id path 0 (setting_text (k, v), 3) (collecting []) = Inr (True, collecting [(k, v)])"
    using read scan_lines_names [of id path 0 "(setting_text (k, v), 3)" "collecting []" _ _ "[]"]
    by (auto simp: ProcessPostgresConfigFile_def ProcessConfigFile_def scan_header sound_names_def split: sum.splits prod.splits)
  show "CHR 0x27 \<notin> set v \<and> CHR 0x5C \<notin> set v"
  proof (cases b)
    case (Bad_Line t' y')
    obtain t'' p'' where r: "resync t' pos = (t'', p'')" by (cases "resync t' pos")
    with scan b Bad_Line t show ?thesis
      using scan_lines_names [of id path 1 p'' "collecting []" True "collecting [(k, v)]" "[]"]
      by (auto simp: scan_lines.simps [where pos = "(setting_text (k, v), 3)"] next_token_yylex [OF y] scan_error_def
          sound_names_def split: if_splits)
  next
    case (Setting k' v' t')
    obtain n where n: "string_body ?s = Some n" and k': "k' = k" "v' = CONF_scanstr (c_string (QUOTE # take n ?s))"
      and t': "t' = CONF_EOF \<or> t' = CONF_EOL \<and> fst pos = []"
      using b Setting read_line_value [OF assms(1) t, of ?s 3] eol_last [OF assms(2)]
      by (auto simp: next_token_def Let_def split: option.splits prod.splits if_splits)
    have "v' = v"
      using scan b Setting t k' t' scan_end [of id path 0 "snd pos" "collecting [(k, v')]"]
      by (cases pos) (auto simp: scan_lines.simps [where pos = "(setting_text (k, v), 3)"] next_token_yylex [OF y]
          scan_setting_def replace_or_set_def split: if_splits)
    with kept_value [OF assms(2) n] k' show ?thesis by simp
  qed
qed

definition old_auto_conf :: string where
  "old_auto_conf = auto_conf_text [(''wal_level'', ''replica''), (''primary_conninfo'', ''host=old'')]"

definition file_env :: env where
  "file_env = (example_env ''0/1'' ''0/1'')\<lparr>e_file := \<lambda>_. Some old_auto_conf, e_flag := \<lambda>_. True\<rparr>"

lemma old_auto_conf_read:
  "ProcessPostgresConfigFile old_auto_conf path [] = (True, [(''wal_level'', ''replica''), (''primary_conninfo'', ''host=old'')])"
  using auto_conf_read [of "[(''wal_level'', ''replica''), (''primary_conninfo'', ''host=old'')]" path "[]"]
  by (simp add: old_auto_conf_def conf_name_def conf_id_def one_line_def letter_or_digit_def conf_letter_def unit_letter_def
      conf_digit_def merge_items_def replace_or_set_def)

lemma standby_settings_read_back_witness:
  "\<exists>new. Wrote_File ''/d/postgresql.auto.conf'' new \<in> set (added (modify_auto_conf file_env ''/d''
       [(''primary_conninfo'', doubled (''user='' @ [CHR 0x27] @ ''a b'' @ [CHR 0x27]))]) (example_daemon 2)) \<and>
     ProcessPostgresConfigFile new ''/d/postgresql.auto.conf'' [] =
       (True, [(''wal_level'', ''replica''), (''primary_conninfo'', ''user='' @ [CHR 0x27] @ ''a b'' @ [CHR 0x27])])"
proof -
  let ?v = "''user='' @ [CHR 0x27] @ ''a b'' @ [CHR 0x27]"
  let ?path = "''/d/postgresql.auto.conf''"
  let ?new = "auto_conf_text (merge_items (snd (ProcessPostgresConfigFile old_auto_conf ?path [])) [(''primary_conninfo'', doubled ?v)])"
  have written: "Wrote_File ?path ?new \<in> set (added (modify_auto_conf file_env ''/d'' [(''primary_conninfo'', doubled ?v)]) (example_daemon 2))"
    by (simp add: added_def modify_auto_conf_def rewrite_auto_conf_def write_file_def ask_def file_env_def Let_def)
  have "ProcessPostgresConfigFile ?new ?path [] = (True, merge_items (snd (ProcessPostgresConfigFile old_auto_conf ?path [])) [(''primary_conninfo'', ?v)])"
    using standby_settings_read_back [of doubled file_env "example_daemon 2" old_auto_conf "''/d''" "[(''primary_conninfo'', ?v)]" ?new]
      written
    by (simp add: doubles_quotes_def file_env_def old_auto_conf_read one_line_def conf_name_def conf_id_def letter_or_digit_def
        conf_letter_def unit_letter_def conf_digit_def)
  with written show ?thesis
    by (auto simp: old_auto_conf_read merge_items_def replace_or_set_def simp del: doubled_simps)
qed

lemma old_value_kept_iff_witness:
  "ProcessPostgresConfigFile (auto_conf_text [(''archive_command'', ''cp %p '' @ [CHR 0x27] @ ''/a'' @ [CHR 0x27])]) ''f'' []
     \<noteq> (True, [(''archive_command'', ''cp %p '' @ [CHR 0x27] @ ''/a'' @ [CHR 0x27])])"
  using old_value_kept_iff [of "''archive_command''" "''cp %p '' @ [CHR 0x27] @ ''/a'' @ [CHR 0x27]" "''f''"]
  by (simp add: conf_name_def conf_id_def one_line_def letter_or_digit_def conf_letter_def unit_letter_def conf_digit_def)

end
