(* ===== verification/Follow.thy ===== *)
theory Follow
  imports Registration Recovery_Conf
begin

text \<open>
  \<open>repmgr standby follow\<close> (\<open>do_standby_follow\<close> and \<open>do_standby_follow_internal\<close> of \<open>repmgr-action-standby.c\<close>): attaching a
  standby to another node. The second function, which \<open>node rejoin\<close> uses as well, answers with a truth value, a
  text and an error code that it leaves alone on some paths.
\<close>

abbreviation (input) ERR_NO_RESTART :: int where "ERR_NO_RESTART \<equiv> 4"
abbreviation (input) ERR_FOLLOW_FAIL :: int where "ERR_FOLLOW_FAIL \<equiv> 23"

section \<open>The follow operation\<close>

text \<open>The slot of this node on the node to follow; a node without a name for it gets one.\<close>

definition name_slot :: "env \<Rightarrow> client \<Rightarrow> pgconn \<Rightarrow> node_info \<Rightarrow> (daemon, int + node_info) state" where
  "name_slot env g primary local =
     (if slot_name local \<noteq> [] then ret (Inr local)
      else
        (case create_slot_name (num g ''node_id'') of
           Inl code \<Rightarrow> ret (Inl code)
         | Inr slot \<Rightarrow> do {
             _ \<leftarrow> emit (Set_Slot_Name primary (num g ''node_id'') slot);
             _ \<leftarrow> on_session env primary (update_node_record_slot_name (num g ''node_id'') slot);
             ret (Inr (local\<lparr>slot_name := slot\<rparr>))
           }))"

text \<open>The local record with the name of the slot; whether the slot is there; the output.\<close>

definition prepare_slot ::
  "env \<Rightarrow> client \<Rightarrow> pgconn \<Rightarrow> pgconn \<Rightarrow> node_info \<Rightarrow> (daemon, int + node_info \<times> bool \<times> string) state" where
  "prepare_slot env g primary target_conn local =
     (if \<not> flag g ''use_replication_slots'' then ret (Inr (local, True, []))
      else or_exit (name_slot env g primary local) (\<lambda>local. do {
        (created, output) \<leftarrow> create_replication_slot env target_conn (slot_name local);
        ret (Inr (local, created, output))
      }))"

text \<open>The connection parameters for \<open>primary_conninfo\<close>; the name of the application is set twice.\<close>

definition follow_conninfo :: "env \<Rightarrow> client \<Rightarrow> node_info \<Rightarrow> node_info \<Rightarrow> conninfo_params" where
  "follow_conninfo env g local target =
     (let empty = initialize_conninfo_params (e_defaults env) False;
          params = snd (parse_conninfo_string (e_parse env (conninfo target)) empty True);
          (ok, own) = parse_conninfo_string (e_parse env (conninfo local)) empty False;
          params = (if \<not> ok then params
                    else (case param_get own ''application_name'' of
                            Some name \<Rightarrow> if name \<noteq> [] then param_set params ''application_name'' name else params
                          | None \<Rightarrow> params))
      in param_set (param_set params ''application_name'' (str g ''node_name'')) ''user'' (repluser target))"

definition original_upstream :: "node_info \<Rightarrow> node_info \<Rightarrow> int" where
  "original_upstream local target =
     (if upstream_node_id local \<noteq> UNKNOWN_NODE_ID then upstream_node_id local else node_id target)"

definition removes_old_slot :: "client \<Rightarrow> node_info \<Rightarrow> node_info \<Rightarrow> bool" where
  "removes_old_slot g local target \<longleftrightarrow>
     flag g ''use_replication_slots'' \<and> \<not> rt_host_param_provided (rt g) \<and> original_upstream local target \<noteq> UNKNOWN_NODE_ID"

text \<open>The record of the upstream node of before, when its slot is to be removed.\<close>

definition old_upstream :: "env \<Rightarrow> client \<Rightarrow> node_info \<Rightarrow> node_info \<Rightarrow> (daemon, int + node_info) state" where
  "old_upstream env g local target =
     (if \<not> removes_old_slot g local target then ret (Inr node_info_init)
      else or_exit (establish_db_connection_exit env (str g ''conninfo'') True) (\<lambda>conn. do {
        (_, upstream) \<leftarrow> on_session env conn (get_node_record (original_upstream local target) node_info_init);
        _ \<leftarrow> close_connection conn;
        ret (Inr upstream)
      }))"

definition run_server_action :: "env \<Rightarrow> client \<Rightarrow> server_action \<Rightarrow> (daemon, int + bool) state" where
  "run_server_action env g action =
     (case get_server_action g action [] (str g ''data_directory'') of
        Inl code \<Rightarrow> ret (Inl code)
      | Inr script \<Rightarrow> do {
          (success, _, _) \<leftarrow> local_command_output env script False;
          ret (Inr success)
        })"

text \<open>A server that runs is restarted, or stopped and started without a command for restarting.\<close>

definition restart_server :: "env \<Rightarrow> client \<Rightarrow> (daemon, int + bool) state" where
  "restart_server env g = do {
     up \<leftarrow> is_server_available env (str g ''conninfo'');
     if \<not> up then run_server_action env g ACTION_START
     else if str g ''service_restart_command'' \<noteq> [] then run_server_action env g ACTION_RESTART
     else or_exit (run_server_action env g ACTION_STOP_WAIT) (\<lambda>stopped.
       if stopped then run_server_action env g ACTION_START else ret (Inr False))
   }"

definition drop_old_slot :: "env \<Rightarrow> client \<Rightarrow> node_info \<Rightarrow> node_info \<Rightarrow> node_info \<Rightarrow> (daemon, unit) state" where
  "drop_old_slot env g local target upstream =
     (if removes_old_slot g local target \<and> node_id upstream \<noteq> UNKNOWN_NODE_ID then do {
        conn \<leftarrow> establish_db_connection env (conninfo upstream);
        ok \<leftarrow> PQstatus_ok env conn;
        if \<not> ok then ret ()
        else do {
          _ \<leftarrow> drop_replication_slot_if_exists env conn (slot_name local);
          close_connection conn
        }
      }
      else ret ())"

definition record_follow ::
  "env \<Rightarrow> client \<Rightarrow> pgconn \<Rightarrow> node_info \<Rightarrow> string \<Rightarrow> int \<Rightarrow> (daemon, int + bool \<times> string \<times> int) state" where
  "record_follow env g primary target output error_code = do {
     _ \<leftarrow> emit (Set_Status primary (num g ''node_id'') ''standby'' (node_id target) True);
     ok \<leftarrow> on_session env primary (update_node_record_status (num g ''node_id'') ''standby'' (node_id target) True);
     ret (Inr (if ok then (True, output @ ''node '' @ int_string (num g ''node_id'') @ '' is now attached to node '' @
                            int_string (node_id target), error_code)
               else (False, output @ ''unable to update upstream node'', error_code)))
   }"

definition restart_and_record ::
  "env \<Rightarrow> client \<Rightarrow> pgconn \<Rightarrow> node_info \<Rightarrow> node_info \<Rightarrow> node_info \<Rightarrow> string \<Rightarrow> int \<Rightarrow> (daemon, int + bool \<times> string \<times> int) state" where
  "restart_and_record env g primary target local upstream output error_code =
     or_exit (restart_server env g) (\<lambda>restarted.
       if \<not> restarted then ret (Inr (False, output, ERR_NO_RESTART))
       else do {
         _ \<leftarrow> drop_old_slot env g local target upstream;
         record_follow env g primary target output error_code
       })"

text \<open>After the slot: the settings, the server, the old slot, the record of the node.\<close>

definition attach_node ::
  "env \<Rightarrow> client \<Rightarrow> (string \<Rightarrow> string) \<Rightarrow> pgconn \<Rightarrow> node_info \<Rightarrow> node_info \<Rightarrow> string \<Rightarrow> int \<Rightarrow> int
     \<Rightarrow> (daemon, int + bool \<times> string \<times> int) state" where
  "attach_node env g esc primary target local output general_error_code error_code =
     or_exit (old_upstream env g local target) (\<lambda>upstream.
     or_exit (create_recovery_file env g esc local (follow_conninfo env g local target) (e_version env primary)
                (str g ''data_directory'') True) (\<lambda>(written, _).
       if \<not> written then ret (Inr (False, output, general_error_code))
       else restart_and_record env g primary target local upstream output error_code))"

text \<open>The success, the output and the error code, which a slot that cannot be made leaves as it was.\<close>

definition do_standby_follow_internal ::
  "env \<Rightarrow> client \<Rightarrow> (string \<Rightarrow> string) \<Rightarrow> pgconn \<Rightarrow> pgconn \<Rightarrow> node_info \<Rightarrow> int \<Rightarrow> int
     \<Rightarrow> (daemon, int + bool \<times> string \<times> int) state" where
  "do_standby_follow_internal env g esc primary target_conn target general_error_code error_code = do {
     (record_status, local) \<leftarrow> on_session env primary (get_node_record (num g ''node_id'') node_info_init);
     if record_status \<noteq> RECORD_FOUND then ret (Inr (False, [], ERR_BAD_CONFIG))
     else or_exit (prepare_slot env g primary target_conn local) (\<lambda>(local, created, output).
       if \<not> created then ret (Inr (False, output, error_code))
       else attach_node env g esc primary target local output general_error_code error_code)
   }"

section \<open>The command\<close>

text \<open>Settings that version 9.3 does not know are switched off.\<close>

definition check_93_config :: "client \<Rightarrow> client" where
  "check_93_config g =
     g\<lparr>settings := (settings g)\<lparr>flags := (flags (settings g))
         (''recovery_min_apply_delay_provided'' := False, ''use_replication_slots'' := False)\<rparr>\<rparr>"

fun close_connections :: "pgconn list \<Rightarrow> (daemon, unit) state" where
  "close_connections [] = ret ()"
| "close_connections (conn # conns) = do { _ \<leftarrow> close_connection conn; close_connections conns }"

definition refuse_follow :: "pgconn list \<Rightarrow> (daemon, int + 'a) state" where
  "refuse_follow conns = do { _ \<leftarrow> close_connections conns; ret (Inl ERR_FOLLOW_FAIL) }"

text \<open>The node of \<open>--upstream-node-id\<close>; without the option its id is not known yet.\<close>

definition requested_target :: "env \<Rightarrow> client \<Rightarrow> pgconn \<Rightarrow> (daemon, int + int \<times> node_info) state" where
  "requested_target env g conn =
     (let upstream = rt_upstream_node_id (rt g) in
      if upstream = UNKNOWN_NODE_ID then ret (Inr (UNKNOWN_NODE_ID, node_info_init))
      else if upstream = num g ''node_id'' then refuse_follow [conn]
      else do {
        (record_status, target) \<leftarrow> on_session env conn (get_node_record upstream node_info_init);
        if record_status \<noteq> RECORD_FOUND then refuse_follow [conn] else ret (Inr (upstream, target))
      })"

text \<open>At most \<open>primary_follow_timeout\<close> tries, one without \<open>--wait\<close>; none when the timeout is not positive.\<close>

fun connect_target ::
  "env \<Rightarrow> client \<Rightarrow> pgconn \<Rightarrow> node_info \<Rightarrow> nat \<Rightarrow> pgconn \<Rightarrow> int \<Rightarrow> (daemon, pgconn \<times> int) state" where
  "connect_target env g conn target 0 target_conn target_id = ret (target_conn, target_id)"
| "connect_target env g conn target (Suc n) target_conn target_id = do {
     (target_conn, target_id) \<leftarrow>
       (if target_id \<noteq> UNKNOWN_NODE_ID then do {
          target_conn \<leftarrow> establish_db_connection env (conninfo target);
          ret (target_conn, target_id)
        }
        else get_primary_connection env conn);
     ok \<leftarrow> PQstatus_ok env target_conn;
     if ok \<or> \<not> rt_wait_provided (rt g) then ret (target_conn, target_id)
     else do {
       _ \<leftarrow> sleep 1;
       connect_target env g conn target n target_conn target_id
     }
   }"

text \<open>The connection, the id and the record of the node to follow, and whether it is a primary.\<close>

definition find_target :: "env \<Rightarrow> client \<Rightarrow> pgconn \<Rightarrow> (daemon, int + pgconn \<times> int \<times> node_info \<times> bool) state" where
  "find_target env g conn =
     or_exit (requested_target env g conn) (\<lambda>(target_id, target). do {
       (target_conn, target_id) \<leftarrow>
         connect_target env g conn target (nat (num g ''primary_follow_timeout'')) NULL_CONN target_id;
       ok \<leftarrow> PQstatus_ok env target_conn;
       if \<not> ok then refuse_follow [conn]
       else do {
         (record_status, target) \<leftarrow>
           (if rt_upstream_node_id (rt g) = UNKNOWN_NODE_ID then on_session env target_conn (get_node_record target_id target)
            else ret (RECORD_FOUND, target));
         if record_status \<noteq> RECORD_FOUND then refuse_follow [target_conn]
         else do {
           recovery \<leftarrow> get_recovery_type env target_conn;
           if recovery = RECTYPE_UNKNOWN then refuse_follow [target_conn]
           else ret (Inr (target_conn, target_id, target, recovery = RECTYPE_PRIMARY))
         }
       }
     })"

definition check_free_slots :: "env \<Rightarrow> client \<Rightarrow> pgconn \<Rightarrow> pgconn \<Rightarrow> (daemon, int + unit) state" where
  "check_free_slots env g conn target_conn =
     (if \<not> flag g ''use_replication_slots'' then ret (Inr ())
      else do {
        free_slots \<leftarrow> get_free_replication_slot_count env target_conn;
        if free_slots \<le> 0 then refuse_follow [target_conn, conn] else ret (Inr ())
      })"

definition check_can_follow ::
  "env \<Rightarrow> client \<Rightarrow> pgconn \<Rightarrow> node_info \<Rightarrow> pgconn \<Rightarrow> node_info \<Rightarrow> (daemon, int + unit) state" where
  "check_can_follow env g conn local target_conn target = do {
     local_xlogpos \<leftarrow> get_node_current_lsn env conn;
     repl_conn \<leftarrow> establish_db_connection_by_params env (local_replication_params env conn (repluser local));
     ok \<leftarrow> PQstatus_ok env repl_conn;
     if \<not> ok then refuse_follow [conn, target_conn]
     else do {
       identification \<leftarrow> identify_system env repl_conn;
       _ \<leftarrow> close_connection repl_conn;
       (case identification of
          None \<Rightarrow> refuse_follow [conn, target_conn]
        | Some identification \<Rightarrow> do {
            can_follow \<leftarrow>
              check_node_can_attach env g (timeline identification) local_xlogpos target_conn target False;
            if can_follow then ret (Inr ()) else refuse_follow [conn, target_conn]
          })
     }
   }"

text \<open>At most \<open>standby_follow_timeout\<close> tries; no try is a success.\<close>

fun await_attached :: "env \<Rightarrow> pgconn \<Rightarrow> nat \<Rightarrow> bool \<Rightarrow> (daemon, bool) state" where
  "await_attached env conn 0 success = ret success"
| "await_attached env conn (Suc n) success = do {
     success \<leftarrow> is_downstream_node_attached env conn;
     if success then ret True else do { _ \<leftarrow> sleep 1; await_attached env conn n success }
   }"

definition follow_event ::
  "env \<Rightarrow> client \<Rightarrow> pgconn \<Rightarrow> bool \<Rightarrow> string \<Rightarrow> event_info \<Rightarrow> (daemon, unit) state" where
  "follow_event env g conn success output ev = do {
     _ \<leftarrow> create_event env conn (num g ''node_id'') ''standby_follow'' success (Some output) ev True;
     ret ()
   }"

definition attachment_text :: "client \<Rightarrow> bool \<Rightarrow> node_info \<Rightarrow> int \<Rightarrow> string" where
  "attachment_text g success target target_id =
     (if success then ''standby attached'' else ''standby did not attach'') @ '' to upstream node '' @
     quoted (node_name target) @ '' (node ID: '' @ int_string target_id @ '')'' @
     (if success then [] else '' after '' @ int_string (num g ''standby_follow_timeout'') @ '' seconds'')"

definition finish_follow ::
  "env \<Rightarrow> client \<Rightarrow> pgconn \<Rightarrow> pgconn \<Rightarrow> bool \<Rightarrow> node_info \<Rightarrow> int \<Rightarrow> event_info \<Rightarrow> bool \<times> string \<times> int
     \<Rightarrow> (daemon, int + unit) state" where
  "finish_follow env g primary target_conn target_is_primary target target_id ev answer =
     (let (success, output, error_code) = answer in
      if \<not> success then do {
        _ \<leftarrow> follow_event env g target_conn False output ev;
        _ \<leftarrow> close_connection target_conn;
        _ \<leftarrow> (if target_is_primary then ret () else close_connection primary);
        ret (Inl error_code)
      }
      else do {
        attached \<leftarrow> await_attached env target_conn (nat (num g ''standby_follow_timeout'')) True;
        _ \<leftarrow> follow_event env g primary attached (attachment_text g attached target target_id) ev;
        _ \<leftarrow> close_connection target_conn;
        _ \<leftarrow> (if target_is_primary then ret () else close_connection primary);
        ret (if attached then Inr () else Inl ERR_FOLLOW_FAIL)
      })"

definition execute_follow ::
  "env \<Rightarrow> client \<Rightarrow> (string \<Rightarrow> string) \<Rightarrow> pgconn \<Rightarrow> int \<Rightarrow> node_info \<Rightarrow> bool \<Rightarrow> (daemon, int + unit) state" where
  "execute_follow env g esc target_conn target_id target target_is_primary = do {
     let ev = \<lparr>ev_node_name = Some (node_name target), ev_conninfo_str = Some (conninfo target), ev_node_id = target_id\<rparr>;
     (primary, _) \<leftarrow> (if target_is_primary then ret (target_conn, target_id) else get_primary_connection env target_conn);
     or_exit (do_standby_follow_internal env g esc primary target_conn target ERR_FOLLOW_FAIL 0)
       (finish_follow env g primary target_conn target_is_primary target target_id ev)
   }"

definition follow_checked ::
  "env \<Rightarrow> client \<Rightarrow> (string \<Rightarrow> string) \<Rightarrow> pgconn \<Rightarrow> node_info \<Rightarrow> (daemon, int + unit) state" where
  "follow_checked env g esc conn local =
     or_exit (find_target env g conn) (\<lambda>(target_conn, target_id, target, target_is_primary).
     or_exit (check_free_slots env g conn target_conn) (\<lambda>_.
     or_exit (check_can_follow env g conn local target_conn target) (\<lambda>_. do {
       _ \<leftarrow> close_connection conn;
       if rt_dry_run (rt g) then ret (Inl 0)
       else execute_follow env g esc target_conn target_id target target_is_primary
     })))"

definition do_standby_follow :: "env \<Rightarrow> client \<Rightarrow> (string \<Rightarrow> string) \<Rightarrow> (daemon, int + unit) state" where
  "do_standby_follow env g esc = do {
     conn \<leftarrow> establish_db_connection env (str g ''conninfo'');
     ok \<leftarrow> PQstatus_ok env conn;
     if \<not> ok then ret (Inl ERR_DB_CONN)
     else or_exit (check_recovery_type env conn) (\<lambda>_. do {
       let g = (if e_version env conn < 90400 then check_93_config g else g);
       (record_status, local) \<leftarrow> on_session env conn (get_node_record (num g ''node_id'') node_info_init);
       if record_status \<noteq> RECORD_FOUND then do { _ \<leftarrow> close_connection conn; ret (Inl ERR_BAD_CONFIG) }
       else follow_checked env g esc conn local
     })
   }"

end
