(* ===== verification/Follow_Safety.thy ===== *)
theory Follow_Safety
  imports Follow Promote Registration_Safety
begin

text \<open>
  Properties of \<open>standby follow\<close>: the order of what it does to the slots, the files of the server, the server and the
  record of the node, and the code it exits with when the primary refuses the record.
\<close>

section \<open>The steps\<close>

fun is_slot_step :: "effect \<Rightarrow> bool" where
  "is_slot_step (Created_Slot conn slot) = True"
| "is_slot_step (Set_Slot_Name conn n slot) = True"
| "is_slot_step e = False"

fun is_written :: "effect \<Rightarrow> bool" where
  "is_written (Wrote_File path text) = True"
| "is_written e = False"

fun is_drop :: "effect \<Rightarrow> bool" where
  "is_drop (Dropped_Slot conn slot) = True"
| "is_drop e = False"

fun is_status :: "effect \<Rightarrow> bool" where
  "is_status (Set_Status conn n type upstream a) = True"
| "is_status e = False"

definition follow_step :: "effect \<Rightarrow> bool" where
  "follow_step e \<longleftrightarrow> is_slot_step e \<or> is_written e \<or> is_command e \<or> is_drop e \<or> is_status e"

lemma follow_step_simps [simp]:
  "follow_step (Created_Slot c s)" "follow_step (Set_Slot_Name c n s)" "follow_step (Wrote_File p s)"
  "follow_step (Ran s)" "follow_step (Dropped_Slot c s)" "follow_step (Set_Status c n s u a)"
  "\<not> follow_step (Recorded_Event c n t b s)" "\<not> follow_step (Closed c)" "\<not> follow_step (Slept n)"
  by (simp_all add: follow_step_def)

lemma follow_step_not_harmless [simp]: "follow_step e \<Longrightarrow> \<not> harmless e"
  by (cases e) (auto simp: follow_step_def)

text \<open>The script of a server action with its end: the server was stopped, or is started.\<close>

definition server_script :: "client \<Rightarrow> server_action \<Rightarrow> effect \<Rightarrow> bool" where
  "server_script g action e \<longleftrightarrow>
     (\<exists>script. get_server_action g action [] (str g ''data_directory'') = Inr script \<and> e = Ran script)"

definition slot_steps :: "client \<Rightarrow> effect list \<Rightarrow> bool" where
  "slot_steps g es \<longleftrightarrow> list_all is_slot_step es \<and> (es = [] \<or> flag g ''use_replication_slots'')"

definition server_steps :: "client \<Rightarrow> bool \<Rightarrow> effect list \<Rightarrow> bool" where
  "server_steps g started es \<longleftrightarrow>
     (\<exists>a. es = [a] \<and> (server_script g ACTION_START a \<or> server_script g ACTION_RESTART a)) \<or>
     (\<exists>a b. es = [a, b] \<and> server_script g ACTION_STOP_WAIT a \<and> server_script g ACTION_START b) \<or>
     \<not> started \<and> (es = [] \<or> (\<exists>a. es = [a] \<and> server_script g ACTION_STOP_WAIT a))"

text \<open>
  The steps in their order: the slot, the files, the server, the old slot, the record of the node, and the
  scripts of the events. Each but the slots has the one before it; only with a record is the answer a success.
\<close>

definition follow_outcome :: "client \<Rightarrow> bool \<Rightarrow> effect list \<Rightarrow> bool" where
  "follow_outcome g success es \<longleftrightarrow>
     (\<exists>slots written server dropped status events.
        es = slots @ written @ server @ dropped @ status @ events \<and>
        slot_steps g slots \<and> list_all is_written written \<and> server_steps g (status \<noteq> []) server \<and>
        list_all is_drop dropped \<and> list_all is_command events \<and>
        (dropped = [] \<or> flag g ''use_replication_slots'') \<and> (server = [] \<or> written \<noteq> []) \<and>
        (status = [] \<or> server \<noteq> []) \<and> (dropped = [] \<or> status \<noteq> []) \<and>
        (status = [] \<and> \<not> success \<or>
         (\<exists>conn n. status = [Set_Status conn (num g ''node_id'') ''standby'' n True])))"

section \<open>The parts\<close>

lemma name_slot_steps:
  "yields follow_step (name_slot env g primary local) (\<lambda>_ es. list_all is_slot_step es)"
  unfolding name_slot_def by (intro yielding yields_session; simp)

lemma prepare_slot_steps:
  "yields follow_step (prepare_slot env g primary conn local)
     (\<lambda>_ es. slot_steps g es)"
proof (cases "flag g ''use_replication_slots''")
  case True
  have create: "yields follow_step (create_replication_slot env conn slot) (\<lambda>_ es. list_all is_slot_step es)" for slot
    unfolding create_replication_slot_def by (intro yielding reading; simp)
  with True show ?thesis
    unfolding prepare_slot_def slot_steps_def
    by (auto intro!: yielding yields_mono [OF name_slot_steps] yields_mono [OF create] split: sum.splits)
qed (auto intro!: yielding simp: prepare_slot_def slot_steps_def)

lemma put_lines_steps: "yields follow_step (put_lines env ls written) (\<lambda>_ es. es = [])"
  by (induction ls arbitrary: written) (auto intro!: yielding reading)

lemma write_file_steps:
  "yields follow_step (write_file env path ls) (\<lambda>ok es. list_all is_written es \<and> (ok \<longrightarrow> es \<noteq> []))"
  unfolding write_file_def
  by (intro yielding reading yields_mono [OF put_lines_steps]; simp)

lemma create_recovery_file_steps:
  "yields follow_step (create_recovery_file env g esc node params version dest True)
     (\<lambda>r es. list_all is_written es \<and> (\<forall>d. r = Inr (True, d) \<longrightarrow> es \<noteq> []))"
  unfolding create_recovery_file_def modify_auto_conf_def rewrite_auto_conf_def write_standby_signal_def
  by (intro yielding reading yields_mono [OF write_file_steps]; simp)

lemma server_action_steps:
  "yields follow_step (run_server_action env g action)
     (\<lambda>r es. es = [] \<and> r \<in> range Inl \<or> (\<exists>a. es = [a] \<and> server_script g action a))"
  unfolding run_server_action_def local_command_output_def
  by (intro yielding reading; simp add: server_script_def)

lemma server_steps_parts:
  "\<not> started \<Longrightarrow> server_steps g started []"
  "\<not> started \<Longrightarrow> server_script g ACTION_STOP_WAIT a \<Longrightarrow> server_steps g started [a]"
  by (simp_all add: server_steps_def)

lemma restart_server_steps:
  "yields follow_step (restart_server env g) (\<lambda>r es. server_steps g (r = Inr True) es)"
proof -
  have one: "yields follow_step (run_server_action env g action) (\<lambda>r es. server_steps g (r = Inr True) es)"
    if "action \<in> {ACTION_START, ACTION_RESTART}" for action
    by (rule yields_mono [OF server_action_steps]) (use that in \<open>auto simp: server_steps_def\<close>)
  have two: "yields follow_step (run_server_action env g ACTION_START) (\<lambda>r es. server_steps g (r = Inr True) (a # es))"
    if "server_script g ACTION_STOP_WAIT a" for a
    by (rule yields_mono [OF server_action_steps]) (use that in \<open>auto simp: server_steps_def\<close>)
  have both: "yields follow_step (or_exit (run_server_action env g ACTION_STOP_WAIT)
      (\<lambda>stopped. if stopped then run_server_action env g ACTION_START else ret (Inr False)))
      (\<lambda>r es. server_steps g (r = Inr True) es)"
    by (rule yields_or_exit, rule yields_mono [OF server_action_steps])
      (auto intro!: yields_if yields_ret two simp: server_steps_parts split: sum.splits)
  show ?thesis
    unfolding restart_server_def by (intro yields_bind yields_if reading) (auto intro: one both)
qed

lemma drop_old_slot_steps:
  "yields follow_step (drop_old_slot env g local target upstream)
     (\<lambda>_ es. list_all is_drop es \<and> (es = [] \<or> flag g ''use_replication_slots''))"
proof (cases "flag g ''use_replication_slots''")
  case True
  then show ?thesis
    unfolding drop_old_slot_def drop_replication_slot_if_exists_def drop_replication_slot_def
    by (intro yielding reading; simp)
qed (auto intro!: yielding simp: drop_old_slot_def removes_old_slot_def)

text \<open>What the record of the node is updated with, and what is known of the answer then.\<close>

lemma record_follow_steps:
  "yields follow_step (record_follow env g primary target output code)
     (\<lambda>r es. \<exists>n. es = [Set_Status primary (num g ''node_id'') ''standby'' n True])"
  unfolding record_follow_def by (intro yielding yields_session; simp)

lemma no_slot_steps [simp]: "slot_steps g []"
  by (simp add: slot_steps_def)

lemma outcome_slots:
  "slot_steps g es \<Longrightarrow> follow_outcome g False es"
  unfolding follow_outcome_def
  by (rule exI [of _ es], rule exI [of _ "[]"], rule exI [of _ "[]"], rule exI [of _ "[]"], rule exI [of _ "[]"],
      rule exI [of _ "[]"]) (simp add: server_steps_def)

lemma outcome_server:
  assumes "slot_steps g slots" and "list_all is_written written" and "server_steps g False server" and "server = [] \<or> written \<noteq> []"
  shows "follow_outcome g False (slots @ written @ server)"
  unfolding follow_outcome_def
  by (rule exI [of _ slots], rule exI [of _ written], rule exI [of _ server], rule exI [of _ "[]"], rule exI [of _ "[]"],
      rule exI [of _ "[]"]) (use assms in simp)

lemma outcome_status:
  assumes "slot_steps g slots" and "list_all is_written written" and "server_steps g True server"
    and "list_all is_drop dropped" and "dropped = [] \<or> flag g ''use_replication_slots''" and "written \<noteq> []"
  shows "follow_outcome g success (slots @ written @ server @ dropped @ [Set_Status conn (num g ''node_id'') ''standby'' n True])"
  unfolding follow_outcome_def
  by (rule exI [of _ slots], rule exI [of _ written], rule exI [of _ server], rule exI [of _ dropped],
      rule exI [of _ "[Set_Status conn (num g ''node_id'') ''standby'' n True]"], rule exI [of _ "[]"])
    (use assms in \<open>auto simp: server_steps_def\<close>)

lemma outcome_events:
  assumes "follow_outcome g success es" and "list_all is_command events"
  shows "follow_outcome g success (es @ events)"
proof -
  from assms(1) obtain a b c d e f where
    "es = a @ b @ c @ d @ e @ f" "list_all is_command f"
    and rest: "slot_steps g a" "list_all is_written b" "server_steps g (e \<noteq> []) c" "list_all is_drop d"
      "d = [] \<or> flag g ''use_replication_slots''" "c = [] \<or> b \<noteq> []" "e = [] \<or> c \<noteq> []" "d = [] \<or> e \<noteq> []"
      "e = [] \<and> \<not> success \<or> (\<exists>conn n. e = [Set_Status conn (num g ''node_id'') ''standby'' n True])"
    unfolding follow_outcome_def by blast
  with assms(2) have "es @ events = a @ b @ c @ d @ e @ (f @ events)" "list_all is_command (f @ events)" by simp_all
  with rest show ?thesis unfolding follow_outcome_def by blast
qed

lemma outcome_less: "follow_outcome g success es \<Longrightarrow> follow_outcome g False es"
  unfolding follow_outcome_def by blast

definition answers_success :: "int + bool \<times> string \<times> int \<Rightarrow> bool" where
  "answers_success r \<longleftrightarrow> (\<exists>output code. r = Inr (True, output, code))"

lemma answers_success_simps [simp]:
  "\<not> answers_success (Inl c)" "answers_success (Inr (ok, output, code)) \<longleftrightarrow> ok"
  by (auto simp: answers_success_def)

lemma attach_node_steps:
  assumes slots: "slot_steps g slots"
  shows "yields follow_step (attach_node env g esc primary target local output general code)
    (\<lambda>r es. follow_outcome g (answers_success r) (slots @ es))"
proof -
  have upstream: "yields follow_step (old_upstream env g local target) (\<lambda>_ es. es = [])"
    unfolding old_upstream_def by (intro yielding reading yields_session; simp)
  have recorded: "yields follow_step (record_follow env g primary target output code)
      (\<lambda>r es. follow_outcome g (answers_success r) (slots @ written @ server @ dropped @ es))"
    if "list_all is_written written" "server_steps g True server" "list_all is_drop dropped" "written \<noteq> []"
      "dropped = [] \<or> flag g ''use_replication_slots''" for written server dropped
    by (rule yields_mono [OF record_follow_steps]) (use that slots in \<open>auto intro!: outcome_status\<close>)
  have drop: "yields follow_step (do { _ \<leftarrow> drop_old_slot env g local target upstream; record_follow env g primary target output code })
      (\<lambda>r es. follow_outcome g (answers_success r) (slots @ written @ server @ es))"
    if "list_all is_written written" "server_steps g True server" "written \<noteq> []" for written server upstream
    by (rule yields_bind, rule yields_mono [OF drop_old_slot_steps]) (use that in \<open>auto intro!: recorded\<close>)
  have restart: "yields follow_step (restart_and_record env g primary target local upstream output code)
      (\<lambda>r es. follow_outcome g (answers_success r) (slots @ written @ es))"
    if "list_all is_written written" "written \<noteq> []" for written upstream
    unfolding restart_and_record_def
    by (rule yields_or_exit, rule yields_mono [OF restart_server_steps])
      (use that slots in \<open>auto intro!: yields_if yields_ret drop outcome_server split: sum.splits\<close>)
  have written: "follow_outcome g False (slots @ es)" if "list_all is_written es" for es
    using outcome_server [OF slots that, of "[]"] by (simp add: server_steps_def)
  show ?thesis
    unfolding attach_node_def
    by (rule yields_or_exit, rule yields_mono [OF upstream])
      (auto intro!: yields_or_exit yields_mono [OF create_recovery_file_steps] yields_if yields_ret restart written outcome_slots [OF slots]
        split: sum.splits prod.splits)
qed

lemma internal_steps:
  "yields follow_step (do_standby_follow_internal env g esc primary conn target general code)
     (\<lambda>r es. follow_outcome g (answers_success r) es)"
  unfolding do_standby_follow_internal_def
  by (intro yields_bind yields_session yields_prod yields_if yields_ret yields_or_exit yields_mono [OF prepare_slot_steps])
    (auto intro!: yields_if yields_ret attach_node_steps outcome_slots split: sum.splits prod.splits)

section \<open>The command\<close>

lemma follow_event_commands:
  "yields follow_step (follow_event env g conn success output ev) (\<lambda>_ es. list_all is_command es)"
  unfolding follow_event_def create_event_def system_command_def by (intro yielding reading; simp)

lemma silent_await_attached [silently]: "silent (await_attached env conn n success)"
  by (induction n arbitrary: success) (auto intro!: silently)

lemma finish_follow_steps:
  assumes "follow_outcome g (answers_success (Inr answer)) es"
  shows "yields follow_step (finish_follow env g primary conn is_primary target n ev answer)
    (\<lambda>r es'. follow_outcome g (r = Inr ()) (es @ es'))"
  unfolding finish_follow_def
  by (intro yielding reading yields_mono [OF follow_event_commands] silent_await_attached [THEN yields_silent])
    (use assms in \<open>auto intro!: outcome_events elim: outcome_less\<close>)

lemma execute_follow_steps:
  "yields follow_step (execute_follow env g esc conn n target is_primary) (\<lambda>r es. follow_outcome g (r = Inr ()) es)"
  unfolding execute_follow_def
  by (intro yields_let yields_bind yields_if yields_ret yields_prod yields_or_exit reading yields_mono [OF internal_steps])
    (auto intro!: finish_follow_steps split: sum.splits)

lemma silent_close_connections [silently]: "silent (close_connections conns)"
  by (induction conns) (auto intro!: silently)

lemma silent_connect_target [silently]: "silent (connect_target env g conn target n target_conn target_id)"
  by (induction n arbitrary: target_conn target_id) (auto intro!: silently)

lemma silent_refuse_follow [silently]: "silent (refuse_follow conns)"
  unfolding refuse_follow_def by (intro silently)

lemma silent_requested_target [silently]: "silent (requested_target env g conn)"
  unfolding requested_target_def by (intro silently yields_session; simp)

lemma silent_find_target [silently]: "silent (find_target env g conn)"
  unfolding find_target_def by (intro silently yields_session; simp)

lemma silent_follow_checks [silently]:
  "silent (check_free_slots env g conn target_conn)" "silent (check_can_follow env g conn local target_conn target)"
  unfolding check_free_slots_def check_can_follow_def by (intro silently; simp)+

lemma no_follow_steps [simp]: "follow_outcome g False []"
  by (rule outcome_slots) simp

lemma follow_checked_steps:
  "yields follow_step (follow_checked env g esc conn local)
     (\<lambda>r es. follow_outcome g (r = Inr ()) es \<and> (rt_dry_run (rt g) \<longrightarrow> es = []))"
  unfolding follow_checked_def
  by (intro yielding reading yields_mono [OF execute_follow_steps] silent_find_target [THEN yields_silent]
      silent_follow_checks [THEN yields_silent]; simp)

lemma check_93_same [simp]:
  "num (check_93_config g) n = num g n" "str (check_93_config g) n = str g n" "rt (check_93_config g) = rt g"
  by (simp_all add: check_93_config_def)

lemma check_93_flag: "flag (check_93_config g) ''use_replication_slots'' = False"
  by (simp add: check_93_config_def)

lemma check_93_scripts [simp]: "server_script (check_93_config g) = server_script g"
proof -
  have "make_pg_path (check_93_config g) name = make_pg_path g name" for name
    unfolding make_pg_path_def by (simp add: check_93_config_def)
  then have "pg_ctl_command (check_93_config g) action dir = pg_ctl_command g action dir" for action dir
    unfolding pg_ctl_command_def by (simp split: sum.split)
  then show ?thesis
    by (intro ext) (simp add: server_script_def get_server_action_def)
qed

lemma check_93_outcome: "follow_outcome (check_93_config g) success es \<Longrightarrow> follow_outcome g success es"
  unfolding follow_outcome_def slot_steps_def server_steps_def check_93_scripts check_93_flag check_93_same by blast


section \<open>A refused record\<close>

text \<open>The primary answers no statement that records this node as an active standby.\<close>

definition refuses_status :: "env \<Rightarrow> client \<Rightarrow> bool" where
  "refuses_status env g \<longleftrightarrow>
     (\<forall>k conn n. \<not> result (update_node_record_status (num g ''node_id'') ''standby'' n True) (e_session env k conn))"

definition unchanged_code :: "int \<Rightarrow> int + bool \<times> string \<times> int \<Rightarrow> effect list \<Rightarrow> bool" where
  "unchanged_code code r es \<longleftrightarrow> (es \<noteq> [] \<longrightarrow> (\<exists>output. r = Inr (False, output, code)))"

lemma unchanged_code_none [simp]: "unchanged_code code r []"
  by (simp add: unchanged_code_def)

text \<open>A part that is known not to record the status.\<close>

lemma no_status_in:
  "list_all is_slot_step es \<or> list_all is_written es \<or> list_all is_command es \<or> list_all is_drop es \<Longrightarrow> filter is_status es = []"
  by (induction es) (auto elim: is_status.elims)

lemma yields_no_status:
  assumes "yields follow_step m R" and "\<And>x es. R x es \<Longrightarrow> filter is_status es = []" and "\<And>x. Q x []"
  shows "yields is_status m Q"
  unfolding yields_def
proof (intro allI)
  fix d
  obtain es where es: "trace (final m d) = trace d @ es" "R (result m d) (filter follow_step es)"
    using assms(1) unfolding yields_def by blast
  have "filter is_status (filter follow_step es) = filter is_status es"
    by (simp add: follow_step_def cong: conj_cong) (metis (mono_tags, lifting) filter_cong)
  with es assms(2,3) show "\<exists>es. trace (final m d) = trace d @ es \<and> Q (result m d) (filter is_status es)" by metis
qed

lemma server_steps_commands: "server_steps g started es \<Longrightarrow> list_all is_command es"
  by (auto simp: server_steps_def server_script_def)

lemma is_status_not_harmless [simp]: "is_status e \<Longrightarrow> \<not> harmless e"
  by (cases e) auto

lemmas parts_without_status =
  prepare_slot_steps [THEN yields_no_status] create_recovery_file_steps [THEN yields_no_status]
  restart_server_steps [THEN yields_no_status] drop_old_slot_steps [THEN yields_no_status]
  follow_event_commands [THEN yields_no_status]

lemma record_refused:
  assumes "refuses_status env g"
  shows "yields is_status (record_follow env g primary target output code) (unchanged_code code)"
  unfolding record_follow_def
  by (intro yielding yields_session) (use assms in \<open>simp_all add: refuses_status_def unchanged_code_def\<close>)

lemma internal_refused:
  assumes "refuses_status env g"
  shows "yields is_status (do_standby_follow_internal env g esc primary conn target general code) (unchanged_code code)"
proof -
  have upstream: "yields is_status (old_upstream env g local target) (\<lambda>_ es. es = [])" for local
    unfolding old_upstream_def by (intro yielding reading yields_session; simp)
  have restart: "yields is_status (restart_and_record env g primary target local upstream out code) (unchanged_code code)"
    for local upstream out
    unfolding restart_and_record_def
    by (intro yielding parts_without_status yields_mono [OF record_refused [OF assms]])
      (auto dest: server_steps_commands intro: no_status_in)
  have attach: "yields is_status (attach_node env g esc primary target local out general code) (unchanged_code code)"
    for local out
    unfolding attach_node_def
    by (intro yielding parts_without_status yields_mono [OF restart] yields_mono [OF upstream])
      (auto intro: no_status_in)
  show ?thesis
    unfolding do_standby_follow_internal_def
    by (intro yielding parts_without_status yields_session yields_mono [OF attach])
      (auto simp: slot_steps_def intro: no_status_in)
qed

text \<open>No record, or the exit with \<open>SUCCESS\<close>.\<close>

definition exits_with_zero :: "int + unit \<Rightarrow> effect list \<Rightarrow> bool" where
  "exits_with_zero r es \<longleftrightarrow> (es \<noteq> [] \<longrightarrow> r = Inl 0)"

lemma exits_with_zero_none [simp]: "exits_with_zero r []"
  by (simp add: exits_with_zero_def)

lemma unchanged_code_exit: "unchanged_code 0 (Inl c) es \<Longrightarrow> exits_with_zero (Inl c) es"
  by (simp add: unchanged_code_def exits_with_zero_def)

lemma finish_follow_refused:
  assumes "unchanged_code 0 (Inr answer) es"
  shows "yields is_status (finish_follow env g primary conn is_primary target n ev answer)
    (\<lambda>r es'. exits_with_zero r (es @ es'))"
  unfolding finish_follow_def
  by (intro yielding reading parts_without_status silent_await_attached [THEN yields_silent])
    (use assms in \<open>auto simp: unchanged_code_def exits_with_zero_def intro: no_status_in\<close>)

lemma execute_follow_refused:
  assumes "refuses_status env g"
  shows "yields is_status (execute_follow env g esc conn n target is_primary) exits_with_zero"
  unfolding execute_follow_def
  by (intro yields_let yields_bind yields_if yields_ret yields_prod yields_or_exit reading
      yields_mono [OF internal_refused [OF assms]])
    (auto intro!: finish_follow_refused unchanged_code_exit split: sum.splits)

lemma follow_checked_refused:
  assumes "refuses_status env g"
  shows "yields is_status (follow_checked env g esc conn local) exits_with_zero"
  unfolding follow_checked_def
  by (intro yielding reading yields_mono [OF execute_follow_refused [OF assms]] silent_find_target [THEN yields_silent]
      silent_follow_checks [THEN yields_silent]; simp)

text \<open>
  C40: a \<open>standby follow\<close> whose record the primary refuses has failed and exits with 0, the code of success, for
  \<open>do_standby_follow_internal\<close> leaves the error code as it was on this path.
\<close>

theorem refused_follow_exits_zero:
  assumes "refuses_status env g" and "list_ex is_status (added (do_standby_follow env g esc) d)"
  shows "result (do_standby_follow env g esc) d = Inl 0"
proof -
  have old: "refuses_status env (check_93_config g)" using assms(1) by (simp add: refuses_status_def)
  have "yields is_status (do_standby_follow env g esc) exits_with_zero"
    unfolding do_standby_follow_def
    by (intro yielding reading silent_standby_checks(1) [THEN yields_silent] yields_session)
      (simp_all add: follow_checked_refused [OF assms(1)] follow_checked_refused [OF old] Let_def)
  from yieldsD [OF this, of d] assms(2) show ?thesis
    by (auto simp: exits_with_zero_def list_ex_iff filter_empty_conv)
qed

text \<open>A table with a row whose upstream node is gone, which the foreign key forbids; then no update gets through.\<close>

definition refusing_db :: database where
  "refusing_db = example_db\<lparr>db_rows := db_rows example_db @ [example_row 4 ''standby'' (Some 9) True]\<rparr>"

definition refusing_env :: env where
  "refusing_env = (example_env ''0/1'' ''0/1'')\<lparr>
     e_result := \<lambda>k. Some [[Some (if k = 7 then ''f'' else ''0/1''), Some ''1'', Some ''0/1'']],
     e_session := \<lambda>_ _. refusing_db, e_defaults := []\<rparr>"

definition following_client :: client where
  "following_client = example_client\<lparr>
     settings := initial_options\<lparr>numbers := (\<lambda>_. 1)(''node_id'' := 2),
       texts := (\<lambda>_. [])(''service_restart_command'' := ''restart''), flags := \<lambda>_. False\<rparr>,
     rt := runtime_options_init\<lparr>rt_upstream_node_id := 3\<rparr>\<rparr>"


lemma refusing_env_refuses: "refuses_status refusing_env following_client"
proof -
  have "num following_client ''node_id'' = 2" by (simp add: following_client_def)
  moreover have "\<not> rows_ok False (update_where 2 (\<lambda>r. r\<lparr>row_type := ''standby'', row_upstream_node_id := Some n, row_active := True\<rparr>)
      (db_rows refusing_db))" for n
    by (simp add: refusing_db_def example_db_def example_row_def update_where_def rows_ok_def fk_ok_def)
  moreover have "db_deferred refusing_db = False" by (simp add: refusing_db_def example_db_def)
  ultimately show ?thesis
    by (simp add: refuses_status_def refusing_env_def update_node_record_status_def sql_command_def)
qed


text \<open>The run of the example, part by part.\<close>

lemma execute_keeps_status:
  assumes "list_ex is_status (trace (final (do_standby_follow_internal env g esc conn conn target ERR_FOLLOW_FAIL 0) d))"
  shows "list_ex is_status (trace (final (execute_follow env g esc conn n target True) d))"
proof -
  have kept: "list_ex is_status (trace d) \<Longrightarrow>
    list_ex is_status (trace (final (finish_follow env g conn conn True target n ev answer) d))" for ev answer d
    using yields_trace [OF finish_follow_refused [OF unchanged_code_none], of env g conn conn True target n ev answer d]
    by simp
  obtain r d' where run: "run_state (do_standby_follow_internal env g esc conn conn target ERR_FOLLOW_FAIL 0) d = (r, d')"
    by (cases "run_state (do_standby_follow_internal env g esc conn conn target ERR_FOLLOW_FAIL 0) d")
  with assms have "list_ex is_status (trace d')" by simp
  then show ?thesis
    by (cases r) (simp_all add: execute_follow_def or_exit_def run kept)
qed

abbreviation (input) example_at :: "nat \<Rightarrow> effect list \<Rightarrow> daemon" where
  "example_at n es \<equiv> (example_daemon 2)\<lparr>clock := n, trace := es\<rparr>"

abbreviation (input) example_node :: "int \<Rightarrow> node_info" where
  "example_node n \<equiv> snd (result (get_node_record n node_info_init) refusing_db)"

abbreviation (input) "example_closed \<equiv>
  [Closed (CONN_PARAMS [] 9), Closed (CONN_PARAMS [] 12)]"

lemma example_preparations:
  "run_state (establish_db_connection refusing_env (str following_client ''conninfo'')) (example_daemon 2) =
     (CONN [] 0, example_at 2 [])"
  "run_state (PQstatus_ok refusing_env (CONN [] 0)) (example_at 2 []) = (True, example_at 2 [])"
  "run_state (check_recovery_type refusing_env (CONN [] 0)) (example_at 2 []) = (Inr (), example_at 3 [])"
  "run_state (on_session refusing_env (CONN [] 0) (get_node_record (num following_client ''node_id'') node_info_init))
     (example_at 3 []) = ((RECORD_FOUND, example_node 2), example_at 4 [])"
  "run_state (find_target refusing_env following_client (CONN [] 0)) (example_at 4 []) =
     (Inr (CONN [] 5, 3, example_node 3, True), example_at 8 [])"
  "run_state (check_can_follow refusing_env following_client (CONN [] 0) (example_node 2) (CONN [] 5) (example_node 3))
     (example_at 8 []) = (Inr (), example_at 18 example_closed)"
  "run_state (close_connection (CONN [] 0)) (example_at 18 example_closed) =
     ((), example_at 18 (example_closed @ [Closed (CONN [] 0)]))"
  by code_simp+

lemma example_conditions:
  "\<not> e_version refusing_env (CONN [] 0) < 90400" "\<not> rt_dry_run (rt following_client)"
  "\<not> flag following_client ''use_replication_slots''" "length (trace (example_daemon 2)) = 0"
  by code_simp+

lemma example_recorded:
  "list_ex is_status (trace (final
     (do_standby_follow_internal refusing_env following_client id (CONN [] 5) (CONN [] 5) (example_node 3) ERR_FOLLOW_FAIL 0)
     (example_at 18 (example_closed @ [Closed (CONN [] 0)]))))"
  by code_simp

lemma refused_follow_exits_zero_witness:
  "result (do_standby_follow refusing_env following_client id) (example_daemon 2) = Inl 0"
proof (rule refused_follow_exits_zero [OF refusing_env_refuses])
  show "list_ex is_status (added (do_standby_follow refusing_env following_client id) (example_daemon 2))"
    unfolding added_def do_standby_follow_def follow_checked_def check_free_slots_def
    by (simp only: example_preparations example_conditions execute_keeps_status [OF example_recorded] or_exit_def
        run_state_bind run_state_return Let_def if_True if_False simp_thms prod.case sum.case record_status.distinct
        drop_0 fst_conv snd_conv)
qed

end
