(* ===== verification/Primary_Monitor.thy ===== *)
theory Primary_Monitor
  imports Brain_Split
begin

text \<open>
  \<open>repmgrd\<close> on a primary (\<open>repmgrd-physical.c\<close>): the checks of the disk, of the network card and of
  the synchronous standby, whether the server still is a primary, and one round of
  \<open>monitor_streaming_primary\<close>. A signal to reload the configuration between two rounds is left out.
\<close>

section \<open>Checks of the machine\<close>

text \<open>\<open>(int) INSTR_TIME_GET_DOUBLE\<close> of a difference in microseconds: truncation towards zero.\<close>

definition elapsed_seconds :: "int \<Rightarrow> int \<Rightarrow> int" where
  "elapsed_seconds now start =
     (if now \<ge> start then (now - start) div 1000000 else - ((start - now) div 1000000))"

definition calculate_elapsed :: "env \<Rightarrow> int \<Rightarrow> (daemon, int) state" where
  "calculate_elapsed env start = do { now \<leftarrow> gettimeofday env; ret (elapsed_seconds now start) }"

text \<open>
  The loop of \<open>check_disk\<close>; after each command the alarm may have gone off, which sets \<open>touch_label\<close>.
  The status is \<open>r\<close> when no attempt is made.
\<close>

fun touch_loop :: "env \<Rightarrow> nat \<Rightarrow> int \<Rightarrow> (daemon, int) state" where
  "touch_loop env 0 r = ret r"
| "touch_loop env (Suc n) r = do {
     opts \<leftarrow> gets config;
     r \<leftarrow> system_command env (''touch '' @ opt_data_directory opts @ ''/hg_repmgr_test'');
     alarmed \<leftarrow> ask env;
     _ \<leftarrow> modify (\<lambda>d. d\<lparr>touch_label := touch_label d \<or> alarmed\<rparr>);
     if r \<noteq> 0 then do { _ \<leftarrow> sleep (opt_device_check_timeout opts); touch_loop env n r }
     else ret r
   }"

definition kill_postgres :: string where
  "kill_postgres = ''ps -ef | grep postgres|grep -v grep |awk '' @ [CHR 0x27] @ ''{print  $2}'' @ [CHR 0x27] @ ''|xargs kill -9''"

definition check_disk :: "env \<Rightarrow> (daemon, unit) state" where
  "check_disk env = do {
     opts \<leftarrow> gets config;
     r \<leftarrow> touch_loop env (nat (opt_device_check_times opts)) (- 1);
     label \<leftarrow> gets touch_label;
     if r \<noteq> 0 \<or> label then do {
       _ \<leftarrow> modify (\<lambda>d. d\<lparr>touch_label := False\<rparr>);
       _ \<leftarrow> system_command env kill_postgres;
       close_local_conn
     }
     else ret ()
   }"

text \<open>\<open>get_virtual_ip\<close> and \<open>get_network_card\<close> of \<open>dbutils.c\<close>: the column of the node's row, if not empty.\<close>

definition node_text :: "(node_row \<Rightarrow> string option) \<Rightarrow> env \<Rightarrow> pgconn \<Rightarrow> int \<Rightarrow> (daemon, string option) state" where
  "node_text column env conn n = do {
     res \<leftarrow> on_session env conn (sql_query (\<lambda>rows. map column (filter (\<lambda>r. row_node_id r = n) rows)));
     ret (case res of
            Some (Some t # _) \<Rightarrow> if t = [] then None else Some (take MAXLEN t)
          | _ \<Rightarrow> None)
   }"

definition get_virtual_ip :: "env \<Rightarrow> pgconn \<Rightarrow> int \<Rightarrow> (daemon, string option) state" where
  "get_virtual_ip = node_text row_virtual_ip"

definition get_network_card :: "env \<Rightarrow> pgconn \<Rightarrow> int \<Rightarrow> (daemon, string option) state" where
  "get_network_card = node_text row_network_card"

text \<open>The first byte of the interface's \<open>carrier\<close> file is \<open>1\<close>; a card that is not known counts as up.\<close>

definition check_network_card_status :: "env \<Rightarrow> pgconn \<Rightarrow> int \<Rightarrow> (daemon, bool) state" where
  "check_network_card_status env conn n =
     (if conn = NULL_CONN then ret True
      else do {
        nic \<leftarrow> get_network_card env conn n;
        (case nic of
           None \<Rightarrow> ret True
         | Some nic \<Rightarrow> do {
             content \<leftarrow> call (e_file env);
             ret (case content of
                    None \<Rightarrow> True
                  | Some text \<Rightarrow> text \<noteq> [] \<and> hd text = CHR ''1'')
           })
      })"

section \<open>The synchronous standby\<close>

text \<open>The two loops of \<open>only_one_sync_node\<close>.\<close>

fun no_other_number :: "string \<Rightarrow> bool" where
  "no_other_number [] = True"
| "no_other_number (c # cs) =
     (if c = CHR ''('' then True
      else if 49 < (of_char c :: nat) \<and> (of_char c :: nat) \<le> 57 then False
      else no_other_number cs)"

definition only_one_sync_node :: "string \<Rightarrow> bool" where
  "only_one_sync_node sync_names =
     (if sync_names = [] then False
      else if CHR ''('' \<in> set sync_names then no_other_number sync_names
      else True)"

lemma only_one_sync_node_ten: "only_one_sync_node ''10 (a, b, c, d, e, f, g, h, i, j)''"
  by code_simp

definition sync_command :: "config \<Rightarrow> string \<Rightarrow> string \<Rightarrow> string" where
  "sync_command opts before after =
     ''sed -i '' @ [CHR 0x27] @ ''s/'' @ before @ ''/'' @ after @ ''/g'' @ [CHR 0x27] @ [CHR 0x20] @
     opt_data_directory opts @ ''/postgresql.conf''"

text \<open>A \<open>short\<close> that is incremented.\<close>

definition to_int16 :: "int \<Rightarrow> int" where
  "to_int16 n = signed_take_bit 15 n"

text \<open>No standby is connected.\<close>

definition sync_standby_missing :: "env \<Rightarrow> (daemon, unit) state" where
  "sync_standby_missing env = do {
     _ \<leftarrow> modify (\<lambda>d. d\<lparr>unreachable_standby_counts := to_int16 (unreachable_standby_counts d + 1)\<rparr>);
     count \<leftarrow> gets unreachable_standby_counts;
     _ \<leftarrow> (if count = 1 then do {
            now \<leftarrow> gettimeofday env;
            modify (\<lambda>d. d\<lparr>unreachable_sync_standby_start := now\<rparr>)
          } else ret ());
     start \<leftarrow> gets unreachable_sync_standby_start;
     elapsed \<leftarrow> calculate_elapsed env start;
     async \<leftarrow> gets switch_async_mode;
     opts \<leftarrow> gets config;
     if elapsed > 30 \<and> \<not> async then do {
       _ \<leftarrow> system_command env (sync_command opts ''synchronous_standby_names'' ''#synchronous_standby_names'');
       _ \<leftarrow> system_command env ''pg_ctl reload'';
       modify (\<lambda>d. d\<lparr>switch_async_mode := True\<rparr>)
     }
     else ret ()
   }"

definition query_lsn :: "env \<Rightarrow> pgconn \<Rightarrow> (daemon, 64 word) state" where
  "query_lsn env conn = do {
     res \<leftarrow> PQexec env conn;
     ret (case res of None \<Rightarrow> InvalidXLogRecPtr | Some rows \<Rightarrow> parse_lsn (PQgetvalue rows 0 0))
   }"

definition get_primary_current_lsn :: "env \<Rightarrow> pgconn \<Rightarrow> (daemon, 64 word) state" where
  "get_primary_current_lsn env conn = query_lsn env conn"

definition get_last_wal_receive_location :: "env \<Rightarrow> pgconn \<Rightarrow> (daemon, 64 word) state" where
  "get_last_wal_receive_location env conn = query_lsn env conn"

text \<open>
  Back to synchronous replication when a standby lags at most 5 MB behind; the loop goes on after
  that. The connections are closed, but the list keeps pointing to them.
\<close>

fun resync_loop :: "env \<Rightarrow> 64 word \<Rightarrow> node_info list \<Rightarrow> (daemon, node_info list) state" where
  "resync_loop env primary_lsn [] = ret []"
| "resync_loop env primary_lsn (cell # cells) = do {
     conn \<leftarrow> establish_db_connection env (conninfo cell);
     rectype \<leftarrow> get_recovery_type env conn;
     opts \<leftarrow> gets config;
     _ \<leftarrow> (if rectype \<noteq> RECTYPE_PRIMARY then do {
            lsn \<leftarrow> get_last_wal_receive_location env conn;
            if primary_lsn \<noteq> InvalidXLogRecPtr \<and> primary_lsn \<ge> lsn \<and> primary_lsn - lsn \<le> 5242880 then do {
              _ \<leftarrow> system_command env (sync_command opts ''#synchronous_standby_names'' ''synchronous_standby_names'');
              _ \<leftarrow> system_command env ''pg_ctl reload'';
              modify (\<lambda>d. d\<lparr>switch_async_mode := False\<rparr>)
            }
            else ret ()
          } else ret ());
     _ \<leftarrow> close_connection conn;
     cells \<leftarrow> resync_loop env primary_lsn cells;
     ret (cell\<lparr>node_conn := conn\<rparr> # cells)
   }"

text \<open>
  \<open>atoi\<close> is applied to the first field also when the query has failed and there is none; the process
  then dies of a segmentation fault, which is the exit code 139 here.
\<close>

definition check_sync_async :: "env \<Rightarrow> node_info list \<Rightarrow> (daemon, int + node_info list) state" where
  "check_sync_async env nodes = do {
     conn \<leftarrow> gets local_conn;
     res \<leftarrow> PQexec env conn;
     (case res of
        None \<Rightarrow> ret (Inl 139)
      | Some rows \<Rightarrow>
          if atoi (PQgetvalue rows 0 0) = 0 then do {
            (_, sync_names) \<leftarrow> get_pg_setting env conn ''synchronous_standby_names'' [];
            _ \<leftarrow> (if only_one_sync_node sync_names then sync_standby_missing env else ret ());
            ret (Inr nodes)
          }
          else do {
            _ \<leftarrow> modify (\<lambda>d. d\<lparr>unreachable_standby_counts := 0\<rparr>);
            async \<leftarrow> gets switch_async_mode;
            if async then do {
              lsn \<leftarrow> get_primary_current_lsn env conn;
              nodes \<leftarrow> resync_loop env lsn nodes;
              ret (Inr nodes)
            }
            else ret (Inr nodes)
          })
   }"

section \<open>Is the server still a primary?\<close>

abbreviation (input) NO_DEGRADED_MONITORING_ELAPSED :: int where
  "NO_DEGRADED_MONITORING_ELAPSED \<equiv> - 1"

definition event_now ::
  "env \<Rightarrow> pgconn \<Rightarrow> string \<Rightarrow> bool \<Rightarrow> string \<Rightarrow> (daemon, bool) state" where
  "event_now env conn event ok details = do {
     opts \<leftarrow> gets config;
     create_event_notification env conn (opt_node_id opts) event ok details
   }"

text \<open>The node record that says the node is a primary is corrected on the new primary.\<close>

definition register_as_standby :: "env \<Rightarrow> pgconn \<Rightarrow> (daemon, bool) state" where
  "register_as_standby env conn = do {
     opts \<leftarrow> gets config;
     updated \<leftarrow> set_standby_on env conn (opt_node_id opts);
     if \<not> updated then ret False
     else do {
       local \<leftarrow> gets local_node_info;
       (status, local) \<leftarrow> on_session env conn (get_node_record (opt_node_id opts) local);
       _ \<leftarrow> modify (\<lambda>d. d\<lparr>local_node_info := local\<rparr>);
       ret (status = RECORD_FOUND)
     }
   }"

text \<open>The event of a primary that has become a standby.\<close>

definition standby_reconnect_event :: "env \<Rightarrow> pgconn \<Rightarrow> int \<Rightarrow> (daemon, unit) state" where
  "standby_reconnect_event env conn degraded_monitoring_elapsed = do {
     local \<leftarrow> gets local_node_info;
     text \<leftarrow>
       (if degraded_monitoring_elapsed \<noteq> NO_DEGRADED_MONITORING_ELAPSED then do {
          _ \<leftarrow> modify (\<lambda>d. d\<lparr>monitoring_state := MS_NORMAL\<rparr>);
          ret (''node restored as standby after '' @ int_string degraded_monitoring_elapsed @
            '' seconds, monitoring connection to upstream node '' @ int_string (upstream_node_id local))
        }
        else ret (''node has become a standby, monitoring connection to upstream node '' @
                  int_string (upstream_node_id local)));
     _ \<leftarrow> event_now env conn ''repmgrd_standby_reconnect'' True text;
     ret ()
   }"

text \<open>The server runs as a standby: its new primary is looked for.\<close>

definition follow_as_standby :: "env \<Rightarrow> int \<Rightarrow> (daemon, int + bool) state" where
  "follow_as_standby env degraded_monitoring_elapsed = do {
     conn \<leftarrow> gets local_conn;
     _ \<leftarrow> modify (\<lambda>d. d\<lparr>primary_node_id := UNKNOWN_NODE_ID\<rparr>);
     (new_primary_conn, n) \<leftarrow> get_primary_connection env conn;
     _ \<leftarrow> modify (\<lambda>d. d\<lparr>primary_node_id := n\<rparr>);
     ok \<leftarrow> PQstatus_ok env new_primary_conn;
     if \<not> ok then do { _ \<leftarrow> close_connection new_primary_conn; ret (Inr True) }
     else do {
       opts \<leftarrow> gets config;
       local \<leftarrow> gets local_node_info;
       (status, local) \<leftarrow> on_session env new_primary_conn (get_node_record (opt_node_id opts) local);
       _ \<leftarrow> modify (\<lambda>d. d\<lparr>local_node_info := local\<rparr>);
       if status = RECORD_NOT_FOUND then do {
         _ \<leftarrow> close_connection new_primary_conn;
         _ \<leftarrow> event_now env NULL_CONN ''repmgrd_shutdown'' False
           (''no metadata record found for this node on current primary '' @ int_string n);
         code \<leftarrow> terminate env ERR_BAD_CONFIG;
         ret (Inl code)
       }
       else do {
         resume_monitoring \<leftarrow>
           (if node_type local = PRIMARY then register_as_standby env new_primary_conn else ret True);
         if resume_monitoring then do {
           _ \<leftarrow> standby_reconnect_event env new_primary_conn degraded_monitoring_elapsed;
           _ \<leftarrow> close_connection new_primary_conn;
           ret (Inr False)
         }
         else ret (Inr True)
       }
     }
   }"

definition check_primary_status :: "env \<Rightarrow> int \<Rightarrow> (daemon, int + bool) state" where
  "check_primary_status env degraded_monitoring_elapsed = do {
     conn \<leftarrow> gets local_conn;
     recovery_type \<leftarrow> get_recovery_type env conn;
     if recovery_type = RECTYPE_UNKNOWN then ret (Inr True)
     else if recovery_type = RECTYPE_PRIMARY then do {
       _ \<leftarrow> (if degraded_monitoring_elapsed \<noteq> NO_DEGRADED_MONITORING_ELAPSED then do {
              _ \<leftarrow> modify (\<lambda>d. d\<lparr>monitoring_state := MS_NORMAL\<rparr>);
              event_now env conn ''repmgrd_local_reconnect'' True
                (''reconnected to primary node after '' @ int_string degraded_monitoring_elapsed @
                 '' seconds, resuming monitoring'')
            } else ret True);
       ret (Inr True)
     }
     else follow_as_standby env degraded_monitoring_elapsed
   }"

section \<open>The check before monitoring starts\<close>

definition do_physical_node_check :: "env \<Rightarrow> (daemon, int + unit) state" where
  "do_physical_node_check env = do {
     local \<leftarrow> gets local_node_info;
     opts \<leftarrow> gets config;
     _ \<leftarrow> (if \<not> active local \<and> opt_failover opts = FAILOVER_AUTOMATIC then
            event_now env NULL_CONN ''repmgrd_shutdown'' False
              ''node is inactive and cannot be used as a failover target''
          else ret True);
     if opt_failover opts = FAILOVER_AUTOMATIC \<and>
        (opt_promote_command opts = [] \<or> opt_follow_command opts = []) then do {
       code \<leftarrow> terminate env ERR_BAD_CONFIG;
       ret (Inl code)
     }
     else ret (Inr ())
   }"

section \<open>One round of monitoring\<close>

text \<open>
  How the first part of a round goes on: to the degraded monitoring, to the label \<open>loop\<close>, or back to
  the caller.
\<close>

datatype round_step = GO_ON | GOTO_LOOP | LEAVE

definition status_step :: "bool \<Rightarrow> round_step" where
  "status_step still_primary = (if still_primary then GOTO_LOOP else LEAVE)"

definition pg_ctl :: "config \<Rightarrow> string \<Rightarrow> string" where
  "pg_ctl opts args = opt_pg_bindir opts @ ''/pg_ctl -D '' @ opt_data_directory opts @ args"

text \<open>Giving up the role of the primary: the address is released, the server stopped, the node rejoined.\<close>

definition step_down :: "env \<Rightarrow> node_info list \<Rightarrow> (daemon, int + unit) state" where
  "step_down env nodes = do {
     opts \<leftarrow> gets config;
     _ \<leftarrow> modify (\<lambda>d. d\<lparr>monitoring_state := MS_DEGRADED\<rparr>);
     _ \<leftarrow> close_local_conn;
     now \<leftarrow> gettimeofday env;
     _ \<leftarrow> modify (\<lambda>d. d\<lparr>degraded_monitoring_start := now\<rparr>);
     _ \<leftarrow> unbind_virtual_ip env (opt_virtual_ip opts) (opt_network_card opts);
     _ \<leftarrow> system_command env (pg_ctl opts '' stop -m fast'');
     _ \<leftarrow> sleep (opt_primary_notification_timeout opts);
     exec_node_rejoin_primary env nodes
   }"

definition set_local_status :: "node_status \<Rightarrow> (daemon, unit) state" where
  "set_local_status s = modify (\<lambda>d. d\<lparr>local_node_info := (local_node_info d)\<lparr>node_status := s\<rparr>\<rparr>)"

text \<open>The local node was up and is not reachable any more.\<close>

definition local_node_lost :: "env \<Rightarrow> node_info list \<Rightarrow> (daemon, int + round_step) state" where
  "local_node_lost env nodes = do {
     unreachable_start \<leftarrow> gettimeofday env;
     _ \<leftarrow> event_now env NULL_CONN ''repmgrd_local_disconnect'' True ''unable to connect to local node'';
     _ \<leftarrow> set_local_status NODE_STATUS_UNKNOWN;
     conn \<leftarrow> gets local_conn;
     ok \<leftarrow> PQstatus_ok env conn;
     local \<leftarrow> gets local_node_info;
     local \<leftarrow> (if \<not> ok then try_reconnect env local_conn (\<lambda>c d. d\<lparr>local_conn := c\<rparr>) local else ret local);
     _ \<leftarrow> modify (\<lambda>d. d\<lparr>local_node_info := local\<rparr>);
     if node_status local = NODE_STATUS_UP then do {
       elapsed \<leftarrow> calculate_elapsed env unreachable_start;
       conn \<leftarrow> gets local_conn;
       _ \<leftarrow> event_now env conn ''repmgrd_local_reconnect'' True
         (''reconnected to local node after '' @ int_string elapsed @ '' seconds'');
       stored \<leftarrow> repmgrd_get_local_node_id env conn;
       _ \<leftarrow> (if stored = UNKNOWN_NODE_ID then refresh_shared_memory env else ret ());
       or_exit (check_primary_status env NO_DEGRADED_MONITORING_ELAPSED) (\<lambda>still_primary.
         ret (Inr (status_step still_primary)))
     }
     else or_exit (step_down env nodes) (\<lambda>_. ret (Inr GO_ON))
   }"

text \<open>The reachability of the local node; the node list comes back from \<open>check_sync_async\<close>.\<close>

definition check_local_node ::
  "env \<Rightarrow> node_info list \<Rightarrow> (daemon, int + round_step \<times> node_info list) state" where
  "check_local_node env nodes = do {
     local \<leftarrow> gets local_node_info;
     _ \<leftarrow> check_connection env local local_conn (\<lambda>c d. d\<lparr>local_conn := c\<rparr>);
     conn \<leftarrow> gets local_conn;
     ok \<leftarrow> PQstatus_ok env conn;
     _ \<leftarrow> (if ok then connection_ping env conn else ret False);
     _ \<leftarrow> check_disk env;
     conn \<leftarrow> gets local_conn;
     ok \<leftarrow> PQstatus_ok env conn;
     nic_up \<leftarrow> (if ok then check_network_card_status env conn (node_id local) else ret False);
     if \<not> nic_up then
       (if node_status local = NODE_STATUS_UP then
          or_exit (local_node_lost env nodes) (\<lambda>s. ret (Inr (s, nodes)))
        else or_exit (exec_node_rejoin_primary env nodes) (\<lambda>_. ret (Inr (GO_ON, nodes))))
     else or_exit (check_sync_async env nodes) (\<lambda>nodes. ret (Inr (GO_ON, nodes)))
   }"

text \<open>Degraded monitoring ends the process after a time, if there is a limit.\<close>

definition degraded_timeout :: "env \<Rightarrow> int \<Rightarrow> (daemon, int + unit) state" where
  "degraded_timeout env elapsed = do {
     opts \<leftarrow> gets config;
     if opt_degraded_monitoring_timeout opts > 0 \<and> elapsed > opt_degraded_monitoring_timeout opts then do {
       _ \<leftarrow> event_now env NULL_CONN ''repmgrd_shutdown'' True
         (''degraded monitoring timeout ('' @ int_string elapsed @ '' seconds) exceeded, terminating'');
       code \<leftarrow> terminate env ERR_MONITORING_TIMEOUT;
       ret (Inl code)
     }
     else ret (Inr ())
   }"

definition degraded_primary :: "env \<Rightarrow> (daemon, int + round_step) state" where
  "degraded_primary env = do {
     s \<leftarrow> gets monitoring_state;
     if s \<noteq> MS_DEGRADED then ret (Inr GO_ON)
     else do {
       start \<leftarrow> gets degraded_monitoring_start;
       elapsed \<leftarrow> calculate_elapsed env start;
       or_exit (degraded_timeout env elapsed) (\<lambda>_. do {
         local \<leftarrow> gets local_node_info;
         available \<leftarrow> is_server_available env (conninfo local);
         if \<not> available then ret (Inr GO_ON)
         else do {
           conn \<leftarrow> establish_db_connection env (conninfo local);
           _ \<leftarrow> modify (\<lambda>d. d\<lparr>local_conn := conn\<rparr>);
           ok \<leftarrow> PQstatus_ok env conn;
           if \<not> ok then do { _ \<leftarrow> close_local_conn; ret (Inr GO_ON) }
           else do {
             _ \<leftarrow> set_local_status NODE_STATUS_UP;
             or_exit (check_primary_status env elapsed) (\<lambda>still_primary.
               ret (Inr (status_step still_primary)))
           }
         }
       })
     }
   }"

text \<open>The refresh of the node list closes the connections of the old one.\<close>

definition refresh_node_list :: "env \<Rightarrow> pgconn \<Rightarrow> node_info list \<Rightarrow> (daemon, node_info list) state" where
  "refresh_node_list env conn nodes = do {
     rows \<leftarrow> on_session env conn (sql_query (sort_key row_node_id));
     if rows = None then ret nodes
     else do { _ \<leftarrow> clear_node_info_list env nodes; ret (populate_node_records rows) }
   }"

text \<open>What a primary does about another primary.\<close>

definition resolve_brain_split :: "env \<Rightarrow> node_info list \<Rightarrow> (daemon, int + node_info list) state" where
  "resolve_brain_split env nodes = do {
     opts \<leftarrow> gets config;
     (action, nodes) \<leftarrow> check_BS env nodes;
     (case action of
        DO_STOP \<Rightarrow> do {
          _ \<leftarrow> unbind_virtual_ip env (opt_virtual_ip opts) (opt_network_card opts);
          _ \<leftarrow> sleep 5;
          _ \<leftarrow> system_command env (pg_ctl opts '' stop'');
          _ \<leftarrow> sleep 2;
          ret (Inl ERR_BRAIN_SPLIT)
        }
      | DO_REJOIN \<Rightarrow> or_exit (step_down env nodes) (\<lambda>_. ret (Inr nodes))
      | DO_NOTHING \<Rightarrow> ret (Inr nodes))
   }"

definition check_other_nodes :: "env \<Rightarrow> node_info list \<Rightarrow> (daemon, int + node_info list) state" where
  "check_other_nodes env nodes = do {
     local \<leftarrow> gets local_node_info;
     available \<leftarrow> is_server_available env (conninfo local);
     if available \<and> node_status local = NODE_STATUS_UP then do {
       conn \<leftarrow> gets local_conn;
       nodes \<leftarrow> refresh_node_list env conn nodes;
       opts \<leftarrow> gets config;
       if opt_check_brain_split opts then resolve_brain_split env nodes else ret (Inr nodes)
     }
     else ret (Inr nodes)
   }"

text \<open>
  One round of the loop: \<open>None\<close> when \<open>monitor_streaming_primary\<close> returns to its caller, otherwise the
  node list for the next round.
\<close>

definition primary_round ::
  "env \<Rightarrow> node_info list \<Rightarrow> (daemon, int + node_info list option) state" where
  "primary_round env nodes =
     or_exit (check_local_node env nodes) (\<lambda>(s, nodes).
     or_exit (if s = GO_ON then degraded_primary env else ret (Inr s)) (\<lambda>s.
       if s = LEAVE then ret (Inr None)
       else
         or_exit (check_primary_status env NO_DEGRADED_MONITORING_ELAPSED) (\<lambda>still_primary.
           if \<not> still_primary then ret (Inr None)
           else
             or_exit (check_other_nodes env nodes) (\<lambda>nodes. do {
               opts \<leftarrow> gets config;
               _ \<leftarrow> sleep (opt_monitor_interval_secs opts);
               ret (Inr (Some nodes))
             }))))"

text \<open>What precedes the loop, and the loop for a number of rounds (\<open>None\<close> when it still goes on).\<close>

definition start_primary_monitoring :: "env \<Rightarrow> (daemon, node_info list) state" where
  "start_primary_monitoring env = do {
     _ \<leftarrow> reset_node_voting_status env;
     conn \<leftarrow> gets local_conn;
     local \<leftarrow> gets local_node_info;
     logged \<leftarrow> gets startup_event_logged;
     _ \<leftarrow> event_now env conn (if logged then ''repmgrd_reload'' else ''repmgrd_start'') True
       (''monitoring cluster primary \"'' @ node_name local @ ''\" (node ID: '' @ int_string (node_id local) @ '')'');
     _ \<leftarrow> modify (\<lambda>d. d\<lparr>startup_event_logged := True\<rparr>);
     _ \<leftarrow> set_local_status NODE_STATUS_UP;
     (_, nodes) \<leftarrow> on_session env conn get_all_node_records;
     ret nodes
   }"

fun primary_rounds :: "env \<Rightarrow> nat \<Rightarrow> node_info list \<Rightarrow> (daemon, (int + unit) option) state" where
  "primary_rounds env 0 nodes = ret None"
| "primary_rounds env (Suc n) nodes = do {
     r \<leftarrow> primary_round env nodes;
     (case r of
        Inl code \<Rightarrow> ret (Some (Inl code))
      | Inr None \<Rightarrow> ret (Some (Inr ()))
      | Inr (Some nodes) \<Rightarrow> primary_rounds env n nodes)
   }"

definition monitor_streaming_primary :: "env \<Rightarrow> nat \<Rightarrow> (daemon, (int + unit) option) state" where
  "monitor_streaming_primary env rounds = do {
     nodes \<leftarrow> start_primary_monitoring env;
     primary_rounds env rounds nodes
   }"

section \<open>Signals\<close>

text \<open>\<open>terminating\<close> is \<open>postgres_signal_arg == SIGTERM\<close>; the answer is the exit code.\<close>

definition handle_sigint_physical :: "env \<Rightarrow> bool \<Rightarrow> (daemon, int) state" where
  "handle_sigint_physical env terminating = do {
     local \<leftarrow> gets local_node_info;
     conn \<leftarrow> gets (\<lambda>d. if node_type local = PRIMARY then local_conn d else primary_conn d);
     ok \<leftarrow> PQstatus_ok env conn;
     _ \<leftarrow> (if ok then event_now env conn ''repmgrd_shutdown'' True
            ((if terminating then ''TERM'' else ''INT'') @ '' signal received'')
          else ret True);
     terminate env 0
   }"

end
