(* ===== verification/Primary_Safety.thy ===== *)
theory Primary_Safety
  imports Primary_Monitor
begin

text \<open>
  Properties of a primary's monitoring: which of two primaries gives way, what is done about it, and
  what the monitoring never does.
\<close>

section \<open>Two primaries\<close>

text \<open>
  C6: two primaries that look at each other with the same data resolve a split: exactly one of them
  gives way, the one on the lower timeline, or with the lower priority, or with the higher id.
\<close>

theorem exactly_one_gives_way:
  assumes "id_a \<noteq> id_b"
  shows "let a = give_way (compare_timelines tli_a tli_b) priority_a priority_b id_a id_b;
             b = give_way (compare_timelines tli_b tli_a) priority_b priority_a id_b id_a
         in {a, b} = {DO_REJOIN, DO_NOTHING} \<and>
            (a = DO_REJOIN \<longleftrightarrow> tli_a < tli_b \<or> tli_a = tli_b \<and>
               (priority_a < priority_b \<or> priority_a = priority_b \<and> id_b < id_a))"
  using assms by (auto simp: give_way_def compare_timelines_def Let_def)

lemma exactly_one_gives_way_witness:
  "give_way (compare_timelines 3 3) 100 100 1 2 = DO_NOTHING"
  using exactly_one_gives_way [of 1 2 3 3 100 100] by (auto simp: Let_def)

definition askable :: "node_info \<Rightarrow> node_info list \<Rightarrow> node_info list" where
  "askable local nodes = filter (\<lambda>c. \<not> not_asked local c) nodes"

definition same_identity :: "node_info \<Rightarrow> node_info \<Rightarrow> bool" where
  "same_identity a b \<longleftrightarrow> node_id a = node_id b \<and> node_type a = node_type b \<and> priority a = priority b \<and> conninfo a = conninfo b"

lemma same_identity_asked: "same_identity a b \<Longrightarrow> not_asked l a = not_asked l b"
  by (simp add: same_identity_def not_asked_def)

lemma count_primaries_run:
  "runs decisive (count_primaries env nodes) d (\<lambda>(nodes', n) es d'.
     es = [] \<and> vars d' = vars d \<and> list_all2 same_identity nodes nodes' \<and>
     n \<le> length (askable (local_node_info d) nodes))"
proof (induction nodes arbitrary: d)
  case Nil
  show ?case unfolding count_primaries.simps by (intro running) simp
next
  case (Cons cell nodes)
  show ?case
    unfolding count_primaries.simps
    by (intro running runs_mono [OF Cons.IH];
        auto simp: same_identity_def askable_def not_asked_def dest: vars_fields)
qed

lemma find_peer_run:
  "runs decisive (find_peer env nodes) d (\<lambda>r es d'. es = [] \<and> vars d' = vars d \<and>
     (\<forall>cell peer. r = Some (cell, peer) \<longrightarrow> cell \<in> set (askable (local_node_info d) nodes)))"
proof (induction nodes arbitrary: d)
  case Nil
  show ?case unfolding find_peer.simps by (intro running) simp
next
  case (Cons cell nodes)
  show ?case
    unfolding find_peer.simps
    by (intro running runs_mono [OF Cons.IH];
        auto simp: askable_def dest: vars_fields split: if_splits)
qed


lemma check_timeline_leaf [running]:
  "(\<And>x d'. vars d' = vars d \<Longrightarrow> Q x [] d') \<Longrightarrow> runs decisive (check_timeline env conn peer) d Q"
proof (erule runs_quiet [rotated 2])
  show "quiet (check_timeline env conn peer)" unfolding check_timeline_def by (intro quietly; simp)
  show "keeps_vars (check_timeline env conn peer)" unfolding check_timeline_def by (intro keeps)
qed

lemma give_way_not_stop [simp]: "give_way tli p q m n \<noteq> DO_STOP"
  by (simp add: give_way_def split: tl_ret.splits)

text \<open>
  What \<open>check_BS\<close> answers, by the number of other primaries its first loop counts: the cluster is
  stopped exactly when there is more than one, a node gives way only when it
  is exactly one, and only because of a node of its list that is neither itself nor a witness.
\<close>

theorem check_BS_sound:
  "let local = local_node_info d; a = fst (result (check_BS env nodes) d);
       n = snd (result (count_primaries env nodes) d)
   in (a = DO_STOP \<longleftrightarrow> 1 < n) \<and> (n = 0 \<longrightarrow> a = DO_NOTHING) \<and> n \<le> length (askable local nodes) \<and>
      (a = DO_REJOIN \<longrightarrow> n = 1 \<and>
         (\<exists>cell \<in> set (snd (result (check_BS env nodes) d)). \<not> not_asked local cell))"
proof -
  obtain ns n where r: "result (count_primaries env nodes) d = (ns, n)" by force
  have count: "runs decisive (count_primaries env nodes) d (\<lambda>x es d'.
      x = (ns, n) \<and> vars d' = vars d \<and> n \<le> length (askable (local_node_info d) nodes))"
    using count_primaries_run [of env nodes d] unfolding runs_def r by auto
  have "runs decisive (check_BS env nodes) d (\<lambda>(a, nodes') es d'.
      (a = DO_STOP \<longleftrightarrow> 1 < n) \<and> (n = 0 \<longrightarrow> a = DO_NOTHING) \<and> n \<le> length (askable (local_node_info d) nodes) \<and>
      (a = DO_REJOIN \<longrightarrow> n = 1 \<and>
         (\<exists>cell \<in> set nodes'. \<not> not_asked (local_node_info d) cell)))"
    unfolding check_BS_def
    by (intro running runs_mono [OF count] runs_mono [OF find_peer_run];
        fastforce simp: askable_def dest!: vars_fields)
  from runsD [OF this] show ?thesis unfolding r by (simp add: Let_def case_prod_unfold)
qed

text \<open>Node 2 of the example finds one other primary of its cluster, on the same timeline.\<close>

lemma check_BS_sound_witness:
  "let other = node_info_init\<lparr>node_id := 1, node_type := PRIMARY, conninfo := ''other''\<rparr>;
       env = (example_env ''0/3'' ''0/2'')\<lparr>e_result := \<lambda>_. Some [[Some ''f'']], e_session := \<lambda>_ _. example_db\<rparr>
   in snd (result (count_primaries env [other]) (example_daemon 2)) = 1 \<and>
      fst (result (check_BS env [other]) (example_daemon 2)) \<noteq> DO_STOP"
proof -
  let ?other = "node_info_init\<lparr>node_id := 1, node_type := PRIMARY, conninfo := ''other''\<rparr>"
  let ?env = "(example_env ''0/3'' ''0/2'')\<lparr>e_result := \<lambda>_. Some [[Some ''f'']], e_session := \<lambda>_ _. example_db\<rparr>"
  have "snd (result (count_primaries ?env [?other]) (example_daemon 2)) = 1" by code_simp
  with check_BS_sound [where env = ?env and nodes = "[?other]" and d = "example_daemon 2"]
  show ?thesis by (simp add: Let_def)
qed

section \<open>What the monitoring never does\<close>

lemma quiet_brain_split [quietly]:
  "quiet (count_primaries env nodes)" "quiet (find_peer env nodes)" "quiet (check_timeline env conn peer)"
  "quiet (rejoin_loop env nodes)"
proof -
  show "quiet (count_primaries env nodes)" by (induction nodes) (auto intro!: quietly)
  show "quiet (find_peer env nodes)" by (induction nodes) (auto intro!: quietly)
  show "quiet (rejoin_loop env nodes)" by (induction nodes) (auto intro!: quietly)
  show "quiet (check_timeline env conn peer)" unfolding check_timeline_def by (intro quietly)
qed

lemma quiet_give_way [quietly]: "quiet (check_BS env nodes)" "quiet (exec_node_rejoin_primary env nodes)"
  unfolding check_BS_def exec_node_rejoin_primary_def clean_up_server_def check_service_status_command_def local_command_output_def
  by (intro quietly; simp)+

lemma quiet_checks [quietly]:
  "quiet (touch_loop env n r)" "quiet (check_disk env)" "quiet (check_network_card_status env conn m)"
  "quiet (sync_standby_missing env)" "quiet (resync_loop env lsn nodes)" "quiet (check_sync_async env nodes)"
proof -
  show touch: "quiet (touch_loop env n r)" for n r by (induction n arbitrary: r) (auto intro!: quietly)
  show "quiet (check_disk env)" unfolding check_disk_def by (intro quietly touch; simp)
  show "quiet (check_network_card_status env conn m)"
    unfolding check_network_card_status_def get_network_card_def node_text_def by (intro quietly)
  show missing: "quiet (sync_standby_missing env)"
    unfolding sync_standby_missing_def calculate_elapsed_def by (intro quietly; simp)
  show resync: "quiet (resync_loop env lsn nodes)" for lsn nodes
    by (induction nodes) (auto intro!: quietly simp: get_last_wal_receive_location_def query_lsn_def)
  show "quiet (check_sync_async env nodes)"
    unfolding check_sync_async_def get_primary_current_lsn_def query_lsn_def get_pg_setting_def
    by (intro quietly missing resync; simp)
qed

lemma quiet_try_reconnect [quietly]:
  assumes "\<And>c d. trace (set_conn c d) = trace d"
  shows "quiet (try_reconnect env conn_of set_conn info)"
proof -
  have "quiet (reconnect_loop env conn_of set_conn pl n)" for pl n
    using assms by (induction n) (auto intro!: quietly simp: Let_def)
  then show ?thesis unfolding try_reconnect_def Let_def by (intro quietly)
qed

lemma quiet_status [quietly]:
  "quiet (event_now env conn event ok details)" "quiet (check_primary_status env n)"
  "quiet (unbind_virtual_ip env vip nic)" "quiet (set_local_status s)" "quiet (step_down env nodes)"
  "quiet (calculate_elapsed env start)" "quiet (refresh_node_list env conn nodes)"
  unfolding event_now_def check_primary_status_def follow_as_standby_def register_as_standby_def
    standby_reconnect_event_def unbind_virtual_ip_def set_local_status_def step_down_def
    calculate_elapsed_def refresh_node_list_def event_now_def set_standby_on_def
  by (intro quietly; simp)+

lemma quiet_action [quietly]:
  "quiet m \<Longrightarrow> quiet m' \<Longrightarrow> quiet m'' \<Longrightarrow> quiet (case a of DO_NOTHING \<Rightarrow> m | DO_REJOIN \<Rightarrow> m' | DO_STOP \<Rightarrow> m'')"
  by (cases a) auto

lemma quiet_primary_round [quietly]: "quiet (primary_round env nodes)"
  unfolding primary_round_def check_local_node_def local_node_lost_def degraded_primary_def degraded_timeout_def
    check_other_nodes_def resolve_brain_split_def
  by (intro quietly; simp)


section \<open>Giving way\<close>

lemma command_parts [yielding]:
  "(\<And>x. Q1 x []) \<Longrightarrow> yields is_run (PQstatus_ok env conn) Q1"
  "(\<And>x. Q2 x []) \<Longrightarrow> yields is_run (get_recovery_type env conn) Q2"
  "(\<And>x. Q3 x []) \<Longrightarrow> yields is_run (close_connection conn) Q3"
  "(\<And>x. Q4 x []) \<Longrightarrow> yields is_run (establish_db_connection env s) Q4"
  "(\<And>x. Q5 x []) \<Longrightarrow> yields is_run (establish_db_connection_by_params env pl) Q5"
  "(\<And>x. Q6 x []) \<Longrightarrow> yields is_run (on_session env conn m) Q6"
  "(\<And>x. Q7 x []) \<Longrightarrow> yields is_run (identify_system env conn) Q7"
  unfolding PQstatus_ok_def get_recovery_type_def close_connection_def establish_db_connection_def
    establish_db_connection_exit_def establish_db_connection_by_params_def on_session_def identify_system_def
    PQexec_def set_config_def
  by (intro yielding; simp)+

lemma check_BS_runs_nothing: "yields is_run (check_BS env nodes) (\<lambda>_ es. es = [])"
proof -
  have "yields is_run (count_primaries env nodes) (\<lambda>_ es. es = [])" for nodes
    by (induction nodes) (auto intro!: yielding elim!: yields_mono)
  note count = yields_mono [OF this]
  have "yields is_run (find_peer env nodes) (\<lambda>_ es. es = [])" for nodes
    by (induction nodes) (auto intro!: yielding)
  note find = yields_mono [OF this]
  show ?thesis
    unfolding check_BS_def check_timeline_def get_timeline_def get_controlfile_def
    by (intro yielding count find; simp)
qed

lemma keeps_brain_split:
  "keeps_vars (check_BS env nodes)"
proof -
  have count: "keeps_vars (count_primaries env nodes)" for nodes by (induction nodes) (auto intro!: keeps)
  have find: "keeps_vars (find_peer env nodes)" for nodes by (induction nodes) (auto intro!: keeps)
  show ?thesis unfolding check_BS_def check_timeline_def by (intro keeps count find)
qed

lemma keeps_sum [keeps]:
  "(\<And>y. keeps_vars (f y)) \<Longrightarrow> (\<And>y. keeps_vars (g y)) \<Longrightarrow> keeps_vars (case x of Inl y \<Rightarrow> f y | Inr y \<Rightarrow> g y)"
  by (cases x) auto

lemma keeps_or_exit [keeps]: "keeps_vars m \<Longrightarrow> (\<And>x. keeps_vars (f x)) \<Longrightarrow> keeps_vars (or_exit m f)"
  unfolding or_exit_def by (intro keeps)

lemma keeps_rejoin: "keeps_vars (exec_node_rejoin_primary env nodes)"
proof -
  have loop: "keeps_vars (rejoin_loop env nodes)" for nodes by (induction nodes) (auto intro!: keeps)
  show ?thesis
    unfolding exec_node_rejoin_primary_def clean_up_server_def check_service_status_command_def local_command_output_def
    by (intro keeps loop)
qed

lemma rejoin_runs: "yields is_run (exec_node_rejoin_primary env nodes) (\<lambda>_ es. True)"
proof -
  have loop: "yields is_run (rejoin_loop env nodes) (\<lambda>_ es. True)" for nodes
    by (induction nodes) (auto intro!: yielding simp: system_command_def)
  show ?thesis
    unfolding exec_node_rejoin_primary_def clean_up_server_def check_service_status_command_def local_command_output_def
      system_command_def ask_def
    by (intro yielding yields_mono [OF loop]; simp)
qed

lemma unbind_runs:
  assumes "\<And>x s d'. vars d' = vars d \<Longrightarrow> s = [] \<or> s = ''sudo '' \<Longrightarrow>
    Q x [Ran (s @ ''ip addr del '' @ vip @ '' dev '' @ nic)] d'"
  shows "runs is_run (unbind_virtual_ip env vip nic) d Q"
proof (rule runs_yields_keeps)
  show "keeps_vars (unbind_virtual_ip env vip nic)" unfolding unbind_virtual_ip_def by (intro keeps)
  show "yields is_run (unbind_virtual_ip env vip nic)
      (\<lambda>_ es. \<exists>s. (s = [] \<or> s = ''sudo '') \<and> es = [Ran (s @ ''ip addr del '' @ vip @ '' dev '' @ nic)])"
    unfolding unbind_virtual_ip_def ask_def system_command_def by (intro yielding; simp)
qed (use assms in blast)

text \<open>Releasing the address and stopping the server, in this order, before anything else.\<close>

definition released_and_stopped :: "config \<Rightarrow> string \<Rightarrow> effect list \<Rightarrow> effect list \<Rightarrow> bool" where
  "released_and_stopped opts how rest es \<longleftrightarrow>
     (\<exists>sudo. (sudo = [] \<or> sudo = ''sudo '') \<and>
        es = Ran (sudo @ ''ip addr del '' @ opt_virtual_ip opts @ '' dev '' @ opt_network_card opts) #
             Ran (opt_pg_bindir opts @ ''/pg_ctl -D '' @ opt_data_directory opts @ how) # rest)"

lemma step_down_runs:
  "runs is_run (step_down env nodes) d (\<lambda>r es d'.
     local_conn d' = NULL_CONN \<and> monitoring_state d' = MS_DEGRADED \<and>
     (\<exists>rejoin. released_and_stopped (config d) '' stop -m fast'' rejoin es))"
  unfolding step_down_def close_local_conn_def close_connection_def gettimeofday_def sleep_def system_command_def
  by (intro running unbind_runs runs_yields_keeps [OF rejoin_runs keeps_rejoin];
      auto dest!: vars_fields simp: released_and_stopped_def pg_ctl_def conj_disj_distribR ex_disj_distrib)

text \<open>
  C5: a primary that finds others acts as it decided. It leaves the process with \<open>ERR_BRAIN_SPLIT\<close> when it
  stops the cluster; when it gives way, it is in the degraded state afterwards and has no connection.
  Both ways, the first things it does are to release the virtual IP and then to stop the server, and
  when nothing is to be done, no command is run at all.
\<close>

theorem brain_split_fenced:
  "let m = resolve_brain_split env nodes; cmds = filter is_run (added m d); d' = final m d
   in case fst (result (check_BS env nodes) d) of
        DO_NOTHING \<Rightarrow> cmds = [] \<and> result m d = Inr (snd (result (check_BS env nodes) d))
      | DO_STOP \<Rightarrow> result m d = Inl ERR_BRAIN_SPLIT \<and> released_and_stopped (config d) '' stop'' [] cmds
      | DO_REJOIN \<Rightarrow> local_conn d' = NULL_CONN \<and> monitoring_state d' = MS_DEGRADED \<and>
          (\<exists>rejoin. released_and_stopped (config d) '' stop -m fast'' rejoin cmds)"
proof -
  obtain a ns where r: "result (check_BS env nodes) d = (a, ns)" by force
  have "runs is_run (check_BS env nodes) d (\<lambda>x es d'. es = [] \<and> vars d' = vars d)"
    using check_BS_runs_nothing keeps_brain_split by (rule runs_yields_keeps) auto
  then have check: "runs is_run (check_BS env nodes) d (\<lambda>x es d'. x = (a, ns) \<and> es = [] \<and> vars d' = vars d)"
    unfolding runs_def r by auto
  have "runs is_run (resolve_brain_split env nodes) d (\<lambda>x es d'.
      case a of DO_NOTHING \<Rightarrow> es = [] \<and> x = Inr ns
      | DO_STOP \<Rightarrow> x = Inl ERR_BRAIN_SPLIT \<and> released_and_stopped (config d) '' stop'' [] es
      | DO_REJOIN \<Rightarrow> local_conn d' = NULL_CONN \<and> monitoring_state d' = MS_DEGRADED \<and>
          (\<exists>rejoin. released_and_stopped (config d) '' stop -m fast'' rejoin es))"
  proof (cases a)
    case DO_NOTHING
    then show ?thesis
      unfolding resolve_brain_split_def by (intro running runs_mono [OF check]) (auto intro!: running)
  next
    case DO_STOP
    then show ?thesis
      unfolding resolve_brain_split_def sleep_def system_command_def
      by (intro running runs_mono [OF check])
        (auto intro!: running unbind_runs dest!: vars_fields
          simp: released_and_stopped_def pg_ctl_def conj_disj_distribR ex_disj_distrib)
  next
    case DO_REJOIN
    then show ?thesis
      unfolding resolve_brain_split_def
      by (intro running runs_mono [OF check])
        (auto intro!: running runs_mono [OF step_down_runs] split: sum.splits dest!: vars_fields)
  qed
  from runsD [OF this] show ?thesis unfolding r by (cases a) (simp_all add: Let_def)
qed

end
