(* ===== verification/Sync_Mode.thy ===== *)
theory Sync_Mode
  imports Primary_Safety
begin

text \<open>
  The switch between synchronous and asynchronous replication (\<open>check_sync_async\<close> of
  \<open>repmgrd-physical.c\<close>): the server's configuration and the daemon's flag stay in step.
\<close>

section \<open>Synchronous and asynchronous replication\<close>

text \<open>Computations that run no command and leave the mode alone.\<close>

definition steady :: "(daemon, 'a) state \<Rightarrow> bool" where
  "steady m \<longleftrightarrow> (\<forall>d. runs is_run m d (\<lambda>x es d'.
     es = [] \<and> switch_async_mode d' = switch_async_mode d \<and> config d' = config d))"

lemma runs_steady:
  "steady m \<Longrightarrow> (\<And>x d'. switch_async_mode d' = switch_async_mode d \<Longrightarrow> config d' = config d \<Longrightarrow> Q x [] d') \<Longrightarrow>
   runs is_run m d Q"
  unfolding steady_def by (blast intro: runs_mono)

named_theorems steadily \<open>computations that run no command and leave the replication mode alone\<close>

lemma steady_basic [steadily]:
  "steady (ret x)" "steady (gets f)" "steady (call g)" "\<not> is_run e \<Longrightarrow> steady (emit e)"
  by (simp_all add: steady_def runs_def)

lemma steady_bind [steadily]:
  assumes m: "steady m" and f: "\<And>x. steady (f x)"
  shows "steady (State_Monad.bind m f)"
proof (unfold steady_def, rule allI)
  fix d
  show "runs is_run (State_Monad.bind m f) d (\<lambda>x es d'.
      es = [] \<and> switch_async_mode d' = switch_async_mode d \<and> config d' = config d)"
    by (intro runs_bind runs_steady [OF m] runs_steady [OF f] conjI) simp_all
qed

lemma steady_cases [steadily]:
  "(b \<Longrightarrow> steady m) \<Longrightarrow> (\<not> b \<Longrightarrow> steady n) \<Longrightarrow> steady (if b then m else n)"
  "steady m \<Longrightarrow> (\<And>y. steady (f y)) \<Longrightarrow> steady (case x of None \<Rightarrow> m | Some y \<Rightarrow> f y)"
  "(\<And>y z. steady (h y z)) \<Longrightarrow> steady (case p of (y, z) \<Rightarrow> h y z)"
  "steady (k z) \<Longrightarrow> steady (let y = z in k y)"
  by (auto split: option.split prod.split)

lemma steady_parts [steadily]:
  "steady (PQexec env conn)" "steady (get_recovery_type env conn)" "steady (get_pg_setting env conn s out)"
  "steady (close_connection conn)" "steady (establish_db_connection env s)" "steady (query_lsn env conn)"
  unfolding PQexec_def get_recovery_type_def get_pg_setting_def close_connection_def establish_db_connection_def
    establish_db_connection_exit_def query_lsn_def set_config_def PQstatus_ok_def ask_def
  by (intro steadily; simp)+

definition to_async :: "config \<Rightarrow> effect list" where
  "to_async opts =
     [Ran (sync_command opts ''synchronous_standby_names'' ''#synchronous_standby_names''), Ran ''pg_ctl reload'']"

definition to_sync :: "config \<Rightarrow> effect list" where
  "to_sync opts =
     [Ran (sync_command opts ''#synchronous_standby_names'' ''synchronous_standby_names''), Ran ''pg_ctl reload'']"

lemma runs_elapsed:
  "(\<And>x d'. switch_async_mode d' = switch_async_mode d \<Longrightarrow> config d' = config d \<Longrightarrow> Q x [] d') \<Longrightarrow>
   runs is_run (calculate_elapsed env start) d Q"
  unfolding calculate_elapsed_def gettimeofday_def by (rule runs_steady) (intro steadily)

lemma runs_clock:
  "(\<And>x d'. switch_async_mode d' = switch_async_mode d \<Longrightarrow> config d' = config d \<Longrightarrow> Q x [] d') \<Longrightarrow>
   runs is_run (gettimeofday env) d Q"
  unfolding gettimeofday_def by (rule runs_steady) (intro steadily)

lemma runs_command:
  "(\<And>x d'. switch_async_mode d' = switch_async_mode d \<Longrightarrow> config d' = config d \<Longrightarrow> Q x [Ran cmd] d') \<Longrightarrow>
   runs is_run (system_command env cmd) d Q"
  by (simp add: system_command_def runs_def)

lemma missing_runs:
  "runs is_run (sync_standby_missing env) d (\<lambda>_ es d'.
     es = [] \<and> switch_async_mode d' = switch_async_mode d \<or>
     \<not> switch_async_mode d \<and> switch_async_mode d' \<and> es = to_async (config d))"
  unfolding sync_standby_missing_def to_async_def
  by (intro running runs_elapsed runs_clock runs_command runs_modify) auto

text \<open>The effects of switching back \<open>k\<close> times, and the mode before and after.\<close>

definition resynced :: "config \<Rightarrow> bool \<Rightarrow> effect list \<Rightarrow> bool \<Rightarrow> bool" where
  "resynced opts before es after \<longleftrightarrow>
     (\<exists>k. es = concat (replicate k (to_sync opts)) \<and> after = (before \<and> k = 0))"

lemma resynced_Nil [simp]: "resynced opts b [] b' \<longleftrightarrow> b' = b"
  by (auto simp: resynced_def to_sync_def intro: exI [of _ 0])

lemma resynced_step:
  assumes "resynced opts False es b'"
  shows "resynced opts b
    (Ran (sync_command opts ''#synchronous_standby_names'' ''synchronous_standby_names'') # Ran ''pg_ctl reload'' # es) b'"
proof -
  obtain k where "es = concat (replicate k (to_sync opts))" "\<not> b'" using assms by (auto simp: resynced_def)
  then show ?thesis unfolding resynced_def by (intro exI [of _ "Suc k"]) (simp add: to_sync_def)
qed

lemma resync_runs:
  "runs is_run (resync_loop env lsn nodes) d (\<lambda>_ es d'.
     resynced (config d) (switch_async_mode d) es (switch_async_mode d'))"
proof (induction nodes arbitrary: d)
  case Nil
  show ?case unfolding resync_loop.simps by (intro running) simp
next
  case (Cons cell nodes)
  show ?case
    unfolding resync_loop.simps get_last_wal_receive_location_def
    by (intro running runs_mono [OF Cons.IH] steady_parts [THEN runs_steady] runs_command runs_modify;
        clarsimp simp: resynced_step)
qed

text \<open>
  C10: one check of the replication mode keeps the server's configuration and the daemon's flag in
  step. \<open>synchronous_standby_names\<close> is commented out only when the flag says synchronous, and the flag
  then says asynchronous; it is put back, once for every standby that has caught up, only when the
  flag says asynchronous, and the flag then says synchronous; without a command the flag stays. The
  daemon dies on the unchecked result exactly when its first query fails.
\<close>

theorem sync_mode_consistent:
  "let m = check_sync_async env nodes; cmds = filter is_run (added m d);
       before = switch_async_mode d; after = switch_async_mode (final m d)
   in (cmds = [] \<and> after = before \<or>
       \<not> before \<and> after \<and> cmds = to_async (config d) \<or>
       before \<and> \<not> after \<and> (\<exists>k > 0. cmds = concat (replicate k (to_sync (config d))))) \<and>
      (result m d = Inl 139 \<longleftrightarrow> local_conn d = NULL_CONN \<or> e_result env (clock d) = None)"
proof -
  have "runs is_run (check_sync_async env nodes) d (\<lambda>_ es d'.
      es = [] \<and> switch_async_mode d' = switch_async_mode d \<or>
      \<not> switch_async_mode d \<and> switch_async_mode d' \<and> es = to_async (config d) \<or>
      switch_async_mode d \<and> resynced (config d) True es (switch_async_mode d'))"
    unfolding check_sync_async_def get_primary_current_lsn_def
    by (intro running runs_mono [OF missing_runs] runs_mono [OF resync_runs]
        steady_parts [THEN runs_steady] runs_modify; clarsimp)
  note r = runsD [OF this]
  have "result (check_sync_async env nodes) d = Inl 139 \<longleftrightarrow> local_conn d = NULL_CONN \<or> e_result env (clock d) = None"
    by (auto simp: check_sync_async_def PQexec_def case_prod_unfold split: option.splits)
  with r show ?thesis unfolding resynced_def Let_def by auto
qed

end
