(* ===== verification/Standby_Monitor.thy ===== *)
theory Standby_Monitor
  imports Primary_Monitor
begin

text \<open>
  \<open>repmgrd\<close> on a standby (\<open>repmgrd-physical.c\<close>): the monitoring history, the start of the monitoring,
  and \<open>monitor_streaming_standby\<close> round by round. A round first tries to bring the local server back,
  then looks at the upstream, which may lead to a failover, then does what degraded monitoring does,
  and at last looks after the local node. The reload of the configuration between two rounds and the
  regular log messages are left out; so are two time stamps that only the log shows.
\<close>

section \<open>The monitoring history\<close>

definition set_upstream_last_seen_sql :: "env \<Rightarrow> pgconn \<Rightarrow> (daemon, unit) state" where
  "set_upstream_last_seen_sql env conn = do {
     _ \<leftarrow> emit (Saw_Upstream conn);
     _ \<leftarrow> PQexec env conn;
     ret ()
   }"

definition add_monitoring_record ::
  "env \<Rightarrow> pgconn \<Rightarrow> pgconn \<Rightarrow> int \<Rightarrow> int \<Rightarrow> repl_info \<Rightarrow> 64 word \<Rightarrow> 64 word \<Rightarrow> 64 word \<Rightarrow> (daemon, unit) state" where
  "add_monitoring_record env primary local primary_id local_id ri primary_lsn replication_lag apply_lag = do {
     _ \<leftarrow> emit (Recorded_Lag primary primary_id local_id (current_timestamp ri) (last_xact_replay_timestamp ri)
            primary_lsn (ri_last_wal_receive_lsn ri) replication_lag apply_lag);
     sent \<leftarrow> ask env;
     _ \<leftarrow> (if sent then PQexec env local else ret None);
     ret ()
   }"

text \<open>How far \<open>behind\<close> is behind \<open>ahead\<close>, in bytes.\<close>

definition lag_bytes :: "64 word \<Rightarrow> 64 word \<Rightarrow> 64 word" where
  "lag_bytes ahead behind = (if ahead \<ge> behind then ahead - behind else 0)"

definition repl_info_init :: repl_info where
  "repl_info_init =
     \<lparr>current_timestamp = [], in_recovery = False, ri_last_wal_receive_lsn = InvalidXLogRecPtr,
      last_wal_replay_lsn = InvalidXLogRecPtr, last_xact_replay_timestamp = [], replication_lag_time = 0,
      receiving_streamed_wal = True, wal_replay_paused = False, upstream_last_seen = - 1\<rparr>"

definition update_monitoring_history :: "env \<Rightarrow> (daemon, unit) state" where
  "update_monitoring_history env = do {
     pconn \<leftarrow> gets primary_conn;
     lconn \<leftarrow> gets local_conn;
     primary_ok \<leftarrow> PQstatus_ok env pconn;
     local_ok \<leftarrow> PQstatus_ok env lconn;
     if \<not> primary_ok \<or> \<not> local_ok then ret ()
     else do {
       (success, ri) \<leftarrow> get_replication_info env lconn STANDBY repl_info_init;
       if \<not> success then ret ()
       else do {
         primary_lsn \<leftarrow> get_primary_current_lsn env pconn;
         if primary_lsn = InvalidXLogRecPtr then ret ()
         else do {
           primary_id \<leftarrow> gets primary_node_id;
           local \<leftarrow> gets local_node_info;
           _ \<leftarrow> add_monitoring_record env pconn lconn primary_id (node_id local) ri primary_lsn
                 (lag_bytes primary_lsn (ri_last_wal_receive_lsn ri))
                 (lag_bytes (ri_last_wal_receive_lsn ri) (last_wal_replay_lsn ri));
           now \<leftarrow> gettimeofday env;
           modify (\<lambda>d. d\<lparr>last_monitoring_update := now\<rparr>)
         }
       }
     }
   }"

section \<open>Changes of the daemon's records\<close>

definition set_upstream_status :: "node_status \<Rightarrow> (daemon, unit) state" where
  "set_upstream_status s = modify (\<lambda>d. d\<lparr>upstream_node_info := (upstream_node_info d)\<lparr>node_status := s\<rparr>\<rparr>)"

definition set_local_upstream :: "int \<Rightarrow> (daemon, unit) state" where
  "set_local_upstream n = modify (\<lambda>d. d\<lparr>local_node_info := (local_node_info d)\<lparr>upstream_node_id := n\<rparr>\<rparr>)"

definition set_local_active :: "bool \<Rightarrow> (daemon, unit) state" where
  "set_local_active a = modify (\<lambda>d. d\<lparr>local_node_info := (local_node_info d)\<lparr>active := a\<rparr>\<rparr>)"

definition read_upstream_record :: "env \<Rightarrow> pgconn \<Rightarrow> int \<Rightarrow> (daemon, record_status) state" where
  "read_upstream_record env conn n = do {
     upstream \<leftarrow> gets upstream_node_info;
     (status, upstream) \<leftarrow> on_session env conn (get_node_record n upstream);
     _ \<leftarrow> modify (\<lambda>d. d\<lparr>upstream_node_info := upstream\<rparr>);
     ret status
   }"

definition read_local_record :: "env \<Rightarrow> pgconn \<Rightarrow> (daemon, unit) state" where
  "read_local_record env conn = do {
     local \<leftarrow> gets local_node_info;
     (_, local) \<leftarrow> on_session env conn (get_node_record (node_id local) local);
     modify (\<lambda>d. d\<lparr>local_node_info := local\<rparr>)
   }"

definition refresh_local_record :: "env \<Rightarrow> (daemon, unit) state" where
  "refresh_local_record env = do {
     conn \<leftarrow> gets local_conn;
     local \<leftarrow> gets local_node_info;
     (_, local) \<leftarrow> on_session env conn (refresh_node_record (node_id local) local);
     modify (\<lambda>d. d\<lparr>local_node_info := local\<rparr>)
   }"

definition read_primary_node_id :: "env \<Rightarrow> pgconn \<Rightarrow> (daemon, unit) state" where
  "read_primary_node_id env conn = do {
     n \<leftarrow> on_session env conn get_primary_node_id;
     modify (\<lambda>d. d\<lparr>primary_node_id := n\<rparr>)
   }"

section \<open>The start of the monitoring\<close>

text \<open>
  Where the monitoring begins: not at all, at the top of the loop, or at its label \<open>DEGRADED_LABEL\<close>,
  with the upstream that is monitored.
\<close>

datatype standby_start = NOT_STARTED | AT_TOP int | AT_DEGRADED int

text \<open>No upstream is recorded for the node: the current primary is taken.\<close>

definition find_upstream :: "env \<Rightarrow> (daemon, int + standby_start option) state" where
  "find_upstream env = do {
     lconn \<leftarrow> gets local_conn;
     (conn, n) \<leftarrow> get_primary_connection env lconn;
     _ \<leftarrow> modify (set_upstream_conn conn);
     _ \<leftarrow> set_local_upstream n;
     if n = NODE_NOT_FOUND then do { code \<leftarrow> terminate env ERR_BAD_CONFIG; ret (Inl code) }
     else do {
       _ \<leftarrow> read_upstream_record env conn n;
       ok \<leftarrow> PQstatus_ok env conn;
       if \<not> ok then do { code \<leftarrow> terminate env ERR_DB_CONN; ret (Inl code) }
       else ret (Inr None)
     }
   }"

text \<open>Waiting for an upstream that does not run: one attempt every ten seconds.\<close>

fun wait_upstream :: "env \<Rightarrow> nat \<Rightarrow> (daemon, bool) state" where
  "wait_upstream env 0 = ret False"
| "wait_upstream env (Suc n) = do {
     _ \<leftarrow> sleep 10;
     lconn \<leftarrow> gets local_conn;
     local_ok \<leftarrow> PQstatus_ok env lconn;
     _ \<leftarrow> (if local_ok then connection_ping env lconn else ret False);
     upstream \<leftarrow> gets upstream_node_info;
     conn \<leftarrow> establish_db_connection env (conninfo upstream);
     _ \<leftarrow> modify (set_upstream_conn conn);
     ok \<leftarrow> PQstatus_ok env conn;
     if ok then ret True else wait_upstream env n
   }"

text \<open>The upstream does not come up; \<open>degraded_monitoring_start\<close> is not set here.\<close>

definition upstream_absent :: "env \<Rightarrow> (daemon, standby_start) state" where
  "upstream_absent env = do {
     local \<leftarrow> gets local_node_info;
     lconn \<leftarrow> gets local_conn;
     _ \<leftarrow> modify (set_primary_conn NULL_CONN);
     _ \<leftarrow> read_primary_node_id env lconn;
     upstream \<leftarrow> gets upstream_node_info;
     if node_type upstream = STANDBY then do {
       _ \<leftarrow> set_upstream_status NODE_STATUS_DOWN;
       _ \<leftarrow> modify (\<lambda>d. d\<lparr>monitoring_state := MS_DEGRADED\<rparr>);
       ret (AT_DEGRADED (upstream_node_id local))
     }
     else do {
       _ \<leftarrow> modify (\<lambda>d. d\<lparr>monitoring_state := MS_NORMAL\<rparr>);
       _ \<leftarrow> set_upstream_status NODE_STATUS_UP;
       ret (AT_TOP (upstream_node_id local))
     }
   }"

definition connect_upstream :: "env \<Rightarrow> (daemon, int + standby_start option) state" where
  "connect_upstream env = do {
     lconn \<leftarrow> gets local_conn;
     local \<leftarrow> gets local_node_info;
     status \<leftarrow> read_upstream_record env lconn (upstream_node_id local);
     if status \<noteq> RECORD_FOUND then do { code \<leftarrow> terminate env ERR_DB_CONN; ret (Inl code) }
     else do {
       upstream \<leftarrow> gets upstream_node_info;
       conn \<leftarrow> establish_db_connection env (conninfo upstream);
       _ \<leftarrow> modify (set_upstream_conn conn);
       ok \<leftarrow> PQstatus_ok env conn;
       if ok then ret (Inr None)
       else do {
         opts \<leftarrow> gets config;
         ok \<leftarrow> wait_upstream env (nat ((to_int32 (opt_standby_wait_timeout opts * 60) + 9) div 10));
         if ok then ret (Inr None)
         else do { s \<leftarrow> upstream_absent env; ret (Inr (Some s)) }
       }
     }
   }"

text \<open>The connection to the primary: that of the upstream, or a new one for a cascaded standby.\<close>

definition connect_primary :: "env \<Rightarrow> (daemon, int + unit) state" where
  "connect_primary env = do {
     upstream \<leftarrow> gets upstream_node_info;
     uconn \<leftarrow> gets upstream_conn;
     if node_type upstream = STANDBY then
       or_exit (establish_primary_db_connection env uconn False) (\<lambda>conn. do {
         _ \<leftarrow> modify (set_primary_conn conn);
         ok \<leftarrow> PQstatus_ok env conn;
         if \<not> ok then do { code \<leftarrow> terminate env ERR_DB_CONN; ret (Inl code) }
         else ret (Inr ())
       })
     else do { _ \<leftarrow> modify (set_primary_conn uconn); ret (Inr ()) }
   }"

definition standby_start_event :: "env \<Rightarrow> (daemon, unit) state" where
  "standby_start_event env = do {
     logged \<leftarrow> gets startup_event_logged;
     if logged then ret ()
     else do {
       pconn \<leftarrow> gets primary_conn;
       upstream \<leftarrow> gets upstream_node_info;
       _ \<leftarrow> event_now env pconn ''repmgrd_start'' True
         (''monitoring connection to upstream node \"'' @ node_name upstream @ ''\" (node ID: '' @
            int_string (node_id upstream) @ '')'');
       modify (\<lambda>d. d\<lparr>startup_event_logged := True\<rparr>)
     }
   }"

definition prepare_standby :: "env \<Rightarrow> (daemon, int + standby_start) state" where
  "prepare_standby env = do {
     uconn \<leftarrow> gets upstream_conn;
     _ \<leftarrow> read_local_record env uconn;
     local \<leftarrow> gets local_node_info;
     upstream \<leftarrow> gets upstream_node_info;
     if node_id upstream = node_id local then do { _ \<leftarrow> close_upstream_conn; ret (Inr NOT_STARTED) }
     else do {
       _ \<leftarrow> read_upstream_record env uconn (node_id upstream);
       or_exit (connect_primary env) (\<lambda>_. do {
         pconn \<leftarrow> gets primary_conn;
         _ \<leftarrow> (if active local then ret ()
              else do {
                ok \<leftarrow> set_active_on env pconn (node_id local) True;
                if ok then set_local_active True else ret ()
              });
         primary_ok \<leftarrow> PQstatus_ok env pconn;
         lconn \<leftarrow> gets local_conn;
         _ \<leftarrow> read_primary_node_id env (if primary_ok then pconn else lconn);
         _ \<leftarrow> standby_start_event env;
         _ \<leftarrow> modify (\<lambda>d. d\<lparr>monitoring_state := MS_NORMAL\<rparr>);
         _ \<leftarrow> set_upstream_status NODE_STATUS_UP;
         ret (Inr (AT_TOP (upstream_node_id local)))
       })
     }
   }"

definition start_standby_monitoring :: "env \<Rightarrow> (daemon, int + standby_start) state" where
  "start_standby_monitoring env = do {
     _ \<leftarrow> reset_node_voting_status env;
     _ \<leftarrow> modify (\<lambda>d. d\<lparr>last_monitoring_update := 0\<rparr>);
     local \<leftarrow> gets local_node_info;
     or_exit (if upstream_node_id local = UNKNOWN_NODE_ID then find_upstream env else connect_upstream env)
       (\<lambda>s. case s of Some s \<Rightarrow> ret (Inr s) | None \<Rightarrow> prepare_standby env)
   }"

section \<open>The local server\<close>

definition count_failed_connect :: "(int \<Rightarrow> int) \<Rightarrow> (daemon, unit) state" where
  "count_failed_connect f =
     modify (\<lambda>d. d\<lparr>local_node_info :=
       (local_node_info d)\<lparr>failed_connect_times := f (failed_connect_times (local_node_info d))\<rparr>\<rparr>)"

text \<open>
  A local server that does not answer is cleaned up and, when it has not answered
  \<open>reconnect_attempts\<close> times before, rejoined to the upstream.
\<close>

definition auto_rejoin :: "env \<Rightarrow> (daemon, int + unit) state" where
  "auto_rejoin env = do {
     local \<leftarrow> gets local_node_info;
     available \<leftarrow> is_server_available env (conninfo local);
     if available then do { _ \<leftarrow> count_failed_connect (\<lambda>_. 0); ret (Inr ()) }
     else
       or_exit (clean_up_server env) (\<lambda>_. do {
         opts \<leftarrow> gets config;
         upstream \<leftarrow> gets upstream_node_info;
         _ \<leftarrow> (if failed_connect_times local \<ge> opt_reconnect_attempts opts
              then system_command env (rejoin_command (conninfo upstream)) else ret 0);
         _ \<leftarrow> count_failed_connect (\<lambda>n. to_int32 (n + 1));
         ret (Inr ())
       })
   }"

section \<open>The upstream\<close>

text \<open>What follows when the upstream turns out to be a standby after an outage.\<close>

definition leave_demoted_upstream :: "env \<Rightarrow> (daemon, unit) state" where
  "leave_demoted_upstream env = do {
     _ \<leftarrow> close_upstream_conn;
     _ \<leftarrow> set_local_upstream UNKNOWN_NODE_ID;
     lconn \<leftarrow> gets local_conn;
     ok \<leftarrow> connection_ping env lconn;
     if ok then ret ()
     else do {
       _ \<leftarrow> close_connection lconn;
       opts \<leftarrow> gets config;
       startup_loop env (nat (opt_repmgrd_standby_startup_timeout opts))
     }
   }"

text \<open>The upstream is back after \<open>try_reconnect\<close>.\<close>

definition upstream_back :: "env \<Rightarrow> int \<Rightarrow> (daemon, int + round_step) state" where
  "upstream_back env unreachable_start = do {
     elapsed \<leftarrow> calculate_elapsed env unreachable_start;
     upstream \<leftarrow> gets upstream_node_info;
     demoted \<leftarrow>
       (if node_type upstream = PRIMARY then do {
          uconn \<leftarrow> gets upstream_conn;
          _ \<leftarrow> modify (set_primary_conn uconn);
          recovery_type \<leftarrow> get_recovery_type env uconn;
          ret (recovery_type = RECTYPE_STANDBY)
        } else ret False);
     if demoted then do { _ \<leftarrow> leave_demoted_upstream env; ret (Inr LEAVE) }
     else do {
       pconn \<leftarrow> gets primary_conn;
       _ \<leftarrow> event_now env pconn ''repmgrd_upstream_reconnect'' True
         (''reconnected to upstream node after '' @ int_string elapsed @ '' seconds'');
       ret (Inr GOTO_LOOP)
     }
   }"

text \<open>The upstream stays away: a failover, unless the daemon is paused.\<close>

definition upstream_failover :: "env \<Rightarrow> (daemon, int + round_step) state" where
  "upstream_failover env = do {
     lconn \<leftarrow> gets local_conn;
     ok \<leftarrow> PQstatus_ok env lconn;
     paused \<leftarrow> (if ok then repmgrd_is_paused_sql env lconn else ret False);
     if paused then do { _ \<leftarrow> enter_degraded env; ret (Inr GO_ON) }
     else do {
       upstream \<leftarrow> gets upstream_node_info;
       or_exit
         (if node_type upstream = PRIMARY then do_primary_failover env
          else if node_type upstream = STANDBY then
            or_exit (do_upstream_standby_failover env) (\<lambda>failover_done. do {
              _ \<leftarrow> (if failover_done then ret () else enter_degraded env);
              ret (Inr failover_done)
            })
          else ret (Inr False))
         (\<lambda>failover_done.
           if failover_done then do {
             lconn \<leftarrow> gets local_conn;
             _ \<leftarrow> read_primary_node_id env lconn;
             ret (Inr LEAVE)
           }
           else ret (Inr GO_ON))
     }
   }"

text \<open>The upstream was up and cannot be reached any more.\<close>

definition upstream_lost :: "env \<Rightarrow> (daemon, int + round_step) state" where
  "upstream_lost env = do {
     unreachable_start \<leftarrow> gettimeofday env;
     _ \<leftarrow> set_upstream_status NODE_STATUS_UNKNOWN;
     upstream \<leftarrow> gets upstream_node_info;
     opts \<leftarrow> gets config;
     pconn \<leftarrow> gets primary_conn;
     _ \<leftarrow> create_event_record env (if node_type upstream = STANDBY then pconn else NULL_CONN)
       (opt_node_id opts) ''repmgrd_upstream_disconnect'' True
       (''unable to connect to upstream node \"'' @ node_name upstream @ ''\" (node ID: '' @
          int_string (node_id upstream) @ '')'');
     lconn \<leftarrow> gets local_conn;
     ok \<leftarrow> PQstatus_ok env lconn;
     local \<leftarrow> gets local_node_info;
     _ \<leftarrow> (if ok then ret () else check_connection env local local_conn set_local_conn);
     upstream \<leftarrow> try_reconnect env upstream_conn set_upstream_conn upstream;
     _ \<leftarrow> modify (\<lambda>d. d\<lparr>upstream_node_info := upstream\<rparr>);
     if node_status upstream = NODE_STATUS_UP then upstream_back env unreachable_start
     else if node_status upstream = NODE_STATUS_DOWN then upstream_failover env
     else ret (Inr GO_ON)
   }"

definition check_upstream :: "env \<Rightarrow> (daemon, int + round_step) state" where
  "check_upstream env = do {
     upstream \<leftarrow> gets upstream_node_info;
     ok \<leftarrow> check_upstream_connection env upstream_conn set_upstream_conn (conninfo upstream);
     if ok then do {
       lconn \<leftarrow> gets local_conn;
       _ \<leftarrow> set_upstream_last_seen_sql env lconn;
       ret (Inr GO_ON)
     }
     else if node_status upstream = NODE_STATUS_UP then upstream_lost env
     else ret (Inr GO_ON)
   }"

section \<open>Degraded monitoring\<close>

text \<open>The upstream can be reached again.\<close>

definition upstream_recovered :: "env \<Rightarrow> int \<Rightarrow> (daemon, int + round_step) state" where
  "upstream_recovered env elapsed = do {
     opts \<leftarrow> gets config;
     upstream \<leftarrow> gets upstream_node_info;
     _ \<leftarrow> (if opt_connection_check_type opts \<noteq> CHECK_QUERY then do {
            conn \<leftarrow> establish_db_connection env (conninfo upstream);
            modify (set_upstream_conn conn)
          } else ret ());
     uconn \<leftarrow> gets upstream_conn;
     ok \<leftarrow> PQstatus_ok env uconn;
     if \<not> ok then ret (Inr GO_ON)
     else do {
       _ \<leftarrow> set_upstream_status NODE_STATUS_UP;
       _ \<leftarrow> modify (\<lambda>d. d\<lparr>monitoring_state := MS_NORMAL\<rparr>);
       pconn \<leftarrow> gets primary_conn;
       primary_ok \<leftarrow> PQstatus_ok env pconn;
       or_exit
         (if node_type upstream = PRIMARY then ret (Inr uconn)
          else if \<not> primary_ok then establish_primary_db_connection env uconn False
          else ret (Inr pconn))
         (\<lambda>pconn. do {
           _ \<leftarrow> modify (set_primary_conn pconn);
           _ \<leftarrow> event_now env pconn ''repmgrd_upstream_reconnect'' True
             (''reconnected to upstream node '' @ int_string (node_id upstream) @ '' after '' @
                int_string elapsed @ '' seconds, resuming monitoring'');
           ret (Inr GOTO_LOOP)
         })
     }
   }"

text \<open>
  The local node has been promoted: the promotion command failed but the promotion did not, or the
  node record says so. The answer is whether the monitoring is to be restarted.
\<close>

definition local_promoted :: "env \<Rightarrow> (daemon, bool) state" where
  "local_promoted env = do {
     s \<leftarrow> gets failover_state;
     lconn \<leftarrow> gets local_conn;
     if s = FAILOVER_STATE_PROMOTION_FAILED then do {
       former \<leftarrow> gets local_node_info;
       _ \<leftarrow> set_primary_on env lconn (node_id former);
       _ \<leftarrow> read_local_record env lconn;
       local \<leftarrow> gets local_node_info;
       _ \<leftarrow> create_event_notification env lconn (node_id local) ''repmgrd_failover_promote'' True
         ''promotion command failed but promotion completed successfully'';
       siblings \<leftarrow> on_session env lconn
         (get_active_sibling_node_records (node_id local) (upstream_node_id former));
       siblings \<leftarrow> notify_followers env siblings (node_id local);
       _ \<leftarrow> clear_node_info_list env siblings;
       _ \<leftarrow> modify (\<lambda>d. d\<lparr>monitoring_state := MS_NORMAL\<rparr>);
       ret True
     }
     else do {
       _ \<leftarrow> refresh_local_record env;
       local \<leftarrow> gets local_node_info;
       if node_type local = PRIMARY then do {
         _ \<leftarrow> modify (\<lambda>d. d\<lparr>monitoring_state := MS_NORMAL\<rparr>);
         ret True
       }
       else ret False
     }
   }"

text \<open>The scan of the siblings for a new primary, with the list and its connections afterwards.\<close>

fun scan_siblings :: "env \<Rightarrow> node_info list \<Rightarrow> (daemon, int \<times> node_info list) state" where
  "scan_siblings env [] = ret (UNKNOWN_NODE_ID, [])"
| "scan_siblings env (cell # cells) = do {
     local \<leftarrow> gets local_node_info;
     if not_asked local cell then do {
       (n, cells) \<leftarrow> scan_siblings env cells;
       ret (n, cell # cells)
     }
     else do {
       conn \<leftarrow> establish_db_connection env (conninfo cell);
       ok \<leftarrow> PQstatus_ok env conn;
       if \<not> ok then do {
         (n, cells) \<leftarrow> scan_siblings env cells;
         ret (n, cell\<lparr>node_conn := conn\<rparr> # cells)
       }
       else do {
         recovery_type \<leftarrow> get_recovery_type env conn;
         _ \<leftarrow> close_connection conn;
         if recovery_type = RECTYPE_PRIMARY then ret (node_id cell, cell\<lparr>node_conn := NULL_CONN\<rparr> # cells)
         else do {
           (n, cells) \<leftarrow> scan_siblings env cells;
           ret (n, cell\<lparr>node_conn := NULL_CONN\<rparr> # cells)
         }
       }
     }
   }"

definition scan_for_primary ::
  "env \<Rightarrow> (int \<Rightarrow> (daemon, failover_state) state) \<Rightarrow> (daemon, unit) state" where
  "scan_for_primary env follow = do {
     local \<leftarrow> gets local_node_info;
     lconn \<leftarrow> gets local_conn;
     siblings \<leftarrow> on_session env lconn
       (get_active_sibling_node_records (node_id local) (upstream_node_id local));
     (n, siblings) \<leftarrow> scan_siblings env siblings;
     _ \<leftarrow> (if n \<noteq> UNKNOWN_NODE_ID then follow n else ret FAILOVER_STATE_NONE);
     clear_node_info_list env siblings
   }"

definition look_for_primary :: "env \<Rightarrow> (daemon, round_step) state" where
  "look_for_primary env = do {
     lconn \<leftarrow> gets local_conn;
     recovery_type \<leftarrow> get_recovery_type env lconn;
     promoted \<leftarrow> (if recovery_type = RECTYPE_PRIMARY then local_promoted env else ret False);
     if promoted then ret LEAVE
     else do {
       opts \<leftarrow> gets config;
       lconn \<leftarrow> gets local_conn;
       paused \<leftarrow> (if opt_failover opts = FAILOVER_AUTOMATIC then repmgrd_is_paused_sql env lconn else ret True);
       _ \<leftarrow> (if paused then ret () else scan_for_primary env (follow_new_primary env));
       ret GO_ON
     }
   }"

definition degraded_standby :: "env \<Rightarrow> (daemon, int + round_step) state" where
  "degraded_standby env = do {
     s \<leftarrow> gets monitoring_state;
     if s \<noteq> MS_DEGRADED then ret (Inr GO_ON)
     else do {
       start \<leftarrow> gets degraded_monitoring_start;
       elapsed \<leftarrow> calculate_elapsed env start;
       or_exit (degraded_timeout env elapsed) (\<lambda>_. do {
         upstream \<leftarrow> gets upstream_node_info;
         ok \<leftarrow> check_upstream_connection env upstream_conn set_upstream_conn (conninfo upstream);
         if ok then upstream_recovered env elapsed
         else do { s \<leftarrow> look_for_primary env; ret (Inr s) }
       })
     }
   }"

section \<open>The local node\<close>

definition record_history :: "env \<Rightarrow> (daemon, unit) state" where
  "record_history env = do {
     pconn \<leftarrow> gets primary_conn;
     primary_ok \<leftarrow> PQstatus_ok env pconn;
     opts \<leftarrow> gets config;
     if primary_ok \<and> opt_monitoring_history opts then update_monitoring_history env
     else do {
       lconn \<leftarrow> gets local_conn;
       ok \<leftarrow> PQstatus_ok env lconn;
       _ \<leftarrow> (if ok then connection_ping env lconn else ret False);
       ret ()
     }
   }"

text \<open>The local node has gone: it is marked as inactive, once.\<close>

definition local_gone :: "env \<Rightarrow> (daemon, unit) state" where
  "local_gone env = do {
     local \<leftarrow> gets local_node_info;
     if \<not> active local then ret ()
     else do {
       _ \<leftarrow> set_local_active False;
       pconn \<leftarrow> gets primary_conn;
       ok \<leftarrow> PQstatus_ok env pconn;
       success \<leftarrow> (if ok then set_active_on env pconn (node_id local) False else ret True);
       _ \<leftarrow> create_event_notification env pconn (node_id local) ''standby_failure'' success
         (''unable to connect to local node \"'' @ node_name local @ ''\" (ID: '' @
            int_string (node_id local) @ ''), marking inactive'');
       ret ()
     }
   }"

text \<open>The local node is back: it is marked as active again when the primary can be reached.\<close>

definition local_back :: "env \<Rightarrow> (daemon, unit) state" where
  "local_back env = do {
     local \<leftarrow> gets local_node_info;
     pconn \<leftarrow> gets primary_conn;
     ok \<leftarrow> PQstatus_ok env pconn;
     if active local \<or> \<not> ok then ret ()
     else do {
       updated \<leftarrow> set_active_on env pconn (node_id local) True;
       if \<not> updated then ret ()
       else do {
         _ \<leftarrow> set_local_active True;
         _ \<leftarrow> create_event_notification env pconn (node_id local) ''standby_recovery'' True
           (''reconnected to local node \"'' @ node_name local @ ''\" (ID: '' @
              int_string (node_id local) @ ''), marking active'');
         ret ()
       }
     }
   }"

definition refresh_announcement :: "env \<Rightarrow> (daemon, unit) state" where
  "refresh_announcement env = do {
     lconn \<leftarrow> gets local_conn;
     stored \<leftarrow> repmgrd_get_local_node_id env lconn;
     if stored = UNKNOWN_NODE_ID then refresh_shared_memory env else ret ()
   }"

text \<open>After an outage of the local node: has its record changed so that the monitoring must restart?\<close>

definition local_changed :: "env \<Rightarrow> int \<Rightarrow> (daemon, bool) state" where
  "local_changed env last_known_upstream_node_id = do {
     _ \<leftarrow> refresh_local_record env;
     local \<leftarrow> gets local_node_info;
     if last_known_upstream_node_id \<noteq> upstream_node_id local \<or> node_type local \<noteq> STANDBY then do {
       _ \<leftarrow> close_upstream_conn;
       ret True
     }
     else ret False
   }"

definition primary_demoted :: "env \<Rightarrow> (daemon, bool) state" where
  "primary_demoted env = do {
     pconn \<leftarrow> gets primary_conn;
     ok \<leftarrow> PQstatus_ok env pconn;
     recovery_type \<leftarrow> (if ok then get_recovery_type env pconn else ret RECTYPE_UNKNOWN);
     if recovery_type = RECTYPE_STANDBY then do {
       _ \<leftarrow> close_primary_conn;
       _ \<leftarrow> set_local_upstream UNKNOWN_NODE_ID;
       ret True
     }
     else ret False
   }"

text \<open>
  The last part of a round: \<open>None\<close> when the monitoring is to be restarted, otherwise the monitoring
  state of the local node.
\<close>

definition check_local_standby ::
  "env \<Rightarrow> monitoring_state \<Rightarrow> int \<Rightarrow> (daemon, monitoring_state option) state" where
  "check_local_standby env local_monitoring_state last_known_upstream_node_id = do {
     local \<leftarrow> gets local_node_info;
     _ \<leftarrow> check_connection env local local_conn set_local_conn;
     lconn \<leftarrow> gets local_conn;
     ok \<leftarrow> PQstatus_ok env lconn;
     if \<not> ok then do {
       _ \<leftarrow> local_gone env;
       ret (Some (if local_monitoring_state = MS_NORMAL then MS_DEGRADED else local_monitoring_state))
     }
     else do {
       changed \<leftarrow> (if local_monitoring_state = MS_DEGRADED
         then local_changed env last_known_upstream_node_id else ret False);
       if changed then ret None
       else do {
         _ \<leftarrow> refresh_announcement env;
         demoted \<leftarrow> primary_demoted env;
         if demoted then ret None
         else do { _ \<leftarrow> local_back env; ret (Some MS_NORMAL) }
       }
     }
   }"

text \<open>Whether the node's upstream has changed; a change that the upstream does not know of is undone.\<close>

definition upstream_changed :: "env \<Rightarrow> monitoring_state \<Rightarrow> int \<Rightarrow> (daemon, bool) state" where
  "upstream_changed env local_monitoring_state last_known_upstream_node_id = do {
     _ \<leftarrow> refresh_local_record env;
     local \<leftarrow> gets local_node_info;
     if local_monitoring_state \<noteq> MS_NORMAL \<or> last_known_upstream_node_id = upstream_node_id local then ret False
     else do {
       s \<leftarrow> gets monitoring_state;
       _ \<leftarrow> (if s = MS_NORMAL then do {
              pconn \<leftarrow> gets primary_conn;
              opts \<leftarrow> gets config;
              (_, info) \<leftarrow> on_session env pconn (get_node_record (opt_node_id opts) node_info_init);
              if last_known_upstream_node_id = upstream_node_id info
              then set_local_upstream last_known_upstream_node_id else ret ()
            } else ret ());
       local \<leftarrow> gets local_node_info;
       if last_known_upstream_node_id \<noteq> upstream_node_id local then do { _ \<leftarrow> close_upstream_conn; ret True }
       else ret False
     }
   }"

section \<open>The loop\<close>

text \<open>
  The rest of a round from \<open>DEGRADED_LABEL\<close> on: \<open>None\<close> when the function returns, otherwise the
  monitoring state of the local node for the next round.
\<close>

definition finish_standby_round ::
  "env \<Rightarrow> monitoring_state \<Rightarrow> int \<Rightarrow> round_step \<Rightarrow> (daemon, int + monitoring_state option) state" where
  "finish_standby_round env local_monitoring_state last_known_upstream_node_id s =
     or_exit (if s = GO_ON then degraded_standby env else ret (Inr s)) (\<lambda>s.
       if s = LEAVE then ret (Inr None)
       else do {
         _ \<leftarrow> record_history env;
         r \<leftarrow> check_local_standby env local_monitoring_state last_known_upstream_node_id;
         (case r of
            None \<Rightarrow> ret (Inr None)
          | Some local_monitoring_state \<Rightarrow> do {
              changed \<leftarrow> upstream_changed env local_monitoring_state last_known_upstream_node_id;
              if changed then ret (Inr None)
              else do {
                opts \<leftarrow> gets config;
                _ \<leftarrow> sleep (opt_monitor_interval_secs opts);
                ret (Inr (Some local_monitoring_state))
              }
            })
       })"

definition standby_round ::
  "env \<Rightarrow> monitoring_state \<Rightarrow> int \<Rightarrow> (daemon, int + monitoring_state option) state" where
  "standby_round env local_monitoring_state last_known_upstream_node_id =
     or_exit (auto_rejoin env) (\<lambda>_.
     or_exit (check_upstream env) (\<lambda>s.
       finish_standby_round env local_monitoring_state last_known_upstream_node_id s))"

text \<open>At most \<open>n\<close> rounds after a first one; \<open>None\<close> when the loop still goes on.\<close>

fun standby_rounds ::
  "env \<Rightarrow> nat \<Rightarrow> int \<Rightarrow> int + monitoring_state option \<Rightarrow> (daemon, (int + unit) option) state" where
  "standby_rounds env n last_known (Inl code) = ret (Some (Inl code))"
| "standby_rounds env n last_known (Inr None) = ret (Some (Inr ()))"
| "standby_rounds env 0 last_known (Inr (Some s)) = ret None"
| "standby_rounds env (Suc n) last_known (Inr (Some s)) = do {
     r \<leftarrow> standby_round env s last_known;
     standby_rounds env n last_known r
   }"

definition monitor_streaming_standby :: "env \<Rightarrow> nat \<Rightarrow> (daemon, (int + unit) option) state" where
  "monitor_streaming_standby env rounds = do {
     r \<leftarrow> start_standby_monitoring env;
     (case r of
        Inl code \<Rightarrow> ret (Some (Inl code))
      | Inr NOT_STARTED \<Rightarrow> ret (Some (Inr ()))
      | Inr (AT_TOP last_known) \<Rightarrow> standby_rounds env rounds last_known (Inr (Some MS_NORMAL))
      | Inr (AT_DEGRADED last_known) \<Rightarrow> do {
          r \<leftarrow> finish_standby_round env MS_NORMAL last_known GO_ON;
          standby_rounds env rounds last_known r
        })
   }"

end
