(* ===== verification/Witness_Monitor.thy ===== *)
theory Witness_Monitor
  imports Standby_Monitor
begin

text \<open>
  \<open>repmgrd\<close> on a witness (\<open>monitor_streaming_witness\<close> of \<open>repmgrd-physical.c\<close>), and the loop of
  \<open>repmgrd.c\<close> that runs the monitoring function for the type of the local node again and again.
\<close>

section \<open>The start of the monitoring\<close>

text \<open>
  The answer is \<open>witness_sync_interval_start\<close>; without a primary it is not set, and \<open>uninit\<close> is what
  the variable holds.
\<close>

definition start_witness_monitoring :: "env \<Rightarrow> int \<Rightarrow> (daemon, int + int) state" where
  "start_witness_monitoring env uninit = do {
     _ \<leftarrow> reset_node_voting_status env;
     lconn \<leftarrow> gets local_conn;
     (conn, n) \<leftarrow> get_primary_connection env lconn;
     _ \<leftarrow> modify (set_primary_conn conn);
     ok \<leftarrow> PQstatus_ok env conn;
     if ok then do {
       logged \<leftarrow> gets startup_event_logged;
       _ \<leftarrow> copy_records_to env conn lconn;
       _ \<leftarrow> read_upstream_record env conn n;
       upstream \<leftarrow> gets upstream_node_info;
       _ \<leftarrow> event_now env conn (if logged then ''repmgrd_upstream_reconnect'' else ''repmgrd_start'') True
         (''witness monitoring connection to primary node \"'' @ node_name upstream @ ''\" (node ID: '' @
            int_string (node_id upstream) @ '')'');
       _ \<leftarrow> modify (\<lambda>d. d\<lparr>startup_event_logged := True\<rparr>);
       _ \<leftarrow> modify (\<lambda>d. d\<lparr>monitoring_state := MS_NORMAL\<rparr>);
       now \<leftarrow> gettimeofday env;
       _ \<leftarrow> set_upstream_status NODE_STATUS_UP;
       ret (Inr now)
     }
     else do {
       n \<leftarrow> on_session env lconn get_primary_node_id;
       status \<leftarrow> read_upstream_record env lconn n;
       if status \<noteq> RECORD_FOUND then do {
         _ \<leftarrow> close_connection lconn;
         code \<leftarrow> terminate env ERR_BAD_CONFIG;
         ret (Inl code)
       }
       else do {
         _ \<leftarrow> enter_degraded env;
         _ \<leftarrow> set_upstream_status NODE_STATUS_DOWN;
         ret (Inr uninit)
       }
     }
   }"

section \<open>The primary\<close>

text \<open>The witness leaves its loop when the node it monitors is not a primary any more.\<close>

definition witness_reconnected :: "env \<Rightarrow> string \<Rightarrow> (daemon, round_step) state" where
  "witness_reconnected env text = do {
     pconn \<leftarrow> gets primary_conn;
     recovery_type \<leftarrow> get_recovery_type env pconn;
     if recovery_type \<noteq> RECTYPE_PRIMARY then do { _ \<leftarrow> close_primary_conn; ret LEAVE }
     else do {
       _ \<leftarrow> event_now env pconn ''repmgrd_upstream_reconnect'' True text;
       ret GOTO_LOOP
     }
   }"

definition witness_primary_lost :: "env \<Rightarrow> (daemon, round_step) state" where
  "witness_primary_lost env = do {
     unreachable_start \<leftarrow> gettimeofday env;
     _ \<leftarrow> set_upstream_status NODE_STATUS_UNKNOWN;
     upstream \<leftarrow> gets upstream_node_info;
     opts \<leftarrow> gets config;
     _ \<leftarrow> create_event_record env NULL_CONN (opt_node_id opts) ''repmgrd_upstream_disconnect'' True
       (''unable to connect to primary node \"'' @ node_name upstream @ ''\" (node ID: '' @
          int_string (node_id upstream) @ '')'');
     upstream \<leftarrow> try_reconnect env primary_conn set_primary_conn upstream;
     _ \<leftarrow> modify (\<lambda>d. d\<lparr>upstream_node_info := upstream\<rparr>);
     if node_status upstream = NODE_STATUS_UP then do {
       elapsed \<leftarrow> calculate_elapsed env unreachable_start;
       witness_reconnected env (''reconnected to upstream node after '' @ int_string elapsed @ '' seconds'')
     }
     else if node_status upstream = NODE_STATUS_DOWN then do {
       failover_done \<leftarrow> do_witness_failover env;
       if failover_done then do {
         lconn \<leftarrow> gets local_conn;
         _ \<leftarrow> on_session env lconn get_primary_node_id;
         ret LEAVE
       }
       else ret GO_ON
     }
     else ret GO_ON
   }"

definition check_witness_primary :: "env \<Rightarrow> (daemon, round_step) state" where
  "check_witness_primary env = do {
     upstream \<leftarrow> gets upstream_node_info;
     ok \<leftarrow> check_upstream_connection env primary_conn set_primary_conn (conninfo upstream);
     if ok then do {
       lconn \<leftarrow> gets local_conn;
       _ \<leftarrow> set_upstream_last_seen_sql env lconn;
       ret GO_ON
     }
     else if node_status upstream = NODE_STATUS_UP then witness_primary_lost env
     else ret GO_ON
   }"

definition degraded_witness :: "env \<Rightarrow> (daemon, round_step) state" where
  "degraded_witness env = do {
     s \<leftarrow> gets monitoring_state;
     if s \<noteq> MS_DEGRADED then ret GO_ON
     else do {
       start \<leftarrow> gets degraded_monitoring_start;
       elapsed \<leftarrow> calculate_elapsed env start;
       upstream \<leftarrow> gets upstream_node_info;
       ok \<leftarrow> check_upstream_connection env primary_conn set_primary_conn (conninfo upstream);
       if \<not> ok then do { _ \<leftarrow> scan_for_primary env (witness_follow_new_primary env); ret GO_ON }
       else do {
         opts \<leftarrow> gets config;
         _ \<leftarrow> (if opt_connection_check_type opts \<noteq> CHECK_QUERY then do {
                conn \<leftarrow> establish_db_connection env (conninfo upstream);
                modify (set_primary_conn conn)
              } else ret ());
         pconn \<leftarrow> gets primary_conn;
         ok \<leftarrow> PQstatus_ok env pconn;
         if \<not> ok then ret GO_ON
         else do {
           _ \<leftarrow> set_upstream_status NODE_STATUS_UP;
           _ \<leftarrow> modify (\<lambda>d. d\<lparr>monitoring_state := MS_NORMAL\<rparr>);
           witness_reconnected env
             (''reconnected to upstream node '' @ int_string (node_id upstream) @ '' after '' @
                int_string elapsed @ '' seconds, resuming monitoring'')
         }
       }
     }
   }"

section \<open>The local node and its copy of the records\<close>

definition check_local_witness :: "env \<Rightarrow> (daemon, unit) state" where
  "check_local_witness env = do {
     local \<leftarrow> gets local_node_info;
     _ \<leftarrow> check_connection env local local_conn set_local_conn;
     lconn \<leftarrow> gets local_conn;
     ok \<leftarrow> PQstatus_ok env lconn;
     _ \<leftarrow> (if ok then connection_ping env lconn else ret False);
     ok \<leftarrow> PQstatus_ok env lconn;
     if \<not> ok then local_gone env
     else if active local then ret ()
     else do { _ \<leftarrow> local_back env; refresh_announcement env }
   }"

text \<open>The copy is renewed after \<open>witness_sync_interval\<close> seconds; \<open>None\<close> when the primary is none any more.\<close>

definition sync_witness :: "env \<Rightarrow> int \<Rightarrow> (daemon, int option) state" where
  "sync_witness env witness_sync_interval_start = do {
     pconn \<leftarrow> gets primary_conn;
     ok \<leftarrow> PQstatus_ok env pconn;
     if \<not> ok then ret (Some witness_sync_interval_start)
     else do {
       elapsed \<leftarrow> calculate_elapsed env witness_sync_interval_start;
       opts \<leftarrow> gets config;
       if elapsed < opt_witness_sync_interval opts then ret (Some witness_sync_interval_start)
       else do {
         recovery_type \<leftarrow> get_recovery_type env pconn;
         if recovery_type \<noteq> RECTYPE_PRIMARY then do { _ \<leftarrow> close_primary_conn; ret None }
         else do {
           lconn \<leftarrow> gets local_conn;
           _ \<leftarrow> copy_records_to env pconn lconn;
           now \<leftarrow> gettimeofday env;
           ret (Some now)
         }
       }
     }
   }"

section \<open>The loop\<close>

definition witness_round :: "env \<Rightarrow> int \<Rightarrow> (daemon, int option) state" where
  "witness_round env witness_sync_interval_start = do {
     s \<leftarrow> check_witness_primary env;
     s \<leftarrow> (if s = GO_ON then degraded_witness env else ret s);
     if s = LEAVE then ret None
     else do {
       _ \<leftarrow> check_local_witness env;
       r \<leftarrow> sync_witness env witness_sync_interval_start;
       (case r of
          None \<Rightarrow> ret None
        | Some start \<Rightarrow> do {
            opts \<leftarrow> gets config;
            _ \<leftarrow> sleep (opt_monitor_interval_secs opts);
            ret (Some start)
          })
     }
   }"

text \<open>The answer is whether the function has returned within the rounds.\<close>

fun witness_rounds :: "env \<Rightarrow> nat \<Rightarrow> int \<Rightarrow> (daemon, bool) state" where
  "witness_rounds env 0 start = ret False"
| "witness_rounds env (Suc n) start = do {
     r \<leftarrow> witness_round env start;
     (case r of None \<Rightarrow> ret True | Some start \<Rightarrow> witness_rounds env n start)
   }"

definition monitor_streaming_witness :: "env \<Rightarrow> int \<Rightarrow> nat \<Rightarrow> (daemon, (int + unit) option) state" where
  "monitor_streaming_witness env uninit rounds = do {
     r \<leftarrow> start_witness_monitoring env uninit;
     (case r of
        Inl code \<Rightarrow> ret (Some (Inl code))
      | Inr start \<Rightarrow> do {
          returned \<leftarrow> witness_rounds env rounds start;
          ret (if returned then Some (Inr ()) else None)
        })
   }"

section \<open>\<open>start_monitoring\<close>\<close>

text \<open>
  The endless loop of \<open>start_monitoring\<close>, \<open>n\<close> times, each monitoring function for at most \<open>rounds\<close> rounds;
  \<open>None\<close> when it still runs. \<open>bdr\<close> is the monitoring of a BDR node.
\<close>

fun start_monitoring ::
  "env \<Rightarrow> (daemon, int + unit) state \<Rightarrow> int \<Rightarrow> nat \<Rightarrow> nat \<Rightarrow> (daemon, (int + unit) option) state" where
  "start_monitoring env bdr uninit rounds 0 = ret None"
| "start_monitoring env bdr uninit rounds (Suc n) = do {
     local \<leftarrow> gets local_node_info;
     if node_type local = BDR then do { r \<leftarrow> bdr; ret (Some r) }
     else do {
       r \<leftarrow>
         (if node_type local = PRIMARY then monitor_streaming_primary env rounds
          else if node_type local = STANDBY then monitor_streaming_standby env rounds
          else if node_type local = WITNESS then monitor_streaming_witness env uninit rounds
          else ret (Some (Inr ())));
       (case r of
          None \<Rightarrow> ret None
        | Some (Inl code) \<Rightarrow> ret (Some (Inl code))
        | Some (Inr _) \<Rightarrow> start_monitoring env bdr uninit rounds n)
     }
   }"

end
