(* ===== verification/Standby_Safety.thy ===== *)
theory Standby_Safety
  imports Witness_Monitor Primary_Safety
begin

text \<open>
  Properties of the monitoring of a standby and of a witness: what a pause prevents, the monitoring
  history, what a witness never does, and what happens when the upstream is away at the start.
\<close>

section \<open>A pause\<close>

text \<open>The extension of the local server answers that the daemon is paused.\<close>

definition answers_paused :: "env \<Rightarrow> daemon \<Rightarrow> bool" where
  "answers_paused env d \<longleftrightarrow>
     local_conn d \<noteq> NULL_CONN \<and> (\<forall>k. e_status env k (local_conn d)) \<and>
     (\<forall>k. e_result env k = Some [[Some ''t'']])"



section \<open>The monitoring history\<close>

definition is_lag :: "effect \<Rightarrow> bool" where
  "is_lag e \<longleftrightarrow> (\<exists>c p l s t a b r q. e = Recorded_Lag c p l s t a b r q)"

lemma is_lag_simps [simp]: "is_lag (Recorded_Lag c p l s t a b r q)" "\<not> is_lag (Closed c')"
  by (simp_all add: is_lag_def)

lemma uint_lag_bytes: "uint (lag_bytes ahead behind) = max 0 (uint ahead - uint behind)"
proof (cases "behind \<le> ahead")
  case True
  then show ?thesis by (simp add: lag_bytes_def uint_sub_lem [THEN iffD1] word_le_def)
next
  case False
  then show ?thesis by (simp add: lag_bytes_def word_le_def)
qed

lemma vars_primary:
  "vars d' = vars d \<Longrightarrow> primary_node_id d' = primary_node_id d \<and> local_node_info d' = local_node_info d \<and>
     local_conn d' = local_conn d \<and> primary_conn d' = primary_conn d"
  by (metis vars_simps)

text \<open>
  An update of the monitoring history writes at most one record, to the primary, for the node and
  the primary the daemon knows, and the replication lag in it is the difference of the two
  positions in it, or zero when the standby is ahead; the apply lag is at most the received position, and
  without a position of the primary nothing is written.
\<close>

theorem monitoring_history_consistent:
  "let records = filter is_lag (added (update_monitoring_history env) d)
   in records = [] \<or>
      (\<exists>measured applied lsn received replication_lag apply_lag.
         records = [Recorded_Lag (primary_conn d) (primary_node_id d) (node_id (local_node_info d)) measured applied
                      lsn received replication_lag apply_lag] \<and>
         lsn \<noteq> InvalidXLogRecPtr \<and> length measured < MAXLEN \<and> length applied < MAXLEN \<and>
         uint replication_lag = max 0 (uint lsn - uint received) \<and>
         uint apply_lag \<le> uint received)"
proof -
  have info: "runs is_lag (get_replication_info env conn STANDBY repl_info_init) d (\<lambda>(ok, ri) es d'.
      es = [] \<and> vars d' = vars d \<and> length (current_timestamp ri) < MAXLEN \<and> length (last_xact_replay_timestamp ri) < MAXLEN)"
    for conn d
    unfolding get_replication_info_def PQexec_def
    by (intro running) (auto simp: repl_info_init_def split: option.splits)
  have "runs is_lag (update_monitoring_history env) d (\<lambda>_ es d'. es = [] \<or>
      (\<exists>measured applied lsn received replication_lag apply_lag.
         es = [Recorded_Lag (primary_conn d) (primary_node_id d) (node_id (local_node_info d)) measured applied
                 lsn received replication_lag apply_lag] \<and>
         lsn \<noteq> InvalidXLogRecPtr \<and> length measured < MAXLEN \<and> length applied < MAXLEN \<and>
         uint replication_lag = max 0 (uint lsn - uint received) \<and>
         uint apply_lag \<le> uint received))"
    unfolding update_monitoring_history_def get_primary_current_lsn_def query_lsn_def PQexec_def PQstatus_ok_def
      add_monitoring_record_def ask_def gettimeofday_def
    by (intro running runs_mono [OF info] runs_modify; clarsimp simp: uint_lag_bytes dest!: vars_primary)
  from runsD [OF this] show ?thesis by (simp add: Let_def)
qed

section \<open>Quiet parts\<close>

lemma quiet_check_upstream [quietly]:
  assumes "\<And>c d. trace (set_conn c d) = trace d"
  shows "quiet (check_upstream_connection env conn_of set_conn s)"
proof -
  have wait: "quiet (wait_connection_availability env conn n)" for conn n
  proof -
    have "quiet (wait_loop env k m)" for k m
      by (induction k arbitrary: m) (auto intro!: quietly)
    then show ?thesis unfolding wait_connection_availability_def by (intro quietly)
  qed
  have attempt: "quiet (upstream_attempt env conn_of)"
    unfolding upstream_attempt_def cancel_query_def by (intro quietly wait; simp)
  have loop: "quiet (upstream_loop env conn_of set_conn s n)" for n
    using assms by (induction n) (auto intro!: quietly attempt)
  show ?thesis unfolding check_upstream_connection_def by (intro quietly loop; simp)
qed

lemma quiet_event_record [quietly]: "quiet (create_event_record env conn n event ok details)"
  unfolding create_event_record_def by (intro quietly)

lemma quiet_records [quietly]:
  "quiet (repmgrd_is_paused_sql env conn)" "quiet (set_upstream_last_seen_sql env conn)"
  "quiet (set_upstream_status s)" "quiet (set_local_upstream n)" "quiet (set_local_active a)"
  "quiet (read_upstream_record env conn n)" "quiet (read_local_record env conn)"
  "quiet (refresh_local_record env)" "quiet (read_primary_node_id env conn)"
  "quiet (set_active_on env conn n a)" "quiet (count_failed_connect f)"
  unfolding repmgrd_is_paused_sql_def set_upstream_last_seen_sql_def set_upstream_status_def
    set_local_upstream_def set_local_active_def read_upstream_record_def read_local_record_def
    refresh_local_record_def read_primary_node_id_def set_active_on_def count_failed_connect_def
  by (intro quietly; simp)+

lemma quiet_history [quietly]: "quiet (update_monitoring_history env)"
  unfolding update_monitoring_history_def get_replication_info_def get_primary_current_lsn_def query_lsn_def
    add_monitoring_record_def
  by (intro quietly; simp)

lemma quiet_local [quietly]:
  "quiet (local_gone env)" "quiet (local_back env)" "quiet (refresh_announcement env)"
  "quiet (record_history env)" "quiet (local_changed env n)" "quiet (primary_demoted env)"
  "quiet (upstream_changed env s n)"
  unfolding local_gone_def local_back_def refresh_announcement_def record_history_def local_changed_def
    primary_demoted_def upstream_changed_def
  by (intro quietly; simp)+

lemma quiet_scan [quietly]: "quiet (scan_siblings env cells)"
  by (induction cells) (auto intro!: quietly)

lemma quiet_check_local [quietly]: "quiet (check_local_standby env s n)"
  unfolding check_local_standby_def by (intro quietly; simp)

section \<open>What a witness never does\<close>

definition takes_over :: "effect \<Rightarrow> bool" where
  "takes_over e \<longleftrightarrow> (\<exists>c n. e = Notified c n \<or> e = Set_Primary c n) \<or> (\<exists>c. e = Incremented_Term c)"

lemma takes_over_simps [simp]:
  "\<not> takes_over (Set_Upstream c n u)" "\<not> takes_over (Copied_Records c c')" "takes_over e \<Longrightarrow> decisive e"
  by (auto simp: takes_over_def)

abbreviation never :: "(effect \<Rightarrow> bool) \<Rightarrow> (daemon, 'a) state \<Rightarrow> bool" where
  "never P m \<equiv> yields P m (\<lambda>_ es. es = [])"

named_theorems humbly \<open>computations without an effect of a kind\<close>

lemma never_quiet: "quiet m \<Longrightarrow> (\<And>e. P e \<Longrightarrow> decisive e) \<Longrightarrow> never P m"
  by (rule yields_quiet) auto

lemma yields_after: "never P m \<Longrightarrow> (\<And>x. yields P (f x) Q) \<Longrightarrow> yields P (State_Monad.bind m f) Q"
  by (rule yields_bind, erule yields_mono) simp

lemma yields_after_exit:
  "never P m \<Longrightarrow> (\<And>c. Q (Inl c) []) \<Longrightarrow> (\<And>v. yields P (f v) Q) \<Longrightarrow> yields P (or_exit m f) Q"
  by (rule yields_or_exit, erule yields_mono) (auto split: sum.splits)

lemma never_bind [humbly]: "never P m \<Longrightarrow> (\<And>x. never P (f x)) \<Longrightarrow> never P (State_Monad.bind m f)"
  by (rule yields_after)

lemma never_or_exit [humbly]: "never P m \<Longrightarrow> (\<And>x. never P (f x)) \<Longrightarrow> never P (or_exit m f)"
  by (rule yields_after_exit) auto

lemmas never_basic [humbly] =
  yields_ret [where Q = "\<lambda>_ es. es = []", OF refl]
  yields_gets [where Q = "\<lambda>_ es. es = []", OF refl]
  yields_call [where Q = "\<lambda>_ es. es = []", OF refl]
  yields_if [where Q = "\<lambda>_ es. es = []"]
  yields_option [where Q = "\<lambda>_ es. es = []"]
  yields_sum [where Q = "\<lambda>_ es. es = []"]
  yields_prod [where Q = "\<lambda>_ es. es = []"]

lemma never_modify [humbly]: "(\<And>d. trace (f d) = trace d) \<Longrightarrow> never P (modify f)"
  by (rule yields_modify) auto

lemma never_emit [humbly]: "\<not> P e \<Longrightarrow> never P (emit e)"
  by (rule yields_emit) auto

lemmas never_parts [humbly] =
  quiet_world [THEN never_quiet] quiet_connect [THEN never_quiet] quiet_queries [THEN never_quiet]
  quiet_events [THEN never_quiet] quiet_connections [THEN never_quiet] quiet_loops [THEN never_quiet]
  quiet_small_parts [THEN never_quiet] quiet_status [THEN never_quiet]
  quiet_try_reconnect [THEN never_quiet] quiet_check_upstream [THEN never_quiet]
  quiet_records [THEN never_quiet] quiet_local [THEN never_quiet] quiet_scan [THEN never_quiet]
  quiet_event_record [THEN never_quiet] quiet_check_local [THEN never_quiet]

abbreviation humble :: "(daemon, 'a) state \<Rightarrow> bool" where
  "humble m \<equiv> never takes_over m"

lemma humble_follow: "humble (witness_follow_new_primary env n)"
  unfolding witness_follow_new_primary_def set_upstream_on_def copy_records_to_def
  by (intro humbly; simp)

lemma humble_witness_failover: "humble (do_witness_failover env)"
  unfolding do_witness_failover_def
  by (intro humbly humble_follow; simp)

lemma humble_witness_reconnected [humbly]: "humble (witness_reconnected env text)"
  unfolding witness_reconnected_def by (intro humbly; simp)

lemma humble_witness_parts:
  "humble (start_witness_monitoring env u)" "humble (check_witness_primary env)" "humble (degraded_witness env)"
  "humble (check_local_witness env)" "humble (sync_witness env start)"
  unfolding start_witness_monitoring_def check_witness_primary_def degraded_witness_def
    check_local_witness_def sync_witness_def witness_primary_lost_def copy_records_to_def scan_for_primary_def
  by (intro humbly humble_follow humble_witness_failover; simp)+

text \<open>
  C14: however long a witness is monitored, and whatever the other nodes answer, it notifies no node,
  raises no term and marks no node as the primary.
\<close>

theorem witness_never_promotes:
  "filter takes_over (added (monitor_streaming_witness env uninit rounds) d) = []"
proof -
  have round: "humble (witness_round env start)" for start
    unfolding witness_round_def by (intro humbly humble_witness_parts; simp)
  have "humble (witness_rounds env n start)" for n start
    by (induction n arbitrary: start) (auto intro!: humbly round)
  then have "humble (monitor_streaming_witness env uninit rounds)"
    unfolding monitor_streaming_witness_def
    by (intro humbly humble_witness_parts; simp)
  from yieldsD [OF this] show ?thesis .
qed

section \<open>An upstream that is away at the start\<close>

lemma vars_more:
  "vars d' = vars d \<Longrightarrow> degraded_monitoring_start d' = degraded_monitoring_start d \<and> config d' = config d \<and>
     local_node_info d' = local_node_info d \<and> upstream_node_info d' = upstream_node_info d \<and>
     monitoring_state d' = monitoring_state d"
  by (metis vars_simps)

lemma calculate_elapsed_late:
  assumes "\<And>k. limit < elapsed_seconds (e_now env k) 0" and "start = 0"
  shows "runs decisive (calculate_elapsed env start) d (\<lambda>x es d'. limit < x \<and> vars d' = vars d)"
  using assms unfolding runs_def calculate_elapsed_def gettimeofday_def
  by (intro exI [of _ "[]"]) (simp add: vars_def)

text \<open>
  C15: a standby whose upstream, itself a standby, does not come up while the daemon starts does not
  monitor in degraded mode for \<open>degraded_monitoring_timeout\<close> seconds: the start of the degraded
  state is not recorded, so the whole time since the zero of the clock counts, and the daemon ends at its
  first look.
\<close>

theorem absent_upstream_ends_monitoring:
  assumes upstream: "node_type (upstream_node_info d) = STANDBY"
    and unset: "degraded_monitoring_start d = 0"
    and limit: "0 < opt_degraded_monitoring_timeout (config d)"
    and late: "\<And>k. opt_degraded_monitoring_timeout (config d) < elapsed_seconds (e_now env k) 0"
  shows "result (upstream_absent env) d = AT_DEGRADED (upstream_node_id (local_node_info d)) \<and>
    result (finish_standby_round env MS_NORMAL (upstream_node_id (local_node_info d)) GO_ON)
      (final (upstream_absent env) d) = Inl ERR_MONITORING_TIMEOUT"
proof -
  have absent: "runs decisive (upstream_absent env) d (\<lambda>s es d'. s = AT_DEGRADED (upstream_node_id (local_node_info d)) \<and>
      monitoring_state d' = MS_DEGRADED \<and> degraded_monitoring_start d' = 0 \<and> config d' = config d)"
    using upstream unset
    unfolding upstream_absent_def read_primary_node_id_def set_upstream_status_def
    by (intro running runs_modify; auto dest!: vars_more)
  have ends: "runs decisive (finish_standby_round env MS_NORMAL n GO_ON) d' (\<lambda>r es d''. r = Inl ERR_MONITORING_TIMEOUT)"
    if "monitoring_state d' = MS_DEGRADED \<and> degraded_monitoring_start d' = 0 \<and> config d' = config d" for n d'
    using that limit
    unfolding finish_standby_round_def degraded_standby_def degraded_timeout_def terminate_def event_now_def
    by (intro running runs_mono [OF calculate_elapsed_late [OF late]]; auto dest!: vars_more)
  from runsD [OF absent] show ?thesis
    using runsD [OF ends [of "final (upstream_absent env) d"]] by simp
qed

lemma absent_upstream_ends_monitoring_witness:
  "let d = (example_daemon 2)\<lparr>upstream_node_info := (upstream_node_info (example_daemon 2))\<lparr>node_type := STANDBY\<rparr>,
         config := (config (example_daemon 2))\<lparr>opt_degraded_monitoring_timeout := 300\<rparr>\<rparr>;
       env = (example_env ''0/1'' ''0/1'')\<lparr>e_now := \<lambda>k. 1700000000000000 + 1000000 * int k\<rparr>
   in result (finish_standby_round env MS_NORMAL 1 GO_ON) (final (upstream_absent env) d) =
        Inl ERR_MONITORING_TIMEOUT"
proof -
  let ?d = "(example_daemon 2)\<lparr>upstream_node_info := (upstream_node_info (example_daemon 2))\<lparr>node_type := STANDBY\<rparr>,
    config := (config (example_daemon 2))\<lparr>opt_degraded_monitoring_timeout := 300\<rparr>\<rparr>"
  let ?env = "(example_env ''0/1'' ''0/1'')\<lparr>e_now := \<lambda>k. 1700000000000000 + 1000000 * int k\<rparr>"
  have "node_type (upstream_node_info ?d) = STANDBY" "degraded_monitoring_start ?d = 0"
    "0 < opt_degraded_monitoring_timeout (config ?d)" "upstream_node_id (local_node_info ?d) = 1"
    by (simp_all add: example_daemon_def)
  moreover have "opt_degraded_monitoring_timeout (config ?d) < elapsed_seconds (e_now ?env k) 0" for k
    by (simp add: elapsed_seconds_def)
  ultimately show ?thesis using absent_upstream_ends_monitoring [of ?d ?env] by (simp add: Let_def)
qed

end
