(* ===== verification/Term_Safety.thy ===== *)
theory Term_Safety
  imports Standby_Safety Failover_Safety
begin

text \<open>
  The electoral term over a whole round of monitoring, and the monitoring functions one after the
  other.
\<close>

section \<open>The term and the round\<close>

definition is_term :: "effect \<Rightarrow> bool" where
  "is_term e \<longleftrightarrow> (\<exists>c. e = Incremented_Term c)"

lemma is_term_simps [simp]:
  "is_term (Incremented_Term c)" "\<not> is_term (Notified c n)" "\<not> is_term (Set_Primary c n)"
  "\<not> is_term (Set_Upstream c n u)" "\<not> is_term (Ran s)" "is_term e \<Longrightarrow> decisive e"
  by (auto simp: is_term_def)

lemma told_no_term [simp]: "told n es \<Longrightarrow> filter is_term es = []"
  by (induction es) auto

lemma yields_decisive:
  assumes "\<And>d. runs decisive m d (\<lambda>x es d'. Q x (filter is_term es))"
  shows "yields is_term m Q"
proof (unfold yields_def, rule allI)
  fix d
  have "filter is_term (filter decisive es) = filter is_term es" for es
    by (induction es) auto
  with assms [of d] show "\<exists>es. trace (final m d) = trace d @ es \<and> Q (result m d) (filter is_term es)"
    unfolding runs_def by auto
qed

lemma still [yielding]: "quiet m \<Longrightarrow> (\<And>x. Q x []) \<Longrightarrow> yields is_term m Q"
  by (rule yields_quiet) auto

text \<open>Nothing happens to the term, or it is raised once and the answer is \<open>done\<close>.\<close>

definition term_once :: "'a \<Rightarrow> 'a \<Rightarrow> effect list \<Rightarrow> bool" where
  "term_once done res es \<longleftrightarrow> es = [] \<or> (\<exists>c. es = [Incremented_Term c] \<and> res = done)"

lemma term_once_Nil [simp]: "term_once done res []"
  by (simp add: term_once_def)

lemma conclude_failover_term:
  "runs decisive (conclude_failover env siblings) d (\<lambda>res es d'.
     filter is_term es = [] \<and> (failover_state d = FAILOVER_STATE_PROMOTED \<longrightarrow> res))"
  unfolding conclude_failover_def enter_degraded_def gettimeofday_def set_failover_state_def
  by (intro running runs_mono [OF notify_followers_run]; auto dest!: vars_fields)

lemma failover_raises_term:
  "yields is_term (do_primary_failover env) (term_once (Inr True))"
proof (rule yields_decisive, rule do_primary_failover_run)
  fix d r
  have "runs decisive (conclude_failover env siblings) d' (\<lambda>res es' d''.
      term_once (Inr True) (Inr res :: int + bool) (filter is_term (es @ es')))"
    if "shape r (upstream_node_info d) es d'" for siblings es d'
    by (rule runs_mono [OF conclude_failover_term])
       (use that in \<open>auto simp: shape_def term_once_def split: if_splits\<close>)
  then show "concluding env r (upstream_node_info d) (\<lambda>x es d'. term_once (Inr True) x (filter is_term es))"
    by (simp add: concluding_def)
qed

lemma upstream_failover_keeps_term:
  "yields is_term (do_upstream_standby_failover env) (\<lambda>_ es. es = [])"
proof -
  have follow: "yields is_term (attach_to_primary env info) (\<lambda>_ es. es = [])" for info
    unfolding attach_to_primary_def set_upstream_on_def by (intro yielding still quietly; simp)
  have "yields is_term (follow_primary env info) (\<lambda>_ es. es = [])" for info
    unfolding follow_primary_def by (intro yielding quietly yields_mono [OF follow]; simp)
  note follow = yields_mono [OF this]
  show ?thesis
    unfolding do_upstream_standby_failover_def by (intro yielding quietly follow; simp)
qed

lemma notify_keeps_term: "never is_term (notify_followers env cells n)"
  by (rule yields_decisive, rule runs_mono [OF notify_followers_run]) auto

lemma follow_new_keeps_term: "never is_term (follow_new_primary env n)"
  unfolding follow_new_primary_def follow_command_done_def attach_to_primary_def set_upstream_on_def
  by (intro humbly; simp)

lemma look_keeps_term: "never is_term (look_for_primary env)"
  unfolding look_for_primary_def local_promoted_def set_primary_on_def scan_for_primary_def
  by (intro humbly notify_keeps_term follow_new_keeps_term; simp)

lemma degraded_parts_keep_term:
  "never is_term (upstream_recovered env n)" "never is_term (degraded_timeout env n)"
  unfolding upstream_recovered_def establish_primary_db_connection_def degraded_timeout_def
  by (intro humbly; simp)+

lemma degraded_keeps_term: "never is_term (degraded_standby env)"
  unfolding degraded_standby_def
  by (intro humbly look_keeps_term degraded_parts_keep_term; simp)

lemma upstream_back_keeps_term: "never is_term (upstream_back env n)"
  unfolding upstream_back_def leave_demoted_upstream_def auto_rejoin_def clean_up_server_def
    check_service_status_command_def local_command_output_def
  by (intro humbly; simp)

text \<open>A failover that raises the term leads out of the monitoring loop.\<close>

lemma never_term_once: "never is_term m \<Longrightarrow> yields is_term m (term_once done)"
  by (erule yields_mono) simp

lemma term_once_or_exit:
  fixes f :: "'a \<Rightarrow> (daemon, int + 'b) state"
  assumes once: "yields is_term m (term_once (Inr v))" and never: "\<And>v. never is_term (f v)"
    and ends: "returns (f v) (\<lambda>x. x = done)"
  shows "yields is_term (or_exit m f) (term_once done)"
proof (rule yields_or_exit, rule yields_mono [OF once], rule sum_cases)
  fix x :: "int + 'a" and es y
  assume x: "term_once (Inr v) x es" "x = Inl y"
  then show "term_once done (Inl y) es" by (auto simp: term_once_def)
next
  fix x :: "int + 'a" and es y
  assume x: "term_once (Inr v) x es" "x = Inr y"
  have "yields is_term (f y) (\<lambda>z es'. es' = [] \<and> (y = v \<longrightarrow> z = done))"
    using never [of y] ends unfolding yields_def returns_def by fastforce
  then show "yields is_term (f y) (\<lambda>z es'. term_once done z (es @ es'))"
    by (rule yields_mono) (use x in \<open>auto simp: term_once_def\<close>)
qed

lemmas once_rules =
  yields_after [where P = is_term and Q = "term_once done" for "done"]
  yields_if [where P = is_term and Q = "term_once done" for "done"]
  yields_ret [where P = is_term and Q = "term_once done" for "done", OF term_once_Nil]

lemma failover_leaves: "yields is_term (upstream_failover env) (term_once (Inr LEAVE))"
proof -
  have run: "yields is_term
     (if node_type upstream = PRIMARY then do_primary_failover env
      else if node_type upstream = STANDBY then
        or_exit (do_upstream_standby_failover env) (\<lambda>failover_done. do {
          _ \<leftarrow> (if failover_done then ret () else enter_degraded env);
          ret (Inr failover_done)
        })
      else ret (Inr False)) (term_once (Inr True))" for upstream
    by (rule yields_if, rule failover_raises_term, rule never_term_once)
      (intro humbly upstream_failover_keeps_term; simp)
  have exit: "yields is_term (or_exit
       (if node_type upstream = PRIMARY then do_primary_failover env
        else if node_type upstream = STANDBY then
          or_exit (do_upstream_standby_failover env) (\<lambda>failover_done. do {
            _ \<leftarrow> (if failover_done then ret () else enter_degraded env);
            ret (Inr failover_done)
          })
        else ret (Inr False))
       (\<lambda>failover_done.
          if failover_done then do {
            lconn \<leftarrow> gets local_conn;
            _ \<leftarrow> read_primary_node_id env lconn;
            ret (Inr LEAVE)
          }
          else ret (Inr GO_ON))) (term_once (Inr LEAVE))" for upstream
    by (rule term_once_or_exit [OF run]) ((intro humbly; simp), (intro rets; simp))
  show ?thesis
    unfolding upstream_failover_def by (intro once_rules exit humbly; simp)
qed

lemma check_upstream_leaves: "yields is_term (check_upstream env) (term_once (Inr LEAVE))"
  unfolding check_upstream_def upstream_lost_def
  by (intro once_rules failover_leaves never_term_once [OF upstream_back_keeps_term] humbly; simp)

text \<open>
  C12: a round of a standby's monitoring raises the electoral term at most once, and a round that does
  is the last one: the monitoring function returns, and is chosen again for the node as it is then.
\<close>

theorem term_raised_in_last_round:
  "let terms = filter is_term (added (standby_round env state upstream) d)
   in terms = [] \<or> (\<exists>c. terms = [Incremented_Term c]) \<and> result (standby_round env state upstream) d = Inr None"
proof -
  have finish: "never is_term (finish_standby_round env state upstream s)" for s
    unfolding finish_standby_round_def
    by (intro humbly degraded_keeps_term; simp)
  have leave: "returns (finish_standby_round env state upstream LEAVE) (\<lambda>x. x = Inr None)"
    unfolding finish_standby_round_def or_exit_def by (simp add: returns_def)
  have rest: "yields is_term (or_exit (check_upstream env) (finish_standby_round env state upstream))
      (term_once (Inr None))"
    by (rule term_once_or_exit [OF check_upstream_leaves], rule finish, rule leave)
  have rejoin: "never is_term (auto_rejoin env)"
    unfolding auto_rejoin_def clean_up_server_def check_service_status_command_def local_command_output_def
    by (intro humbly; simp)
  have "yields is_term (standby_round env state upstream) (term_once (Inr None))"
    unfolding standby_round_def by (rule yields_after_exit [OF rejoin _ rest]) simp
  from yieldsD [OF this, of d] show ?thesis by (auto simp: term_once_def Let_def)
qed

end
